(* ===== verification/Prelude.thy ===== *)
theory Prelude
  imports Complex_Main "HOL-Library.List_Lexorder" "HOL-Library.Char_ord" "HOL-Library.Sublist" "HOL-Library.AList"
begin

text \<open>
  Shared vocabulary of the development: the exceptions the Python code raises and the result
  type that carries them, the JSON values it stores in dictionaries, the string methods it
  calls, and generic lemmas on lists and options.

  A Python \<open>str\<close> is a \<open>string\<close>; a \<open>char\<close> stands for the code point of the
  same number, so the text covered is the Latin-1 range, on which \<open>strip\<close>,
  \<open>lower\<close> and the JSON escapes below are those of CPython. A \<open>datetime\<close> is an
  integer number of microseconds.
\<close>

section \<open>JSON values\<close>

datatype json =
    JNull
  | JBool bool
  | JInt int
  | JFloat real
  | JStr string
  | JArr "json list"
  | JObj "(string \<times> json) list"

section \<open>Exceptions and results\<close>

datatype py_exc =
    HTTPException nat string
  | HTTPExceptionDetail nat "(string \<times> json) list"
  | ValueErr string
  | TypeErr string
  | RuntimeErr string
  | DetectorConfigErr string
  | IdentityConflict string
  | IdentityNotFound string
  | IdentityValidation string
  | UpstreamErr string nat bool
  | ForeignKeyViolation string
  | UniqueViolation string

type_synonym 'a result = "py_exc + 'a"

type_synonym timestamp = int

text \<open>Sequencing of fallible calls: the first exception ends the computation.\<close>

definition rbind :: "'a result \<Rightarrow> ('a \<Rightarrow> 'b result) \<Rightarrow> 'b result" where
  "rbind r f = (case r of Inl e \<Rightarrow> Inl e | Inr x \<Rightarrow> f x)"

lemma rbind_simps [simp]:
  "rbind (Inl e) f = Inl e"
  "rbind (Inr x) f = f x"
  by (simp_all add: rbind_def)

lemma rbind_eq_Inr: "rbind r f = Inr y \<longleftrightarrow> (\<exists>x. r = Inr x \<and> f x = Inr y)"
  by (cases r) auto

lemma rbind_eq_Inl: "rbind r f = Inl e \<longleftrightarrow> r = Inl e \<or> (\<exists>x. r = Inr x \<and> f x = Inl e)"
  by (cases r) auto

definition raise_if :: "bool \<Rightarrow> py_exc \<Rightarrow> unit result" where
  "raise_if b e = (if b then Inl e else Inr ())"

lemma raise_if_simps [simp]:
  "raise_if True e = Inl e"
  "raise_if False e = Inr ()"
  "raise_if b e = Inr u \<longleftrightarrow> \<not> b"
  by (simp_all add: raise_if_def)

definition is_ok :: "'a result \<Rightarrow> bool" where
  "is_ok r = (case r of Inl _ \<Rightarrow> False | Inr _ \<Rightarrow> True)"

lemma is_ok_simps [simp]: "is_ok (Inr x)" "\<not> is_ok (Inl e)"
  by (simp_all add: is_ok_def)

lemma is_ok_iff: "is_ok r \<longleftrightarrow> (\<exists>x. r = Inr x)"
  by (cases r) auto

section \<open>Dictionaries\<close>

definition json_of_str_option :: "string option \<Rightarrow> json" where
  "json_of_str_option x = (case x of None \<Rightarrow> JNull | Some s \<Rightarrow> JStr s)"

text \<open>\<open>x if x is not None else d\<close>.\<close>

definition opt_else :: "'a option \<Rightarrow> 'a \<Rightarrow> 'a" where
  "opt_else x d = (case x of None \<Rightarrow> d | Some v \<Rightarrow> v)"

lemma opt_else_simps [simp]: "opt_else None d = d" "opt_else (Some v) d = v"
  by (simp_all add: opt_else_def)

text \<open>
  A dictionary is an association list with distinct keys, in insertion order. \<open>dict_get\<close>
  is \<open>d.get(k)\<close>, where a missing key and a stored \<open>None\<close> read alike, and
  \<open>dict_merge\<close> is \<open>{**a, **b}\<close>.
\<close>

type_synonym dict = "(string \<times> json) list"

definition dict_get :: "dict \<Rightarrow> string \<Rightarrow> json" where
  "dict_get d k = opt_else (map_of d k) JNull"

definition has_key :: "dict \<Rightarrow> string \<Rightarrow> bool" where
  "has_key d k \<longleftrightarrow> k \<in> set (map fst d)"

definition dict_merge :: "dict \<Rightarrow> dict \<Rightarrow> dict" where
  "dict_merge a b = foldl (\<lambda>d (k, v). AList.update k v d) a b"

lemma has_key_iff: "has_key d k \<longleftrightarrow> map_of d k \<noteq> None"
  by (simp add: has_key_def map_of_eq_None_iff)

lemma map_of_update: "map_of (AList.update k v d) k' = (if k' = k then Some v else map_of d k')"
  by (simp add: update_conv')

lemma dict_get_update: "dict_get (AList.update k v d) k' = (if k' = k then v else dict_get d k')"
  by (simp add: dict_get_def map_of_update)

lemma has_key_update: "has_key (AList.update k v d) k' \<longleftrightarrow> k' = k \<or> has_key d k'"
  by (auto simp: has_key_iff map_of_update)

lemma map_of_dict_merge:
  "distinct (map fst b) \<Longrightarrow>
   map_of (dict_merge a b) k = (case map_of b k of None \<Rightarrow> map_of a k | Some v \<Rightarrow> Some v)"
  unfolding dict_merge_def
proof (induction b arbitrary: a)
  case (Cons p b)
  obtain k' v where p: "p = (k', v)" by fastforce
  with Cons.prems have "map_of b k' = None" by (simp add: map_of_eq_None_iff)
  with Cons show ?case by (auto simp: p map_of_update split: option.splits)
qed simp

lemma has_key_dict_merge: "distinct (map fst b) \<Longrightarrow> has_key (dict_merge a b) k \<longleftrightarrow> has_key a k \<or> has_key b k"
  by (auto simp: has_key_iff map_of_dict_merge split: option.splits)

lemma distinct_dict_merge: "distinct (map fst a) \<Longrightarrow> distinct (map fst (dict_merge a b))"
  unfolding dict_merge_def by (induction b arbitrary: a) (auto simp: distinct_update split: prod.splits)

text \<open>\<open>not v\<close> on a JSON value.\<close>

definition py_falsy :: "json \<Rightarrow> bool" where
  "py_falsy v \<longleftrightarrow> v \<in> {JNull, JBool False, JInt 0, JFloat 0, JStr [], JArr [], JObj []}"

section \<open>Truth values of optional strings\<close>

text \<open>\<open>if s\<close> on a value of type \<open>str | None\<close>: false for \<open>None\<close> and the empty string.\<close>

definition truthy :: "'a list option \<Rightarrow> bool" where
  "truthy x = (case x of None \<Rightarrow> False | Some s \<Rightarrow> s \<noteq> [])"

lemma truthy_simps [simp]: "\<not> truthy None" "truthy (Some s) \<longleftrightarrow> s \<noteq> []"
  by (simp_all add: truthy_def)

lemma truthyE: "truthy x \<Longrightarrow> (\<And>s. x = Some s \<Longrightarrow> s \<noteq> [] \<Longrightarrow> P) \<Longrightarrow> P"
  by (cases x) auto

text \<open>\<open>x or y\<close> on optional strings.\<close>

definition str_or :: "'a list option \<Rightarrow> 'a list option \<Rightarrow> 'a list option" where
  "str_or x y = (if truthy x then x else y)"

section \<open>String methods\<close>

definition code_point :: "char \<Rightarrow> nat" where
  "code_point c = of_char c"

definition is_space :: "char \<Rightarrow> bool" where
  "is_space c = (let n = code_point c in
     (9 \<le> n \<and> n \<le> 13) \<or> (28 \<le> n \<and> n \<le> 32) \<or> n = 133 \<or> n = 160)"

definition is_digit :: "char \<Rightarrow> bool" where
  "is_digit c = (let n = code_point c in 48 \<le> n \<and> n \<le> 57)"

definition is_upper_alpha :: "char \<Rightarrow> bool" where
  "is_upper_alpha c = (let n = code_point c in 65 \<le> n \<and> n \<le> 90)"

definition is_lower_alpha :: "char \<Rightarrow> bool" where
  "is_lower_alpha c = (let n = code_point c in 97 \<le> n \<and> n \<le> 122)"

definition lower_char :: "char \<Rightarrow> char" where
  "lower_char c = (let n = code_point c in
     if (65 \<le> n \<and> n \<le> 90) \<or> (192 \<le> n \<and> n \<le> 222 \<and> n \<noteq> 215) then char_of (n + 32) else c)"

definition py_lower :: "string \<Rightarrow> string" where
  "py_lower s = map lower_char s"

definition lstrip :: "string \<Rightarrow> string" where
  "lstrip s = dropWhile is_space s"

definition strip :: "string \<Rightarrow> string" where
  "strip s = rev (dropWhile is_space (rev (dropWhile is_space s)))"

lemma strip_Nil [simp]: "strip [] = []"
  by (simp add: strip_def)

lemma set_strip_subset: "set (strip s) \<subseteq> set s"
  unfolding strip_def by (auto dest!: set_dropWhileD)

lemma hd_dropWhile_not: "dropWhile P s \<noteq> [] \<Longrightarrow> \<not> P (hd (dropWhile P s))"
  by (rule hd_dropWhile)

lemma dropWhile_idem [simp]: "dropWhile P (dropWhile P s) = dropWhile P s"
  by (induction s) auto

lemma dropWhile_last: "t \<noteq> [] \<Longrightarrow> \<not> P (last t) \<Longrightarrow> dropWhile P t \<noteq> [] \<and> last (dropWhile P t) = last t"
  by (induction t) (auto split: if_splits)

lemma dropWhile_eq_self: "s = [] \<or> \<not> P (hd s) \<Longrightarrow> dropWhile P s = s"
  by (cases s) auto

lemma strip_hd: "strip s \<noteq> [] \<Longrightarrow> \<not> is_space (hd (strip s))"
proof -
  define u where "u = dropWhile is_space s"
  assume ne: "strip s \<noteq> []"
  have st: "strip s = rev (dropWhile is_space (rev u))"
    by (simp add: strip_def u_def)
  from ne have d: "dropWhile is_space (rev u) \<noteq> []" by (simp add: st)
  then have u: "u \<noteq> []" by auto
  have hu: "\<not> is_space (last (rev u))"
    using u hd_dropWhile_not [of is_space s] by (simp add: u_def last_rev)
  have "last (dropWhile is_space (rev u)) = last (rev u)"
    using dropWhile_last [of "rev u" is_space] u hu by simp
  then show ?thesis
    using hu d by (simp add: st hd_rev)
qed

lemma strip_last: "strip s \<noteq> [] \<Longrightarrow> \<not> is_space (last (strip s))"
  unfolding strip_def by (simp add: last_rev hd_dropWhile_not)

lemma strip_strip [simp]: "strip (strip s) = strip s"
proof (cases "strip s = []")
  case False
  have "dropWhile is_space (strip s) = strip s"
    using strip_hd [OF False] by (rule dropWhile_eq_self [OF disjI2])
  moreover have "dropWhile is_space (rev (strip s)) = rev (strip s)"
    using strip_last [OF False] by (intro dropWhile_eq_self disjI2) (simp add: hd_rev)
  ultimately show ?thesis
    by (simp add: strip_def [of "strip s"])
qed simp

lemma strip_no_space: "list_all (\<lambda>c. \<not> is_space c) s \<Longrightarrow> strip s = s"
proof -
  assume ns: "list_all (\<lambda>c. \<not> is_space c) s"
  then have a: "dropWhile is_space s = s"
    by (cases s) auto
  have "dropWhile is_space (rev s) = rev s"
    using ns by (intro dropWhile_eq_self) (auto simp: list_all_iff hd_rev)
  with a show "strip s = s"
    by (simp add: strip_def)
qed

text \<open>Decimal rendering of an integer, as \<open>str(n)\<close>.\<close>

fun nat_digits :: "nat \<Rightarrow> string" where
  "nat_digits n =
     (if n < 10 then [char_of (48 + n)]
      else nat_digits (n div 10) @ [char_of (48 + n mod 10)])"

declare nat_digits.simps [simp del]

definition int_str :: "int \<Rightarrow> string" where
  "int_str i = (if i < 0 then CHR ''-'' # nat_digits (nat (- i)) else nat_digits (nat i))"

text \<open>A string between single quotes, as the error messages print it.\<close>

definition quoted :: "string \<Rightarrow> string" where
  "quoted s = CHR 0x27 # s @ [CHR 0x27]"

text \<open>Left padding with zeros, and thousands separators as in \<open>f"{n:,}"\<close>.\<close>

definition pad_zeros :: "nat \<Rightarrow> string \<Rightarrow> string" where
  "pad_zeros n s = replicate (n - length s) (CHR ''0'') @ s"

fun group_digits :: "nat \<Rightarrow> string" where
  "group_digits n = (if n < 1000 then nat_digits n
     else group_digits (n div 1000) @ '','' @ pad_zeros 3 (nat_digits (n mod 1000)))"

declare group_digits.simps [simp del]

section \<open>Prefixes and separators\<close>

lemma prefix_unique_sep:
  assumes "prefix (a @ [x]) (b @ x # t)" and "x \<notin> set a" and "x \<notin> set b"
  shows "a = b"
  using assms
proof (induction a arbitrary: b)
  case Nil
  then show ?case by (cases b) auto
next
  case (Cons c a)
  then show ?case by (cases b) auto
qed

lemma append_sep_inject:
  assumes "a @ x # s = b @ x # t" and "x \<notin> set a" and "x \<notin> set b"
  shows "a = b \<and> s = t"
  using assms
proof (induction a arbitrary: b)
  case Nil
  then show ?case by (cases b) auto
next
  case (Cons c a)
  then show ?case by (cases b) auto
qed

section \<open>Association lists and stable selections\<close>

lemma find_filter: "find P (filter Q xs) = find (\<lambda>x. Q x \<and> P x) xs"
  by (induction xs) auto

lemma find_Some_mem: "find P xs = Some x \<Longrightarrow> x \<in> set xs \<and> P x"
  by (auto simp: find_Some_iff)

lemma find_eq_None: "find P xs = None \<longleftrightarrow> (\<forall>x \<in> set xs. \<not> P x)"
  by (auto simp: find_None_iff)

lemma find_append: "find P (xs @ ys) = (case find P xs of None \<Rightarrow> find P ys | Some x \<Rightarrow> Some x)"
  by (induction xs) auto

lemma filter_map_update:
  "(\<And>x. P x \<Longrightarrow> \<not> Q x \<and> \<not> Q (f x)) \<Longrightarrow> filter Q (map (\<lambda>x. if P x then f x else x) xs) = filter Q xs"
  by (induction xs) auto

lemma filter_map_same:
  "(\<And>x. x \<in> set xs \<Longrightarrow> P (f x) \<longleftrightarrow> P x) \<Longrightarrow> filter P (map f xs) = map f (filter P xs)"
  by (induction xs) auto

lemma sort_key_map_same:
  assumes "\<And>x. k (f x) = k x"
  shows "sort_key k (map f xs) = map f (sort_key k xs)"
proof -
  have ins: "insort_key k (f x) (map f ys) = map f (insort_key k x ys)" for x ys
    by (induction ys) (simp_all add: assms)
  show ?thesis by (induction xs) (simp_all add: ins)
qed

lemma filter_conj: "filter (\<lambda>x. P x \<and> Q x) xs = filter Q (filter P xs)"
  by (simp add: conj_commute)

end
