(* ===== verification/PyFloat.thy ===== *)
theory PyFloat
  imports Prelude
begin

text \<open>
  Python floats. A value is the real number a binary64 denotes, and every arithmetic
  operation of the code is the exact operation followed by \<open>fl\<close>, rounding to nearest with
  ties to even: 53 significant bits and least exponent -1074. The exponent has no upper
  bound here, so overflow to an infinity, NaN and the sign of zero are outside the model.
  The lemmas are what the cost and threshold computations rely on: \<open>fl\<close> is monotone, odd,
  the identity on representable values, and so keeps signs and comparisons.
\<close>

section \<open>Rounding a real to an integer, ties to even\<close>

definition round_even :: "real \<Rightarrow> int" where
  "round_even y = (let f = \<lfloor>y\<rfloor>; d = y - of_int f in
     if d < 1/2 then f else if d > 1/2 then f + 1 else if even f then f else f + 1)"

lemma round_even_of_int [simp]: "round_even (of_int k) = k"
  by (simp add: round_even_def Let_def)

lemma round_even_mono:
  assumes "x \<le> y"
  shows "round_even x \<le> round_even y"
proof (cases "\<lfloor>x\<rfloor> = \<lfloor>y\<rfloor>")
  case True
  with assms show ?thesis by (auto simp: round_even_def Let_def)
next
  case False
  with assms have "\<lfloor>x\<rfloor> + 1 \<le> \<lfloor>y\<rfloor>"
    using floor_mono [OF assms] by linarith
  moreover have "round_even x \<le> \<lfloor>x\<rfloor> + 1" "\<lfloor>y\<rfloor> \<le> round_even y"
    by (auto simp: round_even_def Let_def)
  ultimately show ?thesis by linarith
qed

lemma round_even_minus: "round_even (- y) = - round_even y"
proof (cases "y = of_int \<lfloor>y\<rfloor>")
  case True
  then show ?thesis by (metis of_int_minus round_even_of_int)
next
  case False
  then have f: "\<lfloor>- y\<rfloor> = - \<lfloor>y\<rfloor> - 1"
    by linarith
  show ?thesis
    by (auto simp: round_even_def Let_def f)
qed

section \<open>Rounding to binary64\<close>

definition fl_exp :: "real \<Rightarrow> int" where
  "fl_exp x = max (- 1074) (\<lfloor>log 2 \<bar>x\<bar>\<rfloor> - 52)"

definition fl :: "real \<Rightarrow> real" where
  "fl x = (if x = 0 then 0
           else of_int (round_even (x / 2 powi fl_exp x)) * 2 powi fl_exp x)"

lemma fl_0 [simp]: "fl 0 = 0"
  by (simp add: fl_def)

lemma fl_exp_minus [simp]: "fl_exp (- x) = fl_exp x"
  by (simp add: fl_exp_def)

lemma fl_minus [simp]: "fl (- x) = - fl x"
  by (simp add: fl_def round_even_minus)

lemma floor_log2_iff:
  assumes "0 < x"
  shows "\<lfloor>log 2 x\<rfloor> = k \<longleftrightarrow> 2 powi k \<le> x \<and> x < 2 powi (k + 1)"
proof -
  have "2 powr of_int k = (2::real) powi k" "2 powr (of_int k + 1) = (2::real) powi (k + 1)"
    using powr_real_of_int' [of 2 k] powr_real_of_int' [of 2 "k + 1"] by simp_all
  with floor_log_eq_powr_iff [of x 2 k] assms show ?thesis by simp
qed

lemma powi_pos [simp]: "0 < (2::real) powi k"
  by (simp add: zero_less_power_int)

lemma powi_le_iff: "(2::real) powi a \<le> 2 powi b \<longleftrightarrow> a \<le> b"
  using power_int_increasing [of a b "2::real"] power_int_strict_increasing [of b a "2::real"]
  by fastforce

lemma less_powi_exp:
  assumes "0 < x"
  shows "x < 2 powi (fl_exp x + 53)"
proof -
  have "x < 2 powi (\<lfloor>log 2 x\<rfloor> + 1)"
    using assms floor_log2_iff [of x "\<lfloor>log 2 x\<rfloor>"] by blast
  also have "(2::real) powi (\<lfloor>log 2 x\<rfloor> + 1) \<le> 2 powi (fl_exp x + 53)"
    using assms by (simp add: powi_le_iff fl_exp_def)
  finally show ?thesis .
qed

lemma powi_exp_le:
  assumes "0 < x" and "- 1074 < fl_exp x"
  shows "2 powi (fl_exp x + 52) \<le> x"
proof -
  have "fl_exp x + 52 = \<lfloor>log 2 x\<rfloor>"
    using assms by (simp add: fl_exp_def)
  then show ?thesis
    using assms(1) floor_log2_iff [of x "\<lfloor>log 2 x\<rfloor>"] by metis
qed

lemma powi_split: "(2::real) powi (k + int n) = 2 ^ n * 2 powi k"
  by (simp add: power_int_add)

lemma fl_le_powi:
  assumes "0 < x"
  shows "fl x \<le> 2 powi (fl_exp x + 53)"
proof -
  have s: "(2::real) powi (fl_exp x + 53) = 2 ^ 53 * 2 powi fl_exp x"
    using powi_split [of "fl_exp x" 53] by simp
  have "x / 2 powi fl_exp x \<le> of_int (2 ^ 53)"
    using less_powi_exp [OF assms] unfolding s by (simp add: divide_le_eq)
  then have "round_even (x / 2 powi fl_exp x) \<le> 2 ^ 53"
    by (metis round_even_mono round_even_of_int)
  then have "real_of_int (round_even (x / 2 powi fl_exp x)) \<le> 2 ^ 53"
    by (metis of_int_le_iff of_int_numeral of_int_power)
  then show ?thesis
    using assms by (simp add: fl_def s)
qed

lemma powi_le_fl:
  assumes "0 < x" and "- 1074 < fl_exp x"
  shows "2 powi (fl_exp x + 52) \<le> fl x"
proof -
  have s: "(2::real) powi (fl_exp x + 52) = 2 ^ 52 * 2 powi fl_exp x"
    using powi_split [of "fl_exp x" 52] by simp
  have "of_int (2 ^ 52) \<le> x / 2 powi fl_exp x"
    using powi_exp_le [OF assms] unfolding s by (simp add: le_divide_eq)
  then have "2 ^ 52 \<le> round_even (x / 2 powi fl_exp x)"
    by (metis round_even_mono round_even_of_int)
  then have "2 ^ 52 \<le> real_of_int (round_even (x / 2 powi fl_exp x))"
    by (metis of_int_le_iff of_int_numeral of_int_power)
  then show ?thesis
    using assms by (simp add: fl_def s)
qed

lemma fl_exp_mono: "0 < x \<Longrightarrow> x \<le> y \<Longrightarrow> fl_exp x \<le> fl_exp y"
  unfolding fl_exp_def using floor_mono [of "log 2 x" "log 2 y"] by fastforce

lemma fl_nonneg: "0 \<le> x \<Longrightarrow> 0 \<le> fl x"
  using round_even_mono [of 0 "x / 2 powi fl_exp x"] round_even_of_int [of 0]
  by (simp add: fl_def)

lemma fl_mono_pos:
  assumes "0 < x" and "x \<le> y"
  shows "fl x \<le> fl y"
proof (cases "fl_exp x = fl_exp y")
  case True
  have "x / 2 powi fl_exp y \<le> y / 2 powi fl_exp y"
    using assms by (simp add: divide_right_mono)
  then show ?thesis
    using assms True by (simp add: fl_def round_even_mono)
next
  case False
  then have lt: "fl_exp x < fl_exp y"
    using fl_exp_mono [OF assms] by simp
  have "fl x \<le> 2 powi (fl_exp x + 53)"
    by (rule fl_le_powi [OF assms(1)])
  also have "(2::real) powi (fl_exp x + 53) \<le> 2 powi (fl_exp y + 52)"
    using lt by (simp add: powi_le_iff)
  also have "\<dots> \<le> fl y"
    using assms lt by (intro powi_le_fl) (auto simp: fl_exp_def)
  finally show ?thesis .
qed

lemma fl_mono:
  assumes "x \<le> y"
  shows "fl x \<le> fl y"
proof -
  consider "0 < x" | "x \<le> 0" "0 \<le> y" | "y < 0" using assms by linarith
  then show ?thesis
  proof cases
    case 1
    then show ?thesis using assms by (rule fl_mono_pos)
  next
    case 2
    then have "fl x \<le> 0" using fl_nonneg [of "- x"] by simp
    also have "0 \<le> fl y" using 2 by (simp add: fl_nonneg)
    finally show ?thesis .
  next
    case 3
    with assms have "fl (- y) \<le> fl (- x)" by (intro fl_mono_pos) auto
    then show ?thesis by simp
  qed
qed

text \<open>A dyadic value of at most 53 bits is representable, so rounding keeps it.\<close>

lemma fl_dyadic:
  assumes "\<bar>m\<bar> < 2 ^ 53" and "- 1074 \<le> e"
  shows "fl (of_int m * 2 powi e) = of_int m * 2 powi e"
proof (cases "m = 0")
  case False
  define x where "x = real_of_int m * 2 powi e"
  have ax: "\<bar>x\<bar> = of_int \<bar>m\<bar> * 2 powi e"
    by (simp add: x_def abs_mult)
  have pos: "0 < \<bar>x\<bar>" using False by (simp add: x_def)
  have "real_of_int \<bar>m\<bar> < 2 ^ 53"
    using assms(1) by (metis of_int_less_iff of_int_numeral of_int_power)
  then have "\<bar>x\<bar> < 2 powi (e + 53)"
    unfolding ax using powi_split [of e 53] by simp
  moreover have "2 powi \<lfloor>log 2 \<bar>x\<bar>\<rfloor> \<le> \<bar>x\<bar>"
    using pos floor_log2_iff [of "\<bar>x\<bar>"] by blast
  ultimately have "(2::real) powi \<lfloor>log 2 \<bar>x\<bar>\<rfloor> < 2 powi (e + 53)" by linarith
  then have "\<lfloor>log 2 \<bar>x\<bar>\<rfloor> < e + 53"
    using powi_le_iff [of "e + 53" "\<lfloor>log 2 \<bar>x\<bar>\<rfloor>"] by linarith
  then have "fl_exp x \<le> e" using assms(2) by (simp add: fl_exp_def)
  then obtain n where n: "e = fl_exp x + int n"
    using zle_iff_zadd by blast
  have "(2::real) powi e = 2 ^ n * 2 powi fl_exp x"
    using n powi_split [of "fl_exp x" n] by metis
  then have "x = of_int (m * 2 ^ n) * 2 powi fl_exp x"
    by (simp add: x_def)
  then have q: "x / 2 powi fl_exp x = of_int (m * 2 ^ n)"
    by (simp add: field_simps)
  have "x \<noteq> 0" using pos by simp
  then have "fl x = of_int (m * 2 ^ n) * 2 powi fl_exp x"
    by (simp only: fl_def q round_even_of_int if_False)
  then have "fl x = x"
    using \<open>x = of_int (m * 2 ^ n) * 2 powi fl_exp x\<close> by metis
  then show ?thesis
    by (simp only: x_def)
qed simp

lemma fl_of_int: "\<bar>k\<bar> < 2 ^ 53 \<Longrightarrow> fl (of_int k) = of_int k"
  using fl_dyadic [of k 0] by simp

lemma fl_numeral: "(numeral w :: int) < 2 ^ 53 \<Longrightarrow> fl (numeral w) = numeral w"
  using fl_of_int [of "numeral w"] by simp

lemma fl_1 [simp]: "fl 1 = 1"
  using fl_of_int [of 1] by simp

section \<open>The arithmetic of the code\<close>

definition fadd :: "real \<Rightarrow> real \<Rightarrow> real" where "fadd x y = fl (x + y)"
definition fsub :: "real \<Rightarrow> real \<Rightarrow> real" where "fsub x y = fl (x - y)"
definition fmul :: "real \<Rightarrow> real \<Rightarrow> real" where "fmul x y = fl (x * y)"
definition fdiv :: "real \<Rightarrow> real \<Rightarrow> real" where "fdiv x y = fl (x / y)"
definition fsqrt :: "real \<Rightarrow> real" where "fsqrt x = fl (sqrt x)"

text \<open>
  \<open>float(n)\<close> of an integer, and \<open>sum(xs)\<close> of floats, which since Python 3.12 (the version
  the project requires) carries a compensation term along and adds it at the end.
\<close>

definition float_of_nat :: "nat \<Rightarrow> real" where "float_of_nat n = fl (of_nat n)"

fun compensated_sum :: "real \<Rightarrow> real \<Rightarrow> real list \<Rightarrow> real" where
  "compensated_sum t c [] = (if c \<noteq> 0 then fadd t c else t)"
| "compensated_sum t c (x # xs) =
     (let t' = fadd t x;
          d = (if \<bar>x\<bar> \<le> \<bar>t\<bar> then fadd (fsub t t') x else fadd (fsub x t') t)
      in compensated_sum t' (fadd c d) xs)"

fun fsum :: "real list \<Rightarrow> real" where
  "fsum [] = 0"
| "fsum (x # xs) = compensated_sum (fadd 0 x) 0 xs"

text \<open>\<open>f"{x:.df}"\<close>: the exact value rounded to \<open>d\<close> decimals, ties to even.\<close>

definition format_fixed :: "nat \<Rightarrow> real \<Rightarrow> string" where
  "format_fixed d x =
     (let n = nat (round_even (\<bar>x\<bar> * 10 ^ d)) in
      (if x < 0 then ''-'' else []) @ nat_digits (n div 10 ^ d) @
      (if d = 0 then [] else ''.'' @ pad_zeros d (nat_digits (n mod 10 ^ d))))"

lemma fadd_mono: "a \<le> b \<Longrightarrow> c \<le> d \<Longrightarrow> fadd a c \<le> fadd b d"
  unfolding fadd_def by (intro fl_mono add_mono)

lemma fmul_mono: "a \<le> b \<Longrightarrow> 0 \<le> c \<Longrightarrow> fmul a c \<le> fmul b c"
  unfolding fmul_def by (intro fl_mono mult_right_mono)

lemma fdiv_mono: "a \<le> b \<Longrightarrow> 0 < c \<Longrightarrow> fdiv a c \<le> fdiv b c"
  unfolding fdiv_def by (intro fl_mono divide_right_mono) auto

lemma float_of_nat_mono: "m \<le> n \<Longrightarrow> float_of_nat m \<le> float_of_nat n"
  unfolding float_of_nat_def by (intro fl_mono) simp

lemma fadd_nonneg: "0 \<le> a \<Longrightarrow> 0 \<le> b \<Longrightarrow> 0 \<le> fadd a b"
  by (simp add: fadd_def fl_nonneg)

lemma fmul_nonneg: "0 \<le> a \<Longrightarrow> 0 \<le> b \<Longrightarrow> 0 \<le> fmul a b"
  by (simp add: fmul_def fl_nonneg)

lemma fdiv_nonneg: "0 \<le> a \<Longrightarrow> 0 < b \<Longrightarrow> 0 \<le> fdiv a b"
  by (simp add: fdiv_def fl_nonneg)

lemma float_of_nat_nonneg: "0 \<le> float_of_nat n"
  by (simp add: float_of_nat_def fl_nonneg)

lemma float_of_nat_0 [simp]: "float_of_nat 0 = 0"
  by (simp add: float_of_nat_def)

lemma fsub_self [simp]: "fsub x x = 0"
  by (simp add: fsub_def)

text \<open>A sum whose partial sums are all representable is exact.\<close>

lemma compensated_sum_exact:
  "(\<And>n. n \<le> length xs \<Longrightarrow> fl (t + sum_list (take n xs)) = t + sum_list (take n xs)) \<Longrightarrow>
   list_all (\<lambda>x. fl x = x) xs \<Longrightarrow> compensated_sum t 0 xs = t + sum_list xs"
proof (induction xs arbitrary: t)
  case Nil
  then show ?case by simp
next
  case (Cons x xs)
  have tx: "fl (t + x) = t + x"
    using Cons.prems(1) [of 1] by simp
  have t: "fl t = t"
    using Cons.prems(1) [of 0] by simp
  have x: "fl x = x"
    using Cons.prems(2) by simp
  have c: "fadd (fsub t (t + x)) x = 0" "fadd (fsub x (t + x)) t = 0"
    using t x by (simp_all add: fadd_def fsub_def)
  have "compensated_sum t 0 (x # xs) = compensated_sum (t + x) 0 xs"
    using c by (simp add: Let_def fadd_def [of t x] fadd_def [of 0] tx)
  also have "\<dots> = (t + x) + sum_list xs"
  proof (rule Cons.IH)
    fix n assume "n \<le> length xs"
    then show "fl ((t + x) + sum_list (take n xs)) = (t + x) + sum_list (take n xs)"
      using Cons.prems(1) [of "Suc n"] by (simp add: add.assoc)
  qed (use Cons.prems(2) in simp)
  finally show ?case by simp
qed

end
