(* ===== verification/Domain.thy ===== *)
theory Domain
  imports PyFloat
begin

text \<open>
  The data the components exchange: the chat request and response models of
  \<open>app/models/api.py\<close> with their field validators, the request context of
  \<open>app/models/domain.py\<close>, and the settings of \<open>app/core/config.py\<close>. A model value is
  what pydantic hands to the code after validation; \<open>chat_request_ok\<close> states the field
  constraints such a value satisfies.
\<close>

section \<open>Limits\<close>

definition MAX_MODEL_LENGTH :: nat where "MAX_MODEL_LENGTH = 128"
definition MAX_MESSAGE_COUNT :: nat where "MAX_MESSAGE_COUNT = 64"
definition MAX_MESSAGE_CONTENT_LENGTH :: nat where "MAX_MESSAGE_CONTENT_LENGTH = 20000"
definition MAX_METADATA_KEYS :: nat where "MAX_METADATA_KEYS = 32"
definition MAX_METADATA_JSON_LENGTH :: nat where "MAX_METADATA_JSON_LENGTH = 4096"

section \<open>Chat completion request\<close>

record content_part =
  part_type :: string
  part_text :: "string option"
  part_source :: "json option"
  part_image_url :: "json option"

datatype role = RSystem | RUser | RAssistant

fun role_str :: "role \<Rightarrow> string" where
  "role_str RSystem = ''system''"
| "role_str RUser = ''user''"
| "role_str RAssistant = ''assistant''"

lemma role_str_inject [simp]: "role_str r = role_str r' \<longleftrightarrow> r = r'"
  by (cases r; cases r') auto

datatype content = CText string | CParts "content_part list"

record chat_message =
  msg_role :: role
  msg_content :: content

record chat_request =
  req_model :: string
  req_messages :: "chat_message list"
  req_temperature :: "real option"
  req_stream :: bool
  req_metadata :: "(string \<times> json) list"

definition validate_content :: "content \<Rightarrow> content result" where
  "validate_content v = (case v of
     CText s \<Rightarrow>
       if s = [] \<or> length s > MAX_MESSAGE_CONTENT_LENGTH
       then Inl (ValueErr ''message content must be 1..20000 characters'')
       else Inr v
   | CParts ps \<Rightarrow>
       if ps = [] then Inl (ValueErr ''message content parts cannot be empty'') else Inr v)"

text \<open>
  \<open>str_dict\<close> is Python's \<open>str\<close> on a dictionary, whose length the validator bounds.
  Keys are strings by the type of the field; the remaining check is their length.
\<close>

definition validate_metadata ::
  "((string \<times> json) list \<Rightarrow> string) \<Rightarrow> (string \<times> json) list \<Rightarrow> (string \<times> json) list result" where
  "validate_metadata str_dict v =
     (if length v > MAX_METADATA_KEYS
      then Inl (ValueErr ''metadata cannot contain more than 32 keys'')
      else if length (str_dict v) > MAX_METADATA_JSON_LENGTH
      then Inl (ValueErr ''metadata payload cannot exceed 4096 characters'')
      else if \<not> list_all (\<lambda>(k, _). length k \<le> 128) v
      then Inl (ValueErr ''metadata keys must be strings of at most 128 characters'')
      else Inr v)"

definition chat_request_ok ::
  "((string \<times> json) list \<Rightarrow> string) \<Rightarrow> chat_request \<Rightarrow> bool" where
  "chat_request_ok str_dict r \<longleftrightarrow>
     req_model r \<noteq> [] \<and> length (req_model r) \<le> MAX_MODEL_LENGTH \<and>
     req_messages r \<noteq> [] \<and> length (req_messages r) \<le> MAX_MESSAGE_COUNT \<and>
     list_all (\<lambda>m. is_ok (validate_content (msg_content m))) (req_messages r) \<and>
     (case req_temperature r of None \<Rightarrow> True | Some t \<Rightarrow> 0 \<le> t \<and> t \<le> 2) \<and>
     is_ok (validate_metadata str_dict (req_metadata r))"

section \<open>Chat completion response\<close>

record choice_message =
  choice_role :: string
  choice_content :: string

record choice =
  choice_index :: int
  choice_msg :: choice_message
  finish_reason :: string

record usage =
  prompt_tokens :: nat
  completion_tokens :: nat
  total_tokens :: nat

record chat_response =
  resp_id :: string
  resp_object :: string
  resp_model :: string
  resp_choices :: "choice list"
  resp_usage :: usage
  resp_metera :: dict

section \<open>Tenant capabilities of an issued key\<close>

text \<open>
  \<open>ApiKeyIssueRequest.validate_tenant_capabilities\<close> (the bootstrap payload has the same
  validator): strip each item, refuse empty and overlong ones, keep first occurrences.
\<close>

fun clean_capabilities :: "string list \<Rightarrow> string list \<Rightarrow> string list result" where
  "clean_capabilities cleaned [] = Inr cleaned"
| "clean_capabilities cleaned (item # rest) =
     (let capability = strip item in
      if capability = [] then Inl (ValueErr ''tenant capabilities cannot contain empty values'')
      else if length capability > 128
      then Inl (ValueErr ''tenant capabilities must be at most 128 characters'')
      else if capability \<in> set cleaned then clean_capabilities cleaned rest
      else clean_capabilities (cleaned @ [capability]) rest)"

definition validate_tenant_capabilities :: "string list \<Rightarrow> string list result" where
  "validate_tenant_capabilities value = clean_capabilities [] value"

lemma clean_capabilities_result:
  "clean_capabilities acc xs = Inr ys \<Longrightarrow> distinct acc \<Longrightarrow>
   distinct ys \<and> set ys = set acc \<union> strip ` set xs \<and>
   (\<forall>x \<in> set xs. strip x \<noteq> [] \<and> length (strip x) \<le> 128)"
proof (induction xs arbitrary: acc)
  case Nil
  then show ?case by simp
next
  case (Cons item rest)
  let ?c = "strip item"
  from Cons.prems have ok: "?c \<noteq> []" "length ?c \<le> 128"
    by (auto simp: Let_def split: if_splits)
  show ?case
  proof (cases "?c \<in> set acc")
    case True
    with ok Cons.prems have "clean_capabilities acc rest = Inr ys" by (simp add: Let_def)
    from Cons.IH [OF this Cons.prems(2)] ok True show ?thesis by auto
  next
    case False
    with ok Cons.prems have "clean_capabilities (acc @ [?c]) rest = Inr ys" by (simp add: Let_def)
    from Cons.IH [OF this] ok False Cons.prems(2) show ?thesis by auto
  qed
qed

lemma clean_capabilities_error:
  "(\<exists>x \<in> set xs. strip x = [] \<or> length (strip x) > 128) \<Longrightarrow>
   \<exists>m. clean_capabilities acc xs = Inl (ValueErr m)"
  by (induction xs arbitrary: acc) (auto simp: Let_def)

section \<open>Request context\<close>

record proxy_context =
  ctx_namespace :: string
  ctx_bearer_token :: "string option"
  ctx_request_id :: "string option"
  ctx_tenant_id :: "string option"
  ctx_tenant_slug :: "string option"
  ctx_workspace_id :: "string option"
  ctx_workspace_slug :: "string option"
  ctx_environment_id :: "string option"
  ctx_environment_name :: "string option"
  ctx_api_key_id :: "string option"
  ctx_api_key_prefix :: "string option"
  ctx_api_key_display_name :: "string option"
  ctx_tenant_role :: "string option"
  ctx_tenant_capabilities :: "string list"

definition new_context :: "string \<Rightarrow> string option \<Rightarrow> string option \<Rightarrow> proxy_context" where
  "new_context ns bearer request_id = \<lparr>
     ctx_namespace = ns, ctx_bearer_token = bearer, ctx_request_id = request_id,
     ctx_tenant_id = None, ctx_tenant_slug = None, ctx_workspace_id = None,
     ctx_workspace_slug = None, ctx_environment_id = None, ctx_environment_name = None,
     ctx_api_key_id = None, ctx_api_key_prefix = None, ctx_api_key_display_name = None,
     ctx_tenant_role = None, ctx_tenant_capabilities = [] \<rparr>"

end
