(* ===== verification/Keys.thy ===== *)
theory Keys
  imports Domain
begin

text \<open>
  Namespaces and cache keys: \<open>app/security/namespace.py\<close> (validation, the default namespace
  of a tenant and workspace, the header) and \<open>app/cache/normalization.py\<close> (the canonical
  JSON text of a request and the exact-cache key built from it). SHA-256 and
  \<open>float.__repr__\<close> are arguments (\<open>sha\<close>, \<open>repr_float\<close>).
\<close>

section \<open>Namespaces\<close>

definition valid_namespace_character :: "char \<Rightarrow> bool" where
  "valid_namespace_character c \<longleftrightarrow>
     is_lower_alpha c \<or> is_upper_alpha c \<or> is_digit c \<or>
     c = CHR ''-'' \<or> c = CHR ''_'' \<or> c = CHR ''.''"

definition validate_namespace :: "string \<Rightarrow> string \<Rightarrow> string result" where
  "validate_namespace header ns =
     (if ns = [] then Inl (HTTPException 400 (''Header '' @ header @ '' cannot be empty''))
      else if length ns > 128 then Inl (HTTPException 400 (''Header '' @ header @ '' is too long''))
      else if \<not> list_all valid_namespace_character ns
      then Inl (HTTPException 400 (''Header '' @ header @ '' contains invalid namespace characters''))
      else Inr ns)"

definition derive_default_namespace :: "string \<Rightarrow> string \<Rightarrow> string result" where
  "derive_default_namespace tenant_slug workspace_slug =
     (let ns = strip tenant_slug @ ''-'' @ strip workspace_slug
      in rbind (validate_namespace ''x-metera-namespace'' ns) (\<lambda>_. Inr ns))"

definition resolve_namespace :: "string option \<Rightarrow> string \<Rightarrow> string result" where
  "resolve_namespace header_value header =
     (case header_value of
        None \<Rightarrow> Inr ''default''
      | Some v \<Rightarrow>
          if v = [] then Inr ''default''
          else (let ns = strip v in rbind (validate_namespace header ns) (\<lambda>_. Inr ns)))"

text \<open>What the three functions promise of a namespace they return.\<close>

definition namespace_ok :: "string \<Rightarrow> bool" where
  "namespace_ok ns \<longleftrightarrow> ns \<noteq> [] \<and> length ns \<le> 128 \<and> list_all valid_namespace_character ns"

lemma validate_namespace_Inr: "validate_namespace h ns = Inr x \<longleftrightarrow> namespace_ok ns \<and> x = ns"
  by (auto simp: validate_namespace_def namespace_ok_def)

lemma validate_namespace_Inl:
  "\<not> namespace_ok ns \<Longrightarrow> \<exists>d. validate_namespace h ns = Inl (HTTPException 400 d)"
  by (auto simp: validate_namespace_def namespace_ok_def)

lemma namespace_ok_default: "namespace_ok ''default''"
  by (simp add: namespace_ok_def valid_namespace_character_def is_lower_alpha_def code_point_def)

lemma resolve_namespace_ok: "resolve_namespace hv h = Inr ns \<Longrightarrow> namespace_ok ns"
  by (auto simp: resolve_namespace_def rbind_eq_Inr validate_namespace_Inr namespace_ok_default
      Let_def split: option.splits if_splits)

lemma derive_default_namespace_ok: "derive_default_namespace t w = Inr ns \<Longrightarrow> namespace_ok ns"
  by (auto simp: derive_default_namespace_def rbind_eq_Inr validate_namespace_Inr Let_def)

lemma colon_not_valid: "\<not> valid_namespace_character CHR '':''"
  by (simp add: valid_namespace_character_def is_lower_alpha_def is_upper_alpha_def is_digit_def
      code_point_def)

lemma namespace_ok_no_colon: "namespace_ok ns \<Longrightarrow> CHR '':'' \<notin> set ns"
  using colon_not_valid by (auto simp: namespace_ok_def list_all_iff)

lemma valid_char_not_space: "valid_namespace_character c \<Longrightarrow> \<not> is_space c"
  by (auto simp: valid_namespace_character_def is_lower_alpha_def is_upper_alpha_def is_digit_def
      is_space_def code_point_def Let_def)

lemma strip_valid: "list_all valid_namespace_character s \<Longrightarrow> strip s = s"
  by (intro strip_no_space) (auto simp: list_all_iff valid_char_not_space)

section \<open>Canonical request text\<close>

definition hex_digit :: "nat \<Rightarrow> char" where
  "hex_digit n = (if n < 10 then char_of (48 + n) else char_of (87 + n))"

text \<open>The string escapes of \<open>json.dumps\<close> with \<open>ensure_ascii\<close>: its table of short escapes, else \<open>\u00XX\<close>.\<close>

definition short_escape :: "nat \<Rightarrow> char option" where
  "short_escape n =
     (if n = 34 then Some (CHR 0x22) else if n = 92 then Some (CHR 0x5C)
      else if n = 10 then Some (CHR ''n'') else if n = 13 then Some (CHR ''r'')
      else if n = 9 then Some (CHR ''t'') else if n = 12 then Some (CHR ''f'')
      else if n = 8 then Some (CHR ''b'') else None)"

definition json_escape_char :: "char \<Rightarrow> string" where
  "json_escape_char c =
     (let n = code_point c in
      case short_escape n of
        Some x \<Rightarrow> [CHR 0x5C, x]
      | None \<Rightarrow>
          if 32 \<le> n \<and> n \<le> 126 then [c]
          else [CHR 0x5C, CHR ''u'', CHR ''0'', CHR ''0'', hex_digit (n div 16), hex_digit (n mod 16)])"

definition json_quote :: "string \<Rightarrow> string" where
  "json_quote s = [CHR 0x22] @ concat (map json_escape_char s) @ [CHR 0x22]"

fun dump_content :: "content \<Rightarrow> string result" where
  "dump_content (CText s) = Inr (json_quote s)"
| "dump_content (CParts []) = Inr ''[]''"
| "dump_content (CParts (_ # _)) =
     Inl (TypeErr ''Object of type ContentPart is not JSON serializable'')"

definition dump_message :: "chat_message \<Rightarrow> string result" where
  "dump_message m = rbind (dump_content (msg_content m)) (\<lambda>c.
     Inr (''{'' @ json_quote ''content'' @ '':'' @ c @ '','' @
          json_quote ''role'' @ '':'' @ json_quote (role_str (msg_role m)) @ ''}''))"

fun dump_messages :: "chat_message list \<Rightarrow> string result" where
  "dump_messages [] = Inr []"
| "dump_messages [m] = dump_message m"
| "dump_messages (m # ms) =
     rbind (dump_message m) (\<lambda>d. rbind (dump_messages ms) (\<lambda>ds. Inr (d @ '','' @ ds)))"

definition dump_temperature :: "(real \<Rightarrow> string) \<Rightarrow> real option \<Rightarrow> string" where
  "dump_temperature repr_float t = (case t of None \<Rightarrow> ''null'' | Some v \<Rightarrow> repr_float v)"

definition dump_bool :: "bool \<Rightarrow> string" where
  "dump_bool b = (if b then ''true'' else ''false'')"

definition canonicalize_request :: "(real \<Rightarrow> string) \<Rightarrow> chat_request \<Rightarrow> string result" where
  "canonicalize_request repr_float r =
     rbind (dump_messages (req_messages r)) (\<lambda>ms.
     Inr (''{'' @ json_quote ''messages'' @ '':['' @ ms @ ''],'' @
          json_quote ''model'' @ '':'' @ json_quote (req_model r) @ '','' @
          json_quote ''stream'' @ '':'' @ dump_bool (req_stream r) @ '','' @
          json_quote ''temperature'' @ '':'' @ dump_temperature repr_float (req_temperature r) @ ''}''))"

definition compute_exact_hash ::
  "(string \<Rightarrow> string) \<Rightarrow> string \<Rightarrow> string \<Rightarrow> string \<Rightarrow> string" where
  "compute_exact_hash sha ns endpoint normalized_text =
     sha (ns @ '':'' @ endpoint @ '':'' @ normalized_text)"

definition build_exact_cache_key :: "string \<Rightarrow> string \<Rightarrow> string" where
  "build_exact_cache_key ns exact_hash = ns @ '':'' @ exact_hash"

subsection \<open>The canonical text determines the request\<close>

lemma code_point_hex_digit:
  "n < 16 \<Longrightarrow> code_point (hex_digit n) = (if n < 10 then 48 + n else 87 + n)"
  by (simp add: code_point_def hex_digit_def)

lemma hex_digit_inject:
  assumes "m < 16" and "n < 16" and "hex_digit m = hex_digit n"
  shows "m = n"
proof -
  from assms(3) have "code_point (hex_digit m) = code_point (hex_digit n)" by simp
  with assms(1,2) show ?thesis
    by (auto simp: code_point_hex_digit split: if_splits)
qed

lemma code_point_lt: "code_point c < 256"
  by (simp add: code_point_def)

lemma code_point_inject: "code_point c = code_point d \<longleftrightarrow> c = d"
  by (simp add: code_point_def)

text \<open>
  The escapes form a prefix code whose words never start with the closing quote, so a quoted
  string delimits itself.
\<close>

lemma short_escape_inject: "short_escape m = Some x \<Longrightarrow> short_escape n = Some x \<Longrightarrow> m = n"
  by (auto simp: short_escape_def split: if_splits)

lemma short_escape_not_u: "short_escape m \<noteq> Some CHR ''u''"
  by (simp add: short_escape_def)

lemma escape_cases:
  obtains (short) x where "short_escape (code_point c) = Some x" "json_escape_char c = [CHR 0x5C, x]"
  | (plain) "json_escape_char c = [c]" "c \<noteq> CHR 0x22" "c \<noteq> CHR 0x5C"
  | (hex) "json_escape_char c = [CHR 0x5C, CHR ''u'', CHR ''0'', CHR ''0'',
      hex_digit (code_point c div 16), hex_digit (code_point c mod 16)]"
proof (cases "short_escape (code_point c)")
  case (Some x)
  then show ?thesis using short by (simp add: json_escape_char_def)
next
  case None
  then have "code_point c \<noteq> 34" "code_point c \<noteq> 92"
    by (auto simp: short_escape_def)
  then have "c \<noteq> CHR 0x22" "c \<noteq> CHR 0x5C"
    by (auto simp: code_point_def)
  with None show ?thesis
    using plain hex by (cases "32 \<le> code_point c \<and> code_point c \<le> 126") (simp_all add: json_escape_char_def Let_def)
qed

lemma hex_pair_inject:
  assumes "hex_digit (code_point c div 16) = hex_digit (code_point d div 16)"
    and "hex_digit (code_point c mod 16) = hex_digit (code_point d mod 16)"
  shows "c = d"
proof -
  have "code_point c div 16 = code_point d div 16" "code_point c mod 16 = code_point d mod 16"
    using assms code_point_lt [of c] code_point_lt [of d] by (auto intro!: hex_digit_inject)
  then have "code_point c = code_point d" by (metis div_mult_mod_eq)
  then show ?thesis by (simp add: code_point_inject)
qed

lemma json_escape_prefix_free:
  assumes "json_escape_char c @ x = json_escape_char d @ y"
  shows "c = d \<and> x = y"
  using assms
  by (cases c rule: escape_cases; cases d rule: escape_cases)
    (auto dest: hex_pair_inject short_escape_inject simp: short_escape_not_u code_point_inject)

lemma json_escape_hd: "json_escape_char c = z # zs \<Longrightarrow> z \<noteq> CHR 0x22"
  by (cases c rule: escape_cases) auto

lemma json_escape_neq_Nil [simp]: "json_escape_char c \<noteq> []"
  by (cases c rule: escape_cases) auto

lemma escapes_delimited:
  "concat (map json_escape_char s) @ CHR 0x22 # x = concat (map json_escape_char t) @ CHR 0x22 # y \<Longrightarrow>
   s = t \<and> x = y"
proof (induction s arbitrary: t)
  case Nil
  then show ?case
    by (cases t; cases "json_escape_char (hd t)") (auto dest: json_escape_hd)
next
  case (Cons c s)
  show ?case
  proof (cases t)
    case Nil
    with Cons.prems show ?thesis
      by (cases "json_escape_char c") (auto dest: json_escape_hd)
  next
    case (Cons d t')
    with Cons.prems have
      "json_escape_char c @ (concat (map json_escape_char s) @ CHR 0x22 # x) =
       json_escape_char d @ (concat (map json_escape_char t') @ CHR 0x22 # y)"
      by simp
    from json_escape_prefix_free [OF this] Cons.IH [of t'] Cons show ?thesis by simp
  qed
qed

lemma json_quote_delimited: "json_quote s @ x = json_quote t @ y \<Longrightarrow> s = t \<and> x = y"
  using escapes_delimited [of s x t y] by (simp add: json_quote_def)

lemma json_quote_hd: "json_quote s = CHR 0x22 # concat (map json_escape_char s) @ [CHR 0x22]"
  by (simp add: json_quote_def)

lemma dump_bool_delimited: "dump_bool a @ CHR '','' # x = dump_bool b @ CHR '','' # y \<Longrightarrow> a = b \<and> x = y"
  by (simp add: dump_bool_def split: if_splits)

lemma dump_content_CText: "dump_content c = Inr d \<Longrightarrow> (\<exists>s. c = CText s \<and> d = json_quote s) \<or> (c = CParts [] \<and> d = ''[]'')"
  by (cases c rule: dump_content.cases) auto

lemma dump_content_delimited:
  assumes "dump_content c = Inr d" and "dump_content c' = Inr d'" and "d @ x = d' @ y"
  shows "c = c' \<and> x = y"
  using dump_content_CText [OF assms(1)] dump_content_CText [OF assms(2)] assms(3)
  by (auto dest: escapes_delimited simp: json_quote_hd)

text \<open>The role that closes a message and the message list are delimited in the same way.\<close>

lemma dump_message_delimited:
  assumes "dump_message m = Inr d" and "dump_message m' = Inr d'" and "d @ x = d' @ y"
  shows "m = m' \<and> x = y"
proof -
  obtain c where c: "dump_content (msg_content m) = Inr c"
    and d: "d = ''{'' @ json_quote ''content'' @ '':'' @ c @ '','' @ json_quote ''role'' @ '':'' @
      json_quote (role_str (msg_role m)) @ ''}''"
    using assms(1) by (auto simp: dump_message_def rbind_eq_Inr)
  obtain c' where c': "dump_content (msg_content m') = Inr c'"
    and d': "d' = ''{'' @ json_quote ''content'' @ '':'' @ c' @ '','' @ json_quote ''role'' @ '':'' @
      json_quote (role_str (msg_role m')) @ ''}''"
    using assms(2) by (auto simp: dump_message_def rbind_eq_Inr)
  have eq: "c @ '','' @ json_quote ''role'' @ '':'' @ json_quote (role_str (msg_role m)) @ ''}'' @ x =
      c' @ '','' @ json_quote ''role'' @ '':'' @ json_quote (role_str (msg_role m')) @ ''}'' @ y"
    using assms(3) by (simp add: d d')
  from dump_content_delimited [OF c c' eq]
  have "msg_content m = msg_content m'"
    and "json_quote (role_str (msg_role m)) @ ''}'' @ x = json_quote (role_str (msg_role m')) @ ''}'' @ y"
    by simp_all
  then show ?thesis
    using json_quote_delimited [of "role_str (msg_role m)" "''}'' @ x" "role_str (msg_role m')" "''}'' @ y"]
    by (cases m; cases m') simp
qed

lemma dump_message_hd: "dump_message m = Inr d \<Longrightarrow> \<exists>t. d = CHR ''{'' # t"
  by (auto simp: dump_message_def rbind_eq_Inr)

lemma dump_messages_Cons:
  "dump_messages (m # ms) = Inr d \<longleftrightarrow>
   (\<exists>e. dump_message m = Inr e \<and>
     (if ms = [] then d = e else \<exists>f. dump_messages ms = Inr f \<and> d = e @ '','' @ f))"
  by (cases ms) (auto simp: rbind_eq_Inr)

lemma dump_messages_delimited:
  "dump_messages ms = Inr d \<Longrightarrow> dump_messages ms' = Inr d' \<Longrightarrow>
   d @ CHR '']'' # x = d' @ CHR '']'' # y \<Longrightarrow> ms = ms' \<and> x = y"
proof (induction ms arbitrary: d ms' d')
  case Nil
  then show ?case
    by (cases ms') (auto simp: dump_messages_Cons dest: dump_message_hd split: if_splits)
next
  case (Cons m ms)
  obtain e where e: "dump_message m = Inr e"
    and d: "if ms = [] then d = e else \<exists>f. dump_messages ms = Inr f \<and> d = e @ '','' @ f"
    using Cons.prems(1) by (auto simp only: dump_messages_Cons)
  show ?case
  proof (cases ms')
    case Nil
    with Cons.prems(2,3) e d show ?thesis
      by (auto dest!: dump_message_hd split: if_splits)
  next
    case (Cons m' rest)
    obtain e' where e': "dump_message m' = Inr e'"
      and d': "if rest = [] then d' = e' else \<exists>f. dump_messages rest = Inr f \<and> d' = e' @ '','' @ f"
      using Cons.prems(2) unfolding Cons by (auto simp only: dump_messages_Cons)
    let ?x = "CHR '']'' # x" and ?y = "CHR '']'' # y"
    note hd_eq = dump_message_delimited [OF e e']
    show ?thesis
    proof (cases "ms = [] \<or> rest = []")
      case True
      with Cons.prems(3) d d' Cons show ?thesis
        using hd_eq [of ?x ?y] by (auto split: if_splits dest!: hd_eq)
    next
      case False
      with d d' obtain f f' where f: "dump_messages ms = Inr f" "d = e @ '','' @ f"
        and f': "dump_messages rest = Inr f'" "d' = e' @ '','' @ f'"
        by auto
      from Cons.prems(3) have "e @ ('','' @ f @ ?x) = e' @ ('','' @ f' @ ?y)"
        by (simp add: f f')
      from hd_eq [OF this] have "m = m'" and "f @ ?x = f' @ ?y" by simp_all
      with Cons.IH [OF f(1) f'(1)] Cons show ?thesis by simp
    qed
  qed
qed

lemma canonicalize_request_inject:
  assumes "canonicalize_request repr_float r = Inr s" and "canonicalize_request repr_float r' = Inr s"
    and "inj_on repr_float (set_option (req_temperature r) \<union> set_option (req_temperature r'))"
    and "\<And>v. repr_float v \<noteq> ''null''"
  shows "req_messages r = req_messages r' \<and> req_model r = req_model r' \<and>
    req_stream r = req_stream r' \<and> req_temperature r = req_temperature r'"
proof -
  define tail :: "chat_request \<Rightarrow> string" where "tail q = '','' @ json_quote ''model'' @ '':'' @ json_quote (req_model q) @ '','' @
    json_quote ''stream'' @ '':'' @ dump_bool (req_stream q) @ '','' @
    json_quote ''temperature'' @ '':'' @ dump_temperature repr_float (req_temperature q) @ ''}''" for q
  obtain d d' where d: "dump_messages (req_messages r) = Inr d"
    and d': "dump_messages (req_messages r') = Inr d'"
    and s: "s = ''{'' @ json_quote ''messages'' @ '':['' @ d @ CHR '']'' # tail r"
    and s': "s = ''{'' @ json_quote ''messages'' @ '':['' @ d' @ CHR '']'' # tail r'"
    using assms(1,2) by (auto simp: canonicalize_request_def rbind_eq_Inr tail_def)
  have "d @ CHR '']'' # tail r = d' @ CHR '']'' # tail r'"
    using s s' by simp
  from dump_messages_delimited [OF d d' this]
  have ms: "req_messages r = req_messages r'" and t: "tail r = tail r'" by auto
  from t have m: "req_model r = req_model r'"
    and t2: "dump_bool (req_stream r) @ CHR '','' # (json_quote ''temperature'' @ '':'' @
        dump_temperature repr_float (req_temperature r) @ ''}'') =
      dump_bool (req_stream r') @ CHR '','' # (json_quote ''temperature'' @ '':'' @
        dump_temperature repr_float (req_temperature r') @ ''}'')"
    by (auto simp: tail_def dest: json_quote_delimited)
  from dump_bool_delimited [OF t2] have st: "req_stream r = req_stream r'"
    and t3: "dump_temperature repr_float (req_temperature r) = dump_temperature repr_float (req_temperature r')"
    by auto
  have "req_temperature r = req_temperature r'"
  proof (cases "req_temperature r"; cases "req_temperature r'")
    fix x y assume xy: "req_temperature r = Some x" "req_temperature r' = Some y"
    then have e: "repr_float x = repr_float y" using t3 by (simp add: dump_temperature_def)
    have "x = y" by (rule inj_onD [OF assms(3) e]) (simp_all add: xy)
    then show ?thesis by (simp add: xy)
  next
    fix x assume x: "req_temperature r = Some x" "req_temperature r' = None"
    then show ?thesis using t3 assms(4) [of x] by (simp add: dump_temperature_def)
  next
    fix x assume x: "req_temperature r = None" "req_temperature r' = Some x"
    then have "''null'' = repr_float x" using t3 by (simp add: dump_temperature_def)
    then show ?thesis using assms(4) [of x] by (simp only: not_sym)
  qed simp
  with ms m st show ?thesis by simp
qed

lemma dump_messages_parts:
  assumes "m \<in> set ms" and "msg_content m = CParts (p # ps)"
  shows "dump_messages ms = Inl (TypeErr ''Object of type ContentPart is not JSON serializable'')"
proof -
  have m: "dump_message m = Inl (TypeErr ''Object of type ContentPart is not JSON serializable'')"
    using assms(2) by (simp add: dump_message_def)
  have d: "dump_content c = Inl (TypeErr ''Object of type ContentPart is not JSON serializable'') \<or>
      (\<exists>s. dump_content c = Inr s)" for c
    by (cases c rule: dump_content.cases) auto
  have o: "dump_message m' = Inl (TypeErr ''Object of type ContentPart is not JSON serializable'') \<or>
      (\<exists>s. dump_message m' = Inr s)" for m'
    using d [of "msg_content m'"] by (auto simp: dump_message_def simp del: append.simps)
  show ?thesis using assms(1)
  proof (induction ms rule: dump_messages.induct)
    case (3 a b ms)
    then show ?case using m o [of a] by auto
  qed (use m in auto)
qed

lemma canonicalize_parts:
  "m \<in> set (req_messages r) \<Longrightarrow> msg_content m = CParts (p # ps) \<Longrightarrow>
   canonicalize_request f r = Inl (TypeErr ''Object of type ContentPart is not JSON serializable'')"
  by (simp add: canonicalize_request_def dump_messages_parts)

lemma canonicalize_request_cong:
  "req_messages r = req_messages r' \<Longrightarrow> req_model r = req_model r' \<Longrightarrow>
   req_stream r = req_stream r' \<Longrightarrow> req_temperature r = req_temperature r' \<Longrightarrow>
   canonicalize_request f r = canonicalize_request f r'"
  by (simp add: canonicalize_request_def)

subsection \<open>Cache keys\<close>

lemma build_key_inject:
  assumes "namespace_ok a" and "namespace_ok b"
  shows "build_exact_cache_key a h = build_exact_cache_key b k \<longleftrightarrow> a = b \<and> h = k"
  using append_sep_inject [of a "CHR '':''" h b k] namespace_ok_no_colon assms
  by (auto simp: build_exact_cache_key_def)

lemma key_prefix_iff:
  assumes "namespace_ok a" and "namespace_ok b"
  shows "prefix (a @ '':'') (build_exact_cache_key b h) \<longleftrightarrow> a = b"
  using prefix_unique_sep [of a "CHR '':''" b h] namespace_ok_no_colon assms
  by (auto simp: build_exact_cache_key_def)

lemma exact_hash_text_inject:
  "ns @ '':'' @ e @ '':'' @ t = ns @ '':'' @ e @ '':'' @ t' \<longleftrightarrow> t = t'"
  by simp

end
