(* ===== verification/KVStore.thy ===== *)
theory KVStore
  imports Keys
begin

text \<open>
  The exact cache: the store interface \<open>KVStore\<close> and the class \<open>ExactCache\<close> of
  \<open>app/cache/exact_cache.py\<close>, and the in-memory store of \<open>app/storage/memory.py\<close>. The
  locales \<open>prefix_store\<close> and \<open>kv_store\<close> are the interface; the cache's own properties are
  proved in them once and reach the code through the interpretation on the in-memory store and,
  for Redis, through the laws of its client.
\<close>

type_synonym payload = dict

record cache_hit =
  hit_key :: string
  hit_payload :: payload

section \<open>The exact cache over a store\<close>

definition exact_get :: "('s \<Rightarrow> string \<Rightarrow> payload option) \<Rightarrow> 's \<Rightarrow> string \<Rightarrow> cache_hit option" where
  "exact_get get_json s key =
     (case get_json s key of
        None \<Rightarrow> None
      | Some p \<Rightarrow> if p = [] then None else Some \<lparr>hit_key = key, hit_payload = p\<rparr>)"

definition exact_set ::
  "('s \<Rightarrow> string \<Rightarrow> payload \<Rightarrow> int \<Rightarrow> 's) \<Rightarrow> 's \<Rightarrow> string \<Rightarrow> payload \<Rightarrow> int \<Rightarrow> 's" where
  "exact_set set_json s key p ttl_seconds = set_json s key p ttl_seconds"

definition exact_invalidate_namespace ::
  "('s \<Rightarrow> string \<Rightarrow> 's \<times> nat) \<Rightarrow> 's \<Rightarrow> string \<Rightarrow> 's \<times> nat" where
  "exact_invalidate_namespace delete_prefix s ns = delete_prefix s (ns @ '':'')"

text \<open>
  What invalidation relies on: a store forgets exactly the keys under the prefix of a valid
  namespace and counts them. A store that also keeps what it is given is a \<open>kv_store\<close>.
\<close>

locale prefix_store =
  fixes get_json :: "'s \<Rightarrow> string \<Rightarrow> payload option"
    and delete_prefix :: "'s \<Rightarrow> string \<Rightarrow> 's \<times> nat"
    and invar :: "'s \<Rightarrow> bool"
  assumes invar_delete: "invar s \<Longrightarrow> namespace_ok ns \<Longrightarrow> invar (fst (delete_prefix s (ns @ '':'')))"
    and get_delete: "invar s \<Longrightarrow> namespace_ok ns \<Longrightarrow>
      get_json (fst (delete_prefix s (ns @ '':''))) k = (if prefix (ns @ '':'') k then None else get_json s k)"
    and delete_count: "invar s \<Longrightarrow> namespace_ok ns \<Longrightarrow>
      snd (delete_prefix s (ns @ '':'')) = card {k. prefix (ns @ '':'') k \<and> get_json s k \<noteq> None}"
begin

lemma exact_invalidate_own:
  assumes "invar s" and "namespace_ok ns"
  shows "exact_get get_json (fst (exact_invalidate_namespace delete_prefix s ns))
    (build_exact_cache_key ns h) = None"
  using assms by (simp add: exact_get_def exact_invalidate_namespace_def get_delete key_prefix_iff)

lemma exact_invalidate_other:
  assumes "invar s" and "namespace_ok ns" and "namespace_ok ns'" and "ns \<noteq> ns'"
  shows "exact_get get_json (fst (exact_invalidate_namespace delete_prefix s ns))
    (build_exact_cache_key ns' h) = exact_get get_json s (build_exact_cache_key ns' h)"
  using assms by (simp add: exact_get_def exact_invalidate_namespace_def get_delete key_prefix_iff)

lemma exact_invalidate_count:
  assumes "invar s" and "namespace_ok ns"
  shows "snd (exact_invalidate_namespace delete_prefix s ns) =
    card {k. prefix (ns @ '':'') k \<and> get_json s k \<noteq> None}"
  using assms by (simp add: exact_invalidate_namespace_def delete_count)

lemma exact_invalidate_idem:
  assumes "invar s" and "namespace_ok ns"
  shows "snd (exact_invalidate_namespace delete_prefix
    (fst (exact_invalidate_namespace delete_prefix s ns)) ns) = 0"
proof -
  have "{k. prefix (ns @ '':'') k \<and> get_json (fst (delete_prefix s (ns @ '':''))) k \<noteq> None} = {}"
    using assms by (simp add: get_delete)
  then show ?thesis
    using delete_count [OF invar_delete [OF assms] assms(2)]
    by (simp only: exact_invalidate_namespace_def card.empty)
qed

end

locale kv_store = prefix_store get_json delete_prefix invar
  for get_json :: "'s \<Rightarrow> string \<Rightarrow> payload option"
    and delete_prefix :: "'s \<Rightarrow> string \<Rightarrow> 's \<times> nat"
    and invar :: "'s \<Rightarrow> bool" +
  fixes set_json :: "'s \<Rightarrow> string \<Rightarrow> payload \<Rightarrow> int \<Rightarrow> 's"
    and empty_store :: 's
  assumes invar_empty: "invar empty_store"
    and get_empty: "get_json empty_store k = None"
    and invar_set: "invar s \<Longrightarrow> invar (set_json s k p ttl)"
    and get_set: "invar s \<Longrightarrow> get_json (set_json s k p ttl) k' = (if k' = k then Some p else get_json s k')"
begin

lemma exact_get_set:
  assumes "invar s"
  shows "exact_get get_json (exact_set set_json s k p ttl) k' =
    (if k' = k then if p = [] then None else Some \<lparr>hit_key = k, hit_payload = p\<rparr>
     else exact_get get_json s k')"
  using assms by (simp add: exact_get_def exact_set_def get_set)

end

section \<open>The in-memory store\<close>

text \<open>
  \<open>_data\<close> is a dictionary in insertion order: an association list, where storing under a
  present key replaces the value in place.
\<close>

type_synonym mem_store = "(string \<times> payload) list"

definition mem_get_json :: "mem_store \<Rightarrow> string \<Rightarrow> payload option" where
  "mem_get_json d key = map_of d key"

definition mem_set_json :: "mem_store \<Rightarrow> string \<Rightarrow> payload \<Rightarrow> int \<Rightarrow> mem_store" where
  "mem_set_json d key v ttl_seconds = AList.update key v d"

definition mem_delete_prefix :: "mem_store \<Rightarrow> string \<Rightarrow> mem_store \<times> nat" where
  "mem_delete_prefix d pre =
     (let keys = filter (prefix pre) (map fst d)
      in (fold AList.delete keys d, length keys))"

definition mem_invar :: "mem_store \<Rightarrow> bool" where
  "mem_invar d \<longleftrightarrow> distinct (map fst d)"

lemma fold_delete_filter: "fold AList.delete ks d = filter (\<lambda>(k, _). k \<notin> set ks) d"
proof (induction ks arbitrary: d)
  case Nil
  then show ?case by simp
next
  case (Cons k ks)
  then show ?case
    by (auto simp: AList.delete_eq intro!: filter_cong)
qed

lemma mem_delete_prefix_eq:
  "mem_delete_prefix d pre = (filter (\<lambda>(k, _). \<not> prefix pre k) d, length (filter (prefix pre) (map fst d)))"
  by (auto simp: mem_delete_prefix_def Let_def fold_delete_filter intro!: filter_cong)
    (metis fst_conv image_eqI)

lemma map_of_filter_key: "map_of (filter (\<lambda>(k, _). P k) d) k = (if P k then map_of d k else None)"
  by (induction d) auto

lemma mem_invar_filter: "mem_invar d \<Longrightarrow> mem_invar (filter P d)"
  by (simp add: mem_invar_def distinct_map_filter)

lemma count_keys:
  assumes "mem_invar d"
  shows "length (filter P (map fst d)) = card {k. P k \<and> map_of d k \<noteq> None}"
proof -
  have "{k. P k \<and> map_of d k \<noteq> None} = set (filter P (map fst d))"
    by (auto simp: map_of_eq_None_iff)
  moreover have "distinct (filter P (map fst d))"
    using assms by (simp add: mem_invar_def)
  ultimately show ?thesis by (metis distinct_card)
qed

interpretation mem: kv_store mem_get_json mem_delete_prefix mem_invar mem_set_json "[]"
proof
  fix s ns assume "mem_invar s"
  then show "mem_invar (fst (mem_delete_prefix s (ns @ '':'')))"
    by (simp add: mem_delete_prefix_eq mem_invar_filter)
next
  fix s ns k
  show "mem_get_json (fst (mem_delete_prefix s (ns @ '':''))) k =
      (if prefix (ns @ '':'') k then None else mem_get_json s k)"
    by (simp add: mem_delete_prefix_eq mem_get_json_def map_of_filter_key)
next
  fix s ns assume "mem_invar s"
  then show "snd (mem_delete_prefix s (ns @ '':'')) = card {k. prefix (ns @ '':'') k \<and> mem_get_json s k \<noteq> None}"
    using count_keys [of s "prefix (ns @ '':'')"] by (simp add: mem_delete_prefix_eq mem_get_json_def)
next
  show "mem_invar []" by (simp add: mem_invar_def)
  show "mem_get_json [] k = None" for k by (simp add: mem_get_json_def)
next
  fix s k p ttl assume "mem_invar s"
  then show "mem_invar (mem_set_json s k p ttl)"
    by (simp add: mem_invar_def mem_set_json_def distinct_update)
next
  fix s k p ttl k'
  show "mem_get_json (mem_set_json s k p ttl) k' = (if k' = k then Some p else mem_get_json s k')"
    by (simp add: mem_get_json_def mem_set_json_def update_conv')
qed

end
