(* ===== verification/SemanticCache.thy ===== *)
theory SemanticCache
  imports KVStore
begin

text \<open>
  The semantic cache: records and the store interface of \<open>app/storage/semantic_base.py\<close>, the
  in-memory store of \<open>app/storage/semantic_memory.py\<close>, the pgvector store of
  \<open>app/storage/semantic_pgvector.py\<close> (its SQL statements over a table of rows) and the class
  \<open>SemanticCache\<close> of \<open>app/cache/semantic_cache.py\<close>. The embedding model, and pgvector's
  vector column and distance operator, are arguments.
\<close>

record semantic_record =
  sr_namespace :: string
  sr_tenant_id :: "string option"
  sr_workspace_id :: "string option"
  sr_model :: string
  sr_model_family :: string
  sr_text :: string
  sr_vector :: "real list"
  sr_response_payload :: payload
  sr_created_at :: timestamp
  sr_expires_at :: "timestamp option"
  sr_metadata :: "(string \<times> json) list"

record semantic_match =
  match_record :: semantic_record
  match_similarity :: real

record semantic_query =
  q_namespace :: string
  q_tenant_id :: "string option"
  q_workspace_id :: "string option"
  q_model :: string
  q_model_family :: string
  q_vector :: "real list"
  q_threshold :: real
  q_now :: timestamp
  q_created_before :: "timestamp option"

section \<open>Model families and similarity\<close>

fun before_first :: "string \<Rightarrow> string \<Rightarrow> string" where
  "before_first sep [] = []"
| "before_first sep (c # cs) = (if prefix sep (c # cs) then [] else c # before_first sep cs)"

definition derive_model_family :: "string \<Rightarrow> string" where
  "derive_model_family model =
     foldl (\<lambda>normalized separator.
              if sublist separator normalized then before_first separator normalized else normalized)
       (py_lower model) [''-mini'', ''-latest'', ''-preview'']"

definition cosine_similarity :: "real list \<Rightarrow> real list \<Rightarrow> real" where
  "cosine_similarity left right =
     (if length left \<noteq> length right \<or> left = [] then 0
      else
        let numerator = fsum (map2 fmul left right);
            left_norm = fsqrt (fsum (map (\<lambda>a. fmul a a) left));
            right_norm = fsqrt (fsum (map (\<lambda>b. fmul b b) right))
        in if left_norm = 0 \<or> right_norm = 0 then 0
           else fdiv numerator (fmul left_norm right_norm))"

section \<open>The in-memory store\<close>

definition is_expired :: "semantic_record \<Rightarrow> timestamp \<Rightarrow> bool" where
  "is_expired r now = (case sr_expires_at r of None \<Rightarrow> False | Some e \<Rightarrow> e \<le> now)"

text \<open>The filters at the head of the scan, in the order the loop applies them.\<close>

definition mem_eligible :: "semantic_query \<Rightarrow> semantic_record \<Rightarrow> bool" where
  "mem_eligible q r \<longleftrightarrow>
     sr_namespace r = q_namespace q \<and>
     sr_tenant_id r = q_tenant_id q \<and>
     sr_workspace_id r = q_workspace_id q \<and>
     sr_model_family r = q_model_family q \<and>
     \<not> is_expired r (q_now q) \<and>
     (case q_created_before q of None \<Rightarrow> True | Some b \<Rightarrow> \<not> b \<le> sr_created_at r) \<and>
     (sr_model r = q_model q \<or> sr_model_family r = q_model_family q)"

definition scan_step ::
  "semantic_query \<Rightarrow> semantic_record option \<times> real \<Rightarrow> semantic_record \<Rightarrow> semantic_record option \<times> real" where
  "scan_step q best r =
     (if \<not> mem_eligible q r then best
      else let similarity = cosine_similarity (q_vector q) (sr_vector r)
           in if similarity > snd best then (Some r, similarity) else best)"

definition mem_find_best_match :: "semantic_record list \<Rightarrow> semantic_query \<Rightarrow> semantic_match option" where
  "mem_find_best_match rs q =
     (case foldl (scan_step q) (None, - 1) rs of
        (None, _) \<Rightarrow> None
      | (Some r, s) \<Rightarrow>
          if s < q_threshold q then None else Some \<lparr>match_record = r, match_similarity = s\<rparr>)"

definition mem_add :: "semantic_record list \<Rightarrow> semantic_record \<Rightarrow> semantic_record list" where
  "mem_add rs r = rs @ [r]"

definition mem_invalidate_namespace :: "semantic_record list \<Rightarrow> string \<Rightarrow> semantic_record list \<times> nat" where
  "mem_invalidate_namespace rs ns =
     (let kept = filter (\<lambda>r. sr_namespace r \<noteq> ns) rs in (kept, length rs - length kept))"

definition mem_prune_expired :: "semantic_record list \<Rightarrow> timestamp \<Rightarrow> semantic_record list \<times> nat" where
  "mem_prune_expired rs now =
     (let kept = filter (\<lambda>r. \<not> is_expired r now) rs in (kept, length rs - length kept))"

section \<open>The pgvector store\<close>

text \<open>
  The table is the list of its rows in insertion order. \<open>to_column\<close> is what the vector
  column keeps of a vector and \<open>cosdist\<close> is pgvector's \<open><=>\<close>; timestamps always carry a
  zone here, so \<open>_normalize_datetime\<close> is the identity.
\<close>

definition pg_add ::
  "(real list \<Rightarrow> real list) \<Rightarrow> semantic_record list \<Rightarrow> semantic_record \<Rightarrow> semantic_record list" where
  "pg_add to_column rs r = rs @ [r\<lparr>sr_vector := to_column (sr_vector r)\<rparr>]"

definition pg_where ::
  "(real list \<Rightarrow> real list \<Rightarrow> real) \<Rightarrow> semantic_query \<Rightarrow> real \<Rightarrow> semantic_record \<Rightarrow> bool" where
  "pg_where cosdist q min_cosine_distance r \<longleftrightarrow>
     sr_namespace r = q_namespace q \<and>
     sr_tenant_id r = q_tenant_id q \<and>
     sr_workspace_id r = q_workspace_id q \<and>
     sr_model_family r = q_model_family q \<and>
     (case sr_expires_at r of None \<Rightarrow> True | Some e \<Rightarrow> e > q_now q) \<and>
     (sr_model r = q_model q \<or> sr_model_family r = q_model_family q) \<and>
     cosdist (sr_vector r) (q_vector q) \<le> min_cosine_distance \<and>
     (case q_created_before q of None \<Rightarrow> True | Some b \<Rightarrow> sr_created_at r < b)"

text \<open>\<open>ORDER BY distance ASC, created_at DESC LIMIT 1\<close>: the earliest row no later row beats.\<close>

definition pg_before ::
  "(real list \<Rightarrow> real list \<Rightarrow> real) \<Rightarrow> semantic_query \<Rightarrow> semantic_record \<Rightarrow> semantic_record \<Rightarrow> bool" where
  "pg_before cosdist q r r' \<longleftrightarrow>
     cosdist (sr_vector r) (q_vector q) < cosdist (sr_vector r') (q_vector q) \<or>
     (cosdist (sr_vector r) (q_vector q) = cosdist (sr_vector r') (q_vector q) \<and>
      sr_created_at r > sr_created_at r')"

fun first_by :: "('a \<Rightarrow> 'a \<Rightarrow> bool) \<Rightarrow> 'a list \<Rightarrow> 'a option" where
  "first_by before [] = None"
| "first_by before (x # xs) =
     (case first_by before xs of
        None \<Rightarrow> Some x
      | Some y \<Rightarrow> if before y x then Some y else Some x)"

definition pg_find_best_match ::
  "(real list \<Rightarrow> real list \<Rightarrow> real) \<Rightarrow> semantic_record list \<Rightarrow> semantic_query \<Rightarrow> semantic_match option" where
  "pg_find_best_match cosdist rs q =
     (let min_cosine_distance = fsub 1 (q_threshold q) in
      case first_by (pg_before cosdist q) (filter (pg_where cosdist q min_cosine_distance) rs) of
        None \<Rightarrow> None
      | Some r \<Rightarrow> Some \<lparr>match_record = r,
                       match_similarity = fsub 1 (cosdist (sr_vector r) (q_vector q))\<rparr>)"

definition pg_invalidate_namespace :: "semantic_record list \<Rightarrow> string \<Rightarrow> semantic_record list \<times> nat" where
  "pg_invalidate_namespace rs ns =
     (filter (\<lambda>r. \<not> sr_namespace r = ns) rs, length (filter (\<lambda>r. sr_namespace r = ns) rs))"

definition pg_prune_expired :: "semantic_record list \<Rightarrow> timestamp \<Rightarrow> semantic_record list \<times> nat" where
  "pg_prune_expired rs now =
     (let gone = (\<lambda>r. case sr_expires_at r of None \<Rightarrow> False | Some e \<Rightarrow> e \<le> now)
      in (filter (\<lambda>r. \<not> gone r) rs, length (filter gone rs)))"


section \<open>The embedder\<close>

text \<open>
  \<open>LocalSentenceTransformerEmbedder.embed\<close>: the encoder of the sentence-transformers model
  when the package loads, and otherwise the first sixteen bytes of the text's SHA-256.
\<close>

definition fallback_embed :: "(string \<Rightarrow> nat list) \<Rightarrow> string \<Rightarrow> real list" where
  "fallback_embed sha256_digest s =
     (let digest = sha256_digest s
      in map (\<lambda>index. fdiv (float_of_nat (digest ! (index mod length digest))) 255) [0..<16])"

definition embed_text ::
  "(string \<Rightarrow> real list) option \<Rightarrow> (string \<Rightarrow> nat list) \<Rightarrow> string \<Rightarrow> real list" where
  "embed_text encoder sha256_digest s =
     (case encoder of Some encode \<Rightarrow> encode s | None \<Rightarrow> fallback_embed sha256_digest s)"

section \<open>The semantic cache over a store\<close>

record semantic_hit =
  sh_similarity :: real
  sh_payload :: payload
  sh_metadata :: "(string \<times> json) list"

record semantic_scope =
  sc_namespace :: string
  sc_tenant_id :: "string option"
  sc_workspace_id :: "string option"
  sc_model :: string

definition lookup_query ::
  "(string \<Rightarrow> real list) \<Rightarrow> real \<Rightarrow> timestamp \<Rightarrow> semantic_scope \<Rightarrow> string \<Rightarrow> real option \<Rightarrow>
   timestamp option \<Rightarrow> semantic_query" where
  "lookup_query emb cfg_threshold now sc t similarity_threshold created_before = \<lparr>
     q_namespace = sc_namespace sc, q_tenant_id = sc_tenant_id sc,
     q_workspace_id = sc_workspace_id sc, q_model = sc_model sc,
     q_model_family = derive_model_family (sc_model sc), q_vector = emb t,
     q_threshold = opt_else similarity_threshold cfg_threshold,
     q_now = now, q_created_before = created_before \<rparr>"

definition find_match ::
  "('s \<Rightarrow> timestamp \<Rightarrow> 's \<times> nat) \<Rightarrow> ('s \<Rightarrow> semantic_query \<Rightarrow> semantic_match option) \<Rightarrow>
   (string \<Rightarrow> real list) \<Rightarrow> real \<Rightarrow> 's \<Rightarrow> timestamp \<Rightarrow> semantic_scope \<Rightarrow> string \<Rightarrow> real option \<Rightarrow>
   timestamp option \<Rightarrow> 's \<times> semantic_hit option" where
  "find_match prune_expired find_best_match emb cfg_threshold s now sc t similarity_threshold created_before =
     (let s' = fst (prune_expired s now);
          m = find_best_match s'
                (lookup_query emb cfg_threshold now sc t similarity_threshold created_before)
      in (s', case m of
                None \<Rightarrow> None
              | Some m \<Rightarrow> Some \<lparr>sh_similarity = match_similarity m,
                               sh_payload = sr_response_payload (match_record m),
                               sh_metadata = sr_metadata (match_record m)\<rparr>))"

definition new_entry ::
  "(string \<Rightarrow> real list) \<Rightarrow> int \<Rightarrow> timestamp \<Rightarrow> semantic_scope \<Rightarrow> string \<Rightarrow> payload \<Rightarrow>
   (string \<times> json) list \<Rightarrow> semantic_record" where
  "new_entry emb ttl_seconds now sc t response_payload metadata = \<lparr>
     sr_namespace = sc_namespace sc, sr_tenant_id = sc_tenant_id sc,
     sr_workspace_id = sc_workspace_id sc, sr_model = sc_model sc,
     sr_model_family = derive_model_family (sc_model sc), sr_text = t,
     sr_vector = emb t, sr_response_payload = response_payload,
     sr_created_at = now, sr_expires_at = Some (now + 1000000 * ttl_seconds),
     sr_metadata = metadata \<rparr>"

definition add_entry ::
  "('s \<Rightarrow> semantic_record \<Rightarrow> 's) \<Rightarrow> (string \<Rightarrow> real list) \<Rightarrow> int \<Rightarrow> 's \<Rightarrow> timestamp \<Rightarrow>
   semantic_scope \<Rightarrow> string \<Rightarrow> payload \<Rightarrow> (string \<times> json) list \<Rightarrow> 's" where
  "add_entry add emb ttl_seconds s now sc t response_payload metadata =
     add s (new_entry emb ttl_seconds now sc t response_payload metadata)"

section \<open>The store interface\<close>

text \<open>What may be reused for a query: the scope, the expiry and the creation bound.\<close>

definition reusable :: "semantic_query \<Rightarrow> semantic_record \<Rightarrow> bool" where
  "reusable q r \<longleftrightarrow>
     sr_namespace r = q_namespace q \<and> sr_tenant_id r = q_tenant_id q \<and>
     sr_workspace_id r = q_workspace_id q \<and> sr_model_family r = q_model_family q \<and>
     \<not> is_expired r (q_now q) \<and>
     (case q_created_before q of None \<Rightarrow> True | Some b \<Rightarrow> sr_created_at r < b)"

locale semantic_store =
  fixes add_record :: "'s \<Rightarrow> semantic_record \<Rightarrow> 's"
    and find_best :: "'s \<Rightarrow> semantic_query \<Rightarrow> semantic_match option"
    and invalidate :: "'s \<Rightarrow> string \<Rightarrow> 's \<times> nat"
    and prune :: "'s \<Rightarrow> timestamp \<Rightarrow> 's \<times> nat"
    and rows :: "'s \<Rightarrow> semantic_record list"
    and column :: "real list \<Rightarrow> real list"
    and similarity :: "real list \<Rightarrow> real list \<Rightarrow> real"
    and accepted :: "semantic_query \<Rightarrow> semantic_record \<Rightarrow> bool"
  assumes rows_add: "rows (add_record s r) = rows s @ [r\<lparr>sr_vector := column (sr_vector r)\<rparr>]"
    and rows_invalidate: "rows (fst (invalidate s ns)) = filter (\<lambda>r. sr_namespace r \<noteq> ns) (rows s)"
    and count_invalidate: "snd (invalidate s ns) = length (filter (\<lambda>r. sr_namespace r = ns) (rows s))"
    and rows_prune: "rows (fst (prune s now)) = filter (\<lambda>r. \<not> is_expired r now) (rows s)"
    and count_prune: "snd (prune s now) = length (filter (\<lambda>r. is_expired r now) (rows s))"
    and find_sound: "find_best s q = Some m \<Longrightarrow>
      match_record m \<in> set (rows s) \<and> reusable q (match_record m) \<and> accepted q (match_record m) \<and>
      match_similarity m = similarity (q_vector q) (sr_vector (match_record m))"
    and find_best: "find_best s q = Some m \<Longrightarrow> r \<in> set (rows s) \<Longrightarrow> reusable q r \<Longrightarrow>
      similarity (q_vector q) (sr_vector r) \<le> match_similarity m"
    and find_complete: "r \<in> set (rows s) \<Longrightarrow> reusable q r \<Longrightarrow> accepted q r \<Longrightarrow> find_best s q \<noteq> None"
begin

lemma find_match_sound:
  assumes "find_match prune find_best emb thr s now sc t th cb = (s', Some h)"
  shows "\<exists>r \<in> set (rows s).
    sr_namespace r = sc_namespace sc \<and> sr_tenant_id r = sc_tenant_id sc \<and>
    sr_workspace_id r = sc_workspace_id sc \<and>
    sr_model_family r = derive_model_family (sc_model sc) \<and> \<not> is_expired r now \<and>
    accepted (lookup_query emb thr now sc t th cb) r \<and>
    sh_payload h = sr_response_payload r \<and> sh_metadata h = sr_metadata r \<and>
    sh_similarity h = similarity (emb t) (sr_vector r)"
proof -
  let ?q = "lookup_query emb thr now sc t th cb"
  from assms obtain m where m: "find_best (fst (prune s now)) ?q = Some m"
    and h: "h = \<lparr>sh_similarity = match_similarity m, sh_payload = sr_response_payload (match_record m),
      sh_metadata = sr_metadata (match_record m)\<rparr>"
    by (auto simp: find_match_def Let_def split: option.splits)
  from find_sound [OF m] show ?thesis
    unfolding h by (auto simp: rows_prune reusable_def lookup_query_def)
qed

lemma find_match_no_other_scope:
  assumes "\<forall>r \<in> set (rows s).
    sr_namespace r \<noteq> sc_namespace sc \<or> sr_tenant_id r \<noteq> sc_tenant_id sc \<or>
    sr_workspace_id r \<noteq> sc_workspace_id sc"
  shows "snd (find_match prune find_best emb thr s now sc t th cb) = None"
proof (cases "snd (find_match prune find_best emb thr s now sc t th cb)")
  case (Some h)
  then have "find_match prune find_best emb thr s now sc t th cb =
      (fst (find_match prune find_best emb thr s now sc t th cb), Some h)"
    by (metis prod.collapse)
  from find_match_sound [OF this] assms show ?thesis by blast
qed

lemma find_match_after_add:
  assumes "accepted (lookup_query emb thr now' sc t th None)
      ((new_entry emb ttl now sc t p md)\<lparr>sr_vector := column (emb t)\<rparr>)"
    and "now' < now + 1000000 * ttl"
  shows "\<exists>h. snd (find_match prune find_best emb thr (add_entry add_record emb ttl s now sc t p md)
      now' sc t th None) = Some h \<and> similarity (emb t) (column (emb t)) \<le> sh_similarity h"
proof -
  let ?q = "lookup_query emb thr now' sc t th None"
  let ?r = "(new_entry emb ttl now sc t p md)\<lparr>sr_vector := column (emb t)\<rparr>"
  let ?s = "fst (prune (add_entry add_record emb ttl s now sc t p md) now')"
  have v: "sr_vector (new_entry emb ttl now sc t p md) = emb t" by (simp add: new_entry_def)
  have mem: "?r \<in> set (rows ?s)"
    using assms(2) by (simp add: rows_prune add_entry_def rows_add is_expired_def new_entry_def)
  have re: "reusable ?q ?r"
    using assms(2) by (simp add: reusable_def lookup_query_def new_entry_def is_expired_def)
  from find_complete [OF mem re assms(1)] obtain m where m: "find_best ?s ?q = Some m" by auto
  have "similarity (emb t) (column (emb t)) \<le> match_similarity m"
    using find_best [OF m mem re] by (simp add: lookup_query_def)
  with m show ?thesis by (simp add: find_match_def Let_def)
qed

lemma find_match_after_invalidate:
  "snd (find_match prune find_best emb thr (fst (invalidate s (sc_namespace sc))) now sc t th cb) = None"
  by (rule find_match_no_other_scope) (auto simp: rows_invalidate)

lemma find_match_prunes:
  "rows (fst (find_match prune find_best emb thr s now sc t th cb)) =
   filter (\<lambda>r. \<not> is_expired r now) (rows s)"
  by (simp add: find_match_def Let_def rows_prune)

lemma invalidate_partition:
  "length (rows (fst (invalidate s ns))) + snd (invalidate s ns) = length (rows s)"
  using sum_length_filter_compl [of "\<lambda>r. sr_namespace r = ns" "rows s"]
  by (simp add: rows_invalidate count_invalidate)

end

section \<open>The stores implement the interface\<close>

lemma mem_eligible_reusable: "mem_eligible q r \<longleftrightarrow> reusable q r"
  by (auto simp: mem_eligible_def reusable_def split: option.splits)

lemma scan_bounds:
  "foldl (scan_step q) (b, s) rs = (b', s') \<Longrightarrow>
   s \<le> s' \<and> (\<forall>r \<in> set rs. reusable q r \<longrightarrow> cosine_similarity (q_vector q) (sr_vector r) \<le> s')"
proof (induction rs arbitrary: b s)
  case (Cons r rs)
  obtain b1 s1 where step: "scan_step q (b, s) r = (b1, s1)" by fastforce
  with Cons.prems have "foldl (scan_step q) (b1, s1) rs = (b', s')" by simp
  from Cons.IH [OF this] step show ?case
    by (auto simp: scan_step_def mem_eligible_reusable Let_def split: if_splits)
qed simp

lemma scan_result:
  "foldl (scan_step q) (b, s) rs = (b', s') \<Longrightarrow>
   (b' = b \<and> s' = s) \<or>
   (\<exists>r \<in> set rs. b' = Some r \<and> reusable q r \<and> s < s' \<and>
      s' = cosine_similarity (q_vector q) (sr_vector r))"
proof (induction rs arbitrary: b s)
  case (Cons r rs)
  obtain b1 s1 where step: "scan_step q (b, s) r = (b1, s1)" by fastforce
  with Cons.prems have "foldl (scan_step q) (b1, s1) rs = (b', s')" by simp
  from Cons.IH [OF this] step show ?case
    by (auto simp: scan_step_def mem_eligible_reusable Let_def split: if_splits)
qed simp

definition mem_accepted :: "semantic_query \<Rightarrow> semantic_record \<Rightarrow> bool" where
  "mem_accepted q r \<longleftrightarrow>
     - 1 < cosine_similarity (q_vector q) (sr_vector r) \<and>
     q_threshold q \<le> cosine_similarity (q_vector q) (sr_vector r)"

lemma mem_find_cases:
  obtains (none) "foldl (scan_step q) (None, - 1) rs = (None, - 1)" "mem_find_best_match rs q = None"
  | (low) r s where "foldl (scan_step q) (None, - 1) rs = (Some r, s)" "s < q_threshold q"
      "mem_find_best_match rs q = None"
  | (found) r where
      "foldl (scan_step q) (None, - 1) rs = (Some r, cosine_similarity (q_vector q) (sr_vector r))"
      "mem_find_best_match rs q =
        Some \<lparr>match_record = r, match_similarity = cosine_similarity (q_vector q) (sr_vector r)\<rparr>"
      "r \<in> set rs" "reusable q r" "mem_accepted q r"
proof -
  obtain b s where e: "foldl (scan_step q) (None, - 1) rs = (b, s)" by fastforce
  show thesis
  proof (cases b)
    case None
    with e scan_result [OF e] none show thesis by (simp add: mem_find_best_match_def)
  next
    case (Some r)
    with e scan_result [OF e] low [of r s] found [of r] show thesis
      by (cases "s < q_threshold q") (auto simp: mem_find_best_match_def mem_accepted_def)
  qed
qed

lemma filter_count: "length xs - length (filter (\<lambda>x. \<not> P x) xs) = length (filter P xs)"
  using sum_length_filter_compl [of P xs] by simp

interpretation mem_sem: semantic_store mem_add mem_find_best_match mem_invalidate_namespace
  mem_prune_expired "\<lambda>rs. rs" "\<lambda>v. v" cosine_similarity mem_accepted
proof
  fix rs r
  show "mem_add rs r = rs @ [r\<lparr>sr_vector := sr_vector r\<rparr>]" by (simp add: mem_add_def)
next
  fix rs ns
  show "fst (mem_invalidate_namespace rs ns) = filter (\<lambda>r. sr_namespace r \<noteq> ns) rs"
    by (simp add: mem_invalidate_namespace_def Let_def)
  show "snd (mem_invalidate_namespace rs ns) = length (filter (\<lambda>r. sr_namespace r = ns) rs)"
    using filter_count [of rs "\<lambda>r. sr_namespace r = ns"]
    by (simp add: mem_invalidate_namespace_def Let_def)
next
  fix rs now
  show "fst (mem_prune_expired rs now) = filter (\<lambda>r. \<not> is_expired r now) rs"
    by (simp add: mem_prune_expired_def Let_def)
  show "snd (mem_prune_expired rs now) = length (filter (\<lambda>r. is_expired r now) rs)"
    using filter_count [of rs "\<lambda>r. is_expired r now"]
    by (simp add: mem_prune_expired_def Let_def)
next
  fix rs q m
  assume "mem_find_best_match rs q = Some m"
  then show "match_record m \<in> set rs \<and> reusable q (match_record m) \<and>
      mem_accepted q (match_record m) \<and>
      match_similarity m = cosine_similarity (q_vector q) (sr_vector (match_record m))"
    by (cases rule: mem_find_cases [of q rs]) auto
next
  fix rs q m r
  assume "mem_find_best_match rs q = Some m" and "r \<in> set rs" and "reusable q r"
  then show "cosine_similarity (q_vector q) (sr_vector r) \<le> match_similarity m"
    by (cases rule: mem_find_cases [of q rs]) (auto dest: scan_bounds)
next
  fix r rs q
  assume r: "r \<in> set rs" "reusable q r" "mem_accepted q r"
  show "mem_find_best_match rs q \<noteq> None"
    by (cases rule: mem_find_cases [of q rs]) (use r in \<open>auto dest!: scan_bounds simp: mem_accepted_def\<close>)
qed

lemma first_by_eq_None [simp]: "first_by before xs = None \<longleftrightarrow> xs = []"
  by (induction xs) (auto split: option.splits)

lemma first_by_mem: "first_by before xs = Some y \<Longrightarrow> y \<in> set xs"
  by (induction xs arbitrary: y) (auto split: option.splits if_splits)

lemma first_by_least:
  assumes "\<And>a b. before a b \<Longrightarrow> f a \<le> (f b :: real)" and "\<And>a b. f a < f b \<Longrightarrow> before a b"
  shows "first_by before xs = Some y \<Longrightarrow> x \<in> set xs \<Longrightarrow> f y \<le> f x"
proof (induction xs arbitrary: x y)
  case (Cons z zs)
  show ?case
  proof (cases "first_by before zs")
    case None
    with Cons.prems show ?thesis by auto
  next
    case (Some w)
    with Cons.prems have y: "y = (if before w z then w else z)"
      by (simp split: if_splits)
    from Cons.prems have "f w \<le> f x \<or> x = z" using Cons.IH [OF Some] by auto
    moreover have "f y \<le> f w"
      using y assms(2) [of w z] by (cases "before w z") (auto simp: not_le [symmetric])
    moreover have "f y \<le> f z" using y assms(1) by auto
    ultimately show ?thesis by auto
  qed
qed simp

definition pg_similarity ::
  "(real list \<Rightarrow> real list \<Rightarrow> real) \<Rightarrow> real list \<Rightarrow> real list \<Rightarrow> real" where
  "pg_similarity cosdist left right = fsub 1 (cosdist right left)"

definition pg_accepted ::
  "(real list \<Rightarrow> real list \<Rightarrow> real) \<Rightarrow> semantic_query \<Rightarrow> semantic_record \<Rightarrow> bool" where
  "pg_accepted cosdist q r \<longleftrightarrow> cosdist (sr_vector r) (q_vector q) \<le> fsub 1 (q_threshold q)"

lemma pg_where_reusable: "pg_where cosdist q (fsub 1 (q_threshold q)) r \<longleftrightarrow> reusable q r \<and> pg_accepted cosdist q r"
  by (auto simp: pg_where_def reusable_def pg_accepted_def is_expired_def split: option.splits)

lemma pg_found:
  assumes "pg_find_best_match cosdist rs q = Some m"
  shows "match_record m \<in> set rs" "reusable q (match_record m)" "pg_accepted cosdist q (match_record m)"
    "match_similarity m = pg_similarity cosdist (q_vector q) (sr_vector (match_record m))"
    "r \<in> set rs \<Longrightarrow> reusable q r \<Longrightarrow> pg_accepted cosdist q r \<Longrightarrow>
     cosdist (sr_vector (match_record m)) (q_vector q) \<le> cosdist (sr_vector r) (q_vector q)"
proof -
  let ?xs = "filter (pg_where cosdist q (fsub 1 (q_threshold q))) rs"
  from assms obtain y where y: "first_by (pg_before cosdist q) ?xs = Some y"
    and m: "m = \<lparr>match_record = y, match_similarity = fsub 1 (cosdist (sr_vector y) (q_vector q))\<rparr>"
    by (auto simp: pg_find_best_match_def split: option.splits)
  from first_by_mem [OF y] show "match_record m \<in> set rs" "reusable q (match_record m)"
    "pg_accepted cosdist q (match_record m)"
    by (simp_all add: m pg_where_reusable)
  show "match_similarity m = pg_similarity cosdist (q_vector q) (sr_vector (match_record m))"
    by (simp add: m pg_similarity_def)
  assume "r \<in> set rs" "reusable q r" "pg_accepted cosdist q r"
  then have "r \<in> set ?xs" by (simp add: pg_where_reusable)
  moreover have "cosdist (sr_vector a) (q_vector q) \<le> cosdist (sr_vector b) (q_vector q)"
    if "pg_before cosdist q a b" for a b using that by (auto simp: pg_before_def)
  moreover have "pg_before cosdist q a b"
    if "cosdist (sr_vector a) (q_vector q) < cosdist (sr_vector b) (q_vector q)" for a b
    using that by (simp add: pg_before_def)
  ultimately show "cosdist (sr_vector (match_record m)) (q_vector q) \<le> cosdist (sr_vector r) (q_vector q)"
    using first_by_least [where before = "pg_before cosdist q"
        and f = "\<lambda>r. cosdist (sr_vector r) (q_vector q)", OF _ _ y] by (simp add: m)
qed

lemma pg_best:
  assumes m: "pg_find_best_match cosdist rs q = Some m" and r: "r \<in> set rs" "reusable q r"
  shows "pg_similarity cosdist (q_vector q) (sr_vector r) \<le> match_similarity m"
proof -
  have "cosdist (sr_vector (match_record m)) (q_vector q) \<le> cosdist (sr_vector r) (q_vector q)"
  proof (cases "pg_accepted cosdist q r")
    case True
    then show ?thesis using pg_found(5) [OF m] r by simp
  next
    case False
    then show ?thesis using pg_found(3) [OF m] by (simp add: pg_accepted_def)
  qed
  then show ?thesis
    unfolding pg_found(4) [OF m] pg_similarity_def fsub_def by (intro fl_mono) simp
qed

interpretation pg_sem: semantic_store "pg_add to_column" "pg_find_best_match cosdist"
  pg_invalidate_namespace pg_prune_expired "\<lambda>rs. rs" to_column "pg_similarity cosdist" "pg_accepted cosdist"
  for to_column cosdist
proof
  fix rs r
  show "pg_add to_column rs r = rs @ [r\<lparr>sr_vector := to_column (sr_vector r)\<rparr>]" by (simp add: pg_add_def)
next
  fix rs ns
  show "fst (pg_invalidate_namespace rs ns) = filter (\<lambda>r. sr_namespace r \<noteq> ns) rs"
    "snd (pg_invalidate_namespace rs ns) = length (filter (\<lambda>r. sr_namespace r = ns) rs)"
    by (simp_all add: pg_invalidate_namespace_def)
next
  fix rs now
  show "fst (pg_prune_expired rs now) = filter (\<lambda>r. \<not> is_expired r now) rs"
    "snd (pg_prune_expired rs now) = length (filter (\<lambda>r. is_expired r now) rs)"
    by (simp_all add: pg_prune_expired_def is_expired_def Let_def)
next
  fix rs q m
  assume m: "pg_find_best_match cosdist rs q = Some m"
  then show "match_record m \<in> set rs \<and> reusable q (match_record m) \<and>
      pg_accepted cosdist q (match_record m) \<and>
      match_similarity m = pg_similarity cosdist (q_vector q) (sr_vector (match_record m))"
    by (simp add: pg_found)
next
  fix rs q m r
  assume "pg_find_best_match cosdist rs q = Some m" and "r \<in> set rs" and "reusable q r"
  then show "pg_similarity cosdist (q_vector q) (sr_vector r) \<le> match_similarity m"
    by (rule pg_best)
next
  fix r rs q
  assume "r \<in> set rs" "reusable q r" "pg_accepted cosdist q r"
  then show "pg_find_best_match cosdist rs q \<noteq> None"
    by (auto simp: pg_find_best_match_def pg_where_reusable filter_empty_conv split: option.splits)
qed

end
