(* ===== verification/CacheProperties.thy ===== *)
theory CacheProperties
  imports SemanticCache
begin

text \<open>
  The properties of the caches: what an exact key identifies, what invalidating a namespace
  removes, and what a semantic lookup may answer with, on the in-memory and on the pgvector
  store.
\<close>

section \<open>Exact keys\<close>

definition demo_chat :: "string \<Rightarrow> chat_request" where
  "demo_chat s = \<lparr>req_model = ''gpt-4o'', req_messages = [\<lparr>msg_role = RUser, msg_content = CText s\<rparr>],
     req_temperature = Some 0, req_stream = False, req_metadata = []\<rparr>"

text \<open>
  C17. Two requests share an exact-cache key only when they come under the same namespace and
  agree on the messages, the model, the stream flag and the temperature; what else they carry
  (the metadata, the tenant) plays no part. Only the two texts that are hashed may not
  collide, and only the two temperatures need distinct representations.
\<close>

theorem exact_key_identifies_request:
  assumes "namespace_ok ns" "namespace_ok ns'"
    and "canonicalize_request repr_float r = Inr t" "canonicalize_request repr_float r' = Inr t'"
    and "inj_on repr_float (set_option (req_temperature r) \<union> set_option (req_temperature r'))"
    and "\<And>v. repr_float v \<noteq> ''null''"
    and "sha (ns @ '':chat.completions:'' @ t) = sha (ns @ '':chat.completions:'' @ t') \<Longrightarrow> t = t'"
  shows "build_exact_cache_key ns (compute_exact_hash sha ns ''chat.completions'' t) =
      build_exact_cache_key ns' (compute_exact_hash sha ns' ''chat.completions'' t') \<longleftrightarrow>
    ns = ns' \<and> req_messages r = req_messages r' \<and> req_model r = req_model r' \<and>
    req_stream r = req_stream r' \<and> req_temperature r = req_temperature r'"
proof -
  have h: "compute_exact_hash sha n ''chat.completions'' x = sha (n @ '':chat.completions:'' @ x)" for n x
    by (simp add: compute_exact_hash_def)
  have "t = t' \<longleftrightarrow> req_messages r = req_messages r' \<and> req_model r = req_model r' \<and>
      req_stream r = req_stream r' \<and> req_temperature r = req_temperature r'"
    using canonicalize_request_inject [OF assms(3) _ assms(5,6)]
      canonicalize_request_cong [of r r' repr_float] assms(3,4) by auto
  then show ?thesis
    unfolding build_key_inject [OF assms(1,2)] h using assms(7) by auto
qed

lemma exact_key_identifies_request_witness:
  "\<exists>t t'. canonicalize_request (\<lambda>_. ''0.0'') (demo_chat ''hi'') = Inr t \<and>
    canonicalize_request (\<lambda>_. ''0.0'') (demo_chat ''ho'') = Inr t' \<and>
    build_exact_cache_key ''default'' (compute_exact_hash (\<lambda>s. s) ''default'' ''chat.completions'' t) \<noteq>
    build_exact_cache_key ''default'' (compute_exact_hash (\<lambda>s. s) ''default'' ''chat.completions'' t')"
proof -
  obtain t t' where t: "canonicalize_request (\<lambda>_. ''0.0'') (demo_chat ''hi'') = Inr t"
    "canonicalize_request (\<lambda>_. ''0.0'') (demo_chat ''ho'') = Inr t'"
    by (simp add: canonicalize_request_def demo_chat_def dump_message_def del: append.simps)
  have "req_messages (demo_chat ''hi'') \<noteq> req_messages (demo_chat ''ho'')" by (simp add: demo_chat_def)
  with exact_key_identifies_request [OF namespace_ok_default namespace_ok_default t, of "\<lambda>s. s"] t
  show ?thesis by (simp add: demo_chat_def)
qed

section \<open>Invalidation\<close>

text \<open>
  C18. On the in-memory store, invalidating a namespace removes its entries and no other's,
  reports how many it removed, and finds nothing the second time.
\<close>

theorem invalidate_isolates_namespaces:
  assumes "mem_invar s" "namespace_ok ns" "namespace_ok other" "other \<noteq> ns"
    and "exact_invalidate_namespace mem_delete_prefix s ns = (s', n)"
  shows "exact_get mem_get_json s' (build_exact_cache_key ns h) = None \<and>
    exact_get mem_get_json s' (build_exact_cache_key other h) =
      exact_get mem_get_json s (build_exact_cache_key other h) \<and>
    n = card {k. prefix (ns @ '':'') k \<and> mem_get_json s k \<noteq> None} \<and>
    snd (exact_invalidate_namespace mem_delete_prefix s' ns) = 0"
  using mem.exact_invalidate_own [OF assms(1,2)] mem.exact_invalidate_other [OF assms(1-3)]
    mem.exact_invalidate_count [OF assms(1,2)] mem.exact_invalidate_idem [OF assms(1,2)] assms(4,5)
  by (metis fst_conv snd_conv)

lemma invalidate_isolates_namespaces_witness:
  "exact_get mem_get_json (fst (exact_invalidate_namespace mem_delete_prefix
      [(''a:1'', [(''x'', JNull)]), (''b:1'', [(''x'', JNull)])] ''a'')) ''b:1'' =
    Some \<lparr>hit_key = ''b:1'', hit_payload = [(''x'', JNull)]\<rparr>"
proof -
  let ?s = "[(''a:1'', [(''x'', JNull)]), (''b:1'', [(''x'', JNull)])]"
  have "mem_invar ?s" "namespace_ok ''a''" "namespace_ok ''b''" "''b'' \<noteq> ''a''"
    by (simp_all add: mem_invar_def namespace_ok_def valid_namespace_character_def is_lower_alpha_def
        code_point_def)
  from invalidate_isolates_namespaces [OF this surjective_pairing, of "''1''"] show ?thesis
    by (simp add: build_exact_cache_key_def exact_get_def mem_get_json_def)
qed

section \<open>Semantic lookups\<close>

text \<open>
  C19. The in-memory scan implements its specification: it answers with a record of the
  query's scope that has not expired and reaches the threshold, no reusable record is more
  similar, and it answers nothing only when no reusable record qualifies.
\<close>

theorem memory_scan_finds_best:
  "case mem_find_best_match rs q of
     None \<Rightarrow> list_all (\<lambda>r. \<not> (reusable q r \<and> mem_accepted q r)) rs
   | Some m \<Rightarrow> match_record m \<in> set rs \<and> reusable q (match_record m) \<and> mem_accepted q (match_record m) \<and>
       match_similarity m = cosine_similarity (q_vector q) (sr_vector (match_record m)) \<and>
       list_all (\<lambda>r. cosine_similarity (q_vector q) (sr_vector r) \<le> match_similarity m)
         (filter (reusable q) rs)"
proof (cases "mem_find_best_match rs q")
  case None
  have "\<not> (reusable q r \<and> mem_accepted q r)" if "r \<in> set rs" for r
    using mem_sem.find_complete [OF that, of q] None by blast
  then show ?thesis using None by (simp add: list_all_iff)
next
  case (Some m)
  then show ?thesis
    using mem_sem.find_sound [OF Some] mem_sem.find_best [OF Some] by (auto simp: list_all_iff)
qed

text \<open>
  C20. A semantic hit from pgvector stems from a row of the caller's namespace, tenant,
  workspace and model family that has not expired, within the distance the threshold allows,
  and no row that could be reused is nearer to the text.
\<close>

theorem pgvector_hit_in_scope:
  assumes "find_match pg_prune_expired (pg_find_best_match cosdist) emb thr s now sc t th cb = (s', Some h)"
  shows "\<exists>r \<in> set s. sr_namespace r = sc_namespace sc \<and> sr_tenant_id r = sc_tenant_id sc \<and>
    sr_workspace_id r = sc_workspace_id sc \<and> sr_model_family r = derive_model_family (sc_model sc) \<and>
    \<not> is_expired r now \<and> cosdist (sr_vector r) (emb t) \<le> fsub 1 (opt_else th thr) \<and>
    (\<forall>r' \<in> set s. reusable (lookup_query emb thr now sc t th cb) r' \<longrightarrow>
       cosdist (sr_vector r) (emb t) \<le> cosdist (sr_vector r') (emb t)) \<and>
    sh_payload h = sr_response_payload r \<and> sh_metadata h = sr_metadata r \<and>
    sh_similarity h = fsub 1 (cosdist (sr_vector r) (emb t))"
proof -
  let ?q = "lookup_query emb thr now sc t th cb"
  obtain m where m: "pg_find_best_match cosdist (fst (pg_prune_expired s now)) ?q = Some m"
    and h: "h = \<lparr>sh_similarity = match_similarity m, sh_payload = sr_response_payload (match_record m),
      sh_metadata = sr_metadata (match_record m)\<rparr>"
    using assms by (auto simp: find_match_def Let_def split: option.splits)
  note f = pg_found [OF m]
  have q: "q_vector ?q = emb t" "q_threshold ?q = opt_else th thr" "q_namespace ?q = sc_namespace sc"
    "q_tenant_id ?q = sc_tenant_id sc" "q_workspace_id ?q = sc_workspace_id sc" by (simp_all add: lookup_query_def)
  have kept: "set (fst (pg_prune_expired s now)) = {r \<in> set s. \<not> is_expired r now}"
    by (simp add: pg_sem.rows_prune)
  have "cosdist (sr_vector (match_record m)) (emb t) \<le> cosdist (sr_vector r') (emb t)"
    if "r' \<in> set s" "reusable ?q r'" for r'
  proof -
    have "r' \<in> set (fst (pg_prune_expired s now))"
      using that by (simp add: kept reusable_def lookup_query_def)
    then show ?thesis
      using f(3) f(5) [of r'] that(2) by (cases "pg_accepted cosdist ?q r'") (auto simp: pg_accepted_def q)
  qed
  then show ?thesis
    using f(1-4) by (intro bexI [of _ "match_record m"])
      (auto simp: h kept pg_accepted_def pg_similarity_def reusable_def lookup_query_def)
qed

definition demo_scope :: semantic_scope where
  "demo_scope = \<lparr>sc_namespace = ''n1'', sc_tenant_id = Some ''t1'', sc_workspace_id = None, sc_model = ''gpt-4o''\<rparr>"

lemma pgvector_hit_in_scope_witness:
  "\<exists>r \<in> set [new_entry (\<lambda>_. [1]) 60 0 demo_scope ''hi'' [(''x'', JNull)] []].
     sr_tenant_id r = Some ''t1'' \<and> sr_response_payload r = [(''x'', JNull)]"
proof -
  let ?r = "new_entry (\<lambda>_. [1]) 60 0 demo_scope ''hi'' [(''x'', JNull)] []"
  have "fsub 1 0 = 1" by (simp add: fsub_def)
  then have "find_match pg_prune_expired (pg_find_best_match (\<lambda>_ _. 0)) (\<lambda>_. [1]) 0 [?r] 5 demo_scope
      ''hi'' None None = ([?r], Some \<lparr>sh_similarity = fsub 1 0, sh_payload = [(''x'', JNull)], sh_metadata = []\<rparr>)"
    by (simp add: find_match_def pg_prune_expired_def pg_find_best_match_def pg_where_def new_entry_def
        lookup_query_def demo_scope_def Let_def)
  from pgvector_hit_in_scope [OF this] show ?thesis by (simp add: demo_scope_def)
qed

text \<open>
  What the proxy adds is found again: until the entry expires, a lookup for the same text
  in the same scope answers, at least as similar as the entry itself, whatever else the
  in-memory store holds.
\<close>

theorem added_entry_is_found:
  assumes "mem_accepted (lookup_query emb thr now' sc t None None) (new_entry emb ttl now sc t p md)"
    and "now' < now + 1000000 * ttl"
  shows "\<exists>h. snd (find_match mem_prune_expired mem_find_best_match emb thr
      (add_entry mem_add emb ttl s now sc t p md) now' sc t None None) = Some h \<and>
    cosine_similarity (emb t) (emb t) \<le> sh_similarity h"
proof -
  have "(new_entry emb ttl now sc t p md)\<lparr>sr_vector := emb t\<rparr> = new_entry emb ttl now sc t p md"
    by (simp add: new_entry_def)
  with assms show ?thesis by (intro mem_sem.find_match_after_add) simp_all
qed

lemma added_entry_is_found_witness:
  "\<exists>h. snd (find_match mem_prune_expired mem_find_best_match (\<lambda>_. [1]) 1
      (add_entry mem_add (\<lambda>_. [1]) 60 [] 0 demo_scope ''hi'' [(''x'', JNull)] []) 5 demo_scope ''hi'' None None) = Some h"
proof -
  have "cosine_similarity [1] [1] = 1"
    by (simp add: cosine_similarity_def fmul_def fadd_def fsqrt_def fdiv_def Let_def)
  then have "mem_accepted (lookup_query (\<lambda>_. [1]) 1 5 demo_scope ''hi'' None None)
      (new_entry (\<lambda>_. [1]) 60 0 demo_scope ''hi'' [(''x'', JNull)] [])"
    by (simp add: mem_accepted_def lookup_query_def new_entry_def)
  from added_entry_is_found [OF this] show ?thesis by auto
qed

end
