(* ===== verification/PolicyState.thy ===== *)
theory PolicyState
  imports Domain
begin

text \<open>
  The tenant-independent policy overrides: the two stores of \<open>app/core/policy_state.py\<close> and
  the hardening presets of \<open>app/core/semantic_policy_presets.py\<close>. Overrides are a dictionary
  whose values are scalars; \<open>None\<close> is \<open>JNull\<close>. The locale \<open>policy_store\<close> states
  what both stores promise to their callers.
\<close>

definition DEFAULT_POLICY_STATE :: dict where
  "DEFAULT_POLICY_STATE =
     [(''dlp_enabled'', JNull), (''dlp_scrub_level'', JNull), (''semantic_enabled'', JNull),
      (''semantic_hardening_preset'', JNull), (''semantic_threshold'', JNull),
      (''semantic_shadow_threshold'', JNull), (''semantic_max_temperature'', JNull)]"

definition PRODUCTION_POLICY_DEFAULTS :: dict where
  "PRODUCTION_POLICY_DEFAULTS =
     [(''dlp_enabled'', JBool True), (''dlp_scrub_level'', JStr ''technical''),
      (''semantic_enabled'', JBool True), (''semantic_hardening_preset'', JStr ''conservative''),
      (''semantic_threshold'', JFloat (fl 0.9)), (''semantic_shadow_threshold'', JFloat (fl 0.8)),
      (''semantic_max_temperature'', JFloat (fl 0.2))]"

text \<open>\<open>float(x)\<close> on a JSON value; \<open>parse_float\<close> is the parser of float literals.\<close>

definition py_float :: "(string \<Rightarrow> real option) \<Rightarrow> json \<Rightarrow> real result" where
  "py_float parse_float v = (case v of
     JBool b \<Rightarrow> Inr (of_bool b)
   | JInt i \<Rightarrow> Inr (fl (of_int i))
   | JFloat x \<Rightarrow> Inr x
   | JStr s \<Rightarrow> (case parse_float s of
       None \<Rightarrow> Inl (ValueErr ''could not convert string to float'') | Some x \<Rightarrow> Inr x)
   | _ \<Rightarrow> Inl (TypeErr ''float() argument must be a string or a real number''))"

section \<open>The in-memory store\<close>

definition apply_updates :: "dict \<Rightarrow> dict \<Rightarrow> dict" where
  "apply_updates st updates =
     foldl (\<lambda>st (key, v). if has_key st key \<and> v \<noteq> JNull then AList.update key v st else st) st updates"

definition mem_get_overrides :: "dict \<Rightarrow> dict" where
  "mem_get_overrides st = st"

definition mem_update_overrides :: "dict \<Rightarrow> dict \<Rightarrow> (dict \<times> dict) result" where
  "mem_update_overrides st updates = (let st' = apply_updates st updates in Inr (st', st'))"

section \<open>The PostgreSQL store\<close>

record override_row =
  row_overrides :: json
  row_semantic_shadow_threshold :: real

definition decode_json_object :: "json \<Rightarrow> dict" where
  "decode_json_object v = (case v of JObj d \<Rightarrow> d | _ \<Rightarrow> [])"

definition pg_get_overrides :: "override_row option \<Rightarrow> dict" where
  "pg_get_overrides row = (case row of
     None \<Rightarrow> DEFAULT_POLICY_STATE
   | Some r \<Rightarrow>
       dict_merge DEFAULT_POLICY_STATE
         (AList.update ''semantic_shadow_threshold'' (JFloat (row_semantic_shadow_threshold r))
            (decode_json_object (row_overrides r))))"

text \<open>The \<open>INSERT ... ON CONFLICT DO UPDATE\<close> of the one row named \<open>default\<close>.\<close>

definition pg_write_row ::
  "(string \<Rightarrow> real option) \<Rightarrow> dict \<Rightarrow> (override_row option \<times> dict) result" where
  "pg_write_row parse_float current =
     rbind (if has_key current ''semantic_shadow_threshold''
            then py_float parse_float (dict_get current ''semantic_shadow_threshold'')
            else py_float parse_float (dict_get PRODUCTION_POLICY_DEFAULTS ''semantic_shadow_threshold''))
       (\<lambda>t. Inr (Some \<lparr>row_overrides = JObj current, row_semantic_shadow_threshold = t\<rparr>, current))"

definition pg_update_overrides ::
  "(string \<Rightarrow> real option) \<Rightarrow> override_row option \<Rightarrow> dict \<Rightarrow> (override_row option \<times> dict) result" where
  "pg_update_overrides parse_float row updates =
     pg_write_row parse_float (apply_updates (pg_get_overrides row) updates)"

definition fill_defaults :: "bool \<Rightarrow> dict \<Rightarrow> dict" where
  "fill_defaults force_production_defaults current =
     foldl (\<lambda>merged (key, v).
              if force_production_defaults \<or> dict_get merged key = JNull
              then AList.update key v merged else merged)
       current PRODUCTION_POLICY_DEFAULTS"

definition ensure_default_policy_row ::
  "(string \<Rightarrow> real option) \<Rightarrow> bool \<Rightarrow> override_row option \<Rightarrow> (override_row option \<times> dict) result" where
  "ensure_default_policy_row parse_float force_production_defaults row =
     pg_write_row parse_float (fill_defaults force_production_defaults (pg_get_overrides row))"

section \<open>Hardening presets\<close>

definition SEMANTIC_HARDENING_PRESETS :: "(string \<times> dict) list" where
  "SEMANTIC_HARDENING_PRESETS =
     [(''conservative'',
       [(''semantic_enabled'', JBool True), (''semantic_threshold'', JFloat (fl 0.9)),
        (''semantic_shadow_threshold'', JFloat (fl 0.8)), (''semantic_max_temperature'', JFloat (fl 0.2))]),
      (''balanced'',
       [(''semantic_enabled'', JBool True), (''semantic_threshold'', JFloat (fl 0.86)),
        (''semantic_shadow_threshold'', JFloat (fl 0.78)), (''semantic_max_temperature'', JFloat (fl 0.2))]),
      (''aggressive'',
       [(''semantic_enabled'', JBool True), (''semantic_threshold'', JFloat (fl 0.8)),
        (''semantic_shadow_threshold'', JFloat (fl 0.72)), (''semantic_max_temperature'', JFloat (fl 0.4))])]"

definition preset_names :: "string list" where
  "preset_names = map fst SEMANTIC_HARDENING_PRESETS"

text \<open>Every key of \<open>defaults\<close> that is missing or \<open>None\<close> is filled in.\<close>

definition fill_missing :: "dict \<Rightarrow> dict \<Rightarrow> dict" where
  "fill_missing merged preset_settings =
     foldl (\<lambda>merged (key, v). if dict_get merged key = JNull then AList.update key v merged else merged)
       merged preset_settings"

definition apply_semantic_hardening_preset :: "dict \<Rightarrow> dict result" where
  "apply_semantic_hardening_preset updates =
     (case dict_get updates ''semantic_hardening_preset'' of
        JNull \<Rightarrow> Inr updates
      | JStr preset \<Rightarrow>
          (case map_of SEMANTIC_HARDENING_PRESETS preset of
             None \<Rightarrow> Inl (ValueErr (''Unknown semantic hardening preset: '' @ preset))
           | Some preset_settings \<Rightarrow> Inr (fill_missing updates preset_settings))
      | _ \<Rightarrow> Inl (ValueErr ''Unknown semantic hardening preset: ''))"

fun is_float :: "json \<Rightarrow> bool" where
  "is_float (JFloat _) = True"
| "is_float _ = False"

text \<open>\<open>==\<close> on scalars: booleans compare as the integers 0 and 1.\<close>

definition py_eq :: "json \<Rightarrow> json \<Rightarrow> bool" where
  "py_eq a b =
     (let num = (\<lambda>v. case v of JBool x \<Rightarrow> Some (of_bool x) | JInt i \<Rightarrow> Some i | _ \<Rightarrow> None) in
      case (num a, num b) of (Some x, Some y) \<Rightarrow> x = (y :: int) | _ \<Rightarrow> a = b)"

definition same_value :: "(string \<Rightarrow> real option) \<Rightarrow> json \<Rightarrow> json \<Rightarrow> bool" where
  "same_value parse_float left right =
     (if is_float left \<or> is_float right
      then (case (py_float parse_float left, py_float parse_float right) of
              (Inr x, Inr y) \<Rightarrow> \<bar>fsub x y\<bar> < fl 0.000001
            | _ \<Rightarrow> False)
      else py_eq left right)"

definition infer_semantic_hardening_preset :: "(string \<Rightarrow> real option) \<Rightarrow> dict \<Rightarrow> string" where
  "infer_semantic_hardening_preset parse_float policy =
     (let by_settings =
        (case find (\<lambda>(name, preset_settings).
               list_all (\<lambda>(key, v). same_value parse_float (dict_get policy key) v) preset_settings)
             SEMANTIC_HARDENING_PRESETS of
           Some (name, _) \<Rightarrow> name
         | None \<Rightarrow> ''custom'')
      in case dict_get policy ''semantic_hardening_preset'' of
           JStr name \<Rightarrow> if name \<in> set preset_names then name else by_settings
         | _ \<Rightarrow> by_settings)"

section \<open>Facts about updates\<close>

definition policy_keys :: "string set" where
  "policy_keys = fst ` set DEFAULT_POLICY_STATE"

lemma production_keys: "fst ` set PRODUCTION_POLICY_DEFAULTS = policy_keys"
  by (simp add: policy_keys_def PRODUCTION_POLICY_DEFAULTS_def DEFAULT_POLICY_STATE_def)

lemma apply_updates_keys: "has_key (apply_updates st updates) k = has_key st k"
  unfolding apply_updates_def
  by (induction updates arbitrary: st) (auto simp: has_key_update split: prod.splits)

lemma apply_updates_distinct: "distinct (map fst st) \<Longrightarrow> distinct (map fst (apply_updates st updates))"
  unfolding apply_updates_def
  by (induction updates arbitrary: st) (auto simp: distinct_update split: prod.splits)

lemma apply_updates_get:
  "distinct (map fst updates) \<Longrightarrow>
   dict_get (apply_updates st updates) k =
     (if has_key st k \<and> dict_get updates k \<noteq> JNull then dict_get updates k else dict_get st k)"
  unfolding apply_updates_def
proof (induction updates arbitrary: st)
  case Nil
  then show ?case by (simp add: dict_get_def)
next
  case (Cons p updates)
  obtain k' v where p: "p = (k', v)" by fastforce
  from Cons.prems p have k': "dict_get updates k' = JNull"
    by (simp add: dict_get_def map_of_eq_None_iff [THEN iffD2])
  from Cons k' show ?case
    by (auto simp: p dict_get_update has_key_update) (auto simp: dict_get_def)
qed

lemma apply_updates_same_key:
  "has_key st k \<Longrightarrow> dict_get st k \<noteq> JNull \<Longrightarrow> dict_get (apply_updates st updates) k \<noteq> JNull"
  unfolding apply_updates_def
  by (induction updates arbitrary: st) (auto simp: has_key_update dict_get_update split: prod.splits)

lemma fold_fill:
  assumes "distinct (map fst ds)"
  shows "dict_get (foldl (\<lambda>m (key, v). if b \<or> dict_get m key = JNull then AList.update key v m else m) st ds) k =
    (if has_key ds k \<and> (b \<or> dict_get st k = JNull) then dict_get ds k else dict_get st k)"
  using assms
proof (induction ds arbitrary: st)
  case Nil
  then show ?case by (simp add: has_key_def)
next
  case (Cons p ds)
  obtain k' v where p: "p = (k', v)" by fastforce
  from Cons.prems p have k': "\<not> has_key ds k'" by (simp add: has_key_def)
  from Cons k' show ?case
    by (auto simp: p dict_get_update has_key_def) (auto simp: dict_get_def)
qed

lemma fill_defaults_get:
  "dict_get (fill_defaults b st) k =
     (if k \<in> policy_keys \<and> (b \<or> dict_get st k = JNull)
      then dict_get PRODUCTION_POLICY_DEFAULTS k else dict_get st k)"
proof -
  have "distinct (map fst PRODUCTION_POLICY_DEFAULTS)" by (simp add: PRODUCTION_POLICY_DEFAULTS_def)
  from fold_fill [OF this, of b st k] show ?thesis
    by (simp add: fill_defaults_def has_key_def production_keys)
qed

lemma fill_missing_get:
  "distinct (map fst ds) \<Longrightarrow> dict_get (fill_missing st ds) k =
     (if has_key ds k \<and> dict_get st k = JNull then dict_get ds k else dict_get st k)"
  using fold_fill [of ds False st k] by (simp add: fill_missing_def)

lemma production_not_null: "k \<in> policy_keys \<Longrightarrow> dict_get PRODUCTION_POLICY_DEFAULTS k \<noteq> JNull"
  by (auto simp: policy_keys_def PRODUCTION_POLICY_DEFAULTS_def DEFAULT_POLICY_STATE_def dict_get_def)

section \<open>The store interface\<close>

definition typed_updates :: "dict \<Rightarrow> bool" where
  "typed_updates u \<longleftrightarrow> distinct (map fst u) \<and>
     (case dict_get u ''semantic_shadow_threshold'' of JNull \<Rightarrow> True | JFloat _ \<Rightarrow> True | _ \<Rightarrow> False)"

text \<open>A chain of updates, as successive admin requests make it.\<close>

fun update_all :: "('s \<Rightarrow> dict \<Rightarrow> ('s \<times> dict) result) \<Rightarrow> 's \<Rightarrow> dict list \<Rightarrow> 's result" where
  "update_all update s [] = Inr s"
| "update_all update s (u # us) = rbind (update s u) (\<lambda>(s', _). update_all update s' us)"

locale policy_store =
  fixes get_overrides :: "'s \<Rightarrow> dict"
    and update_overrides :: "'s \<Rightarrow> dict \<Rightarrow> ('s \<times> dict) result"
    and ready :: "'s \<Rightarrow> bool"
  assumes ready_keys: "ready s \<Longrightarrow> k \<in> policy_keys \<Longrightarrow> has_key (get_overrides s) k"
    and update_ok: "ready s \<Longrightarrow> typed_updates u \<Longrightarrow> \<exists>s' d. update_overrides s u = Inr (s', d)"
    and update_ready: "ready s \<Longrightarrow> typed_updates u \<Longrightarrow> update_overrides s u = Inr (s', d) \<Longrightarrow> ready s'"
    and update_returns: "ready s \<Longrightarrow> typed_updates u \<Longrightarrow> update_overrides s u = Inr (s', d) \<Longrightarrow>
      dict_get d k = dict_get (get_overrides s') k"
    and update_keys: "ready s \<Longrightarrow> typed_updates u \<Longrightarrow> update_overrides s u = Inr (s', d) \<Longrightarrow>
      has_key (get_overrides s') k = has_key (get_overrides s) k"
    and get_update: "ready s \<Longrightarrow> typed_updates u \<Longrightarrow> update_overrides s u = Inr (s', d) \<Longrightarrow>
      dict_get (get_overrides s') k =
        (if has_key (get_overrides s) k \<and> dict_get u k \<noteq> JNull then dict_get u k
         else dict_get (get_overrides s) k)"
begin

lemma update_all_ok:
  "ready s \<Longrightarrow> list_all typed_updates us \<Longrightarrow> \<exists>s'. update_all update_overrides s us = Inr s' \<and> ready s'"
proof (induction us arbitrary: s)
  case (Cons u us)
  then obtain s' d where u: "update_overrides s u = Inr (s', d)" using update_ok by fastforce
  with Cons.prems have "ready s'" using update_ready by fastforce
  from Cons.IH [OF this] Cons.prems u show ?case by simp
qed simp

lemma update_all_last:
  assumes "ready s" "list_all typed_updates us" "update_all update_overrides s us = Inr s'" "k \<in> policy_keys"
  shows "dict_get (get_overrides s') k =
    (case find (\<lambda>u. dict_get u k \<noteq> JNull) (rev us) of
       None \<Rightarrow> dict_get (get_overrides s) k | Some u \<Rightarrow> dict_get u k)"
  using assms
proof (induction us arbitrary: s)
  case (Cons u us)
  obtain t d where u: "update_overrides s u = Inr (t, d)"
    using update_ok [of s u] Cons.prems by auto
  then have rest: "update_all update_overrides t us = Inr s'" using Cons.prems(3) by simp
  have t: "ready t" using update_ready Cons.prems u by fastforce
  have g: "dict_get (get_overrides t) k =
      (if dict_get u k \<noteq> JNull then dict_get u k else dict_get (get_overrides s) k)"
    using get_update [OF _ _ u, of k] ready_keys Cons.prems by simp
  from Cons.IH [OF t _ rest Cons.prems(4)] Cons.prems g show ?case
    by (auto simp: find_append split: option.splits)
qed simp

lemma update_never_clears:
  assumes "ready s" "typed_updates u" "update_overrides s u = Inr (s', d)"
    and "dict_get (get_overrides s) k \<noteq> JNull"
  shows "dict_get (get_overrides s') k \<noteq> JNull"
  using get_update [OF assms(1-3), of k] assms(4) by simp

end

section \<open>Both stores implement it\<close>

definition mem_ready :: "dict \<Rightarrow> bool" where
  "mem_ready st \<longleftrightarrow> distinct (map fst st) \<and> (\<forall>k \<in> policy_keys. has_key st k)"

definition pg_ready :: "override_row option \<Rightarrow> bool" where
  "pg_ready row = (case row of
     None \<Rightarrow> False | Some r \<Rightarrow> distinct (map fst (decode_json_object (row_overrides r))))"

lemma default_keys: "has_key DEFAULT_POLICY_STATE k \<longleftrightarrow> k \<in> policy_keys"
  by (auto simp: has_key_def policy_keys_def)

lemma default_distinct: "distinct (map fst DEFAULT_POLICY_STATE)"
  by (simp add: DEFAULT_POLICY_STATE_def)

lemma default_get: "dict_get DEFAULT_POLICY_STATE k = JNull"
  by (simp add: DEFAULT_POLICY_STATE_def dict_get_def)

lemma shadow_key: "''semantic_shadow_threshold'' \<in> policy_keys"
  by (simp add: policy_keys_def DEFAULT_POLICY_STATE_def)

lemma pg_get_get:
  assumes "distinct (map fst (decode_json_object (row_overrides r)))"
  shows "dict_get (pg_get_overrides (Some r)) k =
    (if k = ''semantic_shadow_threshold'' then JFloat (row_semantic_shadow_threshold r)
     else dict_get (decode_json_object (row_overrides r)) k)"
  using assms default_get [of k]
  by (simp add: pg_get_overrides_def dict_get_def map_of_dict_merge distinct_update map_of_update
      split: option.splits)

lemma pg_get_keys:
  assumes "distinct (map fst (decode_json_object (row_overrides r)))"
  shows "has_key (pg_get_overrides (Some r)) k \<longleftrightarrow>
    k \<in> policy_keys \<or> has_key (decode_json_object (row_overrides r)) k"
  using assms shadow_key
  by (auto simp: pg_get_overrides_def has_key_dict_merge distinct_update has_key_update default_keys)

lemma pg_get_distinct: "distinct (map fst (pg_get_overrides row))"
  by (auto simp: pg_get_overrides_def default_distinct distinct_dict_merge split: option.splits)

lemma pg_write_row_float:
  assumes "has_key d ''semantic_shadow_threshold''"
    and "dict_get d ''semantic_shadow_threshold'' = JFloat t"
  shows "pg_write_row parse_float d =
    Inr (Some \<lparr>row_overrides = JObj d, row_semantic_shadow_threshold = t\<rparr>, d)"
  using assms by (simp add: pg_write_row_def py_float_def)

lemma pg_update_result:
  assumes "pg_ready row" and "typed_updates u"
  shows "\<exists>t. pg_update_overrides parse_float row u =
      Inr (Some \<lparr>row_overrides = JObj (apply_updates (pg_get_overrides row) u),
                 row_semantic_shadow_threshold = t\<rparr>, apply_updates (pg_get_overrides row) u) \<and>
    dict_get (apply_updates (pg_get_overrides row) u) ''semantic_shadow_threshold'' = JFloat t"
proof -
  let ?d = "apply_updates (pg_get_overrides row) u"
  obtain r where r: "row = Some r" "distinct (map fst (decode_json_object (row_overrides r)))"
    using assms(1) by (auto simp: pg_ready_def split: option.splits)
  have u: "distinct (map fst u)" using assms(2) by (simp add: typed_updates_def)
  obtain t where t: "dict_get ?d ''semantic_shadow_threshold'' = JFloat t"
    using assms(2) by (auto simp: apply_updates_get [OF u] r pg_get_get [OF r(2)]
        pg_get_keys [OF r(2)] shadow_key typed_updates_def split: json.splits)
  moreover have "has_key ?d ''semantic_shadow_threshold''"
    by (simp add: apply_updates_keys r pg_get_keys [OF r(2)] shadow_key)
  ultimately show ?thesis
    using pg_write_row_float [of ?d t parse_float] by (simp add: pg_update_overrides_def)
qed

interpretation mem_pol: policy_store mem_get_overrides mem_update_overrides mem_ready
proof
  fix s u s' d k
  assume r: "mem_ready s" and u: "typed_updates u"
  then have du: "distinct (map fst u)" by (simp add: typed_updates_def)
  show "\<exists>s' d. mem_update_overrides s u = Inr (s', d)"
    by (simp add: mem_update_overrides_def Let_def)
  assume e: "mem_update_overrides s u = Inr (s', d)"
  then have s': "s' = apply_updates s u" "d = s'" by (auto simp: mem_update_overrides_def Let_def)
  show "mem_ready s'"
    using r by (simp add: mem_ready_def s' apply_updates_keys apply_updates_distinct)
  show "dict_get d k = dict_get (mem_get_overrides s') k" by (simp add: s' mem_get_overrides_def)
  show "has_key (mem_get_overrides s') k = has_key (mem_get_overrides s) k"
    by (simp add: s' mem_get_overrides_def apply_updates_keys)
  show "dict_get (mem_get_overrides s') k =
      (if has_key (mem_get_overrides s) k \<and> dict_get u k \<noteq> JNull then dict_get u k
       else dict_get (mem_get_overrides s) k)"
    by (simp add: s' mem_get_overrides_def apply_updates_get [OF du])
qed (simp add: mem_ready_def mem_get_overrides_def)

interpretation pg_pol: policy_store pg_get_overrides "pg_update_overrides parse_float" pg_ready
  for parse_float
proof
  fix s k assume "pg_ready s" "k \<in> policy_keys"
  then show "has_key (pg_get_overrides s) k"
    by (auto simp: pg_ready_def pg_get_keys split: option.splits)
next
  fix s u s' d k
  assume r: "pg_ready s" and u: "typed_updates u"
  let ?d = "apply_updates (pg_get_overrides s) u"
  obtain t where t: "pg_update_overrides parse_float s u =
      Inr (Some \<lparr>row_overrides = JObj ?d, row_semantic_shadow_threshold = t\<rparr>, ?d)"
    "dict_get ?d ''semantic_shadow_threshold'' = JFloat t"
    using pg_update_result [OF r u] by blast
  then show "\<exists>s' d. pg_update_overrides parse_float s u = Inr (s', d)" by blast
  assume e: "pg_update_overrides parse_float s u = Inr (s', d)"
  let ?r = "\<lparr>row_overrides = JObj ?d, row_semantic_shadow_threshold = t\<rparr>"
  from e t(1) have s': "s' = Some ?r" "d = ?d" by auto
  have dd: "distinct (map fst (decode_json_object (row_overrides ?r)))"
    by (simp add: decode_json_object_def apply_updates_distinct pg_get_distinct)
  then show "pg_ready s'" by (simp add: s' pg_ready_def)
  have g: "dict_get (pg_get_overrides s') k' = dict_get ?d k'" for k'
    using t(2) by (simp add: s' pg_get_get [OF dd] decode_json_object_def)
  then show "dict_get d k = dict_get (pg_get_overrides s') k" by (simp add: s')
  have "has_key ?d k' = has_key (pg_get_overrides s) k'" for k' by (rule apply_updates_keys)
  moreover have "has_key (pg_get_overrides s) k'" if "k' \<in> policy_keys" for k'
    using r that by (auto simp: pg_ready_def pg_get_keys split: option.splits)
  ultimately show "has_key (pg_get_overrides s') k = has_key (pg_get_overrides s) k"
    by (auto simp: s' pg_get_keys [OF dd] decode_json_object_def)
  show "dict_get (pg_get_overrides s') k =
      (if has_key (pg_get_overrides s) k \<and> dict_get u k \<noteq> JNull then dict_get u k
       else dict_get (pg_get_overrides s) k)"
    using u by (simp add: g apply_updates_get typed_updates_def)
qed

section \<open>Facts about the presets\<close>

lemma preset_entry_distinct:
  "map_of SEMANTIC_HARDENING_PRESETS name = Some ds \<Longrightarrow> distinct (map fst ds)"
  by (auto simp: SEMANTIC_HARDENING_PRESETS_def split: if_splits)

lemma preset_entry_not_null:
  "map_of SEMANTIC_HARDENING_PRESETS name = Some ds \<Longrightarrow> has_key ds k \<Longrightarrow> dict_get ds k \<noteq> JNull"
  by (auto simp: SEMANTIC_HARDENING_PRESETS_def has_key_def dict_get_def split: if_splits)

lemma preset_entry_no_name:
  "map_of SEMANTIC_HARDENING_PRESETS name = Some ds \<Longrightarrow> \<not> has_key ds ''semantic_hardening_preset''"
  by (auto simp: SEMANTIC_HARDENING_PRESETS_def has_key_def split: if_splits)

lemma preset_known: "map_of SEMANTIC_HARDENING_PRESETS name \<noteq> None \<longleftrightarrow> name \<in> set preset_names"
  by (auto simp: preset_names_def map_of_eq_None_iff)

end
