(* ===== verification/Settings.thy ===== *)
theory Settings
  imports PyFloat
begin

text \<open>
  \<open>app/core/config.py\<close>: the settings object, with the defaults of the class. The
  environment variables that override the defaults are read by pydantic-settings.
\<close>

record settings =
  cfg_app_name :: string
  cfg_environment :: string
  cfg_upstream_base_url :: string
  cfg_upstream_api_key :: "string option"
  cfg_upstream_timeout_seconds :: real
  cfg_upstream_max_retries :: int
  cfg_redis_url :: "string option"
  cfg_exact_cache_backend :: string
  cfg_dlp_enabled :: bool
  cfg_dlp_analyzer_mode :: string
  cfg_dlp_scrub_level :: string
  cfg_dlp_detect_email :: "bool option"
  cfg_dlp_detect_phone :: "bool option"
  cfg_dlp_detect_ip :: "bool option"
  cfg_dlp_detect_secrets :: "bool option"
  cfg_dlp_custom_detectors_json :: "string option"
  cfg_dlp_custom_detectors_yaml_path :: "string option"
  cfg_semantic_enabled :: bool
  cfg_semantic_store_backend :: string
  cfg_semantic_store_dsn :: "string option"
  cfg_semantic_model_name :: string
  cfg_semantic_threshold :: real
  cfg_semantic_shadow_threshold :: real
  cfg_semantic_max_temperature :: real
  cfg_default_exact_ttl_seconds :: int
  cfg_default_semantic_ttl_seconds :: int
  cfg_namespace_header :: string
  cfg_provider_auth_header :: string
  cfg_admin_api_key :: "string option"
  cfg_policy_store_dsn :: "string option"
  cfg_deployment_profile :: string
  cfg_strict_startup_validation :: bool
  cfg_dual_mode_enabled :: bool
  cfg_semantic_disabled_namespace_prefixes :: string
  cfg_semantic_high_risk_namespace_prefixes :: string
  cfg_controlplane_identity_enabled :: bool
  cfg_controlplane_identity_seed_enabled :: bool
  cfg_controlplane_static_api_key :: "string option"
  cfg_controlplane_static_tenant_id :: string
  cfg_controlplane_static_tenant_slug :: string
  cfg_controlplane_static_workspace_id :: string
  cfg_controlplane_static_workspace_slug :: string
  cfg_controlplane_static_environment_id :: "string option"
  cfg_controlplane_static_environment_name :: "string option"
  cfg_controlplane_static_api_key_id :: string
  cfg_controlplane_static_api_key_prefix :: string
  cfg_controlplane_static_api_key_display_name :: string
  cfg_request_event_logging_enabled :: bool
  cfg_request_ledger_enabled :: bool
  cfg_risk_event_logging_enabled :: bool
  cfg_shadow_savings_logging_enabled :: bool
  cfg_scoped_policy_enabled :: bool
  cfg_rollups_enabled :: bool
  cfg_billing_prep_enabled :: bool
  cfg_billing_patronage_threshold_usd :: real
  cfg_identity_guard_enabled :: bool
  cfg_identity_strict_mode_enabled :: bool
  cfg_identity_partitioning_enabled :: bool
  cfg_multimodal_hard_alignment_enabled :: bool
  cfg_policy_timing_breakdown_enabled :: bool
  cfg_tenant_query_param_fallback_enabled :: bool

definition default_settings :: settings where
  "default_settings = \<lparr>
     cfg_app_name = ''Metera'', cfg_environment = ''dev'',
     cfg_upstream_base_url = ''https://api.openai.com'', cfg_upstream_api_key = None,
     cfg_upstream_timeout_seconds = 60, cfg_upstream_max_retries = 1,
     cfg_redis_url = None, cfg_exact_cache_backend = ''memory'',
     cfg_dlp_enabled = True, cfg_dlp_analyzer_mode = ''auto'',
     cfg_dlp_scrub_level = ''technical'',
     cfg_dlp_detect_email = None, cfg_dlp_detect_phone = None,
     cfg_dlp_detect_ip = None, cfg_dlp_detect_secrets = None,
     cfg_dlp_custom_detectors_json = None, cfg_dlp_custom_detectors_yaml_path = None,
     cfg_semantic_enabled = True, cfg_semantic_store_backend = ''memory'',
     cfg_semantic_store_dsn = None,
     cfg_semantic_model_name = ''sentence-transformers/all-MiniLM-L6-v2'',
     cfg_semantic_threshold = fl 0.9, cfg_semantic_shadow_threshold = fl 0.8,
     cfg_semantic_max_temperature = fl 0.2,
     cfg_default_exact_ttl_seconds = 3600, cfg_default_semantic_ttl_seconds = 86400,
     cfg_namespace_header = ''x-metera-namespace'',
     cfg_provider_auth_header = ''authorization'',
     cfg_admin_api_key = None, cfg_policy_store_dsn = None,
     cfg_deployment_profile = ''dev'', cfg_strict_startup_validation = False,
     cfg_dual_mode_enabled = False,
     cfg_semantic_disabled_namespace_prefixes = [],
     cfg_semantic_high_risk_namespace_prefixes = [],
     cfg_controlplane_identity_enabled = False,
     cfg_controlplane_identity_seed_enabled = False,
     cfg_controlplane_static_api_key = None,
     cfg_controlplane_static_tenant_id = ''tenant_dev'',
     cfg_controlplane_static_tenant_slug = ''dev-tenant'',
     cfg_controlplane_static_workspace_id = ''workspace_default'',
     cfg_controlplane_static_workspace_slug = ''workspace-default'',
     cfg_controlplane_static_environment_id = None,
     cfg_controlplane_static_environment_name = None,
     cfg_controlplane_static_api_key_id = ''mk_dev_default'',
     cfg_controlplane_static_api_key_prefix = ''mk_dev'',
     cfg_controlplane_static_api_key_display_name = ''Development Key'',
     cfg_request_event_logging_enabled = False, cfg_request_ledger_enabled = False,
     cfg_risk_event_logging_enabled = False, cfg_shadow_savings_logging_enabled = False,
     cfg_scoped_policy_enabled = False, cfg_rollups_enabled = False,
     cfg_billing_prep_enabled = False, cfg_billing_patronage_threshold_usd = 50,
     cfg_identity_guard_enabled = False, cfg_identity_strict_mode_enabled = False,
     cfg_identity_partitioning_enabled = False,
     cfg_multimodal_hard_alignment_enabled = False,
     cfg_policy_timing_breakdown_enabled = False,
     cfg_tenant_query_param_fallback_enabled = False \<rparr>"

end
