(* ===== verification/Authz.thy ===== *)
theory Authz
  imports Domain Settings
begin

text \<open>
  Who may do what: roles and capabilities (\<open>app/core/tenant_authorization.py\<close>), the tenant
  scope of a request (\<open>app/core/tenant_access.py\<close>) and the admin key check
  (\<open>app/core/auth.py\<close>). A set of capabilities is a list read as a set; the sorted tuple the
  code returns is the sorted list without repetitions.
\<close>

section \<open>Roles and capabilities\<close>

definition ROLE_CAPABILITIES :: "(string \<times> string list) list" where
  "ROLE_CAPABILITIES =
     [(''tenant_admin'',
       [''billing:read'', ''billing:history:read'', ''billing:scope:read'', ''billing:adjustments:read'']),
      (''tenant_reader'', [''billing:read'', ''billing:scope:read''])]"

definition capabilities_for_role :: "string option \<Rightarrow> string list" where
  "capabilities_for_role r = (case r of
     None \<Rightarrow> [] | Some name \<Rightarrow> opt_else (map_of ROLE_CAPABILITIES name) [])"

definition normalize_tenant_capabilities :: "string option \<Rightarrow> string list \<Rightarrow> string list" where
  "normalize_tenant_capabilities r tenant_capabilities =
     (let explicit_capabilities = filter (\<lambda>c. c \<noteq> []) (map strip tenant_capabilities)
      in sort (remdups (capabilities_for_role r @ explicit_capabilities)))"

definition derive_tenant_role :: "string option \<Rightarrow> string list \<Rightarrow> string" where
  "derive_tenant_role tenant_role tenant_capabilities =
     (let known = (case tenant_role of None \<Rightarrow> False | Some r \<Rightarrow> map_of ROLE_CAPABILITIES r \<noteq> None);
          capability_set = filter (\<lambda>c. strip c \<noteq> []) tenant_capabilities;
          includes = (\<lambda>r. list_all (\<lambda>c. c \<in> set capability_set) (capabilities_for_role (Some r)))
      in if known then the tenant_role
         else if capability_set \<noteq> [] \<and> includes ''tenant_admin'' then ''tenant_admin''
         else if capability_set \<noteq> [] \<and> includes ''tenant_reader'' then ''tenant_reader''
         else if truthy tenant_role then the tenant_role
         else ''tenant_admin'')"

record access_scope =
  scope_tenant_id :: string
  scope_source :: string
  scope_role :: string
  scope_capabilities :: "string list"

definition require_tenant_capability :: "access_scope \<Rightarrow> string \<Rightarrow> unit result" where
  "require_tenant_capability sc capability =
     (let allowed = (if scope_capabilities sc \<noteq> [] then scope_capabilities sc
                     else normalize_tenant_capabilities (Some (scope_role sc)) [])
      in if capability \<notin> set allowed
         then Inl (HTTPException 403
                (''Tenant role '' @ quoted (scope_role sc) @ '' is not allowed to perform '' @ quoted capability))
         else Inr ())"

section \<open>The tenant scope of a request\<close>

definition resolve_tenant_access_scope ::
  "settings \<Rightarrow> proxy_context option \<Rightarrow> string option \<Rightarrow> access_scope result" where
  "resolve_tenant_access_scope cfg ctx requested_tenant_id =
     (let context_tenant_id = (case ctx of None \<Rightarrow> None | Some c \<Rightarrow> ctx_tenant_id c) in
      if truthy context_tenant_id then
        if truthy requested_tenant_id \<and> requested_tenant_id \<noteq> context_tenant_id
        then Inl (HTTPException 403 ''Requested tenant does not match authenticated tenant scope'')
        else
          let c = the ctx;
              derived_role = derive_tenant_role (ctx_tenant_role c) (ctx_tenant_capabilities c)
          in Inr \<lparr>scope_tenant_id = the context_tenant_id, scope_source = ''proxy_context'',
                  scope_role = derived_role,
                  scope_capabilities =
                    normalize_tenant_capabilities (Some derived_role) (ctx_tenant_capabilities c)\<rparr>
      else if truthy requested_tenant_id then
        if \<not> cfg_tenant_query_param_fallback_enabled cfg
        then Inl (HTTPException 403
               ''Tenant query parameter fallback is disabled; authenticated tenant scope is required'')
        else Inr \<lparr>scope_tenant_id = the requested_tenant_id, scope_source = ''query_param_fallback'',
                  scope_role = ''tenant_reader'',
                  scope_capabilities = normalize_tenant_capabilities (Some ''tenant_reader'') []\<rparr>
      else Inl (HTTPException 400 ''Tenant scope is required''))"

section \<open>The admin key and bearer tokens\<close>

definition extract_bearer_token :: "string option \<Rightarrow> string option" where
  "extract_bearer_token authorization =
     (if \<not> truthy authorization then None
      else let a = the authorization in
        if prefix ''bearer '' (py_lower a) then Some (strip (drop (length ''bearer '') a))
        else Some (strip a))"

definition require_admin_api_key ::
  "string option \<Rightarrow> string option \<Rightarrow> string option \<Rightarrow> unit result" where
  "require_admin_api_key admin_api_key provided_api_key authorization =
     (if \<not> truthy admin_api_key then Inl (HTTPException 503 ''Admin API key is not configured'')
      else let candidate_key = str_or provided_api_key (extract_bearer_token authorization) in
        if \<not> truthy candidate_key \<or> candidate_key \<noteq> admin_api_key
        then Inl (HTTPException 401 ''Invalid admin API key'')
        else Inr ())"

section \<open>Facts\<close>

lemma set_normalize:
  "set (normalize_tenant_capabilities r cs) =
   set (capabilities_for_role r) \<union> {strip c | c. c \<in> set cs \<and> strip c \<noteq> []}"
  by (auto simp: normalize_tenant_capabilities_def Let_def)

lemma normalize_canonical:
  "sorted (normalize_tenant_capabilities r cs) \<and> distinct (normalize_tenant_capabilities r cs)"
  by (simp add: normalize_tenant_capabilities_def Let_def)

lemma sorted_distinct_eq:
  "sorted xs \<Longrightarrow> distinct xs \<Longrightarrow> sorted ys \<Longrightarrow> distinct ys \<Longrightarrow> set xs = set ys \<Longrightarrow> xs = ys"
  by (rule sorted_distinct_set_unique)

lemma role_capabilities_stripped:
  "c \<in> set (capabilities_for_role r) \<Longrightarrow> strip c = c \<and> c \<noteq> []"
proof -
  assume c: "c \<in> set (capabilities_for_role r)"
  have "\<forall>c \<in> set (concat (map snd ROLE_CAPABILITIES)). strip c = c \<and> c \<noteq> []"
    by (simp add: ROLE_CAPABILITIES_def strip_def is_space_def code_point_def)
  moreover have "c \<in> set (concat (map snd ROLE_CAPABILITIES))"
  proof -
    from c obtain name cs where "map_of ROLE_CAPABILITIES name = Some cs" "c \<in> set cs"
      by (auto simp: capabilities_for_role_def opt_else_def split: option.splits dest: sym)
    then have "(name, cs) \<in> set ROLE_CAPABILITIES" "c \<in> set cs" by (simp_all add: map_of_SomeD)
    then show ?thesis by force
  qed
  ultimately show ?thesis by blast
qed

lemma normalize_idem:
  "normalize_tenant_capabilities r (normalize_tenant_capabilities r cs) = normalize_tenant_capabilities r cs"
proof (rule sorted_distinct_eq)
  have "strip c = c \<and> c \<noteq> []" if "c \<in> set (normalize_tenant_capabilities r cs)" for c
    using that role_capabilities_stripped [of c r] by (auto simp: set_normalize)
  then have "{strip c | c. c \<in> set (normalize_tenant_capabilities r cs) \<and> strip c \<noteq> []} =
      set (normalize_tenant_capabilities r cs)" by force
  then show "set (normalize_tenant_capabilities r (normalize_tenant_capabilities r cs)) =
      set (normalize_tenant_capabilities r cs)"
    by (simp only: set_normalize [of r "normalize_tenant_capabilities r cs"])
      (auto simp: set_normalize)
qed (simp_all add: normalize_canonical)

lemma scope_from_context:
  assumes "resolve_tenant_access_scope cfg (Some c) requested = Inr sc" and "truthy (ctx_tenant_id c)"
  shows "ctx_tenant_id c = Some (scope_tenant_id sc)" "scope_source sc = ''proxy_context''"
    "requested \<in> {None, Some [], ctx_tenant_id c}"
  using assms by (cases requested; auto simp: resolve_tenant_access_scope_def Let_def truthy_def
      split: if_splits option.splits)+

lemma scope_from_query:
  assumes "resolve_tenant_access_scope cfg ctx requested = Inr sc"
    and "\<not> truthy (case ctx of None \<Rightarrow> None | Some c \<Rightarrow> ctx_tenant_id c)"
  shows "cfg_tenant_query_param_fallback_enabled cfg" "requested = Some (scope_tenant_id sc)"
    "scope_role sc = ''tenant_reader''"
    "set (scope_capabilities sc) = set (capabilities_for_role (Some ''tenant_reader''))"
  using assms by (cases requested; auto simp: resolve_tenant_access_scope_def Let_def truthy_def
      set_normalize split: if_splits)+

lemma scope_capabilities_nonempty:
  "resolve_tenant_access_scope cfg ctx requested = Inr sc \<Longrightarrow>
   scope_capabilities sc = normalize_tenant_capabilities (Some (scope_role sc))
     (if scope_source sc = ''proxy_context'' then ctx_tenant_capabilities (the ctx) else [])"
  by (auto simp: resolve_tenant_access_scope_def Let_def split: if_splits)

end
