(* ===== verification/Provider.thy ===== *)
theory Provider
  imports Domain
begin

text \<open>
  The upstream provider of \<open>app/providers/openai_compatible.py\<close>: headers, payload, error
  messages, the retry loop and the streaming call. What httpx returns for the n-th POST is an
  argument, as are pydantic's dump of the request and the parsing of a reply. A reply's
  content is its decoded text, empty exactly when no byte came.
\<close>

definition MAX_ERROR_BODY_CHARS :: nat where "MAX_ERROR_BODY_CHARS = 1000"

record http_response =
  status_code :: nat
  http_content :: string
  http_chunks :: "string list"

datatype http_outcome =
    Timeout
  | TransportError string
  | Replied http_response

record provider_config =
  base_url :: string
  provider_api_key :: "string option"
  max_retries :: int

record http_request =
  http_url :: string
  http_json :: dict
  http_headers :: "(string \<times> string) list"

definition build_headers :: "provider_config \<Rightarrow> string option \<Rightarrow> (string \<times> string) list" where
  "build_headers cfg bearer_token =
     (let token = str_or bearer_token (provider_api_key cfg) in
      (''content-type'', ''application/json'') #
      (if truthy token then [(''authorization'', ''Bearer '' @ the token)] else []))"

definition build_upstream_payload :: "(chat_request \<Rightarrow> dict) \<Rightarrow> chat_request \<Rightarrow> dict" where
  "build_upstream_payload dump_request r =
     (let payload = dump_request r in
      if py_falsy (dict_get payload ''metadata'') then AList.delete ''metadata'' payload else payload)"

definition extract_error_body_text :: "http_response \<Rightarrow> string" where
  "extract_error_body_text r =
     (if http_content r = [] then []
      else let t = strip (http_content r) in
        if length t > MAX_ERROR_BODY_CHARS then take MAX_ERROR_BODY_CHARS t @ ''...'' else t)"

definition build_upstream_error_message :: "string \<Rightarrow> http_response \<Rightarrow> string" where
  "build_upstream_error_message kind r =
     (let body_text = extract_error_body_text r;
          suffix = (if body_text \<noteq> [] then '' body='' @ body_text else [])
      in ''Upstream provider '' @ kind @ '' error: '' @ nat_digits (status_code r) @ suffix)"

section \<open>The retry loop\<close>

text \<open>
  One pass through the body of the loop: the \<open>try\<close> block with its three handlers. An
  \<open>UpstreamErr\<close> is what the handlers leave in \<open>last_error\<close>; a failure to parse the reply
  is none of the handled exceptions and escapes.
\<close>

definition attempt_once :: "(string \<Rightarrow> chat_response result) \<Rightarrow> http_outcome \<Rightarrow> chat_response result" where
  "attempt_once parse_reply outcome = (case outcome of
     Timeout \<Rightarrow> Inl (UpstreamErr ''Upstream provider timed out'' 504 True)
   | TransportError name \<Rightarrow>
       Inl (UpstreamErr (''Upstream provider transport error: '' @ name) 502 True)
   | Replied r \<Rightarrow>
       if status_code r \<ge> 500
       then Inl (UpstreamErr (build_upstream_error_message ''server'' r) 502 True)
       else if status_code r \<ge> 400
       then Inl (UpstreamErr (build_upstream_error_message ''request'' r) 502 False)
       else parse_reply (http_content r))"

fun retryable_error :: "chat_response result \<Rightarrow> bool" where
  "retryable_error (Inl (UpstreamErr _ _ retryable)) = retryable"
| "retryable_error _ = False"

text \<open>
  \<open>retry_loop ... attempt n\<close> runs the iterations \<open>attempt .. attempt + n - 1\<close>; the first
  component of the result counts the POSTs made so far.
\<close>

fun retry_loop ::
  "(string \<Rightarrow> chat_response result) \<Rightarrow> (nat \<Rightarrow> http_outcome) \<Rightarrow> nat \<Rightarrow> nat \<Rightarrow>
   nat \<times> chat_response result" where
  "retry_loop parse_reply send attempt 0 =
     (attempt, Inl (UpstreamErr ''Upstream provider request failed'' 502 False))"
| "retry_loop parse_reply send attempt (Suc n) =
     (let res = attempt_once parse_reply (send attempt) in
      if retryable_error res \<and> n \<noteq> 0 then retry_loop parse_reply send (Suc attempt) n
      else (Suc attempt, res))"

definition outbound_request ::
  "provider_config \<Rightarrow> (chat_request \<Rightarrow> dict) \<Rightarrow> chat_request \<Rightarrow> string option \<Rightarrow> http_request" where
  "outbound_request cfg dump_request r bearer_token = \<lparr>
     http_url = rev (dropWhile (\<lambda>c. c = CHR ''/'') (rev (base_url cfg))) @ ''/v1/chat/completions'',
     http_json = build_upstream_payload dump_request r,
     http_headers = build_headers cfg bearer_token \<rparr>"

definition create_chat_completion ::
  "provider_config \<Rightarrow> (chat_request \<Rightarrow> dict) \<Rightarrow> (string \<Rightarrow> chat_response result) \<Rightarrow>
   (http_request \<Rightarrow> nat \<Rightarrow> http_outcome) \<Rightarrow> chat_request \<Rightarrow> string option \<Rightarrow>
   nat \<times> chat_response result" where
  "create_chat_completion cfg dump_request parse_reply post r bearer_token =
     retry_loop parse_reply (post (outbound_request cfg dump_request r bearer_token)) 0
       (nat (max_retries cfg + 1))"

section \<open>The streaming call\<close>

text \<open>
  The chunks the iterator yields, and whether the response and the client are closed once
  the call has failed or the iterator is exhausted.
\<close>

record stream_run =
  stream_result :: "string list result"
  response_closed :: bool
  client_closed :: bool

definition create_chat_completion_stream ::
  "provider_config \<Rightarrow> (chat_request \<Rightarrow> dict) \<Rightarrow> (http_request \<Rightarrow> http_outcome) \<Rightarrow>
   chat_request \<Rightarrow> string option \<Rightarrow> stream_run" where
  "create_chat_completion_stream cfg dump_request send r bearer_token =
     (case send (outbound_request cfg dump_request r bearer_token) of
        Timeout \<Rightarrow>
          \<lparr>stream_result = Inl (UpstreamErr ''Upstream provider timed out'' 504 True),
           response_closed = False, client_closed = True\<rparr>
      | TransportError name \<Rightarrow>
          \<lparr>stream_result = Inl (UpstreamErr (''Upstream provider transport error: '' @ name) 502 True),
           response_closed = False, client_closed = True\<rparr>
      | Replied resp \<Rightarrow>
          if status_code resp \<ge> 500 then
            \<lparr>stream_result = Inl (UpstreamErr (build_upstream_error_message ''server'' resp) 502 True),
             response_closed = True, client_closed = True\<rparr>
          else if status_code resp \<ge> 400 then
            \<lparr>stream_result = Inl (UpstreamErr (build_upstream_error_message ''request'' resp) 502 False),
             response_closed = True, client_closed = True\<rparr>
          else
            \<lparr>stream_result = Inr (filter (\<lambda>chunk. chunk \<noteq> []) (http_chunks resp)),
             response_closed = True, client_closed = True\<rparr>)"

section \<open>Facts about the loop\<close>

lemma retry_loop_count: "fst (retry_loop p send a n) \<le> a + n \<and> a \<le> fst (retry_loop p send a n)"
proof (induction n arbitrary: a)
  case (Suc n)
  from Suc [of "Suc a"] show ?case by (auto simp: Let_def)
qed simp

text \<open>
  What the loop returns: the result of attempt \<open>k\<close>, where every attempt before it ended in a
  retryable error and attempt \<open>k\<close> did not, or was the last one allowed.
\<close>

lemma retry_loop_result:
  assumes "0 < n"
  shows "\<exists>k < n. retry_loop p send a n = (Suc (a + k), attempt_once p (send (a + k))) \<and>
    (\<forall>j < k. retryable_error (attempt_once p (send (a + j)))) \<and>
    (retryable_error (attempt_once p (send (a + k))) \<longrightarrow> Suc k = n)"
  using assms
proof (induction n arbitrary: a)
  case (Suc n)
  show ?case
  proof (cases "retryable_error (attempt_once p (send a)) \<and> n \<noteq> 0")
    case True
    then obtain k where k: "k < n"
      "retry_loop p send (Suc a) n = (Suc (Suc a + k), attempt_once p (send (Suc a + k)))"
      "\<forall>j < k. retryable_error (attempt_once p (send (Suc a + j)))"
      "retryable_error (attempt_once p (send (Suc a + k))) \<longrightarrow> Suc k = n"
      using Suc.IH [of "Suc a"] by auto
    have "\<forall>j < Suc k. retryable_error (attempt_once p (send (a + j)))"
      using k(3) True by (auto simp: less_Suc_eq_0_disj)
    with k True show ?thesis by (intro exI [of _ "Suc k"]) (simp add: Let_def)
  next
    case False
    then show ?thesis by (intro exI [of _ 0]) (auto simp: Let_def)
  qed
qed simp

lemma retry_loop_success:
  assumes "\<forall>j < k. retryable_error (attempt_once p (send (a + j)))"
    and "attempt_once p (send (a + k)) = Inr r" and "k < n"
  shows "retry_loop p send a n = (Suc (a + k), Inr r)"
  using assms
proof (induction k arbitrary: a n)
  case 0
  then show ?case by (cases n) (auto simp: Let_def)
next
  case (Suc k)
  then obtain m where n: "n = Suc m" "m \<noteq> 0" by (cases n) auto
  have "retryable_error (attempt_once p (send a))" using Suc.prems(1) by force
  moreover have "retry_loop p send (Suc a) m = (Suc (Suc a + k), Inr r)"
    using Suc.prems n by (intro Suc.IH) force+
  ultimately show ?case using n by (simp add: Let_def)
qed

lemma error_body_bounded:
  "length (extract_error_body_text r) \<le> MAX_ERROR_BODY_CHARS + 3"
  by (simp add: extract_error_body_text_def Let_def MAX_ERROR_BODY_CHARS_def)

lemma payload_metadata:
  shows "dict_get (build_upstream_payload dump_request r) k =
    (if k = ''metadata'' \<and> py_falsy (dict_get (dump_request r) k) then JNull
     else dict_get (dump_request r) k)"
  by (auto simp: build_upstream_payload_def Let_def dict_get_def delete_conv')

end
