(* ===== verification/Tables.thy ===== *)
theory Tables
  imports Domain "HOL-Library.Multiset"
begin

text \<open>
  The rows of the PostgreSQL tables the control plane keeps for requests, events, rollups and
  billing, one record per \<open>CREATE TABLE\<close> of \<open>app/controlplane/repositories\<close> and
  \<open>app/storage/shadow_analytics.py\<close>, and the database that holds them. A table is the list
  of its rows in insertion order; a serial key is a row's position. Sorting is stable, which
  fixes one of the orders SQL leaves open for equal sort keys. Sums are taken in row order
  with binary64 additions, as \<open>SUM\<close> on \<open>DOUBLE PRECISION\<close> does.
\<close>

section \<open>Requests and events\<close>

record ledger_row =
  lr_request_id :: string
  lr_observed_at :: timestamp
  lr_tenant_id :: "string option"
  lr_workspace_id :: "string option"
  lr_environment_id :: "string option"
  lr_api_key_id :: "string option"
  lr_namespace :: string
  lr_model :: string
  lr_provider :: "string option"
  lr_cache_outcome :: string
  lr_semantic_bypass_reason :: "string option"
  lr_effective_policy_version_id :: "string option"
  lr_effective_policy_mode :: "string option"
  lr_has_visual_context :: bool
  lr_has_dom_context :: bool
  lr_is_agentic :: bool
  lr_identity_sensitive :: bool
  lr_prompt_tokens :: nat
  lr_completion_tokens :: nat
  lr_total_tokens :: nat
  lr_estimated_upstream_cost_usd :: real
  lr_estimated_realized_savings_usd :: real
  lr_estimated_shadow_savings_usd :: real
  lr_request_latency_ms :: real
  lr_profile_build_ms :: real
  lr_semantic_lookup_ms :: real
  lr_compatibility_validation_ms :: real
  lr_upstream_ms :: real
  lr_metadata :: dict

record request_event_row =
  re_request_id :: string
  re_tenant_id :: "string option"
  re_workspace_id :: "string option"
  re_api_key_id :: "string option"
  re_namespace :: string
  re_request_path :: string
  re_model :: string
  re_cache_outcome :: string
  re_semantic_bypass_reason :: "string option"
  re_policy_mode :: "string option"
  re_request_stream :: bool
  re_estimated_cost_usd :: real
  re_estimated_savings_usd :: real
  re_prompt_tokens :: nat
  re_completion_tokens :: nat
  re_total_tokens :: nat
  re_timings_ms :: dict
  re_metadata :: dict
  re_created_at :: timestamp

record risk_event_row =
  rk_request_id :: string
  rk_tenant_id :: "string option"
  rk_workspace_id :: "string option"
  rk_namespace :: string
  rk_event_type :: string
  rk_severity :: string
  rk_reason :: "string option"
  rk_payload :: dict
  rk_created_at :: timestamp

record commercial_event_row =
  ce_event_id :: string
  ce_tenant_id :: "string option"
  ce_workspace_id :: "string option"
  ce_subscription_id :: "string option"
  ce_billing_period_id :: "string option"
  ce_event_type :: string
  ce_status :: string
  ce_reason :: "string option"
  ce_payload :: dict
  ce_created_at :: timestamp

record shadow_savings_row =
  ss_request_id :: string
  ss_tenant_id :: "string option"
  ss_workspace_id :: "string option"
  ss_namespace :: string
  ss_similarity_score :: real
  ss_live_threshold :: real
  ss_shadow_threshold :: real
  ss_calculated_savings_usd :: real
  ss_payload :: dict
  ss_created_at :: timestamp

record shadow_analytics_row =
  sa_request_id :: string
  sa_namespace :: string
  sa_model :: string
  sa_prompt_text :: string
  sa_similarity_score :: real
  sa_calculated_savings_usd :: real
  sa_live_threshold :: real
  sa_shadow_threshold :: real
  sa_created_at :: timestamp

section \<open>Rollups\<close>

record usage_rollup_row =
  ur_rollup_date :: int
  ur_tenant_id :: "string option"
  ur_workspace_id :: "string option"
  ur_request_count :: nat
  ur_exact_hit_count :: nat
  ur_semantic_hit_count :: nat
  ur_miss_count :: nat
  ur_upstream_cost_usd_total :: real
  ur_realized_savings_usd_total :: real
  ur_shadow_savings_usd_total :: real
  ur_created_at :: timestamp
  ur_updated_at :: timestamp

record namespace_rollup_row =
  nr_rollup_date :: int
  nr_tenant_id :: "string option"
  nr_workspace_id :: "string option"
  nr_namespace :: string
  nr_request_count :: nat
  nr_exact_hit_count :: nat
  nr_semantic_hit_count :: nat
  nr_miss_count :: nat
  nr_shadow_alert_count :: nat
  nr_visual_request_count :: nat
  nr_agentic_request_count :: nat
  nr_identity_sensitive_request_count :: nat
  nr_upstream_cost_usd_total :: real
  nr_realized_savings_usd_total :: real
  nr_shadow_savings_usd_total :: real
  nr_created_at :: timestamp
  nr_updated_at :: timestamp

section \<open>Billing\<close>

record plan_row =
  plan_id :: string
  plan_code :: string
  plan_name :: string
  plan_status :: string
  plan_monthly_base_price_usd :: real
  plan_included_requests :: "int option"
  plan_included_upstream_cost_usd :: "real option"
  plan_included_realized_savings_usd :: "real option"
  plan_soft_cap_threshold_ratio :: real
  plan_hard_cap_enabled :: bool
  plan_metadata :: dict
  plan_created_at :: timestamp
  plan_updated_at :: timestamp

record subscription_row =
  sub_id :: string
  sub_tenant_id :: string
  sub_plan_id :: string
  sub_status :: string
  sub_trial_ends_at :: "timestamp option"
  sub_current_period_start :: timestamp
  sub_current_period_end :: timestamp
  sub_created_at :: timestamp
  sub_updated_at :: timestamp

datatype period_status = POpen | PClosing | PClosed

fun period_status_str :: "period_status \<Rightarrow> string" where
  "period_status_str POpen = ''open''"
| "period_status_str PClosing = ''closing''"
| "period_status_str PClosed = ''closed''"

record period_row =
  bp_id :: string
  bp_tenant_id :: string
  bp_subscription_id :: string
  bp_period_start :: timestamp
  bp_period_end :: timestamp
  bp_status :: period_status
  bp_request_count :: nat
  bp_upstream_cost_usd_total :: real
  bp_realized_savings_usd_total :: real
  bp_shadow_savings_usd_total :: real
  bp_total_tokens_saved :: nat
  bp_metadata :: dict
  bp_closed_at :: "timestamp option"
  bp_created_at :: timestamp
  bp_updated_at :: timestamp

record charge_row =
  uc_id :: string
  uc_billing_period_id :: "string option"
  uc_tenant_id :: string
  uc_subscription_id :: "string option"
  uc_request_id :: "string option"
  uc_rollup_date :: "int option"
  uc_workspace_id :: "string option"
  uc_source_table :: string
  uc_source_ref :: string
  uc_charge_type :: string
  uc_description :: string
  uc_amount_usd :: real
  uc_metadata :: dict
  uc_created_at :: timestamp

text \<open>The payload column of an invoice: the only writer is the invoice preview.\<close>

record billing_window =
  bw_period_start :: string
  bw_period_end :: string
  bw_closed_at :: "string option"

record invoice_totals =
  it_gross_cost_usd :: real
  it_metera_savings_usd :: real
  it_net_cost_avoided_usd :: real
  it_realized_savings_ratio :: real
  it_total_tokens_saved :: real

record invoice_payload =
  ip_billing_period_id :: string
  ip_tenant_id :: string
  ip_gross_cost_usd :: real
  ip_metera_savings_usd :: real
  ip_net_cost_avoided_usd :: real
  ip_total_tokens_saved :: nat
  ip_realized_savings_ratio :: real
  ip_period_start :: string
  ip_period_end :: string
  ip_billing_window :: billing_window
  ip_totals :: invoice_totals
  ip_narrative :: "string list"
  ip_format :: string
  ip_summary_lines :: "string list"
  ip_proven_roi :: invoice_totals

record invoice_row =
  inv_id :: string
  inv_tenant_id :: string
  inv_billing_period_id :: string
  inv_external_invoice_ref :: "string option"
  inv_status :: string
  inv_subtotal_usd :: real
  inv_total_usd :: real
  inv_payload :: invoice_payload
  inv_issued_at :: "timestamp option"
  inv_created_at :: timestamp
  inv_updated_at :: timestamp

section \<open>The database\<close>

record database =
  request_ledger :: "ledger_row list"
  request_events :: "request_event_row list"
  risk_events :: "risk_event_row list"
  commercial_events :: "commercial_event_row list"
  shadow_savings_ledger :: "shadow_savings_row list"
  shadow_analytics :: "shadow_analytics_row list"
  daily_usage_rollups :: "usage_rollup_row list"
  daily_namespace_rollups :: "namespace_rollup_row list"
  plans :: "plan_row list"
  subscriptions :: "subscription_row list"
  billing_periods :: "period_row list"
  usage_charges :: "charge_row list"
  invoices :: "invoice_row list"

definition empty_database :: database where
  "empty_database = \<lparr>request_ledger = [], request_events = [], risk_events = [],
     commercial_events = [], shadow_savings_ledger = [], shadow_analytics = [],
     daily_usage_rollups = [], daily_namespace_rollups = [], plans = [], subscriptions = [],
     billing_periods = [], usage_charges = [], invoices = []\<rparr>"

section \<open>SQL expressions\<close>

text \<open>\<open>COALESCE(SUM(x), 0.0)\<close>, \<open>DATE(t)\<close> in a UTC session, \<open>ORDER BY\<close> and \<open>LIMIT\<close>.\<close>

definition sql_sum :: "real list \<Rightarrow> real" where
  "sql_sum xs = foldl fadd 0 xs"

definition sql_date :: "timestamp \<Rightarrow> int" where
  "sql_date t = t div 86400000000"

definition order_desc :: "('a \<Rightarrow> int list) \<Rightarrow> 'a list \<Rightarrow> 'a list" where
  "order_desc key rows = sort_key (\<lambda>r. map uminus (key r)) rows"

definition first_row :: "'a list \<Rightarrow> 'a option" where
  "first_row rows = (case rows of [] \<Rightarrow> None | r # _ \<Rightarrow> Some r)"

definition insert_unless :: "('a \<Rightarrow> bool) \<Rightarrow> 'a \<Rightarrow> 'a list \<Rightarrow> 'a list" where
  "insert_unless conflict r rows = (if list_ex conflict rows then rows else rows @ [r])"

lemma set_order_desc [simp]: "set (order_desc key rows) = set rows"
  by (simp add: order_desc_def)

lemma length_order_desc [simp]: "length (order_desc key rows) = length rows"
  by (simp add: order_desc_def)

lemma mset_order_desc: "mset (order_desc key rows) = mset rows"
  by (simp add: order_desc_def)

lemma distinct_map_order_desc: "distinct (map f (order_desc key rows)) = distinct (map f rows)"
  by (simp add: order_desc_def) (metis mset_eq_imp_distinct_iff mset_map mset_sort)

lemma sql_sum_Nil [simp]: "sql_sum [] = 0"
  by (simp add: sql_sum_def)

lemma foldl_fadd_nonneg: "0 \<le> a \<Longrightarrow> list_all (\<lambda>x. 0 \<le> x) xs \<Longrightarrow> 0 \<le> foldl fadd a xs"
  by (induction xs arbitrary: a) (auto intro: fadd_nonneg)

lemma sql_sum_nonneg: "list_all (\<lambda>x. 0 \<le> x) xs \<Longrightarrow> 0 \<le> sql_sum xs"
  by (simp add: sql_sum_def foldl_fadd_nonneg)

section \<open>The error of a sum\<close>

lemma round_even_error: "\<bar>of_int (round_even y) - y\<bar> \<le> 1 / 2"
  by (auto simp: round_even_def Let_def abs_le_iff)

lemma fl_error: "\<bar>fl x - x\<bar> \<le> \<bar>x\<bar> / 2 ^ 53 + 2 powi (- 1075)"
proof (cases "x = 0")
  case False
  let ?u = "(2::real) powi fl_exp x"
  have e: "\<bar>of_int (round_even (x / ?u)) * ?u - x\<bar> \<le> ?u / 2"
  proof -
    have "of_int (round_even (x / ?u)) * ?u - x = (of_int (round_even (x / ?u)) - x / ?u) * ?u"
      by (simp add: left_diff_distrib)
    moreover have "\<bar>(of_int (round_even (x / ?u)) - x / ?u) * ?u\<bar> \<le> 1 / 2 * ?u"
      unfolding abs_mult using round_even_error [of "x / ?u"] by (simp add: mult_right_mono)
    ultimately show ?thesis by simp
  qed
  have u: "?u / 2 \<le> \<bar>x\<bar> / 2 ^ 53 + 2 powi (- 1075)"
  proof (cases "- 1074 < fl_exp x")
    case True
    have "2 ^ 52 * ?u = (2::real) powi (fl_exp x + 52)"
      using powi_split [of "fl_exp x" 52] by simp
    moreover have "(2::real) powi (fl_exp \<bar>x\<bar> + 52) \<le> \<bar>x\<bar>"
      using powi_exp_le [of "\<bar>x\<bar>"] False True by (simp add: fl_exp_def)
    moreover have "fl_exp \<bar>x\<bar> = fl_exp x" by (simp add: fl_exp_def)
    ultimately have "2 ^ 52 * ?u \<le> \<bar>x\<bar>" by simp
    then have "?u / 2 \<le> \<bar>x\<bar> / 2 ^ 53" by (simp add: field_simps)
    moreover have "0 < (2::real) powi (- 1075)" by (rule powi_pos)
    ultimately show ?thesis by linarith
  next
    case f: False
    then have "fl_exp x = - 1074" by (simp add: fl_exp_def)
    moreover have "(2::real) powi (- 1075 + int 1) = 2 ^ 1 * 2 powi (- 1075)" by (rule powi_split)
    ultimately have "?u / 2 = 2 powi (- 1075)" by simp
    moreover have "0 \<le> \<bar>x\<bar> / 2 ^ 53" by simp
    ultimately show ?thesis by linarith
  qed
  from False e u show ?thesis by (simp add: fl_def)
qed simp

text \<open>Summing non-negative amounts: the error grows by at most \<open>d\<close> with every addition.\<close>

lemma foldl_fadd_error:
  assumes "0 \<le> s" "list_all (\<lambda>x. 0 \<le> x) xs"
    and "s + sum_list xs + (k + real (length xs)) * d \<le> c" "c / 2 ^ 53 + 2 powi (- 1075) \<le> d"
    and "\<bar>a - s\<bar> \<le> k * d" "0 \<le> a" "0 \<le> d" "0 \<le> k"
  shows "\<bar>foldl fadd a xs - (s + sum_list xs)\<bar> \<le> (k + real (length xs)) * d"
  using assms
proof (induction xs arbitrary: a s k)
  case (Cons x xs)
  have x: "0 \<le> x" and xs: "list_all (\<lambda>x. 0 \<le> x) xs" using Cons.prems(2) by simp_all
  have sx: "0 \<le> sum_list xs" using xs by (induction xs) auto
  have len: "(k + real (length (x # xs))) * d = (k + 1 + real (length xs)) * d" by simp
  have "\<bar>a + x\<bar> \<le> s + x + k * d"
    using Cons.prems(5,6) x by linarith
  also have "\<dots> \<le> c"
  proof -
    have "k * d \<le> (k + real (length (x # xs))) * d"
      using Cons.prems(7) by (intro mult_right_mono) simp_all
    then show ?thesis using Cons.prems(3) sx by simp
  qed
  finally have "\<bar>a + x\<bar> / 2 ^ 53 \<le> c / 2 ^ 53" by (rule divide_right_mono) simp
  then have "\<bar>fadd a x - (a + x)\<bar> \<le> d"
    using fl_error [of "a + x"] Cons.prems(4) unfolding fadd_def by linarith
  then have "\<bar>fadd a x - (s + x)\<bar> \<le> k * d + d" using Cons.prems(5) by linarith
  then have step: "\<bar>fadd a x - (s + x)\<bar> \<le> (k + 1) * d" by (simp add: distrib_right)
  have "\<bar>foldl fadd (fadd a x) xs - ((s + x) + sum_list xs)\<bar> \<le> (k + 1 + real (length xs)) * d"
    using Cons.prems x xs step len
    by (intro Cons.IH) (simp_all add: add.assoc fadd_nonneg)
  then show ?case by (simp add: add.assoc add.commute [of 1])
qed simp

lemma sql_sum_error:
  assumes "list_all (\<lambda>x. 0 \<le> x) xs" and "sum_list xs \<le> 1000" and "length xs \<le> 1000"
  shows "\<bar>sql_sum xs - sum_list xs\<bar> \<le> 1 / 10 ^ 9 / 4"
proof -
  define d :: real where "d = 1001 / 2 ^ 53 + 2 powi (- 1075)"
  have "(2::real) powi (- 1075) \<le> 2 powi (- 53)" by (simp only: powi_le_iff)
  moreover have "(2::real) powi (- 53) = 1 / 2 ^ 53"
    by (simp only: power_int_minus power_int_numeral divide_inverse mult_1)
  ultimately have tiny: "2 powi (- 1075) \<le> (1 / 2 ^ 53 :: real)" by simp
  have pos: "0 < (2::real) powi (- 1075)" by (rule powi_pos)
  have d0: "0 \<le> d" unfolding d_def by (intro add_nonneg_nonneg less_imp_le [OF pos]) simp
  have d1: "d \<le> 1002 / 2 ^ 53" using tiny unfolding d_def by linarith
  have n: "real (length xs) * d \<le> 1000 * (1002 / 2 ^ 53)"
    using assms(3) d0 d1 by (intro mult_mono) simp_all
  have "\<bar>foldl fadd 0 xs - (0 + sum_list xs)\<bar> \<le> (0 + real (length xs)) * d"
  proof (rule foldl_fadd_error [where c = 1001])
    show "0 + sum_list xs + (0 + real (length xs)) * d \<le> 1001"
      using n assms(2) by simp
    show "1001 / 2 ^ 53 + 2 powi (- 1075) \<le> d" by (simp add: d_def)
  qed (use assms(1) d0 in simp_all)
  then show ?thesis using n unfolding sql_sum_def by simp
qed

end
