(* ===== verification/EventLog.thy ===== *)
theory EventLog
  imports Tables
begin

text \<open>
  The append-only repositories: the request ledger, request events, risk events, commercial
  events and shadow savings of \<open>app/controlplane/repositories\<close>, and the shadow analytics
  store. A payload is the row it is written to; a time the payload leaves out is \<open>now\<close>.
\<close>

section \<open>Writing\<close>

definition log_request :: "database \<Rightarrow> timestamp \<Rightarrow> timestamp option \<Rightarrow> ledger_row \<Rightarrow> database" where
  "log_request db now observed_at r =
     db\<lparr>request_ledger :=
          insert_unless (\<lambda>r'. lr_request_id r' = lr_request_id r)
            (r\<lparr>lr_observed_at := opt_else observed_at now\<rparr>) (request_ledger db)\<rparr>"

definition log_request_event ::
  "database \<Rightarrow> timestamp \<Rightarrow> timestamp option \<Rightarrow> request_event_row \<Rightarrow> database" where
  "log_request_event db now created_at r =
     db\<lparr>request_events :=
          insert_unless (\<lambda>r'. re_request_id r' = re_request_id r)
            (r\<lparr>re_created_at := opt_else created_at now\<rparr>) (request_events db)\<rparr>"

definition log_risk_event ::
  "database \<Rightarrow> timestamp \<Rightarrow> timestamp option \<Rightarrow> risk_event_row \<Rightarrow> database" where
  "log_risk_event db now created_at r =
     db\<lparr>risk_events := risk_events db @ [r\<lparr>rk_created_at := opt_else created_at now\<rparr>]\<rparr>"

definition log_commercial_event ::
  "database \<Rightarrow> timestamp \<Rightarrow> timestamp option \<Rightarrow> commercial_event_row \<Rightarrow> database" where
  "log_commercial_event db now created_at r =
     db\<lparr>commercial_events :=
          insert_unless (\<lambda>r'. ce_event_id r' = ce_event_id r)
            (r\<lparr>ce_created_at := opt_else created_at now\<rparr>) (commercial_events db)\<rparr>"

definition log_shadow_savings ::
  "database \<Rightarrow> timestamp \<Rightarrow> timestamp option \<Rightarrow> shadow_savings_row \<Rightarrow> database" where
  "log_shadow_savings db now created_at r =
     db\<lparr>shadow_savings_ledger :=
          shadow_savings_ledger db @ [r\<lparr>ss_created_at := opt_else created_at now\<rparr>]\<rparr>"

definition log_shadow_hit :: "database \<Rightarrow> timestamp \<Rightarrow> shadow_analytics_row \<Rightarrow> database" where
  "log_shadow_hit db now r =
     db\<lparr>shadow_analytics := shadow_analytics db @ [r\<lparr>sa_created_at := now\<rparr>]\<rparr>"

text \<open>A day has 86400 seconds; times count microseconds.\<close>

definition purge_expired :: "database \<Rightarrow> timestamp \<Rightarrow> int \<Rightarrow> database \<times> nat" where
  "purge_expired db now retention_days =
     (let cutoff = now - retention_days * 86400000000;
          gone = filter (\<lambda>r. sa_created_at r \<le> cutoff) (shadow_analytics db)
      in (db\<lparr>shadow_analytics := filter (\<lambda>r. \<not> sa_created_at r \<le> cutoff) (shadow_analytics db)\<rparr>,
          length gone))"

section \<open>Reading\<close>

definition recent_requests :: "database \<Rightarrow> nat \<Rightarrow> ledger_row list" where
  "recent_requests db limit = take limit (order_desc (\<lambda>r. [lr_observed_at r]) (request_ledger db))"

definition recent_request_events :: "database \<Rightarrow> nat \<Rightarrow> request_event_row list" where
  "recent_request_events db limit = take limit (order_desc (\<lambda>r. [re_created_at r]) (request_events db))"

definition recent_risk_events :: "database \<Rightarrow> nat \<Rightarrow> risk_event_row list" where
  "recent_risk_events db limit = take limit (order_desc (\<lambda>r. [rk_created_at r]) (risk_events db))"

definition recent_shadow_savings :: "database \<Rightarrow> nat \<Rightarrow> shadow_savings_row list" where
  "recent_shadow_savings db limit =
     take limit (order_desc (\<lambda>r. [ss_created_at r]) (shadow_savings_ledger db))"

definition recent_commercial_events :: "database \<Rightarrow> nat \<Rightarrow> commercial_event_row list" where
  "recent_commercial_events db limit =
     take limit (order_desc (\<lambda>r. [ce_created_at r]) (commercial_events db))"

definition list_events_for_tenant :: "database \<Rightarrow> string \<Rightarrow> nat \<Rightarrow> commercial_event_row list" where
  "list_events_for_tenant db tenant_id limit =
     take limit (order_desc (\<lambda>r. [ce_created_at r])
       (filter (\<lambda>r. ce_tenant_id r = Some tenant_id) (commercial_events db)))"

text \<open>An empty sequence of types or statuses is no filter. The serial id breaks ties.\<close>

definition latest_event_for_tenant ::
  "database \<Rightarrow> string \<Rightarrow> string list \<Rightarrow> string list \<Rightarrow> commercial_event_row option" where
  "latest_event_for_tenant db tenant_id event_types statuses =
     (case order_desc (\<lambda>r. [ce_created_at r])
        (rev (filter (\<lambda>r. ce_tenant_id r = Some tenant_id \<and>
                          (event_types = [] \<or> ce_event_type r \<in> set event_types) \<and>
                          (statuses = [] \<or> ce_status r \<in> set statuses)) (commercial_events db))) of
        [] \<Rightarrow> None
      | r # _ \<Rightarrow> Some r)"

section \<open>Facts\<close>

lemma log_request_ledger:
  "request_ledger (log_request db now t r) =
     (if lr_request_id r \<in> lr_request_id ` set (request_ledger db) then request_ledger db
      else request_ledger db @ [r\<lparr>lr_observed_at := opt_else t now\<rparr>])"
  by (simp add: log_request_def insert_unless_def list_ex_iff image_iff eq_commute [of "lr_request_id r"])

lemma log_request_distinct:
  "distinct (map lr_request_id (request_ledger db)) \<Longrightarrow>
   distinct (map lr_request_id (request_ledger (log_request db now t r)))"
  by (simp add: log_request_ledger)

lemma log_request_idem:
  "log_request (log_request db now t r) now' t' (r\<lparr>lr_namespace := ns\<rparr>) = log_request db now t r"
proof -
  have "lr_request_id r \<in> lr_request_id ` set (request_ledger (log_request db now t r))"
    by (auto simp: log_request_ledger)
  then have "list_ex (\<lambda>r'. lr_request_id r' = lr_request_id r) (request_ledger (log_request db now t r))"
    by (auto simp: list_ex_iff)
  then show ?thesis
    by (simp add: log_request_def [of "log_request db now t r"] insert_unless_def)
qed

lemma sort_hd_least:
  assumes "order_desc key rows = r # rest"
  shows "r \<in> set rows" "\<And>r'. r' \<in> set rows \<Longrightarrow> map uminus (key r) \<le> map uminus (key r')"
proof -
  have "set (r # rest) = set rows" using assms set_order_desc [of key rows] by simp
  then show "r \<in> set rows" by auto
  have "sorted (map (\<lambda>r. map uminus (key r)) (order_desc key rows))"
    unfolding order_desc_def by (rule sorted_sort_key)
  then show "map uminus (key r) \<le> map uminus (key r')" if "r' \<in> set rows" for r'
    using that \<open>set (r # rest) = set rows\<close> assms by auto
qed

lemma latest_event_sound:
  assumes "latest_event_for_tenant db tenant_id [] statuses = Some r" and "statuses \<noteq> []"
  shows "r \<in> set (commercial_events db)" "ce_tenant_id r = Some tenant_id" "ce_status r \<in> set statuses"
    "\<And>r'. r' \<in> set (commercial_events db) \<Longrightarrow> ce_tenant_id r' = Some tenant_id \<Longrightarrow>
      ce_status r' \<in> set statuses \<Longrightarrow> ce_created_at r' \<le> ce_created_at r"
proof -
  let ?rows = "rev (filter (\<lambda>r. ce_tenant_id r = Some tenant_id \<and> ce_status r \<in> set statuses)
    (commercial_events db))"
  from assms obtain rest where o: "order_desc (\<lambda>r. [ce_created_at r]) ?rows = r # rest"
    by (auto simp: latest_event_for_tenant_def split: list.splits)
  from sort_hd_least(1) [OF o] show "r \<in> set (commercial_events db)"
    "ce_tenant_id r = Some tenant_id" "ce_status r \<in> set statuses" by simp_all
  show "ce_created_at r' \<le> ce_created_at r"
    if "r' \<in> set (commercial_events db)" "ce_tenant_id r' = Some tenant_id" "ce_status r' \<in> set statuses"
    for r'
    using sort_hd_least(2) [OF o, of r'] that by auto
qed

lemma purge_expired_kept:
  "set (shadow_analytics (fst (purge_expired db now d))) =
   {r \<in> set (shadow_analytics db). now - d * 86400000000 < sa_created_at r}"
  by (auto simp: purge_expired_def Let_def not_le)

lemma purge_expired_count:
  "length (shadow_analytics (fst (purge_expired db now d))) + snd (purge_expired db now d) =
   length (shadow_analytics db)"
  using sum_length_filter_compl [of "\<lambda>r. sa_created_at r \<le> now - d * 86400000000" "shadow_analytics db"]
  by (simp add: purge_expired_def Let_def)

section \<open>A sample row\<close>

text \<open>The ledger row of one cached request, for the examples of the development.\<close>

definition demo_request :: "string \<Rightarrow> timestamp \<Rightarrow> real \<Rightarrow> ledger_row" where
  "demo_request rid t savings = \<lparr>
     lr_request_id = rid, lr_observed_at = t, lr_tenant_id = Some ''t1'', lr_workspace_id = Some ''w1'',
     lr_environment_id = None, lr_api_key_id = None, lr_namespace = ''n1'', lr_model = ''gpt-4o'',
     lr_provider = Some ''openai_compatible'', lr_cache_outcome = ''exact_hit'',
     lr_semantic_bypass_reason = None, lr_effective_policy_version_id = None,
     lr_effective_policy_mode = None, lr_has_visual_context = False, lr_has_dom_context = False,
     lr_is_agentic = False, lr_identity_sensitive = False, lr_prompt_tokens = 10,
     lr_completion_tokens = 5, lr_total_tokens = 15, lr_estimated_upstream_cost_usd = 0,
     lr_estimated_realized_savings_usd = savings, lr_estimated_shadow_savings_usd = 0,
     lr_request_latency_ms = 0, lr_profile_build_ms = 0, lr_semantic_lookup_ms = 0,
     lr_compatibility_validation_ms = 0, lr_upstream_ms = 0, lr_metadata = []\<rparr>"

end
