(* ===== verification/Metrics.thy ===== *)
theory Metrics
  imports Domain
begin

text \<open>
  Observability: the cost model of \<open>app/observability/costing.py\<close> and the process-wide
  counters and distributions of \<open>app/observability/metrics.py\<close>. Prices, costs and sums are
  binary64 values, computed in the order of the code.
\<close>

section \<open>Cost of a completion\<close>

record model_pricing =
  prompt_per_1k_tokens_usd :: real
  completion_per_1k_tokens_usd :: real

definition DEFAULT_PRICING :: model_pricing where
  "DEFAULT_PRICING =
     \<lparr>prompt_per_1k_tokens_usd = fl 0.005, completion_per_1k_tokens_usd = fl 0.015\<rparr>"

definition MODEL_PRICING :: "(string \<times> model_pricing) list" where
  "MODEL_PRICING =
     [(''gpt-4o-mini'',
       \<lparr>prompt_per_1k_tokens_usd = fl 0.00015, completion_per_1k_tokens_usd = fl 0.0006\<rparr>),
      (''gpt-4o'',
       \<lparr>prompt_per_1k_tokens_usd = fl 0.005, completion_per_1k_tokens_usd = fl 0.015\<rparr>)]"

definition resolve_pricing :: "string \<Rightarrow> model_pricing" where
  "resolve_pricing model =
     (let normalized = py_lower model in
      case map_of MODEL_PRICING normalized of
        Some pricing \<Rightarrow> pricing
      | None \<Rightarrow>
          (case find (\<lambda>(known_model, _). prefix known_model normalized) MODEL_PRICING of
             Some (_, pricing) \<Rightarrow> pricing
           | None \<Rightarrow> DEFAULT_PRICING))"

definition estimate_cost_usd :: "string \<Rightarrow> usage \<Rightarrow> real" where
  "estimate_cost_usd model u =
     (let pricing = resolve_pricing model;
          prompt_cost = fmul (fdiv (float_of_nat (prompt_tokens u)) 1000) (prompt_per_1k_tokens_usd pricing);
          completion_cost =
            fmul (fdiv (float_of_nat (completion_tokens u)) 1000) (completion_per_1k_tokens_usd pricing)
      in fadd prompt_cost completion_cost)"

lemma resolve_pricing_mem: "resolve_pricing model \<in> insert DEFAULT_PRICING (snd ` set MODEL_PRICING)"
proof (cases "map_of MODEL_PRICING (py_lower model)")
  case (Some p)
  then have "(py_lower model, p) \<in> set MODEL_PRICING" by (rule map_of_SomeD)
  then have "p \<in> snd ` set MODEL_PRICING" by (metis image_eqI snd_conv)
  with Some show ?thesis by (simp add: resolve_pricing_def Let_def)
next
  case None
  show ?thesis
  proof (cases "find (\<lambda>(known_model, _). prefix known_model (py_lower model)) MODEL_PRICING")
    case (Some kp)
    then have "kp \<in> set MODEL_PRICING" using find_Some_mem by metis
    then have "snd kp \<in> snd ` set MODEL_PRICING" by (rule imageI)
    with None Some show ?thesis by (cases kp) (simp add: resolve_pricing_def Let_def)
  next
    case None': None
    from None None' show ?thesis by (simp add: resolve_pricing_def Let_def)
  qed
qed

lemma resolve_pricing_nonneg:
  "0 \<le> prompt_per_1k_tokens_usd (resolve_pricing model)"
  "0 \<le> completion_per_1k_tokens_usd (resolve_pricing model)"
proof -
  have "\<forall>p \<in> insert DEFAULT_PRICING (snd ` set MODEL_PRICING).
      0 \<le> prompt_per_1k_tokens_usd p \<and> 0 \<le> completion_per_1k_tokens_usd p"
    by (simp add: DEFAULT_PRICING_def MODEL_PRICING_def fl_nonneg)
  then show "0 \<le> prompt_per_1k_tokens_usd (resolve_pricing model)"
    "0 \<le> completion_per_1k_tokens_usd (resolve_pricing model)"
    using resolve_pricing_mem by blast+
qed

lemma estimate_cost_usd_nonneg: "0 \<le> estimate_cost_usd model u"
  by (simp add: estimate_cost_usd_def Let_def fadd_nonneg fmul_nonneg fdiv_nonneg
      float_of_nat_nonneg resolve_pricing_nonneg)

lemma estimate_cost_usd_mono:
  assumes "prompt_tokens u \<le> prompt_tokens u'" and "completion_tokens u \<le> completion_tokens u'"
  shows "estimate_cost_usd model u \<le> estimate_cost_usd model u'"
  unfolding estimate_cost_usd_def Let_def
  by (intro fadd_mono fmul_mono fdiv_mono float_of_nat_mono assms resolve_pricing_nonneg) simp_all

lemma estimate_cost_usd_zero:
  "prompt_tokens u = 0 \<Longrightarrow> completion_tokens u = 0 \<Longrightarrow> estimate_cost_usd model u = 0"
  by (simp add: estimate_cost_usd_def Let_def fdiv_def fmul_def fadd_def)

section \<open>Counters and distributions\<close>

text \<open>A counter holds a Python int until a float is added to it.\<close>

datatype pynum = PInt int | PFloat real

fun num_val :: "pynum \<Rightarrow> real" where
  "num_val (PInt i) = of_int i"
| "num_val (PFloat x) = x"

fun num_float :: "pynum \<Rightarrow> real" where
  "num_float (PInt i) = fl (of_int i)"
| "num_float (PFloat x) = x"

fun num_add :: "pynum \<Rightarrow> pynum \<Rightarrow> pynum" where
  "num_add (PInt i) (PInt j) = PInt (i + j)"
| "num_add a b = PFloat (fadd (num_float a) (num_float b))"

fun num_div :: "pynum \<Rightarrow> pynum \<Rightarrow> real" where
  "num_div (PInt i) (PInt j) = fl (of_int i / of_int j)"
| "num_div a b = fdiv (num_float a) (num_float b)"

record bucket =
  bucket_count :: real
  bucket_sum :: real
  bucket_max :: real

definition empty_bucket :: bucket where
  "empty_bucket = \<lparr>bucket_count = 0, bucket_sum = 0, bucket_max = 0\<rparr>"

record metrics =
  COUNTERS :: "string \<rightharpoonup> pynum"
  DISTRIBUTIONS :: "string \<rightharpoonup> bucket"

definition counter :: "metrics \<Rightarrow> string \<Rightarrow> pynum" where
  "counter m name = opt_else (COUNTERS m name) (PInt 0)"

definition increment :: "string \<Rightarrow> pynum \<Rightarrow> metrics \<Rightarrow> metrics" where
  "increment name value m = m\<lparr>COUNTERS := (COUNTERS m)(name \<mapsto> num_add (counter m name) value)\<rparr>"

definition py_max :: "real \<Rightarrow> real \<Rightarrow> real" where
  "py_max a b = (if b > a then b else a)"

definition observe :: "string \<Rightarrow> real \<Rightarrow> metrics \<Rightarrow> metrics" where
  "observe name value m =
     (let b = opt_else (DISTRIBUTIONS m name) empty_bucket in
      m\<lparr>DISTRIBUTIONS := (DISTRIBUTIONS m)(name \<mapsto>
          \<lparr>bucket_count = fadd (bucket_count b) 1, bucket_sum = fadd (bucket_sum b) value,
           bucket_max = py_max (bucket_max b) value\<rparr>)\<rparr>)"

definition reset_metrics :: "metrics \<Rightarrow> metrics" where
  "reset_metrics m = m\<lparr>COUNTERS := Map.empty, DISTRIBUTIONS := Map.empty\<rparr>"

text \<open>\<open>round(x, 8)\<close>: the decimal of eight places nearest to the exact value, as a float.\<close>

definition round8 :: "real \<Rightarrow> real" where
  "round8 x = fl (of_int (round_even (x * 10 ^ 8)) / 10 ^ 8)"

record distribution_view =
  dist_count :: int
  dist_avg :: real
  dist_max :: real

definition distribution_snapshot :: "metrics \<Rightarrow> string \<Rightarrow> distribution_view" where
  "distribution_snapshot m name =
     (let b = opt_else (DISTRIBUTIONS m name) empty_bucket in
      \<lparr>dist_count = \<lfloor>bucket_count b\<rfloor>,
       dist_avg = (if bucket_count b \<noteq> 0 then fdiv (bucket_sum b) (bucket_count b) else 0),
       dist_max = bucket_max b\<rparr>)"

text \<open>The nested dictionary of \<open>snapshot_metrics\<close>, its sections one after the other.\<close>

record metrics_snapshot =
  snap_total :: pynum
  snap_exact_hits :: pynum
  snap_semantic_hits :: pynum
  snap_misses :: pynum
  snap_hit_rate :: real
  snap_semantic :: "(string \<times> pynum) list"
  snap_scrubbing :: "(string \<times> pynum) list"
  snap_cache_backends :: "(string \<times> pynum) list"
  snap_admin :: "(string \<times> pynum) list"
  snap_tokens :: "(string \<times> pynum) list"
  snap_upstream_total :: real
  snap_savings_total :: real
  snap_latency :: "(string \<times> distribution_view) list"

definition snapshot_metrics :: "metrics \<Rightarrow> metrics_snapshot" where
  "snapshot_metrics m =
     (let requests_total = counter m ''requests_total'';
          exact_hits = counter m ''cache_exact_hits'';
          semantic_hits = counter m ''cache_semantic_hits'';
          hit_total = num_add exact_hits semantic_hits
      in \<lparr>snap_total = requests_total,
          snap_exact_hits = exact_hits,
          snap_semantic_hits = semantic_hits,
          snap_misses = counter m ''cache_misses'',
          snap_hit_rate = (if num_val requests_total \<noteq> 0 then num_div hit_total requests_total else 0),
          snap_semantic =
            [(''candidates_indexed'', counter m ''semantic_candidates_indexed''),
             (''bypasses'', counter m ''semantic_bypasses''),
             (''shadow_hits'', counter m ''semantic_shadow_hits''),
             (''shadow_logs_written'', counter m ''semantic_shadow_logs_written''),
             (''store_backend.pgvector'', counter m ''semantic_store_backend_pgvector''),
             (''store_backend.memory'', counter m ''semantic_store_backend_memory''),
             (''store_backend.fallbacks'', counter m ''semantic_store_backend_fallbacks'')],
          snap_scrubbing =
            [(''scrubbed_requests'', counter m ''scrubbed_requests''),
             (''pii_entities_redacted'', counter m ''scrubbed_pii_entities''),
             (''secret_entities_redacted'', counter m ''scrubbed_secret_entities'')],
          snap_cache_backends =
            [(''redis'', counter m ''cache_backend_redis''),
             (''memory'', counter m ''cache_backend_memory''),
             (''fallbacks'', counter m ''cache_backend_fallbacks'')],
          snap_admin =
            [(''cache_invalidations'', counter m ''admin_cache_invalidations''),
             (''exact_cache_deleted'', counter m ''admin_exact_cache_deleted''),
             (''semantic_cache_deleted'', counter m ''admin_semantic_cache_deleted'')],
          snap_tokens =
            [(''prompt'', counter m ''usage_prompt_tokens_total''),
             (''completion'', counter m ''usage_completion_tokens_total''),
             (''total'', counter m ''usage_total_tokens_total'')],
          snap_upstream_total = round8 (num_float (counter m ''estimated_upstream_cost_usd_total'')),
          snap_savings_total = round8 (num_float (counter m ''estimated_savings_usd_total'')),
          snap_latency =
            [(''overall'', distribution_snapshot m ''request_latency_ms''),
             (''upstream'', distribution_snapshot m ''request_latency_ms_upstream''),
             (''exact_hit'', distribution_snapshot m ''request_latency_ms_exact_hit''),
             (''semantic_hit'', distribution_snapshot m ''request_latency_ms_semantic_hit'')]\<rparr>)"

section \<open>Facts about the counters\<close>

lemma counter_increment:
  "counter (increment name v m) name' = (if name' = name then num_add (counter m name) v else counter m name')"
  by (simp add: counter_def increment_def)

lemma counter_observe [simp]: "counter (observe name v m) name' = counter m name'"
  by (simp add: counter_def observe_def Let_def)

lemma counter_reset [simp]: "counter (reset_metrics m) name = PInt 0"
  by (simp add: counter_def reset_metrics_def)

text \<open>The request counters only ever receive integers; \<open>int_counter\<close> reads one.\<close>

definition int_counter :: "metrics \<Rightarrow> string \<Rightarrow> int" where
  "int_counter m name = (case counter m name of PInt i \<Rightarrow> i | PFloat _ \<Rightarrow> 0)"

definition is_int_counter :: "metrics \<Rightarrow> string \<Rightarrow> bool" where
  "is_int_counter m name = (case counter m name of PInt _ \<Rightarrow> True | PFloat _ \<Rightarrow> False)"

lemma is_int_counter_iff: "is_int_counter m name \<longleftrightarrow> counter m name = PInt (int_counter m name)"
  by (auto simp: is_int_counter_def int_counter_def split: pynum.splits)

lemma increment_int:
  "is_int_counter m name \<Longrightarrow> is_int_counter (increment name' (PInt i) m) name"
  "is_int_counter m name \<Longrightarrow> int_counter (increment name' (PInt i) m) name =
     (if name = name' then int_counter m name + i else int_counter m name)"
  by (auto simp: is_int_counter_iff int_counter_def counter_increment split: pynum.splits)

lemma increment_other:
  "name \<noteq> name' \<Longrightarrow> is_int_counter (increment name' v m) name = is_int_counter m name"
  "name \<noteq> name' \<Longrightarrow> int_counter (increment name' v m) name = int_counter m name"
  by (simp_all add: is_int_counter_def int_counter_def counter_increment)

lemma int_counter_observe [simp]:
  "is_int_counter (observe n v m) name = is_int_counter m name"
  "int_counter (observe n v m) name = int_counter m name"
  by (simp_all add: is_int_counter_def int_counter_def)

lemma hit_rate_bounds:
  assumes "is_int_counter m ''requests_total''" "is_int_counter m ''cache_exact_hits''"
    "is_int_counter m ''cache_semantic_hits''"
    and "0 \<le> int_counter m ''cache_exact_hits''" "0 \<le> int_counter m ''cache_semantic_hits''"
    and "int_counter m ''cache_exact_hits'' + int_counter m ''cache_semantic_hits'' \<le>
      int_counter m ''requests_total''"
  shows "0 \<le> snap_hit_rate (snapshot_metrics m) \<and> snap_hit_rate (snapshot_metrics m) \<le> 1"
proof -
  define e s t where "e = int_counter m ''cache_exact_hits''"
    and "s = int_counter m ''cache_semantic_hits''" and "t = int_counter m ''requests_total''"
  have c: "counter m ''requests_total'' = PInt t" "counter m ''cache_exact_hits'' = PInt e"
    "counter m ''cache_semantic_hits'' = PInt s"
    using assms(1-3) by (simp_all add: is_int_counter_iff e_def s_def t_def)
  have b: "0 \<le> e" "0 \<le> s" "e + s \<le> t" using assms(4-6) by (simp_all add: e_def s_def t_def)
  have h: "snap_hit_rate (snapshot_metrics m) = (if t \<noteq> 0 then fl (of_int (e + s) / of_int t) else 0)"
    by (simp add: snapshot_metrics_def Let_def c)
  have "fl (of_int (e + s) / of_int t) \<le> fl 1" if "t \<noteq> 0"
    using b that by (intro fl_mono) (simp add: divide_le_eq_1)
  moreover have "0 \<le> fl (of_int (e + s) / of_int t)"
    using b by (intro fl_nonneg) simp
  ultimately show ?thesis by (simp add: h)
qed

text \<open>What a sequence of observations leaves in its bucket.\<close>

lemma observe_same: "DISTRIBUTIONS (observe n v m) n =
    Some \<lparr>bucket_count = fadd (bucket_count (opt_else (DISTRIBUTIONS m n) empty_bucket)) 1,
          bucket_sum = fadd (bucket_sum (opt_else (DISTRIBUTIONS m n) empty_bucket)) v,
          bucket_max = py_max (bucket_max (opt_else (DISTRIBUTIONS m n) empty_bucket)) v\<rparr>"
  by (simp add: observe_def Let_def)

lemma Max_insert_max: "finite S \<Longrightarrow> Max (insert (max a v) S) = Max (insert a (insert (v :: real) S))"
  by (cases "S = {}") (simp_all add: max.assoc)

lemma fold_observe_max:
  "bucket_max (opt_else (DISTRIBUTIONS (fold (observe n) vs m) n) empty_bucket) =
   Max (insert (bucket_max (opt_else (DISTRIBUTIONS m n) empty_bucket)) (set vs))"
proof (induction vs arbitrary: m)
  case (Cons v vs)
  have "py_max a v = max a v" for a by (simp add: py_max_def)
  then show ?case using Cons.IH [of "observe n v m"]
    by (simp only: fold_simps observe_same opt_else_simps bucket.simps list.set Max_insert_max
        List.finite_set)
qed simp

lemma fold_observe_count:
  "bucket_count (opt_else (DISTRIBUTIONS m n) empty_bucket) = of_nat k \<Longrightarrow> k + length vs < 2 ^ 53 \<Longrightarrow>
   bucket_count (opt_else (DISTRIBUTIONS (fold (observe n) vs m) n) empty_bucket) = of_nat (k + length vs)"
proof (induction vs arbitrary: m k)
  case (Cons v vs)
  have "fl (of_int (int (Suc k))) = of_int (int (Suc k))"
    using Cons.prems(2) by (intro fl_of_int) simp
  then have "fadd (of_nat k) 1 = of_nat (Suc k)" by (simp add: fadd_def add.commute)
  then show ?case
    using Cons.prems Cons.IH [of "observe n v m" "Suc k"] by (simp add: observe_same)
qed simp

end
