(* ===== verification/Rollups.thy ===== *)
theory Rollups
  imports EventLog Metrics
begin

text \<open>
  Daily rollups: the two \<open>INSERT ... SELECT ... GROUP BY ... ON CONFLICT DO UPDATE\<close>
  statements and the listings of \<open>app/controlplane/repositories/rollups.py\<close>, the service of
  \<open>app/controlplane/services/rollup_service.py\<close> and its job. A unique constraint does not
  relate two rows that have a NULL among its columns, so only keys without NULL conflict.
\<close>

type_synonym usage_key = "int \<times> string option \<times> string option"

definition ledger_usage_key :: "ledger_row \<Rightarrow> usage_key" where
  "ledger_usage_key r = (sql_date (lr_observed_at r), lr_tenant_id r, lr_workspace_id r)"

definition usage_key :: "usage_rollup_row \<Rightarrow> usage_key" where
  "usage_key u = (ur_rollup_date u, ur_tenant_id u, ur_workspace_id u)"

definition key_not_null :: "usage_key \<Rightarrow> bool" where
  "key_not_null k = (case k of (_, t, w) \<Rightarrow> t \<noteq> None \<and> w \<noteq> None)"

definition count_if :: "('a \<Rightarrow> bool) \<Rightarrow> 'a list \<Rightarrow> nat" where
  "count_if P xs = length (filter P xs)"

section \<open>The usage rollups\<close>

definition usage_group :: "timestamp \<Rightarrow> ledger_row list \<Rightarrow> usage_key \<Rightarrow> usage_rollup_row" where
  "usage_group now ledger k =
     (let g = filter (\<lambda>r. ledger_usage_key r = k) ledger in
      \<lparr>ur_rollup_date = fst k, ur_tenant_id = fst (snd k), ur_workspace_id = snd (snd k),
       ur_request_count = length g,
       ur_exact_hit_count = count_if (\<lambda>r. lr_cache_outcome r = ''exact_hit'') g,
       ur_semantic_hit_count = count_if (\<lambda>r. lr_cache_outcome r = ''semantic_hit'') g,
       ur_miss_count = count_if (\<lambda>r. lr_cache_outcome r = ''miss'') g,
       ur_upstream_cost_usd_total = sql_sum (map lr_estimated_upstream_cost_usd g),
       ur_realized_savings_usd_total = sql_sum (map lr_estimated_realized_savings_usd g),
       ur_shadow_savings_usd_total = sql_sum (map lr_estimated_shadow_savings_usd g),
       ur_created_at = now, ur_updated_at = now\<rparr>)"

definition usage_conflict :: "usage_rollup_row \<Rightarrow> usage_rollup_row \<Rightarrow> bool" where
  "usage_conflict old new \<longleftrightarrow> key_not_null (usage_key new) \<and> usage_key old = usage_key new"

definition usage_overwrite :: "usage_rollup_row \<Rightarrow> usage_rollup_row \<Rightarrow> usage_rollup_row" where
  "usage_overwrite new old =
     old\<lparr>ur_request_count := ur_request_count new,
         ur_exact_hit_count := ur_exact_hit_count new,
         ur_semantic_hit_count := ur_semantic_hit_count new,
         ur_miss_count := ur_miss_count new,
         ur_upstream_cost_usd_total := ur_upstream_cost_usd_total new,
         ur_realized_savings_usd_total := ur_realized_savings_usd_total new,
         ur_shadow_savings_usd_total := ur_shadow_savings_usd_total new,
         ur_updated_at := ur_updated_at new\<rparr>"

definition upsert :: "('a \<Rightarrow> 'a \<Rightarrow> bool) \<Rightarrow> ('a \<Rightarrow> 'a \<Rightarrow> 'a) \<Rightarrow> 'a list \<Rightarrow> 'a \<Rightarrow> 'a list" where
  "upsert conflict overwrite rows new =
     (if list_ex (\<lambda>old. conflict old new) rows
      then map (\<lambda>old. if conflict old new then overwrite new old else old) rows
      else rows @ [new])"

definition rebuild_daily_usage_rollups :: "database \<Rightarrow> timestamp \<Rightarrow> database \<times> nat" where
  "rebuild_daily_usage_rollups db now =
     (let groups = map (usage_group now (request_ledger db))
                     (remdups (map ledger_usage_key (request_ledger db)))
      in (db\<lparr>daily_usage_rollups :=
               foldl (upsert usage_conflict usage_overwrite) (daily_usage_rollups db) groups\<rparr>,
          length groups))"

section \<open>The namespace rollups\<close>

type_synonym namespace_key = "int \<times> string option \<times> string option \<times> string"

definition ledger_namespace_key :: "ledger_row \<Rightarrow> namespace_key" where
  "ledger_namespace_key r =
     (sql_date (lr_observed_at r), lr_tenant_id r, lr_workspace_id r, lr_namespace r)"

definition namespace_key :: "namespace_rollup_row \<Rightarrow> namespace_key" where
  "namespace_key u = (nr_rollup_date u, nr_tenant_id u, nr_workspace_id u, nr_namespace u)"

text \<open>
  The common table expression groups the alerts, so the outer join finds at most one count
  per key and the \<open>MAX\<close> over the joined group is that count.
\<close>

definition shadow_alert_count :: "risk_event_row list \<Rightarrow> namespace_key \<Rightarrow> nat" where
  "shadow_alert_count events k =
     count_if (\<lambda>e. rk_event_type e = ''shadow_regression_alert'' \<and>
                   (sql_date (rk_created_at e), rk_tenant_id e, rk_workspace_id e, rk_namespace e) = k) events"

definition namespace_group ::
  "timestamp \<Rightarrow> database \<Rightarrow> namespace_key \<Rightarrow> namespace_rollup_row" where
  "namespace_group now db k =
     (let g = filter (\<lambda>r. ledger_namespace_key r = k) (request_ledger db) in
      \<lparr>nr_rollup_date = fst k, nr_tenant_id = fst (snd k), nr_workspace_id = fst (snd (snd k)),
       nr_namespace = snd (snd (snd k)),
       nr_request_count = length g,
       nr_exact_hit_count = count_if (\<lambda>r. lr_cache_outcome r = ''exact_hit'') g,
       nr_semantic_hit_count = count_if (\<lambda>r. lr_cache_outcome r = ''semantic_hit'') g,
       nr_miss_count = count_if (\<lambda>r. lr_cache_outcome r = ''miss'') g,
       nr_shadow_alert_count = shadow_alert_count (risk_events db) k,
       nr_visual_request_count = count_if lr_has_visual_context g,
       nr_agentic_request_count = count_if lr_is_agentic g,
       nr_identity_sensitive_request_count = count_if lr_identity_sensitive g,
       nr_upstream_cost_usd_total = sql_sum (map lr_estimated_upstream_cost_usd g),
       nr_realized_savings_usd_total = sql_sum (map lr_estimated_realized_savings_usd g),
       nr_shadow_savings_usd_total = sql_sum (map lr_estimated_shadow_savings_usd g),
       nr_created_at = now, nr_updated_at = now\<rparr>)"

definition namespace_conflict :: "namespace_rollup_row \<Rightarrow> namespace_rollup_row \<Rightarrow> bool" where
  "namespace_conflict old new \<longleftrightarrow>
     nr_tenant_id new \<noteq> None \<and> nr_workspace_id new \<noteq> None \<and> namespace_key old = namespace_key new"

definition namespace_overwrite :: "namespace_rollup_row \<Rightarrow> namespace_rollup_row \<Rightarrow> namespace_rollup_row" where
  "namespace_overwrite new old =
     old\<lparr>nr_request_count := nr_request_count new,
         nr_exact_hit_count := nr_exact_hit_count new,
         nr_semantic_hit_count := nr_semantic_hit_count new,
         nr_miss_count := nr_miss_count new,
         nr_shadow_alert_count := nr_shadow_alert_count new,
         nr_visual_request_count := nr_visual_request_count new,
         nr_agentic_request_count := nr_agentic_request_count new,
         nr_identity_sensitive_request_count := nr_identity_sensitive_request_count new,
         nr_upstream_cost_usd_total := nr_upstream_cost_usd_total new,
         nr_realized_savings_usd_total := nr_realized_savings_usd_total new,
         nr_shadow_savings_usd_total := nr_shadow_savings_usd_total new,
         nr_updated_at := nr_updated_at new\<rparr>"

definition rebuild_daily_namespace_rollups :: "database \<Rightarrow> timestamp \<Rightarrow> database \<times> nat" where
  "rebuild_daily_namespace_rollups db now =
     (let groups = map (namespace_group now db)
                     (remdups (map ledger_namespace_key (request_ledger db)))
      in (db\<lparr>daily_namespace_rollups :=
               foldl (upsert namespace_conflict namespace_overwrite) (daily_namespace_rollups db) groups\<rparr>,
          length groups))"

section \<open>Listings, service and job\<close>

definition if_given :: "'a option \<Rightarrow> ('a \<Rightarrow> bool) \<Rightarrow> bool" where
  "if_given x P = (case x of None \<Rightarrow> True | Some v \<Rightarrow> P v)"

definition list_daily_usage_rollups ::
  "database \<Rightarrow> nat \<Rightarrow> string option \<Rightarrow> string option \<Rightarrow> int option \<Rightarrow> usage_rollup_row list" where
  "list_daily_usage_rollups db limit tenant_id workspace_id rollup_date =
     take limit (order_desc (\<lambda>u. [ur_rollup_date u, ur_updated_at u])
       (filter (\<lambda>u. if_given tenant_id (\<lambda>t. ur_tenant_id u = Some t) \<and>
                    if_given workspace_id (\<lambda>w. ur_workspace_id u = Some w) \<and>
                    if_given rollup_date (\<lambda>d. ur_rollup_date u = d)) (daily_usage_rollups db)))"

definition list_daily_namespace_rollups ::
  "database \<Rightarrow> nat \<Rightarrow> string option \<Rightarrow> string option \<Rightarrow> string option \<Rightarrow> int option \<Rightarrow>
   namespace_rollup_row list" where
  "list_daily_namespace_rollups db limit tenant_id workspace_id namespace rollup_date =
     take limit (order_desc (\<lambda>u. [nr_rollup_date u, nr_updated_at u])
       (filter (\<lambda>u. if_given tenant_id (\<lambda>t. nr_tenant_id u = Some t) \<and>
                    if_given workspace_id (\<lambda>w. nr_workspace_id u = Some w) \<and>
                    if_given namespace (\<lambda>n. nr_namespace u = n) \<and>
                    if_given rollup_date (\<lambda>d. nr_rollup_date u = d)) (daily_namespace_rollups db)))"

text \<open>Without a repository the service does nothing; \<open>None\<close> stands for it.\<close>

definition rebuild_usage ::
  "database option \<Rightarrow> metrics \<Rightarrow> timestamp \<Rightarrow> database option \<times> metrics \<times> nat" where
  "rebuild_usage repository m now = (case repository of
     None \<Rightarrow> (None, m, 0)
   | Some db \<Rightarrow> (let (db', n) = rebuild_daily_usage_rollups db now
                in (Some db', increment ''rollups_usage_rebuilds'' (PInt 1) m, n)))"

definition rebuild_namespaces ::
  "database option \<Rightarrow> metrics \<Rightarrow> timestamp \<Rightarrow> database option \<times> metrics \<times> nat" where
  "rebuild_namespaces repository m now = (case repository of
     None \<Rightarrow> (None, m, 0)
   | Some db \<Rightarrow> (let (db', n) = rebuild_daily_namespace_rollups db now
                in (Some db', increment ''rollups_namespace_rebuilds'' (PInt 1) m, n)))"

record rebuild_result =
  usage_affected_rows :: nat
  namespace_affected_rows :: nat

definition rebuild_all ::
  "database option \<Rightarrow> metrics \<Rightarrow> timestamp \<Rightarrow> database option \<times> metrics \<times> rebuild_result" where
  "rebuild_all repository m now =
     (let (r1, m1, u) = rebuild_usage repository m now;
          (r2, m2, n) = rebuild_namespaces r1 m1 now
      in (r2, m2, \<lparr>usage_affected_rows = u, namespace_affected_rows = n\<rparr>))"

section \<open>Facts about grouping and upserting\<close>

lemma count_if_partition:
  assumes "\<And>x. x \<in> set xs \<Longrightarrow> (P x \<and> \<not> Q x \<and> \<not> R x) \<or> (\<not> P x \<and> Q x \<and> \<not> R x) \<or> (\<not> P x \<and> \<not> Q x \<and> R x)"
  shows "count_if P xs + count_if Q xs + count_if R xs = length xs"
  using assms
proof (induction xs)
  case (Cons x xs)
  then have "count_if P xs + count_if Q xs + count_if R xs = length xs" by simp
  with Cons.prems [of x] show ?case by (auto simp: count_if_def)
qed (simp add: count_if_def)

lemma usage_key_group [simp]: "usage_key (usage_group now ledger k) = k"
  by (simp add: usage_key_def usage_group_def Let_def)

lemma usage_key_overwrite [simp]: "usage_key (usage_overwrite new old) = usage_key old"
  by (simp add: usage_key_def usage_overwrite_def)

text \<open>The groups partition the ledger.\<close>

lemma sum_groups:
  "distinct ks \<Longrightarrow> key ` set xs \<subseteq> set ks \<Longrightarrow>
   sum_list (map (\<lambda>k. length (filter (\<lambda>x. key x = k) xs)) ks) = length xs"
proof (induction xs)
  case (Cons x xs)
  have "sum_list (map (\<lambda>k. length (filter (\<lambda>y. key y = k) (x # xs))) ks) =
      sum_list (map (\<lambda>k. (if k = key x then 1 else 0) + length (filter (\<lambda>y. key y = k) xs)) ks)"
    by (rule arg_cong [where f = sum_list]) auto
  also have "\<dots> = sum_list (map (\<lambda>k. if k = key x then 1 else 0) ks) + length xs"
    using Cons by (simp add: sum_list_addf)
  also have "sum_list (map (\<lambda>k. if k = key x then 1 else 0) ks) = (1::nat)"
  proof -
    have "key x \<in> set ks" using Cons.prems(2) by simp
    with Cons.prems(1) show ?thesis
      by (simp add: sum_list_distinct_conv_sum_set)
  qed
  finally show ?case by simp
qed simp

lemma rollup_conservation:
  "sum_list (map (\<lambda>k. ur_request_count (usage_group now ledger k))
     (remdups (map ledger_usage_key ledger))) = length ledger"
  using sum_groups [of "remdups (map ledger_usage_key ledger)" ledger_usage_key ledger]
  by (simp add: usage_group_def Let_def)

lemma usage_group_counts:
  assumes "\<forall>r \<in> set ledger. lr_cache_outcome r \<in> {''exact_hit'', ''semantic_hit'', ''miss''}"
  shows "ur_exact_hit_count (usage_group now ledger k) + ur_semantic_hit_count (usage_group now ledger k) +
    ur_miss_count (usage_group now ledger k) = ur_request_count (usage_group now ledger k)"
  unfolding usage_group_def Let_def
  by (simp, rule count_if_partition) (use assms in auto)

text \<open>An upsert under a key touches the rows of that key only.\<close>

lemma upsert_filter_other:
  assumes "\<And>old. conflict old new \<Longrightarrow> key old = key new" "\<And>old. key (overwrite new old) = key old"
    and "key new \<noteq> k"
  shows "filter (\<lambda>u. key u = k) (upsert conflict overwrite rows new) = filter (\<lambda>u. key u = k) rows"
proof -
  have "filter (\<lambda>u. key u = k) (map (\<lambda>old. if conflict old new then overwrite new old else old) rows) =
      filter (\<lambda>u. key u = k) rows"
    using assms by (intro filter_map_update) auto
  then show ?thesis using assms(3) by (simp add: upsert_def)
qed

lemma filter_map_if_key:
  assumes "\<And>old. conflict old \<longleftrightarrow> key old = k" "\<And>old. key (f old) = key old"
  shows "filter (\<lambda>u. key u = k) (map (\<lambda>old. if conflict old then f old else old) rows) =
    map f (filter (\<lambda>u. key u = k) rows)"
  by (induction rows) (auto simp: assms)

lemma upsert_filter_same:
  assumes "\<And>old. conflict old new \<longleftrightarrow> key old = key new" "\<And>old. key (overwrite new old) = key old"
  shows "filter (\<lambda>u. key u = key new) (upsert conflict overwrite rows new) =
    (if filter (\<lambda>u. key u = key new) rows = [] then [new]
     else map (overwrite new) (filter (\<lambda>u. key u = key new) rows))"
proof (cases "list_ex (\<lambda>old. conflict old new) rows")
  case True
  then have "filter (\<lambda>u. key u = key new) rows \<noteq> []"
    by (auto simp: list_ex_iff assms(1) filter_empty_conv)
  with True show ?thesis
    using filter_map_if_key [of "\<lambda>old. conflict old new" key "key new" "overwrite new" rows] assms
    by (simp add: upsert_def)
next
  case False
  then have "filter (\<lambda>u. key u = key new) rows = []"
    by (auto simp: list_ex_iff assms(1) filter_empty_conv)
  with False show ?thesis by (simp add: upsert_def)
qed

lemma upsert_filter_null:
  assumes "\<And>old. \<not> conflict old new"
  shows "upsert conflict overwrite rows new = rows @ [new]"
  using assms by (simp add: upsert_def list_ex_iff)

lemma fold_usage_other:
  "k \<notin> usage_key ` set groups \<Longrightarrow>
   filter (\<lambda>u. usage_key u = k) (foldl (upsert usage_conflict usage_overwrite) rows groups) =
   filter (\<lambda>u. usage_key u = k) rows"
proof (induction groups arbitrary: rows)
  case (Cons g groups)
  have "filter (\<lambda>u. usage_key u = k) (upsert usage_conflict usage_overwrite rows g) =
      filter (\<lambda>u. usage_key u = k) rows"
    using Cons.prems by (intro upsert_filter_other) (auto simp: usage_conflict_def)
  with Cons show ?case by simp
qed simp

lemma fold_usage_key:
  assumes "distinct (map usage_key groups)" "g \<in> set groups"
  shows "filter (\<lambda>u. usage_key u = usage_key g) (foldl (upsert usage_conflict usage_overwrite) rows groups) =
    (let old = filter (\<lambda>u. usage_key u = usage_key g) rows in
     if key_not_null (usage_key g)
     then if old = [] then [g] else map (usage_overwrite g) old
     else old @ [g])"
  using assms
proof (induction groups arbitrary: rows)
  case (Cons h groups)
  let ?rows = "upsert usage_conflict usage_overwrite rows h"
  show ?case
  proof (cases "h = g")
    case True
    with Cons.prems have "usage_key g \<notin> usage_key ` set groups" by simp
    from fold_usage_other [OF this, of ?rows] True
    have "filter (\<lambda>u. usage_key u = usage_key g)
        (foldl (upsert usage_conflict usage_overwrite) rows (h # groups)) =
        filter (\<lambda>u. usage_key u = usage_key g) (upsert usage_conflict usage_overwrite rows g)"
      by simp
    also have "\<dots> = (let old = filter (\<lambda>u. usage_key u = usage_key g) rows in
     if key_not_null (usage_key g)
     then if old = [] then [g] else map (usage_overwrite g) old
     else old @ [g])"
    proof (cases "key_not_null (usage_key g)")
      case True
      then show ?thesis
        by (subst upsert_filter_same) (auto simp: usage_conflict_def Let_def)
    next
      case False
      then show ?thesis
        by (subst upsert_filter_null) (auto simp: usage_conflict_def Let_def)
    qed
    finally show ?thesis .
  next
    case False
    with Cons.prems have "usage_key h \<noteq> usage_key g" by force
    then have "filter (\<lambda>u. usage_key u = usage_key g) ?rows = filter (\<lambda>u. usage_key u = usage_key g) rows"
      by (intro upsert_filter_other) (auto simp: usage_conflict_def)
    with Cons False show ?thesis by simp
  qed
qed simp

lemma rebuild_usage_key:
  assumes "k \<in> ledger_usage_key ` set (request_ledger db)"
  shows "filter (\<lambda>u. usage_key u = k) (daily_usage_rollups (fst (rebuild_daily_usage_rollups db now))) =
    (let old = filter (\<lambda>u. usage_key u = k) (daily_usage_rollups db);
         new = usage_group now (request_ledger db) k
     in if key_not_null k then if old = [] then [new] else map (usage_overwrite new) old
        else old @ [new])"
proof -
  let ?groups = "map (usage_group now (request_ledger db)) (remdups (map ledger_usage_key (request_ledger db)))"
  have d: "distinct (map usage_key ?groups)" by (simp add: comp_def)
  have g: "usage_group now (request_ledger db) k \<in> set ?groups" using assms by simp
  show ?thesis
    using fold_usage_key [OF d g, of "daily_usage_rollups db"]
    by (simp add: rebuild_daily_usage_rollups_def Let_def)
qed

text \<open>The columns a rebuild writes.\<close>

definition usage_figures :: "usage_rollup_row \<Rightarrow> nat list \<times> real list" where
  "usage_figures u =
     ([ur_request_count u, ur_exact_hit_count u, ur_semantic_hit_count u, ur_miss_count u],
      [ur_upstream_cost_usd_total u, ur_realized_savings_usd_total u, ur_shadow_savings_usd_total u])"

definition rollups_unique :: "usage_rollup_row list \<Rightarrow> bool" where
  "rollups_unique rows \<longleftrightarrow>
     (\<forall>k. key_not_null k \<longrightarrow> length (filter (\<lambda>u. usage_key u = k) rows) \<le> 1)"

lemma rebuild_unique:
  assumes "rollups_unique (daily_usage_rollups db)"
  shows "rollups_unique (daily_usage_rollups (fst (rebuild_daily_usage_rollups db now)))"
  unfolding rollups_unique_def
proof (intro allI impI)
  fix k assume k: "key_not_null k"
  have old: "length (filter (\<lambda>u. usage_key u = k) (daily_usage_rollups db)) \<le> 1"
    using assms k unfolding rollups_unique_def by blast
  show "length (filter (\<lambda>u. usage_key u = k)
      (daily_usage_rollups (fst (rebuild_daily_usage_rollups db now)))) \<le> 1"
  proof (cases "k \<in> ledger_usage_key ` set (request_ledger db)")
    case True
    from rebuild_usage_key [OF this, of now] k old show ?thesis
      by (simp add: Let_def)
  next
    case False
    then have "filter (\<lambda>u. usage_key u = k)
        (daily_usage_rollups (fst (rebuild_daily_usage_rollups db now))) =
        filter (\<lambda>u. usage_key u = k) (daily_usage_rollups db)"
      by (simp add: rebuild_daily_usage_rollups_def Let_def)
        (rule fold_usage_other, auto)
    with old show ?thesis by simp
  qed
qed

lemma rebuild_reflects_ledger:
  assumes "rollups_unique (daily_usage_rollups db)"
    and "k \<in> ledger_usage_key ` set (request_ledger db)" and "key_not_null k"
  shows "\<exists>u. filter (\<lambda>u. usage_key u = k)
      (daily_usage_rollups (fst (rebuild_daily_usage_rollups db now))) = [u] \<and>
    usage_figures u = usage_figures (usage_group now (request_ledger db) k)"
proof -
  let ?old = "filter (\<lambda>u. usage_key u = k) (daily_usage_rollups db)"
  have "length ?old \<le> 1" using assms(1,3) unfolding rollups_unique_def by blast
  then consider "?old = []" | u where "?old = [u]" by (cases ?old) auto
  then show ?thesis
    using rebuild_usage_key [OF assms(2), of now] assms(3)
    by cases (auto simp: Let_def usage_figures_def usage_overwrite_def)
qed

end
