(* ===== verification/ControlProperties.thy ===== *)
theory ControlProperties
  imports PolicyState Authz Provider Rollups
begin

text \<open>
  The properties of the control plane around the proxy: policy overrides and presets, tenant
  authorization, the upstream retry loop, the rollups and the cost model.
\<close>

section \<open>Policy overrides\<close>

text \<open>
  C22. Once the PostgreSQL row exists, any sequence of well-typed admin updates is accepted, and
  afterwards every policy key holds the last value an update gave it that was not \<open>None\<close>,
  or its old value when none did: updates never clear a key.
\<close>

theorem policy_last_update_wins:
  assumes "pg_ready row" "list_all typed_updates us"
  shows "\<exists>row'. update_all (pg_update_overrides parse_float) row us = Inr row' \<and>
    (\<forall>k \<in> policy_keys. dict_get (pg_get_overrides row') k =
      (case find (\<lambda>u. dict_get u k \<noteq> JNull) (rev us) of
         None \<Rightarrow> dict_get (pg_get_overrides row) k | Some u \<Rightarrow> dict_get u k))"
  using pg_pol.update_all_ok [OF assms, of parse_float] pg_pol.update_all_last [OF assms, of parse_float]
  by blast

lemma policy_last_update_wins_witness:
  "\<exists>row'. update_all (pg_update_overrides (\<lambda>_. None))
      (Some \<lparr>row_overrides = JObj [], row_semantic_shadow_threshold = 0\<rparr>)
      [[(''semantic_threshold'', JFloat 1)], [(''semantic_threshold'', JNull)]] = Inr row' \<and>
    dict_get (pg_get_overrides row') ''semantic_threshold'' = JFloat 1"
proof -
  have "pg_ready (Some \<lparr>row_overrides = JObj [], row_semantic_shadow_threshold = 0\<rparr>)"
    by (simp add: pg_ready_def decode_json_object_def)
  moreover have "list_all typed_updates [[(''semantic_threshold'', JFloat 1)], [(''semantic_threshold'', JNull)]]"
    by (simp add: typed_updates_def dict_get_def)
  moreover have "''semantic_threshold'' \<in> policy_keys" by (simp add: policy_keys_def DEFAULT_POLICY_STATE_def)
  ultimately show ?thesis
    using policy_last_update_wins [of "Some \<lparr>row_overrides = JObj [], row_semantic_shadow_threshold = 0\<rparr>"
        "[[(''semantic_threshold'', JFloat 1)], [(''semantic_threshold'', JNull)]]" "\<lambda>_. None"]
    by (force simp: dict_get_def)
qed

text \<open>
  Without a row the PostgreSQL store cannot take an update that leaves the shadow threshold
  out: the merged state holds \<open>None\<close> for it and \<open>float(None)\<close> raises. The in-memory store
  accepts the same update.
\<close>

theorem empty_store_update_fails:
  assumes "distinct (map fst u)" "dict_get u ''semantic_shadow_threshold'' = JNull"
  shows "pg_update_overrides parse_float None u = Inl (TypeErr ''float() argument must be a string or a real number'')
    \<and> is_ok (mem_update_overrides DEFAULT_POLICY_STATE u)"
proof -
  let ?d = "apply_updates DEFAULT_POLICY_STATE u"
  have "has_key ?d ''semantic_shadow_threshold''"
    unfolding apply_updates_keys default_keys by (rule shadow_key)
  moreover have "dict_get ?d ''semantic_shadow_threshold'' = JNull"
    using apply_updates_get [OF assms(1)] assms(2) default_get by simp
  ultimately show ?thesis
    by (simp add: pg_update_overrides_def pg_get_overrides_def pg_write_row_def py_float_def
        mem_update_overrides_def Let_def)
qed

lemma empty_store_update_fails_witness:
  "pg_update_overrides (\<lambda>_. None) None [(''dlp_enabled'', JBool True)] =
    Inl (TypeErr ''float() argument must be a string or a real number'')"
  using empty_store_update_fails [of "[(''dlp_enabled'', JBool True)]" "\<lambda>_. None"]
  by (simp add: dict_get_def)

text \<open>
  A hardening preset fills in what the request leaves open and overrides nothing it states.
\<close>

theorem preset_fills_gaps:
  assumes "dict_get u ''semantic_hardening_preset'' = JStr name"
  shows "case map_of SEMANTIC_HARDENING_PRESETS name of
      None \<Rightarrow> apply_semantic_hardening_preset u = Inl (ValueErr (''Unknown semantic hardening preset: '' @ name))
    | Some preset \<Rightarrow> (\<exists>merged. apply_semantic_hardening_preset u = Inr merged \<and>
        (\<forall>k. dict_get merged k = (if dict_get u k = JNull then dict_get preset k else dict_get u k)))"
proof (cases "map_of SEMANTIC_HARDENING_PRESETS name")
  case None
  with assms show ?thesis by (simp add: apply_semantic_hardening_preset_def)
next
  case (Some preset)
  have "dict_get preset k = JNull" if "\<not> has_key preset k" for k
    using that by (simp add: has_key_iff dict_get_def)
  with Some fill_missing_get [OF preset_entry_distinct [OF Some], of u] assms show ?thesis
    by (auto simp: apply_semantic_hardening_preset_def)
qed

lemma preset_fills_gaps_witness:
  "\<exists>merged. apply_semantic_hardening_preset
      [(''semantic_hardening_preset'', JStr ''balanced''), (''semantic_threshold'', JFloat 1)] = Inr merged \<and>
    dict_get merged ''semantic_threshold'' = JFloat 1 \<and> dict_get merged ''semantic_enabled'' = JBool True"
  using preset_fills_gaps [of "[(''semantic_hardening_preset'', JStr ''balanced''), (''semantic_threshold'', JFloat 1)]"
      "''balanced''"]
  by (fastforce simp: SEMANTIC_HARDENING_PRESETS_def dict_get_def)

section \<open>Tenant authorization\<close>

text \<open>
  A request never acts for another tenant: with an authenticated tenant the scope is that
  tenant's and a differing tenant parameter is refused with 403; without one, the parameter is
  honoured only where the fallback is switched on, and then as a plain reader.
\<close>

theorem tenant_scope_is_confined:
  assumes "resolve_tenant_access_scope cfg (Some c) requested = Inr sc"
  shows "if truthy (ctx_tenant_id c)
    then ctx_tenant_id c = Some (scope_tenant_id sc) \<and> requested \<in> {None, Some [], ctx_tenant_id c}
    else cfg_tenant_query_param_fallback_enabled cfg \<and> requested = Some (scope_tenant_id sc) \<and>
      set (scope_capabilities sc) = {''billing:read'', ''billing:scope:read''}"
proof (cases "truthy (ctx_tenant_id c)")
  case True
  with scope_from_context [OF assms] show ?thesis by simp
next
  case False
  have "set (capabilities_for_role (Some ''tenant_reader'')) = {''billing:read'', ''billing:scope:read''}"
    by (simp add: capabilities_for_role_def ROLE_CAPABILITIES_def)
  with False scope_from_query [OF assms] show ?thesis by simp
qed

definition demo_settings :: settings where
  "demo_settings = default_settings\<lparr>cfg_tenant_query_param_fallback_enabled := True\<rparr>"

lemma tenant_scope_is_confined_witness:
  "\<exists>sc. resolve_tenant_access_scope demo_settings (Some (new_context ''n1'' None None)) (Some ''t1'') = Inr sc \<and>
    set (scope_capabilities sc) = {''billing:read'', ''billing:scope:read''}"
proof -
  obtain sc where sc: "resolve_tenant_access_scope demo_settings (Some (new_context ''n1'' None None)) (Some ''t1'') = Inr sc"
    by (simp add: resolve_tenant_access_scope_def demo_settings_def new_context_def Let_def)
  from tenant_scope_is_confined [OF sc] sc show ?thesis by (simp add: new_context_def)
qed

text \<open>
  A key without a role falls back to the administrator role unless its capabilities contain
  a whole role: narrowing a key to some capabilities, none of which completes a role, gives it
  every administrator capability.
\<close>

theorem narrowed_key_becomes_admin:
  assumes "\<not> set (capabilities_for_role (Some ''tenant_reader'')) \<subseteq> set cs"
  shows "derive_tenant_role None cs = ''tenant_admin'' \<and>
    set (capabilities_for_role (Some ''tenant_admin'')) \<subseteq>
      set (normalize_tenant_capabilities (Some (derive_tenant_role None cs)) cs)"
proof -
  have "derive_tenant_role None cs = ''tenant_admin''"
    using assms by (auto simp: derive_tenant_role_def Let_def list_all_iff)
  then show ?thesis by (simp add: set_normalize)
qed

lemma narrowed_key_becomes_admin_witness:
  "derive_tenant_role None [''billing:read''] = ''tenant_admin''"
  using narrowed_key_becomes_admin [of "[''billing:read'']"]
  by (simp add: capabilities_for_role_def ROLE_CAPABILITIES_def)

section \<open>The upstream retry loop\<close>

text \<open>
  C23. A call makes at most \<open>max_retries + 1\<close> POSTs and ends with the result of the last one
  made; every earlier one ended in a timeout, a transport error or a server error, and a
  retryable error is only returned once the attempts are used up.
\<close>

theorem provider_retries_bounded:
  assumes "0 \<le> max_retries cfg"
  shows "\<exists>k \<le> nat (max_retries cfg).
    create_chat_completion cfg dump parse post r bearer =
      (Suc k, attempt_once parse (post (outbound_request cfg dump r bearer) k)) \<and>
    (\<forall>j < k. retryable_error (attempt_once parse (post (outbound_request cfg dump r bearer) j))) \<and>
    (retryable_error (attempt_once parse (post (outbound_request cfg dump r bearer) k)) \<longrightarrow>
      k = nat (max_retries cfg))"
proof -
  let ?send = "post (outbound_request cfg dump r bearer)"
  have n: "nat (max_retries cfg + 1) = Suc (nat (max_retries cfg))" using assms by (simp add: nat_add_distrib)
  obtain k where "k < Suc (nat (max_retries cfg))"
    "retry_loop parse ?send 0 (Suc (nat (max_retries cfg))) = (Suc k, attempt_once parse (?send k))"
    "\<forall>j < k. retryable_error (attempt_once parse (?send j))"
    "retryable_error (attempt_once parse (?send k)) \<longrightarrow> Suc k = Suc (nat (max_retries cfg))"
    using retry_loop_result [of "Suc (nat (max_retries cfg))" parse ?send 0] by auto
  then show ?thesis unfolding create_chat_completion_def n by auto
qed

definition demo_call :: chat_request where
  "demo_call = \<lparr>req_model = ''m'', req_messages = [], req_temperature = None, req_stream = False, req_metadata = []\<rparr>"

lemma provider_retries_bounded_witness:
  "\<exists>k \<le> 1. fst (create_chat_completion \<lparr>base_url = ''http://u/'', provider_api_key = None, max_retries = 1\<rparr>
      (\<lambda>_. []) (\<lambda>_. Inl (ValueErr ''x'')) (\<lambda>_ _. Timeout) demo_call None) = Suc k \<and> k = 1"
  using provider_retries_bounded [of "\<lparr>base_url = ''http://u/'', provider_api_key = None, max_retries = 1\<rparr>"
      "\<lambda>_. []" "\<lambda>_. Inl (ValueErr ''x'')" "\<lambda>_ _. Timeout" demo_call None]
  by (auto simp: attempt_once_def)

section \<open>Rollups\<close>

text \<open>
  After a rebuild the rollup of a tenant's workspace and day is the one row whose figures
  are those of the ledger, however often it was rebuilt before.
\<close>

theorem rollup_reflects_ledger:
  assumes "rollups_unique (daily_usage_rollups db)" "r \<in> set (request_ledger db)"
    and "lr_tenant_id r = Some tenant" "lr_workspace_id r = Some ws"
  shows "\<exists>u. filter (\<lambda>u. usage_key u = (sql_date (lr_observed_at r), Some tenant, Some ws))
      (daily_usage_rollups (fst (rebuild_daily_usage_rollups db now))) = [u] \<and>
    usage_figures u = usage_figures
      (usage_group now (request_ledger db) (sql_date (lr_observed_at r), Some tenant, Some ws)) \<and>
    rollups_unique (daily_usage_rollups (fst (rebuild_daily_usage_rollups db now)))"
proof -
  have "ledger_usage_key r = (sql_date (lr_observed_at r), Some tenant, Some ws)"
    using assms(3,4) by (simp add: ledger_usage_key_def)
  with assms(2) have "(sql_date (lr_observed_at r), Some tenant, Some ws) \<in> ledger_usage_key ` set (request_ledger db)"
    by (metis imageI)
  from rebuild_reflects_ledger [OF assms(1) this] rebuild_unique [OF assms(1)] show ?thesis
    by (simp add: key_not_null_def)
qed

lemma rollup_reflects_ledger_witness:
  "\<exists>u. filter (\<lambda>u. usage_key u = (0, Some ''t1'', Some ''w1''))
      (daily_usage_rollups (fst (rebuild_daily_usage_rollups
        (empty_database\<lparr>request_ledger := [demo_request ''r1'' 5 60]\<rparr>) 7))) = [u]"
  using rollup_reflects_ledger [of "empty_database\<lparr>request_ledger := [demo_request ''r1'' 5 60]\<rparr>"
      "demo_request ''r1'' 5 60" "''t1''" "''w1''" 7]
  by (auto simp: rollups_unique_def empty_database_def demo_request_def sql_date_def)

text \<open>
  A ledger row without a workspace breaks this: its rollup key holds a NULL, never conflicts,
  and every rebuild adds one more row for it.
\<close>

theorem null_rollups_accumulate:
  assumes "r \<in> set (request_ledger db)" "lr_workspace_id r = None"
  shows "length (filter (\<lambda>u. usage_key u = ledger_usage_key r)
      (daily_usage_rollups (fst (rebuild_daily_usage_rollups db now)))) =
    Suc (length (filter (\<lambda>u. usage_key u = ledger_usage_key r) (daily_usage_rollups db)))"
proof -
  have k: "ledger_usage_key r \<in> ledger_usage_key ` set (request_ledger db)" using assms(1) by simp
  have "\<not> key_not_null (ledger_usage_key r)" using assms(2) by (simp add: ledger_usage_key_def key_not_null_def)
  with rebuild_usage_key [OF k, of now] show ?thesis by (simp add: Let_def)
qed

lemma null_rollups_accumulate_witness:
  "length (filter (\<lambda>u. usage_key u = (0, Some ''t1'', None))
      (daily_usage_rollups (fst (rebuild_daily_usage_rollups
        (empty_database\<lparr>request_ledger := [(demo_request ''r1'' 5 60)\<lparr>lr_workspace_id := None\<rparr>]\<rparr>) 7)))) = 1"
  using null_rollups_accumulate [of "(demo_request ''r1'' 5 60)\<lparr>lr_workspace_id := None\<rparr>"
      "empty_database\<lparr>request_ledger := [(demo_request ''r1'' 5 60)\<lparr>lr_workspace_id := None\<rparr>]\<rparr>" 7]
  by (simp add: empty_database_def demo_request_def sql_date_def ledger_usage_key_def)

section \<open>Costs\<close>

text \<open>
  The estimated cost of a completion is never negative, is zero without tokens and never
  falls when either token count grows, rounding included.
\<close>

theorem cost_is_monotone:
  assumes "prompt_tokens u \<le> prompt_tokens u'" "completion_tokens u \<le> completion_tokens u'"
  shows "0 \<le> estimate_cost_usd model u \<and> estimate_cost_usd model u \<le> estimate_cost_usd model u' \<and>
    estimate_cost_usd model \<lparr>prompt_tokens = 0, completion_tokens = 0, total_tokens = n\<rparr> = 0"
  using estimate_cost_usd_nonneg estimate_cost_usd_mono [OF assms] estimate_cost_usd_zero by simp

lemma cost_is_monotone_witness:
  "estimate_cost_usd ''gpt-4o'' \<lparr>prompt_tokens = 1, completion_tokens = 2, total_tokens = 3\<rparr> \<le>
   estimate_cost_usd ''gpt-4o'' \<lparr>prompt_tokens = 10, completion_tokens = 2, total_tokens = 12\<rparr>"
  using cost_is_monotone [of "\<lparr>prompt_tokens = 1, completion_tokens = 2, total_tokens = 3\<rparr>"
      "\<lparr>prompt_tokens = 10, completion_tokens = 2, total_tokens = 12\<rparr>"] by simp

end
