(* ===== verification/Regex.thy ===== *)
theory Regex
  imports Prelude
begin

text \<open>
  The part of Python's \<open>re\<close> the detectors use: backtracking matching with greedy and lazy
  repetition and word boundaries, scanning with \<open>finditer\<close>, and replacement with
  \<open>subn\<close>. \<open>ends r s i\<close> lists the positions where a match of \<open>r\<close> begun at
  \<open>i\<close> may end, in the order the backtracking engine tries them, so its head is the match
  \<open>re\<close> reports. A compiled pattern is a function from a string and a position to the end of
  the match that starts there.
\<close>

section \<open>Expressions\<close>

datatype regex =
    Cls "char \<Rightarrow> bool"
  | WordBoundary
  | Empty
  | Seq regex regex
  | Alt regex regex
  | Rep nat "nat option" regex
  | LazyRep nat "nat option" regex

definition is_word :: "char \<Rightarrow> bool" where
  "is_word c = (let n = code_point c in
     is_digit c \<or> is_upper_alpha c \<or> is_lower_alpha c \<or> n = 95 \<or>
     n \<in> {170, 178, 179, 181, 185, 186, 188, 189, 190} \<or>
     (192 \<le> n \<and> n \<le> 255 \<and> n \<noteq> 215 \<and> n \<noteq> 247))"

definition at_word_boundary :: "string \<Rightarrow> nat \<Rightarrow> bool" where
  "at_word_boundary s i \<longleftrightarrow>
     (0 < i \<and> is_word (s ! (i - 1))) \<noteq> (i < length s \<and> is_word (s ! i))"

text \<open>
  Repetition over the matcher \<open>m\<close> of the body. An iteration has to advance; \<open>fuel\<close> bounds
  the number of iterations, and one more than the length of the string is always enough.
\<close>

fun rep_ends :: "bool \<Rightarrow> nat \<Rightarrow> (nat \<Rightarrow> nat list) \<Rightarrow> nat \<Rightarrow> nat option \<Rightarrow> nat \<Rightarrow> nat list" where
  "rep_ends greedy 0 m lo hi i = (if lo = 0 then [i] else [])"
| "rep_ends greedy (Suc fuel) m lo hi i =
     (let more = (if hi = Some 0 then []
                  else concat (map (\<lambda>j. if i < j then rep_ends greedy fuel m (lo - 1) (map_option (\<lambda>h. h - 1) hi) j
                                         else []) (m i)));
          stop = (if lo = 0 then [i] else [])
      in if greedy then more @ stop else stop @ more)"

primrec ends :: "regex \<Rightarrow> string \<Rightarrow> nat \<Rightarrow> nat list" where
  "ends (Cls P) s i = (if i < length s \<and> P (s ! i) then [Suc i] else [])"
| "ends WordBoundary s i = (if at_word_boundary s i then [i] else [])"
| "ends Empty s i = [i]"
| "ends (Seq a b) s i = concat (map (ends b s) (ends a s i))"
| "ends (Alt a b) s i = ends a s i @ ends b s i"
| "ends (Rep lo hi r) s i = rep_ends True (Suc (length s)) (ends r s) lo hi i"
| "ends (LazyRep lo hi r) s i = rep_ends False (Suc (length s)) (ends r s) lo hi i"

type_synonym matcher = "string \<Rightarrow> nat \<Rightarrow> nat option"

definition compile_regex :: "regex \<Rightarrow> matcher" where
  "compile_regex r s i = (case ends r s i of [] \<Rightarrow> None | e # _ \<Rightarrow> Some e)"

text \<open>Building blocks: literals, classes, groups.\<close>

definition Chr :: "char \<Rightarrow> regex" where "Chr c = Cls (\<lambda>d. d = c)"

fun Lit :: "string \<Rightarrow> regex" where
  "Lit [] = Empty"
| "Lit [c] = Chr c"
| "Lit (c # cs) = Seq (Chr c) (Lit cs)"

text \<open>The same under \<open>IGNORECASE\<close>.\<close>

definition ChrI :: "char \<Rightarrow> regex" where "ChrI c = Cls (\<lambda>d. lower_char d = lower_char c)"

fun LitI :: "string \<Rightarrow> regex" where
  "LitI [] = Empty"
| "LitI [c] = ChrI c"
| "LitI (c # cs) = Seq (ChrI c) (LitI cs)"

fun seqs :: "regex list \<Rightarrow> regex" where
  "seqs [] = Empty"
| "seqs [r] = r"
| "seqs (r # rs) = Seq r (seqs rs)"

fun alts :: "regex list \<Rightarrow> regex" where
  "alts [] = Cls (\<lambda>_. False)"
| "alts [r] = r"
| "alts (r # rs) = Alt r (alts rs)"

definition Maybe :: "regex \<Rightarrow> regex" where "Maybe r = Rep 0 (Some 1) r"
definition Many :: "regex \<Rightarrow> regex" where "Many r = Rep 0 None r"
definition Many1 :: "regex \<Rightarrow> regex" where "Many1 r = Rep 1 None r"
definition AtLeast :: "nat \<Rightarrow> regex \<Rightarrow> regex" where "AtLeast n r = Rep n None r"
definition Exactly :: "nat \<Rightarrow> regex \<Rightarrow> regex" where "Exactly n r = Rep n (Some n) r"

section \<open>Scanning and replacing\<close>

text \<open>
  \<open>finditer\<close>: the leftmost match from a position on, then on from its end. After an empty
  match the scan moves one character on.
\<close>

function finditer_from :: "matcher \<Rightarrow> string \<Rightarrow> nat \<Rightarrow> (nat \<times> nat) list" where
  "finditer_from m s pos =
     (if length s < pos then []
      else case m s pos of
        None \<Rightarrow> finditer_from m s (Suc pos)
      | Some e \<Rightarrow> (pos, e) # finditer_from m s (max e (Suc pos)))"
  by pat_completeness auto
termination
  by (relation "measure (\<lambda>(m, s, pos). Suc (length s) - pos)") auto

declare finditer_from.simps [simp del]

definition finditer :: "matcher \<Rightarrow> string \<Rightarrow> (nat \<times> nat) list" where
  "finditer m s = finditer_from m s 0"

text \<open>\<open>subn\<close> with a replacement that has no backslash: every match gives way to it.\<close>

fun splice :: "string \<Rightarrow> string \<Rightarrow> nat \<Rightarrow> (nat \<times> nat) list \<Rightarrow> string" where
  "splice repl s pos [] = drop pos s"
| "splice repl s pos ((i, e) # ms) = take (i - pos) (drop pos s) @ repl @ splice repl s e ms"

definition subn :: "matcher \<Rightarrow> string \<Rightarrow> string \<Rightarrow> string \<times> nat" where
  "subn m repl s = (let ms = finditer m s in (splice repl s 0 ms, length ms))"

section \<open>Where matches end\<close>

lemma rep_ends_range:
  assumes "\<And>i j. i \<le> n \<Longrightarrow> j \<in> set (m i) \<Longrightarrow> i \<le> j \<and> j \<le> n"
  shows "i \<le> n \<Longrightarrow> j \<in> set (rep_ends g fuel m lo hi i) \<Longrightarrow> i \<le> j \<and> j \<le> n"
proof (induction fuel arbitrary: lo hi i)
  case 0
  then show ?case by (simp split: if_splits)
next
  case (Suc fuel)
  from Suc.prems(2) consider "j = i"
    | k where "k \<in> set (m i)" "i < k" "j \<in> set (rep_ends g fuel m (lo - 1) (map_option (\<lambda>h. h - 1) hi) k)"
    by (auto simp: Let_def split: if_splits)
  then show ?case
  proof cases
    case 1
    then show ?thesis using Suc.prems(1) by simp
  next
    case (2 k)
    from assms [OF Suc.prems(1) 2(1)] have k: "i \<le> k" "k \<le> n" by simp_all
    from Suc.IH [OF k(2) 2(3)] k(1) show ?thesis by simp
  qed
qed

lemma ends_range: "i \<le> length s \<Longrightarrow> j \<in> set (ends r s i) \<Longrightarrow> i \<le> j \<and> j \<le> length s"
proof (induction r arbitrary: i j)
  case (Seq a b)
  from Seq.prems(2) obtain k where k: "k \<in> set (ends a s i)" "j \<in> set (ends b s k)" by auto
  from Seq.IH(1) [OF Seq.prems(1) k(1)] have "i \<le> k" "k \<le> length s" by simp_all
  with Seq.IH(2) [OF _ k(2)] show ?case by simp
next
  case (Alt a b)
  from Alt.prems(2) consider "j \<in> set (ends a s i)" | "j \<in> set (ends b s i)" by auto
  then show ?case using Alt.IH [OF Alt.prems(1)] by cases
next
  case (Rep lo hi r)
  from Rep.prems(2) have "j \<in> set (rep_ends True (Suc (length s)) (ends r s) lo hi i)" by simp
  from rep_ends_range [OF Rep.IH Rep.prems(1) this] show ?case .
next
  case (LazyRep lo hi r)
  from LazyRep.prems(2) have "j \<in> set (rep_ends False (Suc (length s)) (ends r s) lo hi i)" by simp
  from rep_ends_range [OF LazyRep.IH LazyRep.prems(1) this] show ?case .
qed (auto split: if_splits)

text \<open>One iteration per character is enough: more fuel changes nothing.\<close>

lemma rep_ends_fuel:
  assumes "\<And>i j. i \<le> n \<Longrightarrow> j \<in> set (m i) \<Longrightarrow> i \<le> j \<and> j \<le> n"
  shows "i \<le> n \<Longrightarrow> n - i < fuel \<Longrightarrow>
    rep_ends g (Suc fuel) m lo hi i = rep_ends g fuel m lo hi i"
proof (induction fuel arbitrary: lo hi i)
  case (Suc fuel)
  have "rep_ends g (Suc fuel) m (lo - 1) (map_option (\<lambda>h. h - 1) hi) j =
      rep_ends g fuel m (lo - 1) (map_option (\<lambda>h. h - 1) hi) j"
    if "j \<in> set (m i)" "i < j" for j
  proof (rule Suc.IH)
    from assms [OF Suc.prems(1) that(1)] show "j \<le> n" by simp
    with that(2) Suc.prems(2) show "n - j < fuel" by simp
  qed
  then have "map (\<lambda>j. if i < j then rep_ends g (Suc fuel) m (lo - 1) (map_option (\<lambda>h. h - 1) hi) j else []) (m i) =
      map (\<lambda>j. if i < j then rep_ends g fuel m (lo - 1) (map_option (\<lambda>h. h - 1) hi) j else []) (m i)"
    by simp
  then show ?case
    by (simp only: rep_ends.simps(2) [of g "Suc fuel"] rep_ends.simps(2) [of g fuel])
qed simp

text \<open>The least number of characters a match takes.\<close>

primrec min_len :: "regex \<Rightarrow> nat" where
  "min_len (Cls P) = 1"
| "min_len WordBoundary = 0"
| "min_len Empty = 0"
| "min_len (Seq a b) = min_len a + min_len b"
| "min_len (Alt a b) = min (min_len a) (min_len b)"
| "min_len (Rep lo hi r) = lo * min_len r"
| "min_len (LazyRep lo hi r) = lo * min_len r"

lemma rep_ends_min:
  assumes "\<And>i j. j \<in> set (m i) \<Longrightarrow> i + l \<le> j"
  shows "j \<in> set (rep_ends g fuel m lo hi i) \<Longrightarrow> i + lo * l \<le> j"
proof (induction fuel arbitrary: lo hi i)
  case 0
  then show ?case by (simp split: if_splits)
next
  case (Suc fuel)
  from Suc.prems consider "j = i" "lo = 0"
    | k where "k \<in> set (m i)" "j \<in> set (rep_ends g fuel m (lo - 1) (map_option (\<lambda>h. h - 1) hi) k)"
    by (auto simp: Let_def split: if_splits)
  then show ?case
  proof cases
    case 1
    then show ?thesis by simp
  next
    case (2 k)
    from assms [OF 2(1)] Suc.IH [OF 2(2)] show ?thesis by (cases lo) simp_all
  qed
qed

lemma ends_min: "j \<in> set (ends r s i) \<Longrightarrow> i + min_len r \<le> j"
proof (induction r arbitrary: i j)
  case (Seq a b)
  from Seq.prems obtain k where k: "k \<in> set (ends a s i)" "j \<in> set (ends b s k)" by auto
  from Seq.IH(1) [OF k(1)] Seq.IH(2) [OF k(2)] show ?case by simp
next
  case (Alt a b)
  from Alt.prems consider "j \<in> set (ends a s i)" | "j \<in> set (ends b s i)" by auto
  then show ?case
  proof cases
    case 1
    from Alt.IH(1) [OF this] show ?thesis by simp
  next
    case 2
    from Alt.IH(2) [OF this] show ?thesis by simp
  qed
next
  case (Rep lo hi r)
  from Rep.prems have "j \<in> set (rep_ends True (Suc (length s)) (ends r s) lo hi i)" by simp
  from rep_ends_min [OF Rep.IH this] show ?case by simp
next
  case (LazyRep lo hi r)
  from LazyRep.prems have "j \<in> set (rep_ends False (Suc (length s)) (ends r s) lo hi i)" by simp
  from rep_ends_min [OF LazyRep.IH this] show ?case by simp
qed (auto split: if_splits)

lemma compile_regex_min: "compile_regex r s i = Some e \<Longrightarrow> i + min_len r \<le> e"
  using ends_min [of e r s i] by (auto simp: compile_regex_def split: list.splits)

text \<open>A matcher is in range when its matches lie inside the string.\<close>

definition matcher_ok :: "matcher \<Rightarrow> bool" where
  "matcher_ok m \<longleftrightarrow> (\<forall>s i e. i \<le> length s \<longrightarrow> m s i = Some e \<longrightarrow> i \<le> e \<and> e \<le> length s)"

lemma compile_regex_ok: "matcher_ok (compile_regex r)"
  unfolding matcher_ok_def
proof (intro allI impI)
  fix s i e assume i: "i \<le> length s" and "compile_regex r s i = Some e"
  then have "e \<in> set (ends r s i)" by (auto simp: compile_regex_def split: list.splits)
  with i show "i \<le> e \<and> e \<le> length s" by (rule ends_range)
qed

section \<open>What a scan reports\<close>

lemma finditer_from_step:
  "pos \<le> length s \<Longrightarrow> m s pos = None \<Longrightarrow> finditer_from m s pos = finditer_from m s (Suc pos)"
  "pos \<le> length s \<Longrightarrow> m s pos = Some e \<Longrightarrow>
   finditer_from m s pos = (pos, e) # finditer_from m s (max e (Suc pos))"
  by (subst finditer_from.simps, simp)+

lemma finditer_from_end: "length s < pos \<Longrightarrow> finditer_from m s pos = []"
  by (subst finditer_from.simps) simp

lemma finditer_from_sound:
  "(i, e) \<in> set (finditer_from m s pos) \<Longrightarrow> pos \<le> i \<and> i \<le> length s \<and> m s i = Some e"
proof (induction m s pos rule: finditer_from.induct)
  case (1 m s pos)
  show ?case
  proof (cases "length s < pos")
    case True
    with 1(3) show ?thesis by (simp add: finditer_from_end)
  next
    case False
    show ?thesis
    proof (cases "m s pos")
      case None
      with 1 False show ?thesis by (fastforce simp: finditer_from_step)
    next
      case (Some f)
      with 1 False show ?thesis by (fastforce simp: finditer_from_step)
    qed
  qed
qed

text \<open>Ordered and disjoint: every reported match starts where the one before it ended, or later.\<close>

fun chained :: "nat \<Rightarrow> nat \<Rightarrow> (nat \<times> nat) list \<Rightarrow> bool" where
  "chained n pos [] \<longleftrightarrow> pos \<le> n"
| "chained n pos ((i, e) # ms) \<longleftrightarrow> pos \<le> i \<and> i \<le> e \<and> e \<le> n \<and> chained n e ms"

lemma chained_mono: "chained n pos ms \<Longrightarrow> pos' \<le> pos \<Longrightarrow> chained n pos' ms"
  by (cases ms) auto

lemma finditer_from_chained:
  "matcher_ok m \<Longrightarrow> pos \<le> length s \<Longrightarrow> chained (length s) pos (finditer_from m s pos)"
proof (induction m s pos rule: finditer_from.induct)
  case (1 m s pos)
  have le: "\<not> length s < pos" using 1(4) by simp
  show ?case
  proof (cases "m s pos")
    case None
    show ?thesis
    proof (cases "pos = length s")
      case True
      with None show ?thesis by (simp add: finditer_from_step finditer_from_end)
    next
      case False
      with 1(4) have p: "Suc pos \<le> length s" by simp
      have "chained (length s) pos (finditer_from m s (Suc pos))"
        using 1(1) [OF le None 1(3) p] by (rule chained_mono) simp
      then show ?thesis using None 1(4) by (simp add: finditer_from_step)
    qed
  next
    case (Some e)
    from 1(3) [unfolded matcher_ok_def, rule_format, OF 1(4) Some]
    have e: "pos \<le> e" "e \<le> length s" by simp_all
    have "chained (length s) e (finditer_from m s (max e (Suc pos)))"
    proof (cases "max e (Suc pos) \<le> length s")
      case True
      from 1(2) [OF le Some 1(3) this] show ?thesis by (rule chained_mono) simp
    next
      case False
      then show ?thesis using e by (simp add: finditer_from_end)
    qed
    with Some e 1(4) show ?thesis by (simp add: finditer_from_step)
  qed
qed

text \<open>Complete: a position where the pattern matches is inside a reported match.\<close>

lemma finditer_from_complete:
  "pos \<le> p \<Longrightarrow> p \<le> length s \<Longrightarrow> m s p \<noteq> None \<Longrightarrow>
   \<exists>(i, e) \<in> set (finditer_from m s pos). i \<le> p \<and> (p < e \<or> p = i)"
proof (induction m s pos rule: finditer_from.induct)
  case (1 m s pos)
  have le: "\<not> length s < pos" using 1(3,4) by simp
  show ?case
  proof (cases "m s pos")
    case None
    with 1(5) have "pos \<noteq> p" by auto
    then have p: "Suc pos \<le> p" using 1(3) by simp
    from 1(1) [OF le None p 1(4,5)] show ?thesis
      using None le by (simp add: finditer_from_step)
  next
    case (Some e)
    show ?thesis
    proof (cases "p < e \<or> p = pos")
      case True
      with Some le 1(3) show ?thesis by (simp add: finditer_from_step)
    next
      case False
      then have p: "max e (Suc pos) \<le> p" using 1(3) by simp
      from 1(2) [OF le Some p 1(4,5)] show ?thesis
        using Some le by (simp add: finditer_from_step)
    qed
  qed
qed

lemma splice_no_match [simp]: "splice repl s 0 [] = s"
  by simp

lemma subn_zero: "snd (subn m repl s) = 0 \<longleftrightarrow> (\<forall>p \<le> length s. m s p = None)"
proof
  assume "snd (subn m repl s) = 0"
  then have f: "finditer_from m s 0 = []" by (simp add: subn_def finditer_def Let_def)
  show "\<forall>p \<le> length s. m s p = None"
  proof (intro allI impI)
    fix p assume "p \<le> length s"
    then show "m s p = None" using finditer_from_complete [of 0 p s m] f by (cases "m s p") auto
  qed
next
  assume n: "\<forall>p \<le> length s. m s p = None"
  have "finditer_from m s 0 = []"
    using n finditer_from_sound [of _ _ m s 0] by (cases "finditer_from m s 0") fastforce+
  then show "snd (subn m repl s) = 0" by (simp add: subn_def finditer_def Let_def)
qed

lemma subn_unchanged: "snd (subn m repl s) = 0 \<Longrightarrow> fst (subn m repl s) = s"
  by (simp add: subn_def Let_def)

end
