(* ===== verification/Dlp.thy ===== *)
theory Dlp
  imports Regex Settings Domain "HOL-Library.Product_Lexorder" "HOL-Library.Multiset"
begin

text \<open>
  Local data-loss prevention: the detector tables and the custom detector loader of
  \<open>app/security/secrets.py\<close>, the policy of \<open>app/security/policy.py\<close> and the scrubber of
  \<open>app/security/dlp.py\<close>. Presidio's engine, the JSON and YAML parsers and the compilation
  of a custom expression are arguments.
\<close>

section \<open>Secret patterns\<close>

record secret_pattern =
  sp_entity_type :: string
  sp_pattern :: matcher
  sp_replacement :: "string option"
  sp_source :: string

definition alnum :: "char \<Rightarrow> bool" where
  "alnum c \<longleftrightarrow> is_digit c \<or> is_upper_alpha c \<or> is_lower_alpha c"

definition hex_digit :: "char \<Rightarrow> bool" where
  "hex_digit c \<longleftrightarrow> is_digit c \<or> c \<in> set ''abcdefABCDEF''"

definition builtin :: "string \<Rightarrow> regex \<Rightarrow> secret_pattern" where
  "builtin name r = \<lparr>sp_entity_type = name, sp_pattern = compile_regex r,
                     sp_replacement = None, sp_source = ''builtin''\<rparr>"

definition token_after :: "regex \<Rightarrow> (char \<Rightarrow> bool) \<Rightarrow> nat \<Rightarrow> regex" where
  "token_after start P n = seqs [WordBoundary, start, AtLeast n (Cls P), WordBoundary]"

definition database_url_regex :: regex where
  "database_url_regex =
     seqs [WordBoundary,
           alts [Seq (LitI ''postgres'') (Maybe (LitI ''ql'')), LitI ''mysql'',
                 Seq (LitI ''mongodb'') (Maybe (LitI ''+srv'')), LitI ''redis'', LitI ''mssql''],
           LitI ''://'',
           Many1 (Cls (\<lambda>c. \<not> is_space c \<and> c \<noteq> CHR 0x22 \<and> c \<noteq> CHR 0x27))]"

definition connection_string_regex :: regex where
  "connection_string_regex =
     seqs [WordBoundary,
           alts [LitI ''Server'', LitI ''Host'', LitI ''Data Source'', LitI ''Uid'', LitI ''User Id'',
                 LitI ''Username'', LitI ''Password'', LitI ''Pwd'', LitI ''Database''],
           LitI ''='',
           Many1 (Cls (\<lambda>c. c \<noteq> CHR '';'' \<and> \<not> is_space c)),
           Many (Seq (LitI '';'') (Many1 (Cls (\<lambda>c. \<not> is_space c))))]"

definition jwt_regex :: regex where
  "jwt_regex =
     (let part = (\<lambda>c. alnum c \<or> c \<in> set ''._-'') in
      seqs [WordBoundary, Lit ''eyJ'', Many1 (Cls (\<lambda>c. alnum c \<or> c \<in> set ''_-'')),
            Lit ''.'', Many1 (Cls part), Lit ''.'', Many1 (Cls part), WordBoundary])"

definition private_key_regex :: regex where
  "private_key_regex =
     (let label = Many (Cls (\<lambda>c. is_upper_alpha c \<or> c = CHR '' '')) in
      seqs [Lit ''-----BEGIN '', label, Lit ''PRIVATE KEY-----'',
            LazyRep 1 None (Cls (\<lambda>_. True)),
            Lit ''-----END '', label, Lit ''PRIVATE KEY-----''])"

definition bearer_regex :: regex where
  "bearer_regex =
     seqs [WordBoundary, Lit ''Bearer'', Many1 (Cls is_space),
           AtLeast 16 (Cls (\<lambda>c. alnum c \<or> c \<in> set ''._-'')), WordBoundary]"

definition DEFAULT_SECRET_PATTERNS :: "secret_pattern list" where
  "DEFAULT_SECRET_PATTERNS =
     [builtin ''OPENAI_API_KEY'' (token_after (Lit ''sk-'') alnum 20),
      builtin ''GOOGLE_API_KEY'' (token_after (Lit ''AIza'') (\<lambda>c. alnum c \<or> c \<in> set ''-_'') 20),
      builtin ''GITHUB_TOKEN''
        (token_after (seqs [Lit ''gh'', Cls (\<lambda>c. c \<in> set ''pousr''), Lit ''_'']) alnum 20),
      builtin ''GITHUB_FINE_GRAINED_PAT''
        (token_after (Lit ''github_pat_'') (\<lambda>c. alnum c \<or> c = CHR ''_'') 20),
      builtin ''STRIPE_LIVE_SECRET_KEY'' (token_after (Lit ''sk_live_'') alnum 16),
      builtin ''STRIPE_LIVE_PUBLISHABLE_KEY'' (token_after (Lit ''pk_live_'') alnum 16),
      builtin ''STRIPE_TEST_SECRET_KEY'' (token_after (Lit ''sk_test_'') alnum 16),
      builtin ''STRIPE_TEST_PUBLISHABLE_KEY'' (token_after (Lit ''pk_test_'') alnum 16),
      builtin ''SLACK_TOKEN''
        (token_after (seqs [Lit ''xox'', Cls (\<lambda>c. c \<in> set ''baprs''), Lit ''-''])
           (\<lambda>c. alnum c \<or> c = CHR ''-'') 10),
      builtin ''AWS_ACCESS_KEY_ID''
        (seqs [WordBoundary, Lit ''AKIA'', Exactly 16 (Cls (\<lambda>c. is_digit c \<or> is_upper_alpha c)), WordBoundary]),
      builtin ''DATABASE_URL'' database_url_regex,
      builtin ''GENERIC_CONNECTION_STRING'' connection_string_regex,
      builtin ''JWT_TOKEN'' jwt_regex,
      builtin ''LONG_HEX_TOKEN'' (seqs [WordBoundary, AtLeast 32 (Cls hex_digit), WordBoundary]),
      builtin ''PRIVATE_KEY_BLOCK'' private_key_regex,
      (builtin ''BEARER_TOKEN'' bearer_regex)\<lparr>sp_replacement := Some ''Bearer [REDACTED_SECRET]''\<rparr>]"

text \<open>\<open>replacement or "[REDACTED_...]"\<close>.\<close>

definition redaction :: "string \<Rightarrow> string" where
  "redaction entity_type = ''[REDACTED_'' @ entity_type @ '']''"

definition pattern_replacement :: "secret_pattern \<Rightarrow> string" where
  "pattern_replacement p = the (str_or (sp_replacement p) (Some (redaction (sp_entity_type p))))"

fun scrub_loop :: "secret_pattern list \<Rightarrow> string \<Rightarrow> string list \<Rightarrow> string \<times> string list" where
  "scrub_loop [] scrubbed detected_types = (scrubbed, detected_types)"
| "scrub_loop (p # ps) scrubbed detected_types =
     (let (scrubbed', n) = subn (sp_pattern p) (pattern_replacement p) scrubbed
      in scrub_loop ps scrubbed'
           (if n \<noteq> 0 then detected_types @ replicate n (sp_entity_type p) else detected_types))"

definition scrub_secrets :: "string \<Rightarrow> secret_pattern list \<Rightarrow> string \<times> string list" where
  "scrub_secrets t patterns = scrub_loop patterns t []"

section \<open>Custom detectors\<close>

definition upper_char :: "char \<Rightarrow> string" where
  "upper_char c = (let n = code_point c in
     if n = 223 then ''SS''
     else if (97 \<le> n \<and> n \<le> 122) \<or> (224 \<le> n \<and> n \<le> 254 \<and> n \<noteq> 247) then [char_of (n - 32)]
     else [c])"

definition py_upper :: "string \<Rightarrow> string" where
  "py_upper s = concat (map upper_char s)"

datatype regex_flag = IGNORECASE | MULTILINE | DOTALL

fun compile_flags :: "(json \<Rightarrow> string) \<Rightarrow> string \<Rightarrow> string \<Rightarrow> json list \<Rightarrow> regex_flag list result" where
  "compile_flags py_str detector_name source_name [] = Inr []"
| "compile_flags py_str detector_name source_name (flag # rest) =
     rbind
       (let normalized = py_upper (strip (py_str flag)) in
        if normalized = ''IGNORECASE'' then Inr IGNORECASE
        else if normalized = ''MULTILINE'' then Inr MULTILINE
        else if normalized = ''DOTALL'' then Inr DOTALL
        else Inl (DetectorConfigErr (''Detector '' @ quoted detector_name @ '' in '' @ source_name @
               '' uses unsupported regex flag: '' @ py_str flag)))
       (\<lambda>f. rbind (compile_flags py_str detector_name source_name rest) (\<lambda>fs. Inr (f # fs)))"

text \<open>One item of the configuration, numbered from 1.\<close>

definition parse_detector ::
  "(json \<Rightarrow> string) \<Rightarrow> (string \<Rightarrow> regex_flag list \<Rightarrow> matcher result) \<Rightarrow> string \<Rightarrow> nat \<Rightarrow> json \<Rightarrow>
   secret_pattern result" where
  "parse_detector py_str re_compile source_name index item =
     (let place = ''Detector #'' @ nat_digits index @ '' in '' @ source_name in
      case item of
        JObj d \<Rightarrow>
          if \<not> has_key d ''name''
          then Inl (DetectorConfigErr (place @ '' is missing required field '' @ quoted ''name''))
          else if \<not> has_key d ''pattern''
          then Inl (DetectorConfigErr (place @ '' is missing required field '' @ quoted ''pattern''))
          else let entity_type = py_upper (strip (py_str (dict_get d ''name''))) in
            if entity_type = [] then Inl (DetectorConfigErr (place @ '' has an empty name''))
            else
              let flags_value = (if has_key d ''flags'' then dict_get d ''flags'' else JArr []);
                  replacement = dict_get d ''replacement''
              in rbind (case flags_value of
                          JStr s \<Rightarrow> Inr [JStr s]
                        | JArr fs \<Rightarrow> Inr fs
                        | _ \<Rightarrow> Inl (DetectorConfigErr (''Detector '' @ quoted entity_type @ '' in '' @
                                 source_name @ '' has invalid flags; expected string or list'')))
                   (\<lambda>flags_list. rbind (compile_flags py_str entity_type source_name flags_list)
                   (\<lambda>flags. rbind (re_compile (py_str (dict_get d ''pattern'')) flags)
                   (\<lambda>compiled. Inr \<lparr>sp_entity_type = entity_type, sp_pattern = compiled,
                       sp_replacement = (if replacement = JNull then None else Some (py_str replacement)),
                       sp_source = ''custom''\<rparr>)))
      | _ \<Rightarrow> Inl (DetectorConfigErr (place @ '' must be an object'')))"

fun parse_detectors ::
  "(json \<Rightarrow> string) \<Rightarrow> (string \<Rightarrow> regex_flag list \<Rightarrow> matcher result) \<Rightarrow> string \<Rightarrow> nat \<Rightarrow> json list \<Rightarrow>
   secret_pattern list result" where
  "parse_detectors py_str re_compile source_name index [] = Inr []"
| "parse_detectors py_str re_compile source_name index (item # rest) =
     rbind (parse_detector py_str re_compile source_name index item) (\<lambda>p.
     rbind (parse_detectors py_str re_compile source_name (Suc index) rest) (\<lambda>ps. Inr (p # ps)))"

definition parse_custom_detector_data ::
  "(json \<Rightarrow> string) \<Rightarrow> (string \<Rightarrow> regex_flag list \<Rightarrow> matcher result) \<Rightarrow> string \<Rightarrow> json \<Rightarrow>
   secret_pattern list result" where
  "parse_custom_detector_data py_str re_compile source_name data =
     (if data = JNull then Inr []
      else let items = (case data of
                          JObj d \<Rightarrow> if has_key d ''detectors'' then dict_get d ''detectors'' else data
                        | _ \<Rightarrow> data)
        in case items of
             JArr xs \<Rightarrow> parse_detectors py_str re_compile source_name 1 xs
           | _ \<Rightarrow> Inl (DetectorConfigErr (''Custom detector config from '' @ source_name @
                    '' must decode to a list or {detectors: [...]}'')))"

text \<open>The parsers hand back the data or the \<open>DetectorConfigError\<close> the loader raises.\<close>

definition load_custom_secret_patterns ::
  "(string \<Rightarrow> json result) \<Rightarrow> (json \<Rightarrow> string) \<Rightarrow> (string \<Rightarrow> regex_flag list \<Rightarrow> matcher result) \<Rightarrow>
   string option \<Rightarrow> secret_pattern list result" where
  "load_custom_secret_patterns json_loads py_str re_compile config_text =
     (if \<not> truthy config_text then Inr []
      else rbind (json_loads (the config_text))
             (parse_custom_detector_data py_str re_compile ''json''))"

definition load_custom_secret_patterns_from_yaml ::
  "(string \<Rightarrow> json result) \<Rightarrow> (json \<Rightarrow> string) \<Rightarrow> (string \<Rightarrow> regex_flag list \<Rightarrow> matcher result) \<Rightarrow>
   string option \<Rightarrow> secret_pattern list result" where
  "load_custom_secret_patterns_from_yaml read_yaml py_str re_compile path =
     (if \<not> truthy path then Inr []
      else rbind (read_yaml (the path))
             (parse_custom_detector_data py_str re_compile (''yaml:'' @ the path)))"

fun active_names :: "string list \<Rightarrow> secret_pattern list \<Rightarrow> string list" where
  "active_names names [] = names"
| "active_names names (p # ps) =
     (if sp_source p \<noteq> ''custom'' \<or> sp_entity_type p \<in> set names then active_names names ps
      else active_names (names @ [sp_entity_type p]) ps)"

definition active_detector_names :: "secret_pattern list \<Rightarrow> string list" where
  "active_detector_names patterns = active_names [] patterns"

definition merge_secret_patterns :: "secret_pattern list \<Rightarrow> secret_pattern list" where
  "merge_secret_patterns custom_patterns = DEFAULT_SECRET_PATTERNS @ custom_patterns"

section \<open>The policy\<close>

record dlp_policy =
  analyzer_mode :: string
  scrub_level :: string
  enable_email_detection :: bool
  enable_phone_detection :: bool
  enable_ip_detection :: bool
  enable_secret_detection :: bool
  secret_patterns :: "secret_pattern list"
  active_custom_detectors :: "string list"

definition use_presidio :: "dlp_policy \<Rightarrow> bool" where
  "use_presidio p \<longleftrightarrow> py_lower (analyzer_mode p) \<in> {''auto'', ''presidio''}"

definition use_regex_fallback :: "dlp_policy \<Rightarrow> bool" where
  "use_regex_fallback p \<longleftrightarrow> py_lower (analyzer_mode p) \<in> {''auto'', ''regex''}"

definition policy_from_level ::
  "string \<Rightarrow> string \<Rightarrow> secret_pattern list \<Rightarrow> string list \<Rightarrow> dlp_policy result" where
  "policy_from_level mode level patterns custom =
     (let mk = (\<lambda>lvl email phone ip secret.
            \<lparr>analyzer_mode = mode, scrub_level = lvl, enable_email_detection = email,
             enable_phone_detection = phone, enable_ip_detection = ip,
             enable_secret_detection = secret, secret_patterns = patterns,
             active_custom_detectors = custom\<rparr>)
      in if py_lower level = ''strict'' then Inr (mk ''strict'' True True True True)
         else if py_lower level = ''technical'' then Inr (mk ''technical'' False False True True)
         else if py_lower level = ''off'' then Inr (mk ''off'' False False False False)
         else Inl (ValueErr (''Unsupported DLP scrub level: '' @ level)))"

text \<open>
  \<open>getattr(settings, name, default)\<close> on an attribute every settings object has: its value
  is taken even when it is \<open>None\<close>, which the detectors then read as false.
\<close>

definition detector_flag :: "bool option \<Rightarrow> bool" where
  "detector_flag v = (v = Some True)"

definition build_dlp_policy_from_settings ::
  "(string \<Rightarrow> json result) \<Rightarrow> (string \<Rightarrow> json result) \<Rightarrow> (json \<Rightarrow> string) \<Rightarrow>
   (string \<Rightarrow> regex_flag list \<Rightarrow> matcher result) \<Rightarrow> settings \<Rightarrow> dict \<Rightarrow> dlp_policy result" where
  "build_dlp_policy_from_settings json_loads read_yaml py_str re_compile cfg overrides =
     (let level = (case dict_get overrides ''dlp_scrub_level'' of
                     JStr s \<Rightarrow> if s \<noteq> [] then s else cfg_dlp_scrub_level cfg
                   | _ \<Rightarrow> cfg_dlp_scrub_level cfg)
      in rbind (load_custom_secret_patterns json_loads py_str re_compile
                  (cfg_dlp_custom_detectors_json cfg)) (\<lambda>json_patterns.
         rbind (load_custom_secret_patterns_from_yaml read_yaml py_str re_compile
                  (cfg_dlp_custom_detectors_yaml_path cfg)) (\<lambda>yaml_patterns.
         let merged_custom = json_patterns @ yaml_patterns;
             merged = merge_secret_patterns merged_custom;
             names = active_detector_names merged_custom
         in rbind (policy_from_level (cfg_dlp_analyzer_mode cfg) level merged names) (\<lambda>policy.
            Inr (policy\<lparr>enable_email_detection := detector_flag (cfg_dlp_detect_email cfg),
                        enable_phone_detection := detector_flag (cfg_dlp_detect_phone cfg),
                        enable_ip_detection := detector_flag (cfg_dlp_detect_ip cfg),
                        enable_secret_detection := detector_flag (cfg_dlp_detect_secrets cfg)\<rparr>)))))"

section \<open>The scrubber\<close>

record detected_entity =
  entity_type :: string
  ent_start :: nat
  ent_end :: nat
  score :: real

record scrub_result =
  original_text :: string
  scrubbed_text :: string
  pii_entities :: "string list"
  secret_entities :: "string list"

definition EMAIL_RE :: regex where
  "EMAIL_RE =
     seqs [WordBoundary, Many1 (Cls (\<lambda>c. alnum c \<or> c \<in> set ''._%+-'')), LitI ''@'',
           Many1 (Cls (\<lambda>c. alnum c \<or> c \<in> set ''.-'')), LitI ''.'',
           AtLeast 2 (Cls (\<lambda>c. is_upper_alpha c \<or> is_lower_alpha c)), WordBoundary]"

definition PHONE_RE :: regex where
  "PHONE_RE =
     (let sep = Maybe (Cls (\<lambda>c. is_space c \<or> c = CHR ''.'' \<or> c = CHR ''-'')) in
      seqs [Maybe (seqs [Maybe (Lit ''+''), Rep 1 (Some 3) (Cls is_digit), sep]),
            seqs [Maybe (Lit ''(''), Exactly 3 (Cls is_digit), Maybe (Lit '')''), sep],
            Exactly 3 (Cls is_digit), sep, Exactly 4 (Cls is_digit)])"

definition IPV4_RE :: regex where
  "IPV4_RE =
     seqs [WordBoundary, Exactly 3 (Seq (Rep 1 (Some 3) (Cls is_digit)) (Lit ''.'')),
           Rep 1 (Some 3) (Cls is_digit), WordBoundary]"

definition collect :: "string \<Rightarrow> regex \<Rightarrow> string \<Rightarrow> detected_entity list" where
  "collect t r ty =
     map (\<lambda>(i, e). \<lparr>entity_type = ty, ent_start = i, ent_end = e, score = 1\<rparr>)
       (finditer (compile_regex r) t)"

definition entity_key :: "detected_entity \<Rightarrow> nat \<times> nat \<times> string" where
  "entity_key e = (ent_start e, ent_end e, entity_type e)"

fun drop_seen :: "(nat \<times> nat \<times> string) list \<Rightarrow> detected_entity list \<Rightarrow> detected_entity list" where
  "drop_seen seen [] = []"
| "drop_seen seen (e # es) =
     (if entity_key e \<in> set seen then drop_seen seen es
      else e # drop_seen (entity_key e # seen) es)"

definition dedupe_entities :: "detected_entity list \<Rightarrow> detected_entity list" where
  "dedupe_entities entities = drop_seen [] (sort_key entity_key entities)"

definition regex_analyze :: "dlp_policy \<Rightarrow> string \<Rightarrow> detected_entity list" where
  "regex_analyze p t =
     dedupe_entities
       ((if enable_email_detection p then collect t EMAIL_RE ''EMAIL_ADDRESS'' else []) @
        (if enable_phone_detection p then collect t PHONE_RE ''PHONE_NUMBER'' else []) @
        (if enable_ip_detection p then collect t IPV4_RE ''IP_ADDRESS'' else []))"

text \<open>Presidio is asked for the enabled types, and for all it knows when none is enabled.\<close>

type_synonym presidio_engine = "string \<Rightarrow> string list option \<Rightarrow> detected_entity list"

definition presidio_analyze :: "presidio_engine \<Rightarrow> dlp_policy \<Rightarrow> string \<Rightarrow> detected_entity list" where
  "presidio_analyze engine p t =
     (let entity_types = (if enable_email_detection p then [''EMAIL_ADDRESS''] else []) @
                         (if enable_phone_detection p then [''PHONE_NUMBER''] else []) @
                         (if enable_ip_detection p then [''IP_ADDRESS''] else [])
      in engine t (if entity_types = [] then None else Some entity_types))"

text \<open>The engine is \<open>Inl\<close> the exception its construction raises.\<close>

definition build_default_analyzer ::
  "presidio_engine result \<Rightarrow> dlp_policy \<Rightarrow> (string \<Rightarrow> detected_entity list) result" where
  "build_default_analyzer presidio p =
     (if use_presidio p
      then (case presidio of
              Inr engine \<Rightarrow> Inr (presidio_analyze engine p)
            | Inl e \<Rightarrow> if \<not> use_regex_fallback p then Inl e else Inr (regex_analyze p))
      else Inr (regex_analyze p))"

definition redact :: "string \<Rightarrow> detected_entity \<Rightarrow> string" where
  "redact t e = take (ent_start e) t @ redaction (entity_type e) @ drop (ent_end e) t"

definition scrub :: "(string \<Rightarrow> detected_entity list) \<Rightarrow> dlp_policy \<Rightarrow> string \<Rightarrow> scrub_result" where
  "scrub analyze p t =
     (let (scrubbed, secrets) = (if enable_secret_detection p
                                 then scrub_secrets t (secret_patterns p) else (t, []));
          entities = analyze scrubbed
      in \<lparr>original_text = t,
          scrubbed_text = foldl redact scrubbed (sort_key (\<lambda>e. - int (ent_start e)) entities),
          pii_entities = map entity_type entities,
          secret_entities = secrets\<rparr>)"

definition unscrubbed :: "string \<Rightarrow> scrub_result" where
  "unscrubbed t = \<lparr>original_text = t, scrubbed_text = t, pii_entities = [], secret_entities = []\<rparr>"

record dry_run_response =
  dr_scrub_mode :: string
  dr_active_custom_detectors :: "string list"
  dr_original_text :: string
  dr_scrubbed_text :: string
  dr_pii_entities :: "string list"
  dr_secret_entities :: "string list"

definition run_detector_dry_run :: "presidio_engine result \<Rightarrow> string \<Rightarrow> dlp_policy \<Rightarrow> dry_run_response result" where
  "run_detector_dry_run presidio t p =
     rbind (if scrub_level p = ''off'' then Inr (unscrubbed t)
            else rbind (build_default_analyzer presidio p) (\<lambda>analyze. Inr (scrub analyze p t)))
       (\<lambda>r. Inr \<lparr>dr_scrub_mode = scrub_level p, dr_active_custom_detectors = active_custom_detectors p,
                dr_original_text = original_text r, dr_scrubbed_text = scrubbed_text r,
                dr_pii_entities = pii_entities r, dr_secret_entities = secret_entities r\<rparr>)"

section \<open>Facts about secrets\<close>

lemma scrub_loop_types: "snd (scrub_loop ps t acc) = acc @ snd (scrub_loop ps t [])"
proof (induction ps arbitrary: t acc)
  case (Cons p ps)
  obtain t' n where sub: "subn (sp_pattern p) (pattern_replacement p) t = (t', n)" by fastforce
  define d where "d = replicate n (sp_entity_type p)"
  have "snd (scrub_loop (p # ps) t acc) = snd (scrub_loop ps t' (acc @ d))"
    using sub by (simp add: d_def)
  also have "\<dots> = acc @ d @ snd (scrub_loop ps t' [])" by (subst Cons.IH) simp
  also have "d @ snd (scrub_loop ps t' []) = snd (scrub_loop ps t' d)" by (rule Cons.IH [symmetric])
  also have "snd (scrub_loop ps t' d) = snd (scrub_loop (p # ps) t [])" using sub by (simp add: d_def)
  finally show ?case .
qed simp

lemma scrub_loop_text: "fst (scrub_loop ps t acc) = fst (scrub_loop ps t [])"
proof (induction ps arbitrary: t acc)
  case (Cons p ps)
  obtain t' n where sub: "subn (sp_pattern p) (pattern_replacement p) t = (t', n)" by fastforce
  show ?case using sub Cons.IH [of t'] by (simp add: Let_def) (metis)
qed simp

definition occurs :: "secret_pattern \<Rightarrow> string \<Rightarrow> bool" where
  "occurs p t \<longleftrightarrow> (\<exists>i \<le> length t. sp_pattern p t i \<noteq> None)"

lemma scrub_secrets_Cons:
  "snd (scrub_secrets t (p # ps)) =
   replicate (snd (subn (sp_pattern p) (pattern_replacement p) t)) (sp_entity_type p) @
   snd (scrub_secrets (fst (subn (sp_pattern p) (pattern_replacement p) t)) ps)"
  "fst (scrub_secrets t (p # ps)) =
   fst (scrub_secrets (fst (subn (sp_pattern p) (pattern_replacement p) t)) ps)"
  by (auto simp: scrub_secrets_def case_prod_beta Let_def intro: scrub_loop_text)
    (subst scrub_loop_types, simp)+

lemma scrub_secrets_none:
  "snd (scrub_secrets t ps) = [] \<longleftrightarrow> (\<forall>p \<in> set ps. \<not> occurs p t)"
proof (induction ps)
  case Nil
  then show ?case by (simp add: scrub_secrets_def)
next
  case (Cons p ps)
  let ?s = "subn (sp_pattern p) (pattern_replacement p) t"
  have occ: "snd ?s = 0 \<longleftrightarrow> \<not> occurs p t" by (simp add: subn_zero occurs_def)
  show ?case
  proof (cases "snd ?s = 0")
    case True
    then have "fst ?s = t" by (rule subn_unchanged)
    with True Cons occ show ?thesis by (simp add: scrub_secrets_Cons)
  next
    case False
    with occ show ?thesis by (simp add: scrub_secrets_Cons)
  qed
qed

lemma scrub_secrets_unchanged: "snd (scrub_secrets t ps) = [] \<Longrightarrow> fst (scrub_secrets t ps) = t"
proof (induction ps)
  case Nil
  then show ?case by (simp add: scrub_secrets_def)
next
  case (Cons p ps)
  let ?s = "subn (sp_pattern p) (pattern_replacement p) t"
  from Cons.prems have z: "snd ?s = 0" by (simp add: scrub_secrets_Cons)
  then have "fst ?s = t" by (rule subn_unchanged)
  with Cons z show ?case by (simp add: scrub_secrets_Cons)
qed

section \<open>Facts about redaction\<close>

text \<open>The text with every entity span replaced by its label, written left to right.\<close>

fun relabel :: "string \<Rightarrow> nat \<Rightarrow> detected_entity list \<Rightarrow> string" where
  "relabel t pos [] = drop pos t"
| "relabel t pos (e # es) =
     take (ent_start e - pos) (drop pos t) @ redaction (entity_type e) @ relabel t (ent_end e) es"

fun disjoint_spans :: "nat \<Rightarrow> nat \<Rightarrow> detected_entity list \<Rightarrow> bool" where
  "disjoint_spans n pos [] \<longleftrightarrow> pos \<le> n"
| "disjoint_spans n pos (e # es) \<longleftrightarrow>
     pos \<le> ent_start e \<and> ent_start e < ent_end e \<and> ent_end e \<le> n \<and> disjoint_spans n (ent_end e) es"

lemma disjoint_spans_starts: "disjoint_spans n pos es \<Longrightarrow> e \<in> set es \<Longrightarrow> pos \<le> ent_start e"
  by (induction es arbitrary: pos) fastforce+

lemma foldl_redact_prefix:
  "disjoint_spans n pos es \<Longrightarrow> n = length t \<Longrightarrow>
   foldl redact t (rev es) = take pos t @ relabel t pos es"
proof (induction es arbitrary: pos)
  case (Cons e es)
  then have e: "pos \<le> ent_start e" "ent_start e < ent_end e" "ent_end e \<le> length t"
    and es: "disjoint_spans n (ent_end e) es" by simp_all
  have "foldl redact t (rev (e # es)) = redact (take (ent_end e) t @ relabel t (ent_end e) es) e"
    using Cons.IH [OF es Cons.prems(2)] by simp
  also have "\<dots> = take (ent_start e) t @ redaction (entity_type e) @ relabel t (ent_end e) es"
    using e by (simp add: redact_def min_def)
  also have "take (ent_start e) t = take pos t @ take (ent_start e - pos) (drop pos t)"
    using e by (metis le_add_diff_inverse take_add)
  finally show ?case by simp
qed simp

lemma sort_desc_rev:
  "disjoint_spans n pos es \<Longrightarrow> sort_key (\<lambda>e. - int (ent_start e)) es = rev es"
proof -
  assume d: "disjoint_spans n pos es"
  then have s: "sorted_wrt (\<lambda>a b. ent_start a < ent_start b) es"
  proof (induction es arbitrary: pos)
    case (Cons e es)
    then show ?case using disjoint_spans_starts [of n "ent_end e" es] by fastforce
  qed simp
  have "sorted (map (\<lambda>e. - int (ent_start e)) (rev es))"
    using s by (simp add: sorted_wrt_map rev_map [symmetric] sorted_wrt_rev)
      (auto elim: sorted_wrt_mono_rel [rotated])
  moreover have "distinct (map (\<lambda>e. - int (ent_start e)) es)"
    using s by (induction es) auto
  ultimately show ?thesis
    by (intro sort_key_inj_key_eq) (auto simp: distinct_map)
qed

lemma redact_disjoint:
  assumes "disjoint_spans (length t) 0 es"
  shows "foldl redact t (sort_key (\<lambda>e. - int (ent_start e)) es) = relabel t 0 es"
  using foldl_redact_prefix [OF assms refl] sort_desc_rev [OF assms] by simp

lemma collect_disjoint:
  assumes "0 < min_len r"
  shows "disjoint_spans (length t) 0 (collect t r ty)"
proof -
  have "disjoint_spans n pos (map (\<lambda>(i, e). \<lparr>entity_type = ty, ent_start = i, ent_end = e, score = 1\<rparr>) ms)"
    if "chained n pos ms" "\<forall>(i, e) \<in> set ms. i < e" for n pos ms
    using that by (induction ms arbitrary: pos) auto
  moreover have "chained (length t) 0 (finditer (compile_regex r) t)"
    unfolding finditer_def by (rule finditer_from_chained [OF compile_regex_ok]) simp
  moreover have "\<forall>(i, e) \<in> set (finditer (compile_regex r) t). i < e"
    using assms finditer_from_sound [of _ _ "compile_regex r" t 0] compile_regex_min [of r t]
    unfolding finditer_def by fastforce
  ultimately show ?thesis by (simp add: collect_def)
qed

lemma drop_seen_id:
  "distinct (map entity_key es) \<Longrightarrow> entity_key ` set es \<inter> set seen = {} \<Longrightarrow> drop_seen seen es = es"
  by (induction es arbitrary: seen) auto

lemma dedupe_disjoint:
  assumes "disjoint_spans n pos es"
  shows "dedupe_entities es = es"
proof -
  have s: "sorted_wrt (\<lambda>a b. ent_start a < ent_start b) es"
    using assms
  proof (induction es arbitrary: pos)
    case (Cons e es)
    then show ?case using disjoint_spans_starts [of n "ent_end e" es] by fastforce
  qed simp
  have "sort_key entity_key es = es"
    using s by (intro sort_key_id_if_sorted)
      (auto simp: sorted_wrt_map entity_key_def less_eq_prod_def elim: sorted_wrt_mono_rel [rotated])
  moreover have "distinct (map entity_key es)"
    using s by (induction es) (auto simp: entity_key_def)
  ultimately show ?thesis by (simp add: dedupe_entities_def drop_seen_id)
qed

lemma drop_seen_distinct:
  "distinct (map entity_key (drop_seen seen es)) \<and> set (map entity_key (drop_seen seen es)) \<inter> set seen = {}"
proof (induction es arbitrary: seen)
  case (Cons e es)
  show ?case using Cons.IH [of seen] Cons.IH [of "entity_key e # seen"] by auto
qed simp

lemma drop_seen_keys:
  "set (map entity_key (drop_seen seen es)) = entity_key ` set es - set seen"
proof (induction es arbitrary: seen)
  case (Cons e es)
  show ?case using Cons.IH [of seen] Cons.IH [of "entity_key e # seen"] by auto
qed simp

lemma dedupe_keys:
  "distinct (map entity_key (dedupe_entities es))" "entity_key ` set (dedupe_entities es) = entity_key ` set es"
  using drop_seen_distinct [of "[]"] drop_seen_keys [of "[]"] by (simp_all add: dedupe_entities_def)

section \<open>Facts about custom detectors\<close>

lemma parse_detector_shape:
  "parse_detector py_str re_compile src i item = Inr p \<Longrightarrow> sp_source p = ''custom'' \<and> sp_entity_type p \<noteq> []"
  by (auto simp: parse_detector_def Let_def rbind_eq_Inr split: json.splits if_splits)

lemma parse_detectors_shape:
  "parse_detectors py_str re_compile src i items = Inr ps \<Longrightarrow>
   length ps = length items \<and> (\<forall>p \<in> set ps. sp_source p = ''custom'' \<and> sp_entity_type p \<noteq> [])"
proof (induction items arbitrary: i ps)
  case (Cons item items)
  then show ?case using parse_detector_shape by (fastforce simp: rbind_eq_Inr)
qed simp

lemma active_names_spec:
  "distinct names \<Longrightarrow> distinct (active_names names ps) \<and>
   set (active_names names ps) = set names \<union> sp_entity_type ` {p \<in> set ps. sp_source p = ''custom''}"
proof (induction ps arbitrary: names)
  case (Cons p ps)
  show ?case
  proof (cases "sp_source p \<noteq> ''custom'' \<or> sp_entity_type p \<in> set names")
    case True
    with Cons.IH [OF Cons.prems] show ?thesis by auto
  next
    case False
    then have "distinct (names @ [sp_entity_type p])" using Cons.prems by simp
    from Cons.IH [OF this] False show ?thesis by auto
  qed
qed simp

lemma policy_from_level_ok:
  "is_ok (policy_from_level mode level ps cs) \<longleftrightarrow> py_lower level \<in> {''strict'', ''technical'', ''off''}"
  by (simp add: policy_from_level_def Let_def)

end
