(* ===== verification/DlpProperties.thy ===== *)
theory DlpProperties
  imports Dlp
begin

text \<open>
  The properties of the scrubber: when a text is left alone, what redaction produces when the
  entities do not overlap and when they do, and what the default settings detect.
\<close>

text \<open>
  Secret scrubbing leaves a text alone and reports nothing exactly when no pattern matches
  anywhere in it: no secret passes unreported, and nothing else is touched.
\<close>

theorem scrub_secrets_complete:
  "scrub_secrets t ps = (t, []) \<longleftrightarrow> list_all (\<lambda>p. \<not> occurs p t) ps"
  using scrub_secrets_none [of t ps] scrub_secrets_unchanged [of t ps]
  by (cases "scrub_secrets t ps") (auto simp: list_all_iff)

definition only_detector :: "dlp_policy \<Rightarrow> regex \<Rightarrow> string \<Rightarrow> bool" where
  "only_detector p r ty \<longleftrightarrow> \<not> enable_secret_detection p \<and>
     ((r, ty) = (EMAIL_RE, ''EMAIL_ADDRESS'') \<and>
        enable_email_detection p \<and> \<not> enable_phone_detection p \<and> \<not> enable_ip_detection p \<or>
      (r, ty) = (PHONE_RE, ''PHONE_NUMBER'') \<and>
        \<not> enable_email_detection p \<and> enable_phone_detection p \<and> \<not> enable_ip_detection p \<or>
      (r, ty) = (IPV4_RE, ''IP_ADDRESS'') \<and>
        \<not> enable_email_detection p \<and> \<not> enable_phone_detection p \<and> enable_ip_detection p)"

lemma detector_min_len: "0 < min_len EMAIL_RE" "0 < min_len PHONE_RE" "0 < min_len IPV4_RE"
  by (simp_all add: EMAIL_RE_def PHONE_RE_def IPV4_RE_def Many1_def AtLeast_def Exactly_def Let_def)

text \<open>
  Where a single detector is switched on, the right-to-left splicing of the scrubber gives
  the text with every match replaced by its label, left to right, and reports one entity per
  match.
\<close>

theorem single_detector_redaction:
  assumes "only_detector p r ty"
  shows "scrubbed_text (scrub (regex_analyze p) p t) = relabel t 0 (collect t r ty) \<and>
    pii_entities (scrub (regex_analyze p) p t) = replicate (length (finditer (compile_regex r) t)) ty"
proof -
  have m: "0 < min_len r" using assms detector_min_len by (auto simp: only_detector_def)
  have "regex_analyze p t = collect t r ty"
    using assms dedupe_disjoint [OF collect_disjoint [OF m]]
    by (auto simp: only_detector_def regex_analyze_def)
  moreover have "\<not> enable_secret_detection p" using assms by (simp add: only_detector_def)
  moreover have "map entity_type (collect t r ty) = replicate (length (finditer (compile_regex r) t)) ty"
    by (simp add: collect_def case_prod_beta comp_def map_replicate_const)
  ultimately show ?thesis using redact_disjoint [OF collect_disjoint [OF m]] by (simp add: scrub_def)
qed

definition demo_policy :: "bool \<Rightarrow> bool \<Rightarrow> dlp_policy" where
  "demo_policy email phone = \<lparr>analyzer_mode = ''regex'', scrub_level = ''strict'',
     enable_email_detection = email, enable_phone_detection = phone, enable_ip_detection = False,
     enable_secret_detection = False, secret_patterns = [], active_custom_detectors = []\<rparr>"

lemma single_detector_redaction_witness:
  "scrubbed_text (scrub (regex_analyze (demo_policy True False)) (demo_policy True False) ''me@x.com'') =
    relabel ''me@x.com'' 0 (collect ''me@x.com'' EMAIL_RE ''EMAIL_ADDRESS'')"
  using single_detector_redaction [of "demo_policy True False" EMAIL_RE "''EMAIL_ADDRESS''" "''me@x.com''"]
  by (simp add: only_detector_def demo_policy_def)

text \<open>
  With the default settings nothing is ever redacted by the regex analyzer: the four
  detector switches default to \<open>None\<close>, which replaces what the technical level switches on.
\<close>

theorem default_settings_redact_nothing:
  "\<exists>p. build_dlp_policy_from_settings json_loads read_yaml py_str re_compile default_settings [] = Inr p \<and>
    scrub_level p = ''technical'' \<and> scrub (regex_analyze p) p t = unscrubbed t"
  by (simp add: build_dlp_policy_from_settings_def default_settings_def dict_get_def truthy_def
      load_custom_secret_patterns_def load_custom_secret_patterns_from_yaml_def policy_from_level_def
      py_lower_def lower_char_def code_point_def detector_flag_def Let_def scrub_def regex_analyze_def
      unscrubbed_def dedupe_entities_def)

text \<open>
  Overlapping entities break redaction: a phone number inside an address is replaced first,
  the address span is then applied to the changed text, and part of the address survives.
\<close>

theorem overlapping_entities_leak:
  "scrubbed_text (scrub (regex_analyze (demo_policy True True)) (demo_policy True True) ''555-123-4567@x.com'') =
    ''[REDACTED_EMAIL_ADDRESS]MBER]@x.com''"
  by code_simp

end
