(* ===== verification/Render.thy ===== *)
theory Render
  imports Keys PyFloat
begin

text \<open>
  Texts the control plane renders: dates and times as \<open>datetime.isoformat\<close> prints them,
  JSON as \<open>json.dumps(value, indent=2)\<close>, amounts and ratios. A time is a number of
  microseconds since 1970 in UTC; the decimal rendering of a binary64 number,
  \<open>float.__repr__\<close>, is a parameter.
\<close>

section \<open>The calendar\<close>

text \<open>
  Days are counted from 1970-01-01. The Gregorian calendar repeats every 400 years of 146097
  days; inside an era a year starts in March, so that the leap day is its last one.
\<close>

record civil =
  cv_year :: int
  cv_month :: int
  cv_day :: int

definition civil_from_days :: "int \<Rightarrow> civil" where
  "civil_from_days days =
     (let z = days + 719468;
          era = z div 146097;
          doe = z mod 146097;
          yoe = (doe - doe div 1460 + doe div 36524 - doe div 146096) div 365;
          doy = doe - (365 * yoe + yoe div 4 - yoe div 100);
          mp = (5 * doy + 2) div 153;
          m = (if mp < 10 then mp + 3 else mp - 9)
      in \<lparr>cv_year = yoe + era * 400 + (if m \<le> 2 then 1 else 0), cv_month = m,
          cv_day = doy - (153 * mp + 2) div 5 + 1\<rparr>)"

definition padded :: "nat \<Rightarrow> int \<Rightarrow> string" where
  "padded n i = pad_zeros n (int_str i)"

definition iso_date :: "int \<Rightarrow> string" where
  "iso_date days = (let c = civil_from_days days in
     padded 4 (cv_year c) @ ''-'' @ padded 2 (cv_month c) @ ''-'' @ padded 2 (cv_day c))"

definition isoformat :: "timestamp \<Rightarrow> string" where
  "isoformat t =
     (let s = (t mod 86400000000) div 1000000; us = t mod 1000000
      in iso_date (t div 86400000000) @ ''T'' @ padded 2 (s div 3600) @ '':'' @
         padded 2 (s mod 3600 div 60) @ '':'' @ padded 2 (s mod 60) @
         (if us = 0 then [] else ''.'' @ padded 6 us) @ ''+00:00'')"

section \<open>JSON text\<close>

fun join :: "string \<Rightarrow> string list \<Rightarrow> string" where
  "join sep [] = []"
| "join sep [s] = s"
| "join sep (s # t # ss) = s @ sep @ join sep (t # ss)"

definition newline :: "nat \<Rightarrow> string" where
  "newline depth = CHR 0x0A # replicate (2 * depth) CHR 0x20"

definition bracketed :: "string \<Rightarrow> string \<Rightarrow> nat \<Rightarrow> string list \<Rightarrow> string" where
  "bracketed left right depth items =
     (if items = [] then left @ right
      else left @ newline (Suc depth) @ join ('','' @ newline (Suc depth)) items @
           newline depth @ right)"

primrec json_text :: "(real \<Rightarrow> string) \<Rightarrow> json \<Rightarrow> nat \<Rightarrow> string" where
  "json_text float_repr JNull depth = ''null''"
| "json_text float_repr (JBool b) depth = dump_bool b"
| "json_text float_repr (JInt i) depth = int_str i"
| "json_text float_repr (JFloat x) depth = float_repr x"
| "json_text float_repr (JStr s) depth = json_quote s"
| "json_text float_repr (JArr vs) depth =
     bracketed ''['' '']'' depth (map (\<lambda>f. f (Suc depth)) (map (json_text float_repr) vs))"
| "json_text float_repr (JObj kvs) depth =
     bracketed ''{'' ''}'' depth
       (map (\<lambda>(k, f). json_quote k @ '': '' @ f (Suc depth)) (map (map_prod id (json_text float_repr)) kvs))"

definition json_dumps :: "(real \<Rightarrow> string) \<Rightarrow> dict \<Rightarrow> string" where
  "json_dumps float_repr d = json_text float_repr (JObj d) 0"

section \<open>Amounts\<close>

definition format_usd_human :: "real \<Rightarrow> string" where
  "format_usd_human amount =
     (if \<bar>amount\<bar> = 0 then ''$0.00''
      else if \<bar>amount\<bar> \<ge> fl (1 / 100) then ''$'' @ format_fixed 2 amount
      else ''$'' @ format_fixed 6 amount)"

text \<open>\<open>f"{x:.2%}"\<close>: the ratio is multiplied by 100 before it is rounded.\<close>

definition format_percent :: "real \<Rightarrow> string" where
  "format_percent x = format_fixed 2 (fmul x 100) @ ''%''"

definition lines_text :: "string list \<Rightarrow> string" where
  "lines_text ls = join [CHR 0x0A] ls"

definition bullets :: "string list \<Rightarrow> string list" where
  "bullets ls = map (\<lambda>l. ''- '' @ l) ls"

definition py_bool_str :: "bool \<Rightarrow> string" where
  "py_bool_str b = (if b then ''True'' else ''False'')"

lemma map_bullets_nth: "i < length ls \<Longrightarrow> bullets ls ! i = ''- '' @ ls ! i"
  by (simp add: bullets_def)

end
