(* ===== verification/Billing.thy ===== *)
theory Billing
  imports EventLog Render
begin

text \<open>
  The billing repository of \<open>app/controlplane/repositories/billing.py\<close>: plans,
  subscriptions, billing periods, usage charges and the enforcement state. An operation takes
  the database, the time of the call and the identifiers \<open>uuid4\<close> hands out, and returns
  the new database with its result or the exception it raises.
\<close>

definition normalize_patronage_threshold_usd :: "real \<Rightarrow> real" where
  "normalize_patronage_threshold_usd value = (if value > 0 then value else 50)"

section \<open>Plans and subscriptions\<close>

record plan_args =
  pa_code :: string
  pa_name :: string
  pa_monthly_base_price_usd :: real
  pa_included_requests :: "int option"
  pa_included_upstream_cost_usd :: "real option"
  pa_included_realized_savings_usd :: "real option"
  pa_soft_cap_threshold_ratio :: real
  pa_hard_cap_enabled :: bool
  pa_metadata :: dict

definition write_plan :: "plan_args \<Rightarrow> timestamp \<Rightarrow> plan_row \<Rightarrow> plan_row" where
  "write_plan a now p =
     p\<lparr>plan_code := pa_code a, plan_name := pa_name a,
       plan_monthly_base_price_usd := pa_monthly_base_price_usd a,
       plan_included_requests := pa_included_requests a,
       plan_included_upstream_cost_usd := pa_included_upstream_cost_usd a,
       plan_included_realized_savings_usd := pa_included_realized_savings_usd a,
       plan_soft_cap_threshold_ratio := pa_soft_cap_threshold_ratio a,
       plan_hard_cap_enabled := pa_hard_cap_enabled a,
       plan_metadata := pa_metadata a, plan_updated_at := now\<rparr>"

definition fresh_plan :: "plan_args \<Rightarrow> timestamp \<Rightarrow> string \<Rightarrow> plan_row" where
  "fresh_plan a now pid =
     \<lparr>plan_id = pid, plan_code = pa_code a, plan_name = pa_name a, plan_status = ''active'',
      plan_monthly_base_price_usd = pa_monthly_base_price_usd a,
      plan_included_requests = pa_included_requests a,
      plan_included_upstream_cost_usd = pa_included_upstream_cost_usd a,
      plan_included_realized_savings_usd = pa_included_realized_savings_usd a,
      plan_soft_cap_threshold_ratio = pa_soft_cap_threshold_ratio a,
      plan_hard_cap_enabled = pa_hard_cap_enabled a,
      plan_metadata = pa_metadata a, plan_created_at = now, plan_updated_at = now\<rparr>"

definition upsert_plan :: "database \<Rightarrow> timestamp \<Rightarrow> string \<Rightarrow> plan_args \<Rightarrow> database \<times> string" where
  "upsert_plan db now uuid a =
     (let existing = find (\<lambda>p. plan_code p = pa_code a) (plans db);
          pid = (case existing of Some p \<Rightarrow> plan_id p | None \<Rightarrow> ''plan_'' @ uuid)
      in (db\<lparr>plans := (if list_ex (\<lambda>p. plan_id p = pid) (plans db)
                        then map (\<lambda>p. if plan_id p = pid then write_plan a now p else p) (plans db)
                        else plans db @ [fresh_plan a now pid])\<rparr>, pid))"

definition create_subscription ::
  "database \<Rightarrow> timestamp \<Rightarrow> string \<Rightarrow> string \<Rightarrow> string \<Rightarrow> string \<Rightarrow> timestamp \<Rightarrow> timestamp \<Rightarrow>
   timestamp option \<Rightarrow> (database \<times> string) result" where
  "create_subscription db now uuid tenant_id pid status period_start period_end trial_ends_at =
     (if \<not> list_ex (\<lambda>p. plan_id p = pid) (plans db)
      then Inl (ForeignKeyViolation ''subscriptions.plan_id'')
      else let sid = ''subscription_'' @ uuid in
        if list_ex (\<lambda>s. sub_id s = sid) (subscriptions db)
        then Inl (UniqueViolation ''subscriptions_pkey'')
        else Inr (db\<lparr>subscriptions := subscriptions db @
               [\<lparr>sub_id = sid, sub_tenant_id = tenant_id, sub_plan_id = pid, sub_status = status,
                 sub_trial_ends_at = trial_ends_at, sub_current_period_start = period_start,
                 sub_current_period_end = period_end, sub_created_at = now, sub_updated_at = now\<rparr>]\<rparr>,
             sid))"

definition subscription_statuses :: "string list" where
  "subscription_statuses = [''trialing'', ''active'', ''past_due'', ''canceled'']"

definition update_subscription_status ::
  "database \<Rightarrow> timestamp \<Rightarrow> string \<Rightarrow> string \<Rightarrow> (database \<times> subscription_row) result" where
  "update_subscription_status db now sid status =
     (if status \<notin> set subscription_statuses then Inl (ValueErr ''invalid subscription status'')
      else let rows = map (\<lambda>s. if sub_id s = sid
                               then s\<lparr>sub_status := status, sub_updated_at := now\<rparr> else s)
                       (subscriptions db)
        in case find (\<lambda>s. sub_id s = sid) rows of
             None \<Rightarrow> Inl (ValueErr ''subscription not found'')
           | Some s \<Rightarrow> Inr (db\<lparr>subscriptions := rows\<rparr>, s))"

section \<open>Billing periods\<close>

definition get_billing_period_row :: "database \<Rightarrow> string \<Rightarrow> period_row result" where
  "get_billing_period_row db pid =
     (case find (\<lambda>p. bp_id p = pid) (billing_periods db) of
        None \<Rightarrow> Inl (ValueErr ''billing period not found'')
      | Some p \<Rightarrow> Inr p)"

definition new_period :: "string \<Rightarrow> string \<Rightarrow> string \<Rightarrow> timestamp \<Rightarrow> timestamp \<Rightarrow> timestamp \<Rightarrow> period_row" where
  "new_period pid tenant_id sid s e now = \<lparr>
     bp_id = pid, bp_tenant_id = tenant_id, bp_subscription_id = sid, bp_period_start = s,
     bp_period_end = e, bp_status = POpen, bp_request_count = 0,
     bp_upstream_cost_usd_total = 0, bp_realized_savings_usd_total = 0,
     bp_shadow_savings_usd_total = 0, bp_total_tokens_saved = 0, bp_metadata = [],
     bp_closed_at = None, bp_created_at = now, bp_updated_at = now \<rparr>"

text \<open>The bounds of the call, or those of the subscription's current period.\<close>

definition period_bounds ::
  "database \<Rightarrow> string \<Rightarrow> timestamp option \<Rightarrow> timestamp option \<Rightarrow> (timestamp \<times> timestamp) result" where
  "period_bounds db sid period_start period_end =
     (case (period_start, period_end) of
        (Some s, Some e) \<Rightarrow> Inr (s, e)
      | _ \<Rightarrow>
          (case find (\<lambda>s. sub_id s = sid) (subscriptions db) of
             None \<Rightarrow> Inl (ValueErr ''subscription not found'')
           | Some sub \<Rightarrow> Inr (opt_else period_start (sub_current_period_start sub),
                             opt_else period_end (sub_current_period_end sub))))"

definition find_or_insert_period ::
  "database \<Rightarrow> timestamp \<Rightarrow> string \<Rightarrow> string \<Rightarrow> string \<Rightarrow> timestamp \<Rightarrow> timestamp \<Rightarrow>
   (database \<times> string) result" where
  "find_or_insert_period db now pid tenant_id sid s e =
     (case find (\<lambda>p. bp_subscription_id p = sid \<and> bp_period_start p = s \<and> bp_period_end p = e)
             (billing_periods db) of
        Some p \<Rightarrow> Inr (db, bp_id p)
      | None \<Rightarrow>
          if \<not> list_ex (\<lambda>s. sub_id s = sid) (subscriptions db)
          then Inl (ForeignKeyViolation ''billing_periods.subscription_id'')
          else if list_ex (\<lambda>p. bp_id p = pid) (billing_periods db)
          then Inl (UniqueViolation ''billing_periods_pkey'')
          else Inr (db\<lparr>billing_periods := billing_periods db @ [new_period pid tenant_id sid s e now]\<rparr>, pid))"

definition create_billing_period ::
  "database \<Rightarrow> timestamp \<Rightarrow> string \<Rightarrow> string \<Rightarrow> string \<Rightarrow> timestamp option \<Rightarrow> timestamp option \<Rightarrow>
   (database \<times> string) result" where
  "create_billing_period db now uuid tenant_id sid period_start period_end =
     rbind (period_bounds db sid period_start period_end)
       (\<lambda>(s, e). find_or_insert_period db now (''billing_period_'' @ uuid) tenant_id sid s e)"

definition update_period :: "database \<Rightarrow> string \<Rightarrow> (period_row \<Rightarrow> period_row) \<Rightarrow> database" where
  "update_period db pid f =
     db\<lparr>billing_periods := map (\<lambda>p. if bp_id p = pid then f p else p) (billing_periods db)\<rparr>"

record reconciliation =
  rc_billing_period_id :: string
  rc_usage_charges_total_usd :: real
  rc_realized_savings_usd_total :: real
  rc_matches_realized_savings :: bool

definition period_charges :: "database \<Rightarrow> string \<Rightarrow> charge_row list" where
  "period_charges db pid = filter (\<lambda>c. uc_billing_period_id c = Some pid) (usage_charges db)"

definition reconcile_billing_period :: "database \<Rightarrow> string \<Rightarrow> reconciliation result" where
  "reconcile_billing_period db pid =
     rbind (get_billing_period_row db pid) (\<lambda>period.
       let total = sql_sum (map uc_amount_usd (period_charges db pid));
           realized = bp_realized_savings_usd_total period
       in Inr \<lparr>rc_billing_period_id = pid, rc_usage_charges_total_usd = total,
               rc_realized_savings_usd_total = realized,
               rc_matches_realized_savings = (\<bar>fsub total realized\<bar> < fl (1 / 10 ^ 9))\<rparr>)"

definition parse_period_status :: "string \<Rightarrow> period_status option" where
  "parse_period_status s =
     map_of [(''open'', POpen), (''closing'', PClosing), (''closed'', PClosed)] s"

definition set_period_status :: "timestamp \<Rightarrow> period_status \<Rightarrow> period_row \<Rightarrow> period_row" where
  "set_period_status now st p =
     p\<lparr>bp_status := st, bp_closed_at := (if st = PClosed then Some now else None), bp_updated_at := now\<rparr>"

definition update_billing_period_status ::
  "database \<Rightarrow> timestamp \<Rightarrow> string \<Rightarrow> string \<Rightarrow> (database \<times> period_row) result" where
  "update_billing_period_status db now pid status =
     rbind (get_billing_period_row db pid) (\<lambda>current.
       case parse_period_status status of
         None \<Rightarrow> Inl (ValueErr ''invalid billing period status'')
       | Some st \<Rightarrow>
           if bp_status current = PClosed \<and> st \<noteq> PClosed
           then Inl (ValueErr ''closed billing period cannot be reopened'')
           else rbind (if st = PClosed
                       then rbind (reconcile_billing_period db pid) (\<lambda>r.
                              raise_if (\<not> rc_matches_realized_savings r)
                                (ValueErr ''billing period reconciliation failed''))
                       else Inr ())
                  (\<lambda>_. Inr (update_period db pid (set_period_status now st),
                            set_period_status now st current)))"

section \<open>Summaries\<close>

definition period_ledger :: "database \<Rightarrow> period_row \<Rightarrow> ledger_row list" where
  "period_ledger db p =
     filter (\<lambda>r. lr_tenant_id r = Some (bp_tenant_id p) \<and>
                 bp_period_start p \<le> lr_observed_at r \<and> lr_observed_at r < bp_period_end p)
       (request_ledger db)"

definition summarized :: "database \<Rightarrow> timestamp \<Rightarrow> period_row \<Rightarrow> period_row" where
  "summarized db now p =
     (let rows = period_ledger db p in
      p\<lparr>bp_request_count := length rows,
        bp_upstream_cost_usd_total := sql_sum (map lr_estimated_upstream_cost_usd rows),
        bp_realized_savings_usd_total := sql_sum (map lr_estimated_realized_savings_usd rows),
        bp_shadow_savings_usd_total := sql_sum (map lr_estimated_shadow_savings_usd rows),
        bp_total_tokens_saved :=
          sum_list (map (\<lambda>r. if lr_estimated_realized_savings_usd r > 0 then lr_total_tokens r else 0) rows),
        bp_updated_at := now\<rparr>)"

definition summarize_billing_period ::
  "real \<Rightarrow> database \<Rightarrow> timestamp \<Rightarrow> string \<Rightarrow> (database \<times> period_row) result" where
  "summarize_billing_period threshold db now pid =
     rbind (get_billing_period_row db pid) (\<lambda>period.
       if bp_status period = PClosed then Inr (db, period)
       else let refreshed = summarized db now period;
                db' = update_period db pid (\<lambda>_. refreshed)
         in if bp_status refreshed = POpen \<and> bp_realized_savings_usd_total refreshed \<ge> threshold
            then update_billing_period_status db' now pid ''closing''
            else Inr (db', refreshed))"

section \<open>Usage charges\<close>

definition canonical_charge_type_for_source :: "string \<Rightarrow> string result" where
  "canonical_charge_type_for_source source_table =
     (case map_of [(''daily_usage_rollups'', ''managed_spend''),
                   (''request_ledger'', ''request_overage''),
                   (''subscriptions'', ''base_fee''),
                   (''manual'', ''manual_adjustment'')] source_table of
        None \<Rightarrow> Inl (ValueErr (''unsupported billing source table: '' @ source_table))
      | Some t \<Rightarrow> Inr t)"

text \<open>An insertion into \<open>usage_charges\<close> under its foreign keys, primary key and unique index.\<close>

definition same_source :: "charge_row \<Rightarrow> charge_row \<Rightarrow> bool" where
  "same_source c c' \<longleftrightarrow> uc_source_table c = uc_source_table c' \<and>
     uc_source_ref c = uc_source_ref c' \<and> uc_charge_type c = uc_charge_type c'"

definition insert_charge :: "database \<Rightarrow> charge_row \<Rightarrow> database result" where
  "insert_charge db c =
     (if \<not> (case uc_billing_period_id c of None \<Rightarrow> True
             | Some pid \<Rightarrow> list_ex (\<lambda>p. bp_id p = pid) (billing_periods db))
      then Inl (ForeignKeyViolation ''usage_charges.billing_period_id'')
      else if \<not> (case uc_subscription_id c of None \<Rightarrow> True
                  | Some sid \<Rightarrow> list_ex (\<lambda>s. sub_id s = sid) (subscriptions db))
      then Inl (ForeignKeyViolation ''usage_charges.subscription_id'')
      else if list_ex (\<lambda>c'. uc_id c' = uc_id c) (usage_charges db)
      then Inl (UniqueViolation ''usage_charges_pkey'')
      else if list_ex (same_source c) (usage_charges db)
      then Inl (UniqueViolation ''idx_usage_charges_source_charge_unique'')
      else Inr (db\<lparr>usage_charges := usage_charges db @ [c]\<rparr>))"

record adjustment_result =
  adj_charge_id :: string
  adj_target_billing_period_id :: "string option"
  adj_charge_type :: string

definition create_manual_adjustment ::
  "database \<Rightarrow> timestamp \<Rightarrow> string \<Rightarrow> string \<Rightarrow> string option \<Rightarrow> real \<Rightarrow> string \<Rightarrow> string \<Rightarrow>
   string option \<Rightarrow> (database \<times> adjustment_result) result" where
  "create_manual_adjustment db now uuid tenant_id sid amount_usd description reason target =
     rbind (case target of
              None \<Rightarrow> Inr ()
            | Some pid \<Rightarrow> rbind (get_billing_period_row db pid) (\<lambda>period.
                raise_if (bp_status period \<noteq> PClosed)
                  (ValueErr ''manual adjustments are only required for closed billing periods'')))
       (\<lambda>_. rbind (canonical_charge_type_for_source ''manual'') (\<lambda>charge_type.
          let cid = ''usage_charge_'' @ uuid in
          rbind (insert_charge db
                   \<lparr>uc_id = cid, uc_billing_period_id = target, uc_tenant_id = tenant_id,
                    uc_subscription_id = sid, uc_request_id = None, uc_rollup_date = None,
                    uc_workspace_id = None, uc_source_table = ''manual'',
                    uc_source_ref = ''manual_adjustment:'' @ cid, uc_charge_type = charge_type,
                    uc_description = description, uc_amount_usd = amount_usd,
                    uc_metadata = [(''reason'', JStr reason), (''late_arrival_adjustment'', JBool True)],
                    uc_created_at = now\<rparr>)
            (\<lambda>db'. Inr (db', \<lparr>adj_charge_id = cid, adj_target_billing_period_id = target,
                             adj_charge_type = charge_type\<rparr>))))"

text \<open>
  Both materialisations walk their rows, skip a row whose source already has a charge and
  insert one otherwise; \<open>mk\<close> builds the charge of a row from the next identifier. A failing
  insertion ends the walk and keeps the charges inserted before it.
\<close>

fun materialize_rows ::
  "(string \<Rightarrow> 'r \<Rightarrow> charge_row) \<Rightarrow> (nat \<Rightarrow> string) \<Rightarrow> nat \<Rightarrow> database \<Rightarrow> 'r list \<Rightarrow>
   database \<times> nat result" where
  "materialize_rows mk uuids cnt db [] = (db, Inr cnt)"
| "materialize_rows mk uuids cnt db (r # rs) =
     (let c = mk (uuids cnt) r in
      if list_ex (same_source c) (usage_charges db)
      then materialize_rows mk uuids cnt db rs
      else (case insert_charge db c of
              Inl e \<Rightarrow> (db, Inl e)
            | Inr db' \<Rightarrow> materialize_rows mk uuids (Suc cnt) db' rs))"

definition check_attachable :: "database \<Rightarrow> string option \<Rightarrow> period_row option result" where
  "check_attachable db billing_period_id =
     (case billing_period_id of
        None \<Rightarrow> Inr None
      | Some pid \<Rightarrow> rbind (get_billing_period_row db pid) (\<lambda>period.
          if bp_status period \<in> {PClosing, PClosed}
          then Inl (ValueErr ''cannot attach usage charges to a closing or closed billing period'')
          else Inr (Some period)))"

definition ledger_charge ::
  "timestamp \<Rightarrow> string \<Rightarrow> string option \<Rightarrow> string option \<Rightarrow> string \<Rightarrow> ledger_row \<Rightarrow> charge_row" where
  "ledger_charge now tenant_id sid billing_period_id uuid r = \<lparr>
     uc_id = ''usage_charge_'' @ uuid, uc_billing_period_id = billing_period_id,
     uc_tenant_id = tenant_id, uc_subscription_id = sid,
     uc_request_id = Some (lr_request_id r), uc_rollup_date = Some (sql_date (lr_observed_at r)),
     uc_workspace_id = lr_workspace_id r, uc_source_table = ''request_ledger'',
     uc_source_ref = lr_request_id r, uc_charge_type = ''request_overage'',
     uc_description = ''Per-request realized savings record for '' @ lr_model r @ '' ('' @
       lr_cache_outcome r @ '')'',
     uc_amount_usd = lr_estimated_realized_savings_usd r,
     uc_metadata = [(''estimated_upstream_cost_usd'', JFloat (lr_estimated_upstream_cost_usd r)),
                    (''estimated_realized_savings_usd'', JFloat (lr_estimated_realized_savings_usd r)),
                    (''model'', JStr (lr_model r)), (''cache_outcome'', JStr (lr_cache_outcome r))],
     uc_created_at = now \<rparr>"

definition ledger_rows_to_charge ::
  "database \<Rightarrow> string \<Rightarrow> period_row option \<Rightarrow> nat \<Rightarrow> ledger_row list" where
  "ledger_rows_to_charge db tenant_id period limit =
     take limit (order_desc (\<lambda>r. [lr_observed_at r])
       (filter (\<lambda>r. lr_tenant_id r = Some tenant_id \<and>
                    (case period of None \<Rightarrow> True
                     | Some p \<Rightarrow> bp_period_start p \<le> lr_observed_at r \<and> lr_observed_at r < bp_period_end p))
          (request_ledger db)))"

definition materialize_usage_charges_from_ledger ::
  "database \<Rightarrow> timestamp \<Rightarrow> (nat \<Rightarrow> string) \<Rightarrow> string \<Rightarrow> string option \<Rightarrow> string option \<Rightarrow> nat \<Rightarrow>
   database \<times> nat result" where
  "materialize_usage_charges_from_ledger db now uuids tenant_id sid billing_period_id limit =
     (case check_attachable db billing_period_id of
        Inl e \<Rightarrow> (db, Inl e)
      | Inr period \<Rightarrow>
          materialize_rows (ledger_charge now tenant_id sid billing_period_id) uuids 0 db
            (ledger_rows_to_charge db tenant_id period limit))"

definition rollup_charge ::
  "timestamp \<Rightarrow> string \<Rightarrow> string option \<Rightarrow> string option \<Rightarrow> string \<Rightarrow>
   usage_rollup_row \<Rightarrow> charge_row" where
  "rollup_charge now tenant_id sid billing_period_id uuid u = \<lparr>
     uc_id = ''usage_charge_'' @ uuid, uc_billing_period_id = billing_period_id,
     uc_tenant_id = tenant_id, uc_subscription_id = sid, uc_request_id = None,
     uc_rollup_date = Some (ur_rollup_date u), uc_workspace_id = ur_workspace_id u,
     uc_source_table = ''daily_usage_rollups'',
     uc_source_ref = iso_date (ur_rollup_date u) @ '':'' @
       the (str_or (ur_workspace_id u) (Some ''unknown'')),
     uc_charge_type = ''managed_spend'',
     uc_description = ''Managed spend summary for '' @ iso_date (ur_rollup_date u),
     uc_amount_usd = ur_upstream_cost_usd_total u,
     uc_metadata = [(''request_count'', JInt (int (ur_request_count u))),
                    (''realized_savings_usd_total'', JFloat (ur_realized_savings_usd_total u))],
     uc_created_at = now \<rparr>"

definition materialize_usage_charges_from_rollups ::
  "database \<Rightarrow> timestamp \<Rightarrow> (nat \<Rightarrow> string) \<Rightarrow> string \<Rightarrow> string option \<Rightarrow>
   int option \<Rightarrow> string option \<Rightarrow> database \<times> nat result" where
  "materialize_usage_charges_from_rollups db now uuids tenant_id sid rollup_date billing_period_id =
     (case check_attachable db billing_period_id of
        Inl e \<Rightarrow> (db, Inl e)
      | Inr _ \<Rightarrow>
          materialize_rows (rollup_charge now tenant_id sid billing_period_id) uuids 0 db
            (filter (\<lambda>u. ur_tenant_id u = Some tenant_id \<and>
                         (case rollup_date of None \<Rightarrow> True | Some d \<Rightarrow> ur_rollup_date u = d))
               (daily_usage_rollups db)))"

section \<open>Closeout preview, listings and enforcement\<close>

record closeout_preview =
  cp_billing_period_id :: string
  cp_status :: string
  cp_request_count :: nat
  cp_upstream_cost_usd_total :: real
  cp_realized_savings_usd_total :: real
  cp_shadow_savings_usd_total :: real
  cp_total_tokens_saved :: nat
  cp_usage_charges_total_usd :: real
  cp_matches_realized_savings :: bool
  cp_recommended_action :: string
  cp_blocking_issues :: "string list"

definition preview_billing_closeout :: "database \<Rightarrow> string \<Rightarrow> closeout_preview result" where
  "preview_billing_closeout db pid =
     rbind (get_billing_period_row db pid) (\<lambda>period.
     rbind (reconcile_billing_period db pid) (\<lambda>rec.
       let blocking_issues = (if rc_matches_realized_savings rec then []
                              else [''usage charges do not reconcile to realized savings'']);
           recommended_action =
             (if bp_status period = PClosed then ''period_already_closed''
              else if blocking_issues \<noteq> [] then ''fix_blocking_issues_before_close''
              else if bp_status period = POpen then ''summarize_or_move_to_closing''
              else ''ready_to_close'')
       in Inr \<lparr>cp_billing_period_id = pid, cp_status = period_status_str (bp_status period),
               cp_request_count = bp_request_count period,
               cp_upstream_cost_usd_total = bp_upstream_cost_usd_total period,
               cp_realized_savings_usd_total = bp_realized_savings_usd_total period,
               cp_shadow_savings_usd_total = bp_shadow_savings_usd_total period,
               cp_total_tokens_saved = bp_total_tokens_saved period,
               cp_usage_charges_total_usd = rc_usage_charges_total_usd rec,
               cp_matches_realized_savings = rc_matches_realized_savings rec,
               cp_recommended_action = recommended_action, cp_blocking_issues = blocking_issues\<rparr>))"

definition given :: "'a option \<Rightarrow> 'a \<Rightarrow> bool" where
  "given filter_value v = (case filter_value of None \<Rightarrow> True | Some w \<Rightarrow> v = w)"

definition list_billing_periods :: "database \<Rightarrow> string option \<Rightarrow> string option \<Rightarrow> period_row list" where
  "list_billing_periods db tenant_id sid =
     order_desc (\<lambda>p. [bp_period_start p, bp_created_at p])
       (filter (\<lambda>p. given tenant_id (bp_tenant_id p) \<and> given sid (bp_subscription_id p)) (billing_periods db))"

definition list_invoices :: "database \<Rightarrow> string option \<Rightarrow> string option \<Rightarrow> invoice_row list" where
  "list_invoices db tenant_id pid =
     order_desc (\<lambda>i. [inv_updated_at i, inv_created_at i])
       (filter (\<lambda>i. given tenant_id (inv_tenant_id i) \<and> given pid (inv_billing_period_id i)) (invoices db))"

definition list_plans :: "database \<Rightarrow> plan_row list" where
  "list_plans db = order_desc (\<lambda>p. [plan_created_at p]) (plans db)"

definition list_subscriptions :: "database \<Rightarrow> string option \<Rightarrow> subscription_row list" where
  "list_subscriptions db tenant_id =
     order_desc (\<lambda>s. [sub_created_at s]) (filter (\<lambda>s. given tenant_id (sub_tenant_id s)) (subscriptions db))"

definition list_usage_charges :: "database \<Rightarrow> string option \<Rightarrow> nat \<Rightarrow> charge_row list" where
  "list_usage_charges db tenant_id limit =
     take limit (order_desc (\<lambda>c. [uc_created_at c])
       (filter (\<lambda>c. given tenant_id (uc_tenant_id c)) (usage_charges db)))"

record enforcement_state =
  es_tenant_id :: string
  es_blocked :: bool
  es_reason :: "string option"
  es_threshold_usd :: real
  es_subscription_id :: "string option"
  es_subscription_status :: "string option"
  es_billing_period_id :: "string option"
  es_billing_period_status :: "string option"
  es_realized_savings_usd_total :: real
  es_period_start :: "timestamp option"
  es_period_end :: "timestamp option"

definition current_subscription :: "database \<Rightarrow> string \<Rightarrow> subscription_row option" where
  "current_subscription db tenant_id =
     first_row (order_desc (\<lambda>s. [sub_current_period_end s, sub_created_at s])
       (filter (\<lambda>s. sub_tenant_id s = tenant_id) (subscriptions db)))"

definition current_period :: "database \<Rightarrow> string \<Rightarrow> period_row option" where
  "current_period db tenant_id =
     first_row (order_desc
       (\<lambda>p. [if bp_status p \<in> {POpen, PClosing} then 1 else 0, bp_period_end p, bp_created_at p])
       (filter (\<lambda>p. bp_tenant_id p = tenant_id) (billing_periods db)))"

definition get_tenant_enforcement_state :: "real \<Rightarrow> database \<Rightarrow> string \<Rightarrow> enforcement_state" where
  "get_tenant_enforcement_state threshold db tenant_id =
     (let subscription = current_subscription db tenant_id;
          period = current_period db tenant_id;
          subscription_status = map_option sub_status subscription;
          period_status = map_option (\<lambda>p. period_status_str (bp_status p)) period;
          is_paid_subscription = (subscription_status = Some ''active'');
          threshold_reached =
            (case period of None \<Rightarrow> False | Some p \<Rightarrow> bp_realized_savings_usd_total p \<ge> threshold);
          blocked = (period \<noteq> None \<and> threshold_reached \<and>
                     period_status \<in> {Some ''closing'', Some ''closed''} \<and> \<not> is_paid_subscription);
          reason = (if \<not> blocked then None
                    else if period_status = Some ''closed'' then Some ''service_suspended''
                    else Some ''patronage_required'')
      in \<lparr>es_tenant_id = tenant_id, es_blocked = blocked, es_reason = reason,
          es_threshold_usd = threshold,
          es_subscription_id = map_option sub_id subscription,
          es_subscription_status = subscription_status,
          es_billing_period_id = map_option bp_id period,
          es_billing_period_status = period_status,
          es_realized_savings_usd_total =
            (case period of None \<Rightarrow> 0 | Some p \<Rightarrow> bp_realized_savings_usd_total p),
          es_period_start = map_option bp_period_start period,
          es_period_end = map_option bp_period_end period\<rparr>)"

end
