(* ===== verification/BillingReport.thy ===== *)
theory BillingReport
  imports Billing
begin

text \<open>
  The reports of the billing repository: \<open>generate_billing_report\<close> reads a period and its
  charges, \<open>generate_invoice_stub\<close> writes the preview invoice of a period, and both render
  their payload as JSON or text. The payload of an invoice is written to a JSONB column and read
  back; the order in which the column returns the keys is the parameter \<open>jsonb\<close>.
\<close>

section \<open>The billing report\<close>

record report_totals =
  rt_gross_cost_usd :: real
  rt_metera_savings_usd :: real
  rt_shadow_savings_usd :: real
  rt_usage_charges_total_usd :: real
  rt_net_cost_avoided_usd :: real
  rt_realized_savings_ratio :: real
  rt_total_tokens_saved :: real

record reconciliation_summary =
  rs_matches_realized_savings :: bool
  rs_usage_charges_total_usd :: real
  rs_realized_savings_usd_total :: real
  rs_difference_usd :: real

record billing_report =
  rp_billing_period_id :: string
  rp_tenant_id :: string
  rp_subscription_id :: string
  rp_status :: string
  rp_period_start :: string
  rp_period_end :: string
  rp_request_count :: nat
  rp_gross_cost_usd :: real
  rp_metera_savings_usd :: real
  rp_shadow_savings_usd :: real
  rp_usage_charges_total_usd :: real
  rp_total_tokens_saved :: nat
  rp_realized_savings_ratio :: real
  rp_matches_realized_savings :: bool
  rp_blocking_issues :: "string list"
  rp_summary_lines :: "string list"
  rp_line_items :: "string list"
  rp_billing_window :: billing_window
  rp_totals :: report_totals
  rp_reconciliation :: reconciliation_summary
  rp_narrative :: "string list"
  rp_format :: string

record exported_report = billing_report +
  rp_export_content :: string
  rp_export_filename :: string

definition savings_ratio :: "period_row \<Rightarrow> real" where
  "savings_ratio p =
     (if bp_upstream_cost_usd_total p > 0
      then fdiv (bp_realized_savings_usd_total p) (bp_upstream_cost_usd_total p) else 0)"

definition period_billing_window :: "period_row \<Rightarrow> billing_window" where
  "period_billing_window p =
     \<lparr>bw_period_start = isoformat (bp_period_start p), bw_period_end = isoformat (bp_period_end p),
      bw_closed_at = map_option isoformat (bp_closed_at p)\<rparr>"

definition report_blocking_issues :: "reconciliation \<Rightarrow> string list" where
  "report_blocking_issues rec =
     (if rc_matches_realized_savings rec then []
      else [''usage charges do not reconcile to realized savings''])"

definition report_line_items :: "period_row \<Rightarrow> reconciliation \<Rightarrow> string list" where
  "report_line_items p rec =
     [''gross_cost_usd='' @ format_usd_human (bp_upstream_cost_usd_total p),
      ''metera_savings_usd='' @ format_usd_human (bp_realized_savings_usd_total p),
      ''shadow_savings_usd='' @ format_usd_human (bp_shadow_savings_usd_total p),
      ''usage_charges_total_usd='' @ format_usd_human (rc_usage_charges_total_usd rec),
      ''total_tokens_saved='' @ nat_digits (bp_total_tokens_saved p)]"

definition report_narrative :: "period_row \<Rightarrow> reconciliation \<Rightarrow> string list" where
  "report_narrative p rec =
     [''Processed '' @ nat_digits (bp_request_count p) @ '' requests in the billing window.'',
      ''Realized savings reached '' @ format_usd_human (bp_realized_savings_usd_total p) @ '' against '' @
        format_usd_human (bp_upstream_cost_usd_total p) @ '' of gross upstream cost.''] @
     (if bp_total_tokens_saved p > 0
      then [''Intelligence Recovered (Tokens) reached '' @ group_digits (bp_total_tokens_saved p) @
            '' across cache-served requests in this window.'']
      else []) @
     (if bp_shadow_savings_usd_total p > 0
      then [''Shadow savings opportunity measured '' @ format_usd_human (bp_shadow_savings_usd_total p) @
            '' beyond realized savings.'']
      else []) @
     (if report_blocking_issues rec \<noteq> []
      then [''This report still has blocking reconciliation issues that should be resolved before final closeout.'']
      else [''Reconciliation is clean for the current billing-period snapshot.''])"

definition report_summary_lines :: "period_row \<Rightarrow> reconciliation \<Rightarrow> string list" where
  "report_summary_lines p rec =
     [''Gross Cost: '' @ format_usd_human (bp_upstream_cost_usd_total p),
      ''Metera Savings: '' @ format_usd_human (bp_realized_savings_usd_total p),
      ''Shadow Savings: '' @ format_usd_human (bp_shadow_savings_usd_total p),
      ''Usage Charges Total: '' @ format_usd_human (rc_usage_charges_total_usd rec),
      ''Intelligence Recovered (Tokens): '' @ group_digits (bp_total_tokens_saved p),
      ''Savings Ratio: '' @ format_percent (savings_ratio p)]"

definition report_payload :: "period_row \<Rightarrow> reconciliation \<Rightarrow> string \<Rightarrow> billing_report" where
  "report_payload p rec export_format = \<lparr>
     rp_billing_period_id = bp_id p, rp_tenant_id = bp_tenant_id p,
     rp_subscription_id = bp_subscription_id p, rp_status = period_status_str (bp_status p),
     rp_period_start = isoformat (bp_period_start p), rp_period_end = isoformat (bp_period_end p),
     rp_request_count = bp_request_count p, rp_gross_cost_usd = bp_upstream_cost_usd_total p,
     rp_metera_savings_usd = bp_realized_savings_usd_total p,
     rp_shadow_savings_usd = bp_shadow_savings_usd_total p,
     rp_usage_charges_total_usd = rc_usage_charges_total_usd rec,
     rp_total_tokens_saved = bp_total_tokens_saved p, rp_realized_savings_ratio = savings_ratio p,
     rp_matches_realized_savings = rc_matches_realized_savings rec,
     rp_blocking_issues = report_blocking_issues rec,
     rp_summary_lines = report_summary_lines p rec, rp_line_items = report_line_items p rec,
     rp_billing_window = period_billing_window p,
     rp_totals = \<lparr>rt_gross_cost_usd = bp_upstream_cost_usd_total p,
        rt_metera_savings_usd = bp_realized_savings_usd_total p,
        rt_shadow_savings_usd = bp_shadow_savings_usd_total p,
        rt_usage_charges_total_usd = rc_usage_charges_total_usd rec,
        rt_net_cost_avoided_usd = bp_realized_savings_usd_total p,
        rt_realized_savings_ratio = savings_ratio p,
        rt_total_tokens_saved = float_of_nat (bp_total_tokens_saved p)\<rparr>,
     rp_reconciliation = \<lparr>rs_matches_realized_savings = rc_matches_realized_savings rec,
        rs_usage_charges_total_usd = rc_usage_charges_total_usd rec,
        rs_realized_savings_usd_total = rc_realized_savings_usd_total rec,
        rs_difference_usd = fsub (rc_usage_charges_total_usd rec) (rc_realized_savings_usd_total rec)\<rparr>,
     rp_narrative = report_narrative p rec, rp_format = export_format\<rparr>"

section \<open>Rendering a report\<close>

definition json_strings :: "string list \<Rightarrow> json" where
  "json_strings ls = JArr (map JStr ls)"

definition window_dict :: "billing_window \<Rightarrow> dict" where
  "window_dict w =
     [(''period_start'', JStr (bw_period_start w)), (''period_end'', JStr (bw_period_end w)),
      (''closed_at'', json_of_str_option (bw_closed_at w))]"

definition report_dict :: "billing_report \<Rightarrow> dict" where
  "report_dict r =
     [(''billing_period_id'', JStr (rp_billing_period_id r)), (''tenant_id'', JStr (rp_tenant_id r)),
      (''subscription_id'', JStr (rp_subscription_id r)), (''status'', JStr (rp_status r)),
      (''period_start'', JStr (rp_period_start r)), (''period_end'', JStr (rp_period_end r)),
      (''request_count'', JInt (int (rp_request_count r))),
      (''gross_cost_usd'', JFloat (rp_gross_cost_usd r)),
      (''metera_savings_usd'', JFloat (rp_metera_savings_usd r)),
      (''shadow_savings_usd'', JFloat (rp_shadow_savings_usd r)),
      (''usage_charges_total_usd'', JFloat (rp_usage_charges_total_usd r)),
      (''total_tokens_saved'', JInt (int (rp_total_tokens_saved r))),
      (''realized_savings_ratio'', JFloat (rp_realized_savings_ratio r)),
      (''matches_realized_savings'', JBool (rp_matches_realized_savings r)),
      (''blocking_issues'', json_strings (rp_blocking_issues r)),
      (''summary_lines'', json_strings (rp_summary_lines r)),
      (''line_items'', json_strings (rp_line_items r)),
      (''billing_window'', JObj (window_dict (rp_billing_window r))),
      (''totals'', JObj (let t = rp_totals r in
         [(''gross_cost_usd'', JFloat (rt_gross_cost_usd t)),
          (''metera_savings_usd'', JFloat (rt_metera_savings_usd t)),
          (''shadow_savings_usd'', JFloat (rt_shadow_savings_usd t)),
          (''usage_charges_total_usd'', JFloat (rt_usage_charges_total_usd t)),
          (''net_cost_avoided_usd'', JFloat (rt_net_cost_avoided_usd t)),
          (''realized_savings_ratio'', JFloat (rt_realized_savings_ratio t)),
          (''total_tokens_saved'', JFloat (rt_total_tokens_saved t))])),
      (''reconciliation'', JObj (let c = rp_reconciliation r in
         [(''matches_realized_savings'', JBool (rs_matches_realized_savings c)),
          (''usage_charges_total_usd'', JFloat (rs_usage_charges_total_usd c)),
          (''realized_savings_usd_total'', JFloat (rs_realized_savings_usd_total c)),
          (''difference_usd'', JFloat (rs_difference_usd c))])),
      (''narrative'', json_strings (rp_narrative r)), (''format'', JStr (rp_format r))]"

text \<open>\<open>int(x)\<close> of a number, and a section of the text with its heading, left out when empty.\<close>

definition text_section :: "string \<Rightarrow> string list \<Rightarrow> string list" where
  "text_section heading ls = (if ls = [] then [] else [[], heading] @ bullets ls)"

definition render_billing_report_text :: "billing_report \<Rightarrow> string" where
  "render_billing_report_text r =
     (let w = rp_billing_window r; t = rp_totals r; c = rp_reconciliation r in
      lines_text
        ([''Metera Billing Report'',
          ''Billing Period: '' @ rp_billing_period_id r, ''Tenant: '' @ rp_tenant_id r,
          ''Subscription: '' @ rp_subscription_id r, ''Status: '' @ rp_status r,
          ''Period Start: '' @ (if bw_period_start w \<noteq> [] then bw_period_start w else rp_period_start r),
          ''Period End: '' @ (if bw_period_end w \<noteq> [] then bw_period_end w else rp_period_end r),
          ''Request Count: '' @ nat_digits (rp_request_count r), [], ''Summary''] @
         bullets (rp_summary_lines r) @
         text_section ''Billing Totals''
           [''Gross upstream cost: '' @ format_usd_human (rt_gross_cost_usd t),
            ''Metera savings: '' @ format_usd_human (rt_metera_savings_usd t),
            ''Additional shadow opportunity: '' @ format_usd_human (rt_shadow_savings_usd t),
            ''Usage charges total: '' @ format_usd_human (rt_usage_charges_total_usd t),
            ''Savings ratio: '' @ format_percent (rt_realized_savings_ratio t),
            ''Total tokens saved: '' @ group_digits (nat \<lfloor>rt_total_tokens_saved t\<rfloor>)] @
         text_section ''Reconciliation''
           [''Matches realized savings: '' @ py_bool_str (rs_matches_realized_savings c),
            ''Difference: '' @ format_usd_human (rs_difference_usd c)] @
         text_section ''Charge Detail'' (rp_line_items r) @
         text_section ''Notes'' (rp_narrative r) @
         text_section ''Blocking Issues'' (rp_blocking_issues r)))"

definition export_extension :: "string \<Rightarrow> string" where
  "export_extension export_format = (if export_format = ''json'' then ''json'' else ''txt'')"

definition generate_billing_report ::
  "(real \<Rightarrow> string) \<Rightarrow> database \<Rightarrow> string \<Rightarrow> string \<Rightarrow> exported_report result" where
  "generate_billing_report float_repr db pid export_format =
     rbind (get_billing_period_row db pid) (\<lambda>period.
     rbind (reconcile_billing_period db pid) (\<lambda>rec.
       let payload = report_payload period rec export_format in
       Inr (billing_report.extend payload \<lparr>
              rp_export_content = (if export_format = ''json'' then json_dumps float_repr (report_dict payload)
                                   else render_billing_report_text payload),
              rp_export_filename = ''billing_report_'' @ pid @ ''.'' @ export_extension export_format\<rparr>)))"

section \<open>The invoice preview\<close>

definition invoice_narrative :: "period_row \<Rightarrow> string list" where
  "invoice_narrative p =
     [''Customer-facing invoice preview generated from the current billing-period snapshot.'',
      ''Metera avoided '' @ format_usd_human (bp_realized_savings_usd_total p) @
        '' of upstream model spend during this billing window.''] @
     (if bp_total_tokens_saved p > 0
      then [''Intelligence Recovered (Tokens): '' @ group_digits (bp_total_tokens_saved p) @
            '' across cache-served requests during this billing window.'']
      else [])"

definition invoice_figures :: "period_row \<Rightarrow> invoice_totals" where
  "invoice_figures p =
     \<lparr>it_gross_cost_usd = bp_upstream_cost_usd_total p,
      it_metera_savings_usd = bp_realized_savings_usd_total p,
      it_net_cost_avoided_usd = bp_realized_savings_usd_total p,
      it_realized_savings_ratio = savings_ratio p,
      it_total_tokens_saved = float_of_nat (bp_total_tokens_saved p)\<rparr>"

definition new_invoice_payload :: "period_row \<Rightarrow> string \<Rightarrow> invoice_payload" where
  "new_invoice_payload p export_format = \<lparr>
     ip_billing_period_id = bp_id p, ip_tenant_id = bp_tenant_id p,
     ip_gross_cost_usd = bp_upstream_cost_usd_total p,
     ip_metera_savings_usd = bp_realized_savings_usd_total p,
     ip_net_cost_avoided_usd = bp_realized_savings_usd_total p,
     ip_total_tokens_saved = bp_total_tokens_saved p, ip_realized_savings_ratio = savings_ratio p,
     ip_period_start = isoformat (bp_period_start p), ip_period_end = isoformat (bp_period_end p),
     ip_billing_window = period_billing_window p, ip_totals = invoice_figures p,
     ip_narrative = invoice_narrative p, ip_format = export_format,
     ip_summary_lines =
       [''Gross Cost: '' @ format_usd_human (bp_upstream_cost_usd_total p),
        ''Metera Savings: '' @ format_usd_human (bp_realized_savings_usd_total p),
        ''Net Cost Avoided: '' @ format_usd_human (bp_realized_savings_usd_total p),
        ''Intelligence Recovered (Tokens): '' @ group_digits (bp_total_tokens_saved p),
        ''Savings Ratio: '' @ format_percent (savings_ratio p)],
     ip_proven_roi = invoice_figures p\<rparr>"

definition totals_dict :: "invoice_totals \<Rightarrow> dict" where
  "totals_dict t =
     [(''gross_cost_usd'', JFloat (it_gross_cost_usd t)),
      (''metera_savings_usd'', JFloat (it_metera_savings_usd t)),
      (''net_cost_avoided_usd'', JFloat (it_net_cost_avoided_usd t)),
      (''realized_savings_ratio'', JFloat (it_realized_savings_ratio t)),
      (''total_tokens_saved'', JFloat (it_total_tokens_saved t))]"

definition invoice_dict :: "invoice_payload \<Rightarrow> dict" where
  "invoice_dict p =
     [(''billing_period_id'', JStr (ip_billing_period_id p)), (''tenant_id'', JStr (ip_tenant_id p)),
      (''gross_cost_usd'', JFloat (ip_gross_cost_usd p)),
      (''metera_savings_usd'', JFloat (ip_metera_savings_usd p)),
      (''net_cost_avoided_usd'', JFloat (ip_net_cost_avoided_usd p)),
      (''total_tokens_saved'', JInt (int (ip_total_tokens_saved p))),
      (''realized_savings_ratio'', JFloat (ip_realized_savings_ratio p)),
      (''period_start'', JStr (ip_period_start p)), (''period_end'', JStr (ip_period_end p)),
      (''billing_window'', JObj (window_dict (ip_billing_window p))),
      (''totals'', JObj (totals_dict (ip_totals p))), (''narrative'', json_strings (ip_narrative p)),
      (''format'', JStr (ip_format p)), (''summary_lines'', json_strings (ip_summary_lines p)),
      (''proven_roi'', JObj (totals_dict (ip_proven_roi p)))]"

definition render_invoice_text :: "invoice_payload \<Rightarrow> string" where
  "render_invoice_text p =
     (let w = ip_billing_window p; t = ip_totals p in
      lines_text
        ([''Metera Invoice Preview'',
          ''Billing Period: '' @ ip_billing_period_id p, ''Tenant: '' @ ip_tenant_id p,
          ''Period Start: '' @ (if bw_period_start w \<noteq> [] then bw_period_start w else ip_period_start p),
          ''Period End: '' @ (if bw_period_end w \<noteq> [] then bw_period_end w else ip_period_end p),
          [], ''Summary''] @
         bullets (ip_summary_lines p) @
         text_section ''Billing Totals''
           [''Gross upstream cost: '' @ format_usd_human (it_gross_cost_usd t),
            ''Metera savings: '' @ format_usd_human (it_metera_savings_usd t),
            ''Net cost avoided: '' @ format_usd_human (it_net_cost_avoided_usd t),
            ''Savings ratio: '' @ format_percent (it_realized_savings_ratio t),
            ''Total tokens saved: '' @ group_digits (nat \<lfloor>it_total_tokens_saved t\<rfloor>)] @
         text_section ''Notes'' (ip_narrative p)))"

record invoice_stub =
  is_id :: string
  is_tenant_id :: string
  is_billing_period_id :: string
  is_status :: string
  is_subtotal_usd :: real
  is_total_usd :: real
  is_payload :: invoice_payload
  is_export_content :: string
  is_export_filename :: string

text \<open>A new invoice is a draft; an existing one keeps its status and gets the new figures.\<close>

definition draft_invoice :: "timestamp \<Rightarrow> string \<Rightarrow> period_row \<Rightarrow> invoice_payload \<Rightarrow> invoice_row" where
  "draft_invoice now iid p payload = \<lparr>
     inv_id = iid, inv_tenant_id = bp_tenant_id p, inv_billing_period_id = bp_id p,
     inv_external_invoice_ref = None, inv_status = ''draft'',
     inv_subtotal_usd = bp_upstream_cost_usd_total p, inv_total_usd = 0, inv_payload = payload,
     inv_issued_at = None, inv_created_at = now, inv_updated_at = now\<rparr>"

definition rewrite_invoice :: "timestamp \<Rightarrow> period_row \<Rightarrow> invoice_payload \<Rightarrow> invoice_row \<Rightarrow> invoice_row" where
  "rewrite_invoice now p payload i =
     i\<lparr>inv_subtotal_usd := bp_upstream_cost_usd_total p, inv_total_usd := 0, inv_payload := payload,
       inv_updated_at := now\<rparr>"

definition write_invoice ::
  "database \<Rightarrow> timestamp \<Rightarrow> string \<Rightarrow> period_row \<Rightarrow> invoice_payload \<Rightarrow> (database \<times> string) result" where
  "write_invoice db now uuid p payload =
     (case find (\<lambda>i. inv_billing_period_id i = bp_id p) (invoices db) of
        None \<Rightarrow>
          let iid = ''invoice_'' @ uuid in
          if list_ex (\<lambda>i. inv_id i = iid) (invoices db) then Inl (UniqueViolation ''invoices_pkey'')
          else Inr (db\<lparr>invoices := invoices db @ [draft_invoice now iid p payload]\<rparr>, iid)
      | Some i \<Rightarrow>
          Inr (db\<lparr>invoices := map (\<lambda>j. if inv_id j = inv_id i then rewrite_invoice now p payload j else j)
                              (invoices db)\<rparr>, inv_id i))"

definition invoice_view :: "(real \<Rightarrow> string) \<Rightarrow> (dict \<Rightarrow> dict) \<Rightarrow> string \<Rightarrow> invoice_row \<Rightarrow> invoice_stub" where
  "invoice_view float_repr jsonb export_format row =
     (let payload = inv_payload row in
      \<lparr>is_id = inv_id row, is_tenant_id = inv_tenant_id row,
       is_billing_period_id = inv_billing_period_id row, is_status = inv_status row,
       is_subtotal_usd = inv_subtotal_usd row, is_total_usd = inv_total_usd row, is_payload = payload,
       is_export_content =
         (if export_format = ''json'' then json_dumps float_repr (jsonb (invoice_dict payload))
          else render_invoice_text payload),
       is_export_filename =
         ''invoice_stub_'' @ inv_billing_period_id row @ ''.'' @ export_extension export_format\<rparr>)"

definition generate_invoice_stub ::
  "(real \<Rightarrow> string) \<Rightarrow> (dict \<Rightarrow> dict) \<Rightarrow> database \<Rightarrow> timestamp \<Rightarrow> string \<Rightarrow> string \<Rightarrow> string \<Rightarrow>
   (database \<times> invoice_stub) result" where
  "generate_invoice_stub float_repr jsonb db now uuid pid export_format =
     rbind (get_billing_period_row db pid) (\<lambda>period.
     rbind (write_invoice db now uuid period (new_invoice_payload period export_format)) (\<lambda>(db', iid).
       case find (\<lambda>i. inv_id i = iid) (invoices db') of
         None \<Rightarrow> Inl (TypeErr ''NoneType object is not subscriptable'')
       | Some row \<Rightarrow> Inr (db', invoice_view float_repr jsonb export_format row)))"

section \<open>What a preview writes\<close>

lemma write_invoice_cases:
  assumes "write_invoice db now uuid p payload = Inr (db', iid)"
  obtains
    (draft) "find (\<lambda>i. inv_billing_period_id i = bp_id p) (invoices db) = None"
      "list_all (\<lambda>i. inv_id i \<noteq> iid) (invoices db)"
      "db' = db\<lparr>invoices := invoices db @ [draft_invoice now iid p payload]\<rparr>"
  | (rewrite) i where "find (\<lambda>i. inv_billing_period_id i = bp_id p) (invoices db) = Some i" "iid = inv_id i"
      "db' = db\<lparr>invoices := map (\<lambda>j. if inv_id j = iid then rewrite_invoice now p payload j else j)
                              (invoices db)\<rparr>"
  using assms unfolding write_invoice_def Let_def
  by (auto simp: list_ex_iff list_all_iff split: option.splits if_splits)

lemma generate_invoice_cases:
  assumes "generate_invoice_stub float_repr jsonb db now uuid pid fmt = Inr (db', stub)"
  obtains p iid row where "get_billing_period_row db pid = Inr p"
    "write_invoice db now uuid p (new_invoice_payload p fmt) = Inr (db', iid)"
    "find (\<lambda>i. inv_id i = iid) (invoices db') = Some row"
    "stub = invoice_view float_repr jsonb fmt row"
  using assms unfolding generate_invoice_stub_def
  by (auto simp: rbind_eq_Inr split: option.splits)

lemma generate_invoice_frame:
  assumes "generate_invoice_stub float_repr jsonb db now uuid pid fmt = Inr (db', stub)"
  shows "db' = db\<lparr>invoices := invoices db'\<rparr>"
  using assms by (rule generate_invoice_cases) (erule write_invoice_cases; simp)

end
