(* ===== verification/BillingLifecycle.thy ===== *)
theory BillingLifecycle
  imports BillingReport Rollups
begin

text \<open>
  The billing repository as a state machine: a step is one call of a repository operation, and
  the invariant holds of every database such calls can produce. Then the life of one period:
  what a closed period keeps, which charges it can still receive, when it can be closed, and
  how its figures decide the enforcement state.
\<close>

section \<open>Steps\<close>

inductive billing_step :: "real \<Rightarrow> database \<Rightarrow> database \<Rightarrow> bool" for threshold :: real where
  step_plan: "upsert_plan db now uuid a = (db', pid) \<Longrightarrow> billing_step threshold db db'"
| step_subscription:
    "create_subscription db now uuid tenant pid st s e t = Inr (db', sid) \<Longrightarrow> billing_step threshold db db'"
| step_subscription_status:
    "update_subscription_status db now sid st = Inr (db', row) \<Longrightarrow> billing_step threshold db db'"
| step_period:
    "create_billing_period db now uuid tenant sid s e = Inr (db', pid) \<Longrightarrow> billing_step threshold db db'"
| step_summarize:
    "summarize_billing_period threshold db now pid = Inr (db', row) \<Longrightarrow> billing_step threshold db db'"
| step_status:
    "update_billing_period_status db now pid st = Inr (db', row) \<Longrightarrow> billing_step threshold db db'"
| step_adjustment:
    "create_manual_adjustment db now uuid tenant sid amount descr reason target = Inr (db', res) \<Longrightarrow>
     billing_step threshold db db'"
| step_ledger:
    "materialize_usage_charges_from_ledger db now uuids tenant sid pid limit = (db', res) \<Longrightarrow>
     billing_step threshold db db'"
| step_rollups:
    "materialize_usage_charges_from_rollups db now uuids tenant sid day pid = (db', res) \<Longrightarrow>
     billing_step threshold db db'"
| step_invoice:
    "generate_invoice_stub float_repr jsonb db now uuid pid fmt = Inr (db', stub) \<Longrightarrow>
     billing_step threshold db db'"
| step_event: "log_commercial_event db now t e = db' \<Longrightarrow> billing_step threshold db db'"
| step_request: "log_request db now t r = db' \<Longrightarrow> billing_step threshold db db'"
| step_rebuild: "rebuild_daily_usage_rollups db now = (db', n) \<Longrightarrow> billing_step threshold db db'"

definition billing_reachable :: "real \<Rightarrow> database \<Rightarrow> bool" where
  "billing_reachable threshold db = (billing_step threshold)\<^sup>*\<^sup>* empty_database db"

section \<open>The invariant\<close>

definition charge_source :: "charge_row \<Rightarrow> string \<times> string \<times> string" where
  "charge_source c = (uc_source_table c, uc_source_ref c, uc_charge_type c)"

text \<open>
  Keys are unique and foreign keys hold; \<open>pids\<close>, \<open>sids\<close> and \<open>bids\<close> are the
  identifiers of the table referred to.
\<close>

definition plans_ok :: "plan_row list \<Rightarrow> bool" where
  "plans_ok ps \<longleftrightarrow> distinct (map plan_id ps) \<and> distinct (map plan_code ps)"

definition subs_ok :: "string set \<Rightarrow> subscription_row list \<Rightarrow> bool" where
  "subs_ok pids ss \<longleftrightarrow> distinct (map sub_id ss) \<and> sub_plan_id ` set ss \<subseteq> pids"

definition period_window :: "period_row \<Rightarrow> string \<times> timestamp \<times> timestamp" where
  "period_window p = (bp_subscription_id p, bp_period_start p, bp_period_end p)"

definition periods_ok :: "string set \<Rightarrow> period_row list \<Rightarrow> bool" where
  "periods_ok sids ps \<longleftrightarrow> distinct (map bp_id ps) \<and> distinct (map period_window ps) \<and>
     bp_subscription_id ` set ps \<subseteq> sids \<and>
     (\<forall>p \<in> set ps. bp_status p = PClosed \<longleftrightarrow> bp_closed_at p \<noteq> None)"

definition charges_ok :: "string set \<Rightarrow> string set \<Rightarrow> charge_row list \<Rightarrow> bool" where
  "charges_ok bids sids cs \<longleftrightarrow> distinct (map uc_id cs) \<and> distinct (map charge_source cs) \<and>
     (\<forall>c \<in> set cs. set_option (uc_billing_period_id c) \<subseteq> bids \<and> set_option (uc_subscription_id c) \<subseteq> sids)"

definition billing_inv :: "database \<Rightarrow> bool" where
  "billing_inv db \<longleftrightarrow> plans_ok (plans db) \<and> subs_ok (plan_id ` set (plans db)) (subscriptions db) \<and>
     periods_ok (sub_id ` set (subscriptions db)) (billing_periods db) \<and>
     charges_ok (bp_id ` set (billing_periods db)) (sub_id ` set (subscriptions db)) (usage_charges db) \<and>
     distinct (map lr_request_id (request_ledger db))"

lemma subs_ok_mono: "subs_ok A ss \<Longrightarrow> A \<subseteq> B \<Longrightarrow> subs_ok B ss"
  by (auto simp: subs_ok_def)

lemma periods_ok_mono: "periods_ok A ps \<Longrightarrow> A \<subseteq> B \<Longrightarrow> periods_ok B ps"
  by (auto simp: periods_ok_def)

lemma charges_ok_mono: "charges_ok A C cs \<Longrightarrow> A \<subseteq> B \<Longrightarrow> C \<subseteq> D \<Longrightarrow> charges_ok B D cs"
  unfolding charges_ok_def by blast

lemma same_source_iff: "same_source c c' \<longleftrightarrow> charge_source c = charge_source c'"
  by (simp add: same_source_def charge_source_def)

lemma list_ex_eq: "list_ex (\<lambda>x. f x = v) xs \<longleftrightarrow> v \<in> f ` set xs"
  by (auto simp: list_ex_iff)

lemma list_ex_source: "list_ex (same_source c) cs \<longleftrightarrow> charge_source c \<in> charge_source ` set cs"
  by (auto simp: list_ex_iff same_source_iff)

text \<open>Rewriting the row of one identifier.\<close>

lemma map_update_same:
  "(\<And>x. k (f x) = k x) \<Longrightarrow> map k (map (\<lambda>x. if P x then f x else x) xs) = map k xs"
  by (induction xs) auto

lemma image_update_same:
  "(\<And>x. k (f x) = k x) \<Longrightarrow> k ` set (map (\<lambda>x. if P x then f x else x) xs) = k ` set xs"
  by (metis list.set_map map_update_same)

lemma inv_update_period:
  assumes "billing_inv db" and k: "\<And>p. bp_id (f p) = bp_id p" "\<And>p. period_window (f p) = period_window p"
    and c: "\<And>p. p \<in> set (billing_periods db) \<Longrightarrow> bp_id p = pid \<Longrightarrow>
      (bp_status (f p) = PClosed \<longleftrightarrow> bp_closed_at (f p) \<noteq> None)"
  shows "billing_inv (update_period db pid f)"
proof -
  let ?ps = "map (\<lambda>p. if bp_id p = pid then f p else p) (billing_periods db)"
  have s: "bp_subscription_id (f p) = bp_subscription_id p" for p
    using k(2) [of p] by (simp add: period_window_def)
  have "periods_ok (sub_id ` set (subscriptions db)) ?ps"
    using assms(1) c unfolding billing_inv_def periods_ok_def
    by (simp only: map_update_same [where k = bp_id, OF k(1)] map_update_same [where k = period_window, OF k(2)]
        image_update_same [where k = bp_subscription_id, OF s]) auto
  moreover have "bp_id ` set ?ps = bp_id ` set (billing_periods db)"
    by (rule image_update_same) (rule k(1))
  ultimately show ?thesis
    using assms(1) unfolding billing_inv_def update_period_def by simp
qed

lemma get_period_mem:
  "get_billing_period_row db pid = Inr p \<longleftrightarrow> find (\<lambda>p. bp_id p = pid) (billing_periods db) = Some p"
  by (simp add: get_billing_period_row_def split: option.splits)

lemma get_periodD: "get_billing_period_row db pid = Inr p \<Longrightarrow> p \<in> set (billing_periods db) \<and> bp_id p = pid"
  using find_Some_mem [of "\<lambda>p. bp_id p = pid" "billing_periods db" p] by (simp add: get_period_mem)

lemma find_update:
  assumes "\<And>x. k (f x) = k x"
  shows "find (\<lambda>x. k x = v) (map (\<lambda>x. if k x = v then f x else x) xs) =
    map_option f (find (\<lambda>x. k x = v) xs)"
  by (induction xs) (auto simp: assms)

lemma find_update_const:
  "k c = v \<Longrightarrow> find (\<lambda>x. k x = v) (map (\<lambda>x. if k x = v then c else x) xs) =
    map_option (\<lambda>_. c) (find (\<lambda>x. k x = v) xs)"
  by (induction xs) auto

lemma get_update_period:
  assumes "get_billing_period_row db pid = Inr p" "\<And>p. bp_id (f p) = bp_id p"
  shows "get_billing_period_row (update_period db pid f) pid = Inr (f p)"
  using assms(1) find_update [of bp_id f pid "billing_periods db"] assms(2)
  by (simp add: get_period_mem update_period_def)

section \<open>Every operation preserves the invariant\<close>

lemma distinct_replace_one:
  "distinct (map i xs) \<Longrightarrow> distinct (map k xs) \<Longrightarrow> v \<notin> k ` set xs \<Longrightarrow>
   distinct (map (\<lambda>x. if i x = j then v else k x) xs)"
proof (induction xs)
  case (Cons x xs)
  have "map (\<lambda>x. if i x = j then v else k x) xs = map k xs" if "i x = j"
    using Cons.prems(1) that by (auto simp: image_iff)
  with Cons show ?case by (auto simp: image_iff)
qed simp

lemma write_plan_keys [simp]:
  "plan_id (write_plan a now p) = plan_id p" "plan_code (write_plan a now p) = pa_code a"
  by (simp_all add: write_plan_def)

lemma plans_ok_write:
  assumes "plans_ok ps" and code: "find (\<lambda>p. plan_code p = pa_code a) ps = Some q \<Longrightarrow> pid = plan_id q"
    and some: "\<And>q'. find (\<lambda>p. plan_code p = pa_code a) ps = Some q' \<Longrightarrow> pid = plan_id q'"
  shows "plans_ok (map (\<lambda>p. if plan_id p = pid then write_plan a now p else p) ps)"
proof -
  let ?ps = "map (\<lambda>p. if plan_id p = pid then write_plan a now p else p) ps"
  have ids: "distinct (map plan_id ps)" and codes: "distinct (map plan_code ps)"
    using assms(1) by (simp_all add: plans_ok_def)
  have i: "map plan_id ?ps = map plan_id ps" by (rule map_update_same) simp
  have c: "map plan_code ?ps = map (\<lambda>p. if plan_id p = pid then pa_code a else plan_code p) ps"
    by simp
  have "distinct (map plan_code ?ps)"
  proof (cases "find (\<lambda>p. plan_code p = pa_code a) ps")
    case (Some q)
    then have q: "q \<in> set ps" "plan_code q = pa_code a" "pid = plan_id q"
      using find_Some_mem [OF Some] some by auto
    have "plan_code p = pa_code a" if "p \<in> set ps" "plan_id p = pid" for p
      using that q ids inj_onD [of plan_id "set ps" p q] by (simp add: distinct_map)
    then have "map plan_code ?ps = map plan_code ps" unfolding c by auto
    with codes show ?thesis by (simp only:)
  next
    case None
    then have "pa_code a \<notin> plan_code ` set ps" by (auto simp: find_eq_None)
    then show ?thesis unfolding c by (rule distinct_replace_one [OF ids codes])
  qed
  then show ?thesis using i ids by (simp only: plans_ok_def)
qed

lemma upsert_plan_cases:
  obtains (written) pid where
      "fst (upsert_plan db now uuid a) =
        db\<lparr>plans := map (\<lambda>p. if plan_id p = pid then write_plan a now p else p) (plans db)\<rparr>"
      "\<And>q. find (\<lambda>p. plan_code p = pa_code a) (plans db) = Some q \<Longrightarrow> pid = plan_id q"
  | (fresh) pid where
      "fst (upsert_plan db now uuid a) = db\<lparr>plans := plans db @ [fresh_plan a now pid]\<rparr>"
      "find (\<lambda>p. plan_code p = pa_code a) (plans db) = None" "pid \<notin> plan_id ` set (plans db)"
proof (cases "find (\<lambda>p. plan_code p = pa_code a) (plans db)")
  case (Some q)
  then have "plan_id q \<in> plan_id ` set (plans db)" using find_Some_mem [OF Some] by simp
  with Some have "fst (upsert_plan db now uuid a) = db\<lparr>plans := map (\<lambda>p. if plan_id p = plan_id q
      then write_plan a now p else p) (plans db)\<rparr>" by (simp add: upsert_plan_def list_ex_eq Let_def)
  then show thesis by (rule written) (use Some in simp)
next
  case None
  define pid where "pid = ''plan_'' @ uuid"
  show thesis
  proof (cases "pid \<in> plan_id ` set (plans db)")
    case True
    with None have "fst (upsert_plan db now uuid a) = db\<lparr>plans := map (\<lambda>p. if plan_id p = pid
        then write_plan a now p else p) (plans db)\<rparr>" by (simp add: upsert_plan_def list_ex_eq Let_def pid_def)
    then show thesis by (rule written) (use None in simp)
  next
    case False
    with None have "fst (upsert_plan db now uuid a) = db\<lparr>plans := plans db @ [fresh_plan a now pid]\<rparr>"
      by (simp add: upsert_plan_def list_ex_eq Let_def pid_def)
    then show thesis by (rule fresh) (use None False in simp_all)
  qed
qed

lemma inv_upsert_plan:
  assumes "billing_inv db"
  shows "billing_inv (fst (upsert_plan db now uuid a))"
proof -
  have ok: "plans_ok (plans db)" using assms by (simp add: billing_inv_def)
  obtain ps where ps: "fst (upsert_plan db now uuid a) = db\<lparr>plans := ps\<rparr>" "plans_ok ps"
    "plan_id ` set (plans db) \<subseteq> plan_id ` set ps"
  proof (cases rule: upsert_plan_cases [of db now uuid a])
    case (written pid)
    have "plan_id ` set (map (\<lambda>p. if plan_id p = pid then write_plan a now p else p) (plans db)) =
        plan_id ` set (plans db)"
      by (rule image_update_same) simp
    with that written plans_ok_write [OF ok, of a _ pid now] show thesis by fastforce
  next
    case (fresh pid)
    then have "plans_ok (plans db @ [fresh_plan a now pid])"
      using ok by (auto simp: plans_ok_def fresh_plan_def find_eq_None)
    with that fresh show thesis by fastforce
  qed
  with assms show ?thesis
    unfolding billing_inv_def by (auto intro: subs_ok_mono)
qed

lemma inv_create_subscription:
  assumes "billing_inv db" "create_subscription db now uuid tenant pid st s e t = Inr (db', sid)"
  shows "billing_inv db'"
proof -
  from assms(2) obtain r where r: "db' = db\<lparr>subscriptions := subscriptions db @ [r]\<rparr>"
    "sub_id r \<notin> sub_id ` set (subscriptions db)" "sub_plan_id r \<in> plan_id ` set (plans db)"
    unfolding create_subscription_def Let_def list_ex_eq
    by (auto split: if_splits simp del: append.simps)
  with assms(1) have "subs_ok (plan_id ` set (plans db)) (subscriptions db @ [r])"
    by (auto simp: billing_inv_def subs_ok_def)
  moreover have "sub_id ` set (subscriptions db) \<subseteq> sub_id ` set (subscriptions db @ [r])" by auto
  ultimately show ?thesis
    using assms(1) periods_ok_mono charges_ok_mono unfolding billing_inv_def r(1) by auto
qed

lemma inv_update_subscription_status:
  assumes "billing_inv db" "update_subscription_status db now sid st = Inr (db', row)"
  shows "billing_inv db'"
proof -
  let ?ss = "map (\<lambda>s. if sub_id s = sid then s\<lparr>sub_status := st, sub_updated_at := now\<rparr> else s)
    (subscriptions db)"
  obtain ss where db': "db' = db\<lparr>subscriptions := ss\<rparr>" and i: "map sub_id ss = map sub_id (subscriptions db)"
    and p: "sub_plan_id ` set ss = sub_plan_id ` set (subscriptions db)"
  proof
    show "db' = db\<lparr>subscriptions := ?ss\<rparr>"
      using assms(2) by (auto simp: update_subscription_status_def Let_def split: if_splits option.splits)
    show "map sub_id ?ss = map sub_id (subscriptions db)" by (rule map_update_same) simp
    show "sub_plan_id ` set ?ss = sub_plan_id ` set (subscriptions db)"
      by (rule image_update_same) simp
  qed
  from i have "sub_id ` set ss = sub_id ` set (subscriptions db)" by (metis list.set_map)
  with assms(1) i p show ?thesis
    unfolding db' billing_inv_def subs_ok_def by simp
qed

lemma create_period_cases:
  assumes "create_billing_period db now uuid tenant sid s e = Inr (db', pid)"
  obtains (existing) p where "p \<in> set (billing_periods db)" "pid = bp_id p" "db' = db"
  | (created) s' e' where "db' = db\<lparr>billing_periods := billing_periods db @ [new_period pid tenant sid s' e' now]\<rparr>"
      "pid \<notin> bp_id ` set (billing_periods db)" "sid \<in> sub_id ` set (subscriptions db)"
      "(sid, s', e') \<notin> period_window ` set (billing_periods db)"
proof -
  obtain s' e' pid' where c: "find_or_insert_period db now pid' tenant sid s' e' = Inr (db', pid)"
    using assms by (auto simp: create_billing_period_def rbind_eq_Inr simp del: append.simps)
  show thesis
  proof (cases "find (\<lambda>p. bp_subscription_id p = sid \<and> bp_period_start p = s' \<and> bp_period_end p = e')
      (billing_periods db)")
    case (Some p)
    then have "p \<in> set (billing_periods db)" using find_Some_mem by fast
    moreover from c Some have "pid = bp_id p" "db' = db" by (auto simp: find_or_insert_period_def)
    ultimately show thesis by (rule existing)
  next
    case None
    then have "(sid, s', e') \<notin> period_window ` set (billing_periods db)"
      by (auto simp: find_eq_None period_window_def)
    moreover from c None have "db' = db\<lparr>billing_periods := billing_periods db @
        [new_period pid tenant sid s' e' now]\<rparr>" "pid \<notin> bp_id ` set (billing_periods db)"
      "sid \<in> sub_id ` set (subscriptions db)"
      by (auto simp: find_or_insert_period_def list_ex_eq split: if_splits)
    ultimately show thesis using created by blast
  qed
qed

lemma inv_create_billing_period:
  assumes "billing_inv db" "create_billing_period db now uuid tenant sid s e = Inr (db', pid)"
  shows "billing_inv db'"
  using assms(2)
proof (cases rule: create_period_cases)
  case (existing p)
  with assms(1) show ?thesis by simp
next
  case (created s' e')
  let ?p = "new_period pid tenant sid s' e' now"
  have "periods_ok (sub_id ` set (subscriptions db)) (billing_periods db @ [?p])"
    using assms(1) created(2-4) by (simp add: billing_inv_def periods_ok_def new_period_def period_window_def)
  moreover have "charges_ok (bp_id ` set (billing_periods db @ [?p])) (sub_id ` set (subscriptions db))
      (usage_charges db)"
    using assms(1) unfolding billing_inv_def by (auto intro: charges_ok_mono)
  ultimately show ?thesis
    using assms(1) unfolding billing_inv_def created(1) by simp
qed

lemma update_status_cases:
  assumes "update_billing_period_status db now pid st = Inr (db', row)"
  obtains s p where "get_billing_period_row db pid = Inr p" "parse_period_status st = Some s"
    "bp_status p = PClosed \<longrightarrow> s = PClosed"
    "s = PClosed \<longrightarrow> (\<exists>r. reconcile_billing_period db pid = Inr r \<and> rc_matches_realized_savings r)"
    "db' = update_period db pid (set_period_status now s)" "row = set_period_status now s p"
  using assms that
  by (auto simp: update_billing_period_status_def rbind_eq_Inr split: option.splits if_splits)

lemma inv_set_status:
  "billing_inv db \<Longrightarrow> billing_inv (update_period db pid (set_period_status now s))"
  by (rule inv_update_period) (simp_all add: set_period_status_def period_window_def)

lemma inv_update_status:
  assumes "billing_inv db" "update_billing_period_status db now pid st = Inr (db', row)"
  shows "billing_inv db'"
  using assms(2) by (rule update_status_cases) (simp add: inv_set_status [OF assms(1)])

lemma bp_id_inj:
  "billing_inv db \<Longrightarrow> p \<in> set (billing_periods db) \<Longrightarrow> q \<in> set (billing_periods db) \<Longrightarrow> bp_id p = bp_id q \<Longrightarrow> p = q"
  using inj_onD [of bp_id "set (billing_periods db)" p q]
  by (simp add: billing_inv_def periods_ok_def distinct_map)

lemma summarized_keeps:
  "bp_id (summarized db now p) = bp_id p" "period_window (summarized db now p) = period_window p"
  "bp_status (summarized db now p) = bp_status p" "bp_closed_at (summarized db now p) = bp_closed_at p"
  by (simp_all add: summarized_def Let_def period_window_def)

lemma update_const:
  assumes "billing_inv db" "get_billing_period_row db pid = Inr p"
  shows "update_period db pid (\<lambda>_. f p) = update_period db pid f"
proof -
  have p: "p \<in> set (billing_periods db)" "bp_id p = pid" using get_periodD [OF assms(2)] by simp_all
  have "(if bp_id q = pid then f p else q) = (if bp_id q = pid then f q else q)"
    if "q \<in> set (billing_periods db)" for q
    using bp_id_inj [OF assms(1) that p(1)] p(2) by auto
  then have "map (\<lambda>q. if bp_id q = pid then f p else q) (billing_periods db) =
      map (\<lambda>q. if bp_id q = pid then f q else q) (billing_periods db)" by simp
  then show ?thesis by (simp only: update_period_def)
qed

lemma inv_summarized:
  assumes "billing_inv db" "get_billing_period_row db pid = Inr p"
  shows "billing_inv (update_period db pid (\<lambda>_. summarized db now p))"
  unfolding update_const [OF assms, of "summarized db now"]
  using assms(1)
  by (intro inv_update_period) (auto simp: summarized_keeps billing_inv_def periods_ok_def)

lemma summarize_cases:
  assumes "summarize_billing_period threshold db now pid = Inr (db', row)"
  obtains
    (closed) "get_billing_period_row db pid = Inr row" "bp_status row = PClosed" "db' = db"
  | (kept) p where "get_billing_period_row db pid = Inr p" "bp_status p \<noteq> PClosed"
      "row = summarized db now p" "db' = update_period db pid (\<lambda>_. summarized db now p)"
      "bp_status p = POpen \<Longrightarrow> bp_realized_savings_usd_total row < threshold"
  | (closing) p where "get_billing_period_row db pid = Inr p" "bp_status p = POpen"
      "threshold \<le> bp_realized_savings_usd_total (summarized db now p)"
      "row = set_period_status now PClosing (summarized db now p)"
      "db' = update_period (update_period db pid (\<lambda>_. summarized db now p)) pid (set_period_status now PClosing)"
proof -
  obtain p where p: "get_billing_period_row db pid = Inr p"
    using assms by (auto simp: summarize_billing_period_def rbind_eq_Inr)
  have st: "bp_status (summarized db now p) = bp_status p" by (simp add: summarized_def Let_def)
  have id: "bp_id (summarized db now p) = pid" using get_periodD [OF p] by (simp add: summarized_def Let_def)
  have g: "get_billing_period_row (update_period db pid (\<lambda>_. summarized db now p)) pid =
      Inr (summarized db now p)"
    using p id find_update_const [of bp_id "summarized db now p" pid "billing_periods db"]
    by (simp add: get_period_mem update_period_def)
  show thesis
  proof (cases "bp_status p = PClosed")
    case True
    with assms p have "row = p" "db' = db" by (auto simp: summarize_billing_period_def)
    with closed p True show thesis by blast
  next
    case nc: False
    show thesis
    proof (cases "bp_status p = POpen \<and> threshold \<le> bp_realized_savings_usd_total (summarized db now p)")
      case True
      with assms p g nc st have "db' = update_period (update_period db pid (\<lambda>_. summarized db now p)) pid
          (set_period_status now PClosing)" "row = set_period_status now PClosing (summarized db now p)"
        by (simp_all add: summarize_billing_period_def Let_def update_billing_period_status_def
            parse_period_status_def)
      with closing p True show thesis by blast
    next
      case False
      with assms p nc st have "db' = update_period db pid (\<lambda>_. summarized db now p)"
        "row = summarized db now p"
        by (auto simp: summarize_billing_period_def Let_def)
      with kept p nc False show thesis by fastforce
    qed
  qed
qed

lemma inv_summarize:
  assumes "billing_inv db" "summarize_billing_period threshold db now pid = Inr (db', row)"
  shows "billing_inv db'"
  using assms(2)
  by (cases rule: summarize_cases)
    (simp_all add: assms(1) inv_summarized inv_set_status)

lemma inv_insert_charge:
  assumes "billing_inv db" "insert_charge db c = Inr db'"
  shows "billing_inv db'"
proof -
  have db': "db' = db\<lparr>usage_charges := usage_charges db @ [c]\<rparr>"
    and new: "uc_id c \<notin> uc_id ` set (usage_charges db)" "charge_source c \<notin> charge_source ` set (usage_charges db)"
    and fk: "set_option (uc_billing_period_id c) \<subseteq> bp_id ` set (billing_periods db)"
      "set_option (uc_subscription_id c) \<subseteq> sub_id ` set (subscriptions db)"
    using assms(2) by (auto simp: insert_charge_def list_ex_source list_ex_eq split: if_splits option.splits)
  from assms(1) new fk have "charges_ok (bp_id ` set (billing_periods db)) (sub_id ` set (subscriptions db))
      (usage_charges db @ [c])"
    unfolding billing_inv_def charges_ok_def by simp
  with assms(1) show ?thesis unfolding db' billing_inv_def by simp
qed

lemma inv_adjustment:
  assumes "billing_inv db"
    "create_manual_adjustment db now uuid tenant sid amount descr reason target = Inr (db', res)"
  shows "billing_inv db'"
  using assms(2) inv_insert_charge [OF assms(1)]
  by (auto simp: create_manual_adjustment_def rbind_eq_Inr Let_def)

lemma inv_materialize_rows:
  "billing_inv db \<Longrightarrow> billing_inv (fst (materialize_rows mk uuids cnt db rs))"
proof (induction rs arbitrary: cnt db)
  case (Cons r rs)
  then show ?case
    by (auto simp: Let_def split: sum.splits dest: inv_insert_charge)
qed simp

lemma inv_generate_invoice:
  assumes "billing_inv db" and "generate_invoice_stub float_repr jsonb db now uuid pid fmt = Inr (db', stub)"
  shows "billing_inv db'"
  by (subst generate_invoice_frame [OF assms(2)]) (use assms(1) in \<open>simp add: billing_inv_def\<close>)

lemma inv_step: "billing_step threshold db db' \<Longrightarrow> billing_inv db \<Longrightarrow> billing_inv db'"
proof (induction rule: billing_step.induct)
  case (step_plan db now uuid a db' pid)
  then show ?case using inv_upsert_plan [of db now uuid a] by simp
next
  case (step_subscription db now uuid tenant pid st s e t db' sid)
  then show ?case by (metis inv_create_subscription)
next
  case (step_subscription_status db now sid st db' row)
  then show ?case by (metis inv_update_subscription_status)
next
  case (step_period db now uuid tenant sid s e db' pid)
  then show ?case by (metis inv_create_billing_period)
next
  case (step_summarize db now pid db' row)
  then show ?case by (metis inv_summarize)
next
  case (step_status db now pid st db' row)
  then show ?case by (metis inv_update_status)
next
  case (step_adjustment db now uuid tenant sid amount descr reason target db' res)
  then show ?case by (metis inv_adjustment)
next
  case (step_ledger db now uuids tenant sid pid limit db' res)
  then show ?case
    using inv_materialize_rows [of db "ledger_charge now tenant sid pid" uuids 0]
    by (auto simp: materialize_usage_charges_from_ledger_def split: sum.splits) (metis fst_conv)
next
  case (step_rollups db now uuids tenant sid day pid db' res)
  then show ?case
    using inv_materialize_rows [of db "rollup_charge now tenant sid pid" uuids 0]
    by (auto simp: materialize_usage_charges_from_rollups_def split: sum.splits) (metis fst_conv)
next
  case (step_invoice float_repr jsonb db now uuid pid fmt db' stub)
  then show ?case by (metis inv_generate_invoice)
next
  case (step_event db now t e db')
  then show ?case by (auto simp: log_commercial_event_def billing_inv_def)
next
  case (step_request db now t r db')
  then have l: "distinct (map lr_request_id (request_ledger db'))"
    using log_request_distinct by (auto simp: billing_inv_def)
  have "plans db' = plans db" "subscriptions db' = subscriptions db"
    "billing_periods db' = billing_periods db" "usage_charges db' = usage_charges db"
    using step_request(1) by (auto simp: log_request_def)
  with step_request(2) l show ?case by (simp add: billing_inv_def)
next
  case (step_rebuild db now db' n)
  have "plans db' = plans db" "subscriptions db' = subscriptions db"
    "billing_periods db' = billing_periods db" "usage_charges db' = usage_charges db"
    "request_ledger db' = request_ledger db"
    using step_rebuild(1) by (auto simp: rebuild_daily_usage_rollups_def Let_def)
  with step_rebuild(2) show ?case by (simp add: billing_inv_def)
qed

lemma inv_empty: "billing_inv empty_database"
  by (simp add: billing_inv_def plans_ok_def subs_ok_def periods_ok_def charges_ok_def empty_database_def)

lemma inv_reachable: "billing_reachable threshold db \<Longrightarrow> billing_inv db"
  unfolding billing_reachable_def
  by (induction rule: rtranclp_induct) (auto simp: inv_empty intro: inv_step)

end
