(* ===== verification/BillingSettlement.thy ===== *)
theory BillingSettlement
  imports BillingLifecycle
begin

text \<open>
  What the steps of the billing repository keep and when a period can be settled: closed
  periods are frozen, charges are only appended and reach a period that is no longer open only
  as manual adjustments, and a period whose requests are charged before it is summarised
  reconciles and closes.
\<close>

section \<open>What a step changes\<close>

definition period_figures :: "period_row \<Rightarrow> nat list \<times> real list" where
  "period_figures p =
     ([bp_request_count p, bp_total_tokens_saved p],
      [bp_upstream_cost_usd_total p, bp_realized_savings_usd_total p, bp_shadow_savings_usd_total p])"

text \<open>How one row may change: identity is fixed, and a closed row keeps status and figures.\<close>

definition period_evolves :: "period_row \<Rightarrow> period_row \<Rightarrow> bool" where
  "period_evolves p p' \<longleftrightarrow>
     bp_id p' = bp_id p \<and> bp_tenant_id p' = bp_tenant_id p \<and> period_window p' = period_window p \<and>
     (bp_status p = PClosed \<longrightarrow> bp_status p' = PClosed \<and> period_figures p' = period_figures p)"

lemma period_evolves_refl [simp]: "period_evolves p p"
  by (simp add: period_evolves_def)

definition periods_evolve :: "period_row list \<Rightarrow> period_row list \<Rightarrow> bool" where
  "periods_evolve ps ps' \<longleftrightarrow> (\<forall>p \<in> set ps. \<exists>p' \<in> set ps'. period_evolves p p')"

lemma periods_evolve_subset: "set ps \<subseteq> set ps' \<Longrightarrow> periods_evolve ps ps'"
  unfolding periods_evolve_def using period_evolves_refl by blast

lemma periods_evolve_trans: "periods_evolve ps qs \<Longrightarrow> periods_evolve qs rs \<Longrightarrow> periods_evolve ps rs"
  unfolding periods_evolve_def period_evolves_def by (metis (no_types, lifting))

lemma periods_evolve_update:
  assumes "\<And>p. p \<in> set (billing_periods db) \<Longrightarrow> bp_id p = pid \<Longrightarrow> period_evolves p (f p)"
  shows "periods_evolve (billing_periods db) (billing_periods (update_period db pid f))"
  unfolding periods_evolve_def
proof
  fix p assume p: "p \<in> set (billing_periods db)"
  let ?q = "if bp_id p = pid then f p else p"
  have "?q \<in> set (billing_periods (update_period db pid f))"
    using p by (auto simp: update_period_def)
  moreover have "period_evolves p ?q" using assms p by simp
  ultimately show "\<exists>p' \<in> set (billing_periods (update_period db pid f)). period_evolves p p'" by blast
qed

lemma set_status_evolves:
  "(bp_status p = PClosed \<longrightarrow> s = PClosed) \<Longrightarrow> period_evolves p (set_period_status now s p)"
  by (simp add: period_evolves_def set_period_status_def period_figures_def period_window_def)

lemma summarized_evolves: "bp_status p \<noteq> PClosed \<Longrightarrow> period_evolves p (summarized db now p)"
  by (simp add: period_evolves_def summarized_def Let_def period_window_def)

lemma status_evolves:
  assumes inv: "billing_inv db" and step: "update_billing_period_status db now pid st = Inr (db', row)"
  shows "periods_evolve (billing_periods db) (billing_periods db')"
  using step
proof (rule update_status_cases)
  fix s p
  assume p: "get_billing_period_row db pid = Inr p" and c: "bp_status p = PClosed \<longrightarrow> s = PClosed"
    and db': "db' = update_period db pid (set_period_status now s)"
  show "periods_evolve (billing_periods db) (billing_periods db')"
    unfolding db'
  proof (rule periods_evolve_update)
    fix q assume "q \<in> set (billing_periods db)" "bp_id q = pid"
    then have "q = p" using bp_id_inj [OF inv] get_periodD [OF p] by metis
    then show "period_evolves q (set_period_status now s q)" using c by (simp add: set_status_evolves)
  qed
qed

lemma summarized_update_evolves:
  assumes inv: "billing_inv db" and p: "get_billing_period_row db pid = Inr p" "bp_status p \<noteq> PClosed"
  shows "periods_evolve (billing_periods db)
    (billing_periods (update_period db pid (\<lambda>_. summarized db now p)))"
proof (rule periods_evolve_update)
  fix q assume "q \<in> set (billing_periods db)" "bp_id q = pid"
  then have "q = p" using bp_id_inj [OF inv] get_periodD [OF p(1)] by metis
  then show "period_evolves q (summarized db now p)" using p(2) by (simp add: summarized_evolves)
qed

lemma summarize_evolves:
  assumes inv: "billing_inv db" and s: "summarize_billing_period threshold db now pid = Inr (db', row)"
  shows "periods_evolve (billing_periods db) (billing_periods db')"
  using s
proof (cases rule: summarize_cases)
  case closed
  then show ?thesis by (simp add: periods_evolve_subset)
next
  case (kept p)
  then show ?thesis using summarized_update_evolves [OF inv] by simp
next
  case (closing p)
  let ?db = "update_period db pid (\<lambda>_. summarized db now p)"
  have "periods_evolve (billing_periods db) (billing_periods ?db)"
    using summarized_update_evolves [OF inv closing(1)] closing(2) by simp
  moreover have "periods_evolve (billing_periods ?db)
      (billing_periods (update_period ?db pid (set_period_status now PClosing)))"
  proof (rule periods_evolve_update)
    fix q assume "q \<in> set (billing_periods ?db)" "bp_id q = pid"
    then have "q = summarized db now p" by (auto simp: update_period_def split: if_splits)
    then show "period_evolves q (set_period_status now PClosing q)"
      using closing(2) by (simp add: set_status_evolves summarized_keeps)
  qed
  ultimately show ?thesis using closing(5) periods_evolve_trans by blast
qed

lemma insert_charge_frame:
  "insert_charge db c = Inr db' \<Longrightarrow> db' = db\<lparr>usage_charges := usage_charges db @ [c]\<rparr>"
  by (auto simp: insert_charge_def split: if_splits)

text \<open>A walk over rows only appends charges the row builder made.\<close>

lemma materialize_rows_frame:
  "\<exists>cs. fst (materialize_rows mk uuids cnt db rs) = db\<lparr>usage_charges := usage_charges db @ cs\<rparr> \<and>
    set cs \<subseteq> {mk u r | u r. r \<in> set rs}"
proof (induction rs arbitrary: cnt db)
  case Nil
  then show ?case by (intro exI [of _ "[]"]) simp
next
  case (Cons r rs)
  let ?c = "mk (uuids cnt) r"
  show ?case
  proof (cases "list_ex (same_source ?c) (usage_charges db)")
    case True
    with Cons.IH [of cnt db] show ?thesis by (auto simp: Let_def) blast
  next
    case False
    show ?thesis
    proof (cases "insert_charge db ?c")
      case (Inl e)
      with False show ?thesis by (intro exI [of _ "[]"]) (simp add: Let_def)
    next
      case (Inr db')
      then have db': "db' = db\<lparr>usage_charges := usage_charges db @ [?c]\<rparr>" by (rule insert_charge_frame)
      obtain cs where cs: "fst (materialize_rows mk uuids (Suc cnt) db' rs) =
          db'\<lparr>usage_charges := usage_charges db' @ cs\<rparr>" "set cs \<subseteq> {mk u r | u r. r \<in> set rs}"
        using Cons.IH by blast
      with False Inr have "fst (materialize_rows mk uuids cnt db (r # rs)) =
          db\<lparr>usage_charges := usage_charges db @ ?c # cs\<rparr>"
        by (simp add: Let_def db')
      moreover have "set (?c # cs) \<subseteq> {mk u r' | u r'. r' \<in> set (r # rs)}" using cs(2) by (simp, blast)
      ultimately show ?thesis by blast
    qed
  qed
qed

text \<open>A new charge names an open period, or is a manual one on a closed period.\<close>

definition charge_admissible :: "period_row list \<Rightarrow> charge_row \<Rightarrow> bool" where
  "charge_admissible ps c \<longleftrightarrow> (\<forall>pid. uc_billing_period_id c = Some pid \<longrightarrow>
     (\<exists>p \<in> set ps. bp_id p = pid \<and>
        (bp_status p = POpen \<or> (bp_status p = PClosed \<and> uc_source_table c = ''manual''))))"

lemma check_attachableD:
  assumes "check_attachable db pid = Inr period" "pid = Some i"
  shows "\<exists>p \<in> set (billing_periods db). bp_id p = i \<and> bp_status p = POpen \<and> period = Some p"
proof -
  from assms obtain p where p: "get_billing_period_row db i = Inr p" "period = Some p"
    "bp_status p \<notin> {PClosing, PClosed}"
    by (auto simp: check_attachable_def rbind_eq_Inr split: if_splits)
  then have "bp_status p = POpen" by (cases "bp_status p") auto
  with p get_periodD [OF p(1)] show ?thesis by blast
qed

lemma attachable_admissible:
  assumes "check_attachable db pid = Inr period" "uc_billing_period_id c = pid"
  shows "charge_admissible (billing_periods db) c"
  using assms check_attachableD unfolding charge_admissible_def by metis

lemma materialize_ledger_frame:
  assumes "materialize_usage_charges_from_ledger db now uuids tenant sid pid limit = (db', res)"
  shows "\<exists>cs. db' = db\<lparr>usage_charges := usage_charges db @ cs\<rparr> \<and>
    list_all (charge_admissible (billing_periods db)) cs"
proof (cases "check_attachable db pid")
  case (Inl e)
  with assms show ?thesis
    by (intro exI [of _ "[]"]) (simp add: materialize_usage_charges_from_ledger_def)
next
  case (Inr period)
  let ?rows = "ledger_rows_to_charge db tenant period limit"
  obtain cs where cs: "db' = db\<lparr>usage_charges := usage_charges db @ cs\<rparr>"
    "set cs \<subseteq> {ledger_charge now tenant sid pid u r | u r. r \<in> set ?rows}"
    using materialize_rows_frame [of "ledger_charge now tenant sid pid" uuids 0 db ?rows] assms Inr
    by (auto simp: materialize_usage_charges_from_ledger_def)
  have "charge_admissible (billing_periods db) c" if "c \<in> set cs" for c
  proof (rule attachable_admissible [OF Inr])
    show "uc_billing_period_id c = pid" using cs(2) that by (auto simp: ledger_charge_def)
  qed
  with cs(1) show ?thesis by (auto simp: list_all_iff)
qed

lemma materialize_rollups_frame:
  assumes "materialize_usage_charges_from_rollups db now uuids tenant sid day pid = (db', res)"
  shows "\<exists>cs. db' = db\<lparr>usage_charges := usage_charges db @ cs\<rparr> \<and>
    list_all (charge_admissible (billing_periods db)) cs"
proof (cases "check_attachable db pid")
  case (Inl e)
  with assms show ?thesis
    by (intro exI [of _ "[]"]) (simp add: materialize_usage_charges_from_rollups_def)
next
  case (Inr period)
  let ?rows = "filter (\<lambda>u. ur_tenant_id u = Some tenant \<and>
    (case day of None \<Rightarrow> True | Some d \<Rightarrow> ur_rollup_date u = d)) (daily_usage_rollups db)"
  obtain cs where cs: "db' = db\<lparr>usage_charges := usage_charges db @ cs\<rparr>"
    "set cs \<subseteq> {rollup_charge now tenant sid pid u r | u r. r \<in> set ?rows}"
    using materialize_rows_frame [of "rollup_charge now tenant sid pid" uuids 0 db ?rows] assms Inr
    by (auto simp: materialize_usage_charges_from_rollups_def)
  have "charge_admissible (billing_periods db) c" if "c \<in> set cs" for c
  proof (rule attachable_admissible [OF Inr])
    show "uc_billing_period_id c = pid" using cs(2) that by (auto simp: rollup_charge_def)
  qed
  with cs(1) show ?thesis by (auto simp: list_all_iff)
qed

lemma adjustment_frame:
  assumes "create_manual_adjustment db now uuid tenant sid amount descr reason target = Inr (db', res)"
  shows "\<exists>c. db' = db\<lparr>usage_charges := usage_charges db @ [c]\<rparr> \<and>
    charge_admissible (billing_periods db) c \<and> uc_amount_usd c = amount \<and> uc_billing_period_id c = target"
proof -
  from assms obtain c where c: "insert_charge db c = Inr db'" "uc_amount_usd c = amount"
    "uc_billing_period_id c = target" "uc_source_table c = ''manual''"
    and t: "case target of None \<Rightarrow> True
      | Some pid \<Rightarrow> \<exists>p. get_billing_period_row db pid = Inr p \<and> bp_status p = PClosed"
    by (auto simp: create_manual_adjustment_def rbind_eq_Inr Let_def split: option.splits)
  have "charge_admissible (billing_periods db) c"
    using t c(3,4) get_periodD by (fastforce simp: charge_admissible_def split: option.splits)
  with c insert_charge_frame [OF c(1)] show ?thesis by blast
qed

lemma update_period_charges [simp]: "usage_charges (update_period db pid f) = usage_charges db"
  by (simp add: update_period_def)

lemma step_frame:
  assumes "billing_step threshold db db'" and "billing_inv db"
  shows "periods_evolve (billing_periods db) (billing_periods db') \<and>
    (\<exists>cs. usage_charges db' = usage_charges db @ cs \<and> list_all (charge_admissible (billing_periods db)) cs)"
  using assms
proof (induction rule: billing_step.induct)
  case (step_plan db now uuid a db' pid)
  then show ?case by (auto simp: upsert_plan_def Let_def periods_evolve_subset)
next
  case (step_subscription db now uuid tenant pid st s e t db' sid)
  then show ?case
    by (auto simp: create_subscription_def Let_def periods_evolve_subset split: if_splits simp del: append.simps)
next
  case (step_subscription_status db now sid st db' row)
  then show ?case
    by (auto simp: update_subscription_status_def Let_def periods_evolve_subset split: if_splits option.splits)
next
  case (step_period db now uuid tenant sid s e db' pid)
  from step_period(1) show ?case
    by (cases rule: create_period_cases) (auto intro!: periods_evolve_subset)
next
  case (step_summarize db now pid db' row)
  from step_summarize(1) have "usage_charges db' = usage_charges db"
    by (cases rule: summarize_cases) simp_all
  with summarize_evolves [OF step_summarize(2,1)] show ?case by simp
next
  case (step_status db now pid st db' row)
  from step_status(1) have "usage_charges db' = usage_charges db"
    by (rule update_status_cases) simp
  with status_evolves [OF step_status(2,1)] show ?case by simp
next
  case (step_adjustment db now uuid tenant sid amount descr reason target db' res)
  from adjustment_frame [OF step_adjustment(1)] show ?case by (auto simp: periods_evolve_subset)
next
  case (step_ledger db now uuids tenant sid pid limit db' res)
  from materialize_ledger_frame [OF step_ledger(1)] show ?case by (auto simp: periods_evolve_subset)
next
  case (step_rollups db now uuids tenant sid day pid db' res)
  from materialize_rollups_frame [OF step_rollups(1)] show ?case by (auto simp: periods_evolve_subset)
next
  case (step_invoice float_repr jsonb db now uuid pid fmt db' stub)
  then have "db' = db\<lparr>invoices := invoices db'\<rparr>" by (metis generate_invoice_frame)
  then have "billing_periods db' = billing_periods db" "usage_charges db' = usage_charges db"
    by (metis database.select_convs(11) database.update_convs(13) database.surjective,
        metis database.select_convs(12) database.update_convs(13) database.surjective)
  then show ?case by (simp add: periods_evolve_subset)
next
  case (step_event db now t e db')
  then show ?case by (auto simp: log_commercial_event_def periods_evolve_subset)
next
  case (step_request db now t r db')
  then show ?case by (auto simp: log_request_def periods_evolve_subset)
next
  case (step_rebuild db now db' n)
  then show ?case by (auto simp: rebuild_daily_usage_rollups_def Let_def periods_evolve_subset)
qed

section \<open>Charging every request once\<close>

definition charge_fk :: "database \<Rightarrow> charge_row \<Rightarrow> bool" where
  "charge_fk db c \<longleftrightarrow> set_option (uc_billing_period_id c) \<subseteq> bp_id ` set (billing_periods db) \<and>
     set_option (uc_subscription_id c) \<subseteq> sub_id ` set (subscriptions db)"

lemma insert_charge_ok:
  assumes "charge_fk db c" "uc_id c \<notin> uc_id ` set (usage_charges db)"
    "charge_source c \<notin> charge_source ` set (usage_charges db)"
  shows "insert_charge db c = Inr (db\<lparr>usage_charges := usage_charges db @ [c]\<rparr>)"
  using assms by (auto simp: insert_charge_def charge_fk_def list_ex_eq list_ex_source split: option.splits)

lemma materialize_rows_new:
  assumes src: "\<And>u r. charge_source (mk u r) = src r" and ident: "\<And>u r. uc_id (mk u r) = ident u"
    and fk: "\<And>u r. charge_fk db (mk u r)" and inj: "inj ident" "inj uuids"
    and "distinct (map src rs)" "\<forall>r \<in> set rs. src r \<notin> charge_source ` set (usage_charges db)"
    and "\<forall>i \<ge> cnt. ident (uuids i) \<notin> uc_id ` set (usage_charges db)"
  shows "\<exists>cs. materialize_rows mk uuids cnt db rs =
      (db\<lparr>usage_charges := usage_charges db @ cs\<rparr>, Inr (cnt + length rs)) \<and>
    list_all2 (\<lambda>c r. \<exists>u. c = mk u r) cs rs"
  using fk assms(6-)
proof (induction rs arbitrary: cnt db)
  case Nil
  then show ?case by (intro exI [of _ "[]"]) simp
next
  case (Cons r rs)
  let ?c = "mk (uuids cnt) r"
  let ?db = "db\<lparr>usage_charges := usage_charges db @ [?c]\<rparr>"
  have new: "charge_source ?c \<notin> charge_source ` set (usage_charges db)" using Cons.prems(3) by (simp add: src)
  have ins: "insert_charge db ?c = Inr ?db"
    using Cons.prems new by (intro insert_charge_ok) (simp_all add: ident)
  obtain cs where cs: "materialize_rows mk uuids (Suc cnt) ?db rs =
      (?db\<lparr>usage_charges := usage_charges ?db @ cs\<rparr>, Inr (Suc cnt + length rs))"
    "list_all2 (\<lambda>c r. \<exists>u. c = mk u r) cs rs"
  proof (atomize_elim, rule Cons.IH)
    show "charge_fk ?db (mk u r)" for u r using Cons.prems(1) by (simp add: charge_fk_def)
    show "\<forall>r' \<in> set rs. src r' \<notin> charge_source ` set (usage_charges ?db)"
      using Cons.prems(2,3) by (auto simp: src) (metis imageI)
    show "\<forall>i \<ge> Suc cnt. ident (uuids i) \<notin> uc_id ` set (usage_charges ?db)"
    proof (intro allI impI)
      fix i assume i: "Suc cnt \<le> i"
      then have "ident (uuids i) \<noteq> ident (uuids cnt)" using inj by (auto dest!: injD)
      then show "ident (uuids i) \<notin> uc_id ` set (usage_charges ?db)"
        using Cons.prems(4) i by (simp add: ident)
    qed
  qed (use Cons.prems in simp)
  have "materialize_rows mk uuids cnt db (r # rs) =
      (db\<lparr>usage_charges := usage_charges db @ ?c # cs\<rparr>, Inr (cnt + length (r # rs)))"
    using new ins cs(1) by (simp add: Let_def list_ex_source)
  moreover have "list_all2 (\<lambda>c r. \<exists>u. c = mk u r) (?c # cs) (r # rs)" using cs(2) by auto
  ultimately show ?case by blast
qed

lemma list_all2_map_eq: "list_all2 (\<lambda>c r. \<exists>u. c = mk u r) cs rs \<Longrightarrow> (\<And>u r. f (mk u r) = g r) \<Longrightarrow> map f cs = map g rs"
  by (induction rule: list_all2_induct) auto

section \<open>Two orders of the same sum\<close>

lemma sum_list_mset_eq: "mset xs = mset ys \<Longrightarrow> sum_list xs = (sum_list ys :: real)"
  by (metis sum_mset_sum_list)

lemma fl_bound: "0 \<le> x \<Longrightarrow> x \<le> 1 \<Longrightarrow> \<bar>fl x - x\<bar> \<le> 1 / 2 ^ 50"
proof -
  assume x: "0 \<le> x" "x \<le> 1"
  have "(2::real) powi (- 1075) \<le> 2 powi (- 51)" by (simp only: powi_le_iff)
  moreover have "(2::real) powi (- 51) = 1 / 2 ^ 51"
    by (simp only: power_int_minus power_int_numeral divide_inverse mult_1)
  ultimately have "\<bar>fl x - x\<bar> \<le> 1 / 2 ^ 53 + 1 / 2 ^ 51"
    using fl_error [of x] x by simp
  then show ?thesis by simp
qed

lemma abs_quarter: "\<bar>a - s\<bar> \<le> e / 4 \<Longrightarrow> \<bar>b - s\<bar> \<le> e / 4 \<Longrightarrow> \<bar>a - b\<bar> \<le> e / (2::real)"
  by linarith

lemma abs_apart:
  "\<bar>a - e / 2\<bar> \<le> t \<Longrightarrow> \<bar>b - e\<bar> \<le> t \<Longrightarrow> 2 * t < e / 2 \<Longrightarrow> a < (b::real)"
  by linarith

lemma near_pos: "\<bar>y - x\<bar> \<le> t \<Longrightarrow> t < x \<Longrightarrow> 0 < (y::real)"
  by linarith

lemma tolerance_pos [simp]: "0 < fl (1 / 10 ^ 9)"
  by (rule near_pos [OF fl_bound]) simp_all

lemma reconciles:
  assumes "mset xs = mset ys" "list_all (\<lambda>x. 0 \<le> x) xs" "sum_list xs \<le> 1000" "length xs \<le> 1000"
  shows "\<bar>fsub (sql_sum xs) (sql_sum ys)\<bar> < fl (1 / 10 ^ 9)"
proof -
  have ys: "list_all (\<lambda>x. 0 \<le> x) ys" "sum_list ys = sum_list xs" "length ys = length xs"
    using assms(1,2) sum_list_mset_eq [OF assms(1)] mset_eq_length [OF assms(1)] mset_eq_setD [OF assms(1)]
    by (auto simp: list_all_iff)
  have x: "\<bar>sql_sum xs - sum_list xs\<bar> \<le> 1 / 10 ^ 9 / 4" using assms(2-4) by (rule sql_sum_error)
  have y: "\<bar>sql_sum ys - sum_list xs\<bar> \<le> 1 / 10 ^ 9 / 4"
    using sql_sum_error [of ys] ys assms(3,4) by simp
  have d: "\<bar>sql_sum xs - sql_sum ys\<bar> \<le> 1 / 10 ^ 9 / 2" using x y by (rule abs_quarter)
  have "\<bar>fsub (sql_sum xs) (sql_sum ys)\<bar> = fl \<bar>sql_sum xs - sql_sum ys\<bar>"
  proof (cases "0 \<le> sql_sum xs - sql_sum ys")
    case True
    then show ?thesis using fl_nonneg [OF True] by (simp add: fsub_def)
  next
    case False
    then have "0 \<le> - (sql_sum xs - sql_sum ys)" by simp
    from fl_nonneg [OF this] False show ?thesis
      using fl_minus [of "sql_sum xs - sql_sum ys"] by (simp add: fsub_def)
  qed
  also have "\<dots> \<le> fl (1 / 10 ^ 9 / 2)" using d by (rule fl_mono)
  also have "\<dots> < fl (1 / 10 ^ 9)"
    by (rule abs_apart [where t = "1 / 2 ^ 50" and e = "1 / 10 ^ 9"]) (rule fl_bound, simp, simp, rule fl_bound, simp_all)
  finally show ?thesis .
qed

section \<open>Settling a period\<close>

lemma ledger_charge_simps [simp]:
  "charge_source (ledger_charge now t sid pid u r) = (''request_ledger'', lr_request_id r, ''request_overage'')"
  "uc_id (ledger_charge now t sid pid u r) = ''usage_charge_'' @ u"
  "uc_billing_period_id (ledger_charge now t sid pid u r) = pid"
  "uc_subscription_id (ledger_charge now t sid pid u r) = sid"
  "uc_amount_usd (ledger_charge now t sid pid u r) = lr_estimated_realized_savings_usd r"
  by (simp_all add: ledger_charge_def charge_source_def)

text \<open>What has to hold of an open period before its requests are charged.\<close>

definition unbilled :: "database \<Rightarrow> period_row \<Rightarrow> bool" where
  "unbilled db p \<longleftrightarrow> bp_status p = POpen \<and> period_charges db (bp_id p) = [] \<and>
     list_all (\<lambda>r. (''request_ledger'', lr_request_id r, ''request_overage'') \<notin>
       charge_source ` set (usage_charges db)) (period_ledger db p)"

definition fresh_uuids :: "database \<Rightarrow> (nat \<Rightarrow> string) \<Rightarrow> bool" where
  "fresh_uuids db uuids \<longleftrightarrow> inj uuids \<and> (\<forall>i. ''usage_charge_'' @ uuids i \<notin> uc_id ` set (usage_charges db))"

lemma rows_to_charge_period:
  assumes "length (period_ledger db p) \<le> limit"
  shows "ledger_rows_to_charge db (bp_tenant_id p) (Some p) limit =
    order_desc (\<lambda>r. [lr_observed_at r]) (period_ledger db p)"
  using assms by (simp add: ledger_rows_to_charge_def period_ledger_def)

lemma charge_all_requests:
  assumes "billing_inv db" "get_billing_period_row db pid = Inr p" "unbilled db p"
    and "length (period_ledger db p) \<le> limit" "fresh_uuids db uuids"
    and "set_option sid \<subseteq> sub_id ` set (subscriptions db)"
  shows "\<exists>cs. materialize_usage_charges_from_ledger db now uuids (bp_tenant_id p) sid (Some pid) limit =
      (db\<lparr>usage_charges := usage_charges db @ cs\<rparr>, Inr (length (period_ledger db p))) \<and>
    period_charges (db\<lparr>usage_charges := usage_charges db @ cs\<rparr>) pid = cs \<and>
    mset (map uc_amount_usd cs) = mset (map lr_estimated_realized_savings_usd (period_ledger db p))"
proof -
  let ?rows = "order_desc (\<lambda>r. [lr_observed_at r]) (period_ledger db p)"
  let ?mk = "ledger_charge now (bp_tenant_id p) sid (Some pid)"
  let ?src = "\<lambda>r. (''request_ledger'', lr_request_id r, ''request_overage'')"
  have pid: "bp_id p = pid" "pid \<in> bp_id ` set (billing_periods db)" using get_periodD [OF assms(2)] by auto
  have ids: "distinct (map lr_request_id (period_ledger db p))"
    using assms(1) by (simp add: billing_inv_def period_ledger_def distinct_map_filter)
  have d: "distinct (map ?src ?rows)"
  proof -
    have "distinct (map lr_request_id ?rows)" using ids by (simp add: distinct_map_order_desc)
    then show ?thesis by (simp add: distinct_map inj_on_def)
  qed
  have "\<exists>cs. materialize_rows ?mk uuids 0 db ?rows =
      (db\<lparr>usage_charges := usage_charges db @ cs\<rparr>, Inr (0 + length ?rows)) \<and>
    list_all2 (\<lambda>c r. \<exists>u. c = ?mk u r) cs ?rows"
  proof (rule materialize_rows_new [where src = ?src and ident = "\<lambda>u. ''usage_charge_'' @ u"])
    show "charge_fk db (?mk u r)" for u r using pid assms(6) by (simp add: charge_fk_def)
    show "inj (\<lambda>u. ''usage_charge_'' @ u)" by (rule injI) simp
    show "\<forall>r \<in> set ?rows. ?src r \<notin> charge_source ` set (usage_charges db)"
      using assms(3) by (simp add: unbilled_def list_all_iff)
  qed (use assms(5) d in \<open>auto simp: fresh_uuids_def simp del: append.simps\<close>)
  then obtain cs where cs: "materialize_rows ?mk uuids 0 db ?rows =
      (db\<lparr>usage_charges := usage_charges db @ cs\<rparr>, Inr (length ?rows))"
    "list_all2 (\<lambda>c r. \<exists>u. c = ?mk u r) cs ?rows" by auto
  have "map uc_amount_usd cs = map lr_estimated_realized_savings_usd ?rows"
    by (rule list_all2_map_eq [OF cs(2)]) simp
  then have m: "mset (map uc_amount_usd cs) = mset (map lr_estimated_realized_savings_usd (period_ledger db p))"
    using mset_order_desc [of "\<lambda>r. [lr_observed_at r]" "period_ledger db p"] by (simp only: mset_map)
  have "map uc_billing_period_id cs = map (\<lambda>_. Some pid) ?rows"
    by (rule list_all2_map_eq [OF cs(2)]) simp
  then have "\<forall>c \<in> set cs. uc_billing_period_id c = Some pid"
    by (metis (no_types, lifting) in_set_conv_nth length_map nth_map)
  then have "period_charges (db\<lparr>usage_charges := usage_charges db @ cs\<rparr>) pid = cs"
    using assms(3) pid(1) by (simp add: period_charges_def unbilled_def)
  moreover have "check_attachable db (Some pid) = Inr (Some p)"
    using assms(2,3) by (simp add: check_attachable_def unbilled_def)
  ultimately show ?thesis
    using cs(1) m rows_to_charge_period [OF assms(4)]
    by (intro exI [of _ cs]) (simp add: materialize_usage_charges_from_ledger_def)
qed

lemma summarize_result:
  assumes "get_billing_period_row db pid = Inr p" "bp_status p = POpen"
  shows "\<exists>db' q. summarize_billing_period threshold db now pid = Inr (db', q) \<and>
    get_billing_period_row db' pid = Inr q \<and> bp_status q \<noteq> PClosed \<and>
    bp_realized_savings_usd_total q = sql_sum (map lr_estimated_realized_savings_usd (period_ledger db p)) \<and>
    usage_charges db' = usage_charges db \<and>
    (bp_status q = PClosing \<longleftrightarrow> threshold \<le> bp_realized_savings_usd_total q)"
proof -
  let ?s = "summarized db now p"
  let ?db = "update_period db pid (\<lambda>_. ?s)"
  have id: "bp_id ?s = pid" "bp_status ?s = POpen"
    using get_periodD [OF assms(1)] assms(2) by (simp_all add: summarized_keeps)
  have g: "get_billing_period_row ?db pid = Inr ?s"
    using assms(1) id find_update_const [of bp_id ?s pid "billing_periods db"]
    by (simp add: get_period_mem update_period_def)
  have r: "bp_realized_savings_usd_total ?s = sql_sum (map lr_estimated_realized_savings_usd (period_ledger db p))"
    by (simp add: summarized_def Let_def)
  show ?thesis
  proof (cases "threshold \<le> bp_realized_savings_usd_total ?s")
    case True
    let ?f = "set_period_status now PClosing"
    have "get_billing_period_row (update_period ?db pid ?f) pid = Inr (?f ?s)"
      using g by (rule get_update_period) (simp add: set_period_status_def)
    with True assms g id r show ?thesis
      by (simp add: summarize_billing_period_def Let_def update_billing_period_status_def
          parse_period_status_def) (simp add: set_period_status_def)
  next
    case False
    with assms g id r show ?thesis by (simp add: summarize_billing_period_def Let_def)
  qed
qed

lemma close_result:
  assumes "get_billing_period_row db pid = Inr q"
    and "\<bar>fsub (sql_sum (map uc_amount_usd (period_charges db pid))) (bp_realized_savings_usd_total q)\<bar> < fl (1 / 10 ^ 9)"
  shows "update_billing_period_status db now pid ''closed'' =
    Inr (update_period db pid (set_period_status now PClosed), set_period_status now PClosed q)"
  using assms
  by (simp add: update_billing_period_status_def parse_period_status_def reconcile_billing_period_def Let_def)

lemma period_charges_cong: "usage_charges db = usage_charges db' \<Longrightarrow> period_charges db pid = period_charges db' pid"
  by (simp add: period_charges_def)

end
