(* ===== verification/BillingProperties.thy ===== *)
theory BillingProperties
  imports BillingSettlement
begin

text \<open>
  The properties of the billing repository: the life of a billing period and the enforcement
  state of a tenant. The demo
  database, built by the repository's own operations, serves the examples.
\<close>

section \<open>A small database\<close>

definition demo_plan :: plan_args where
  "demo_plan = \<lparr>pa_code = ''starter'', pa_name = ''Starter'', pa_monthly_base_price_usd = 0,
     pa_included_requests = None, pa_included_upstream_cost_usd = None,
     pa_included_realized_savings_usd = None, pa_soft_cap_threshold_ratio = 1,
     pa_hard_cap_enabled = False, pa_metadata = []\<rparr>"

definition demo_subscription :: subscription_row where
  "demo_subscription = \<lparr>sub_id = ''subscription_s'', sub_tenant_id = ''t1'', sub_plan_id = ''plan_p'',
     sub_status = ''trialing'', sub_trial_ends_at = None, sub_current_period_start = 0,
     sub_current_period_end = 100, sub_created_at = 1, sub_updated_at = 1\<rparr>"

definition demo_period :: period_row where
  "demo_period = new_period ''billing_period_b'' ''t1'' ''subscription_s'' 0 100 1"

text \<open>A plan, a subscription and its first period; then a request inside the period.\<close>

definition demo_setup :: database where
  "demo_setup = empty_database\<lparr>plans := [fresh_plan demo_plan 1 ''plan_p''],
     subscriptions := [demo_subscription], billing_periods := [demo_period]\<rparr>"

definition demo_db :: database where
  "demo_db = demo_setup\<lparr>request_ledger := [demo_request ''r1'' 5 60]\<rparr>"

lemma demo_setup_steps:
  "fst (upsert_plan empty_database 1 ''p'' demo_plan) =
     empty_database\<lparr>plans := [fresh_plan demo_plan 1 ''plan_p'']\<rparr>"
  "create_subscription (empty_database\<lparr>plans := [fresh_plan demo_plan 1 ''plan_p'']\<rparr>) 1 ''s'' ''t1''
     ''plan_p'' ''trialing'' 0 100 None =
   Inr (empty_database\<lparr>plans := [fresh_plan demo_plan 1 ''plan_p''], subscriptions := [demo_subscription]\<rparr>,
     ''subscription_s'')"
  "create_billing_period (empty_database\<lparr>plans := [fresh_plan demo_plan 1 ''plan_p''],
     subscriptions := [demo_subscription]\<rparr>) 1 ''b'' ''t1'' ''subscription_s'' None None =
   Inr (demo_setup, ''billing_period_b'')"
  "log_request demo_setup 5 None (demo_request ''r1'' 5 60) = demo_db"
  by (simp_all add: upsert_plan_def empty_database_def fresh_plan_def create_subscription_def
      demo_subscription_def create_billing_period_def period_bounds_def find_or_insert_period_def
      demo_setup_def demo_period_def log_request_def insert_unless_def demo_db_def demo_request_def Let_def)

lemma demo_reachable: "billing_reachable threshold demo_setup" "billing_reachable threshold demo_db"
proof -
  have "billing_reachable threshold empty_database" by (simp add: billing_reachable_def)
  moreover have "billing_step threshold empty_database
      (empty_database\<lparr>plans := [fresh_plan demo_plan 1 ''plan_p'']\<rparr>)"
    using demo_setup_steps(1) by (metis billing_step.step_plan prod.collapse)
  ultimately show s: "billing_reachable threshold demo_setup"
    using demo_setup_steps(2,3) unfolding billing_reachable_def
    by (meson billing_step.step_subscription billing_step.step_period rtranclp.rtrancl_into_rtrancl)
  show "billing_reachable threshold demo_db"
    using s billing_step.step_request [OF demo_setup_steps(4)]
    unfolding billing_reachable_def by (meson rtranclp.rtrancl_into_rtrancl)
qed

text \<open>The period closed without a request, and what a whole run keeps of its periods.\<close>

definition closed_demo :: database where
  "closed_demo = demo_setup\<lparr>billing_periods := [set_period_status 7 PClosed demo_period]\<rparr>"

lemma closed_demo_step:
  "\<exists>row. update_billing_period_status demo_setup 7 ''billing_period_b'' ''closed'' = Inr (closed_demo, row)"
proof -
  have "get_billing_period_row demo_setup ''billing_period_b'' = Inr demo_period"
    by (simp add: get_billing_period_row_def demo_setup_def demo_period_def new_period_def)
  moreover have "period_charges demo_setup ''billing_period_b'' = []" "bp_realized_savings_usd_total demo_period = 0"
    by (simp_all add: period_charges_def demo_setup_def empty_database_def demo_period_def new_period_def)
  moreover have "0 < fl (1 / 10 ^ 9)" by (rule tolerance_pos)
  ultimately have "update_billing_period_status demo_setup 7 ''billing_period_b'' ''closed'' =
      Inr (update_period demo_setup ''billing_period_b'' (set_period_status 7 PClosed),
        set_period_status 7 PClosed demo_period)"
    by (intro close_result) (simp_all add: fsub_def)
  moreover have "update_period demo_setup ''billing_period_b'' (set_period_status 7 PClosed) = closed_demo"
    by (simp add: update_period_def demo_setup_def closed_demo_def demo_period_def new_period_def)
  ultimately show ?thesis by simp
qed

lemma closed_demo_reachable: "billing_reachable threshold closed_demo"
proof -
  have "billing_step threshold demo_setup closed_demo"
    using closed_demo_step by (metis billing_step.step_status)
  with demo_reachable(1) show ?thesis
    unfolding billing_reachable_def by (rule rtranclp.rtrancl_into_rtrancl)
qed

lemma reachable_evolve:
  "(billing_step threshold)\<^sup>*\<^sup>* db db' \<Longrightarrow> billing_reachable threshold db \<Longrightarrow>
   periods_evolve (billing_periods db) (billing_periods db')"
proof (induction rule: rtranclp_induct)
  case (step db' db'')
  then have "billing_inv db'"
    using inv_reachable unfolding billing_reachable_def by (meson rtranclp_trans)
  with step step_frame periods_evolve_trans show ?case by blast
qed (simp add: periods_evolve_subset)

section \<open>Frozen periods\<close>

text \<open>
  C13. A closed billing period is final: no sequence of repository calls reopens it or changes
  its counters and amounts.
\<close>

theorem closed_period_frozen:
  assumes "billing_reachable threshold db" "(billing_step threshold)\<^sup>*\<^sup>* db db'"
    and "p \<in> set (billing_periods db)" "bp_status p = PClosed"
  shows "\<exists>p' \<in> set (billing_periods db'). bp_id p' = bp_id p \<and> bp_tenant_id p' = bp_tenant_id p \<and>
    bp_status p' = PClosed \<and> bp_request_count p' = bp_request_count p \<and>
    bp_upstream_cost_usd_total p' = bp_upstream_cost_usd_total p \<and>
    bp_realized_savings_usd_total p' = bp_realized_savings_usd_total p \<and>
    bp_shadow_savings_usd_total p' = bp_shadow_savings_usd_total p \<and>
    bp_total_tokens_saved p' = bp_total_tokens_saved p"
proof -
  have "periods_evolve (billing_periods db) (billing_periods db')"
    using assms(2,1) by (rule reachable_evolve)
  with assms(3,4) show ?thesis
    by (fastforce simp: periods_evolve_def period_evolves_def period_figures_def)
qed

lemma closed_period_frozen_witness:
  "\<exists>p' \<in> set (billing_periods closed_demo). bp_status p' = PClosed \<and> bp_request_count p' = 0"
  using closed_period_frozen [OF closed_demo_reachable [of 50], of closed_demo "set_period_status 7 PClosed demo_period"]
  by (simp add: closed_demo_def demo_period_def new_period_def set_period_status_def)

text \<open>
  C14. Usage charges are append-only, and a charge added to a period needs the period open,
  except for manual adjustments, which need it closed.
\<close>

theorem charges_append_only:
  assumes "billing_reachable threshold db" "billing_step threshold db db'"
  shows "\<exists>cs. usage_charges db' = usage_charges db @ cs \<and>
    (\<forall>c \<in> set cs. \<forall>pid. uc_billing_period_id c = Some pid \<longrightarrow>
       (\<exists>p \<in> set (billing_periods db). bp_id p = pid \<and>
          (bp_status p = POpen \<or> bp_status p = PClosed \<and> uc_source_table c = ''manual'')))"
  using step_frame [OF assms(2) inv_reachable [OF assms(1)]]
  by (simp add: charge_admissible_def list_all_iff)

lemma charges_append_only_witness:
  "\<exists>cs. usage_charges demo_db = usage_charges demo_setup @ cs"
  using charges_append_only [OF demo_reachable(1) [of 50] billing_step.step_request [OF demo_setup_steps(4)]]
  by blast

section \<open>Settling a period\<close>

text \<open>
  C15. An open period whose requests have not been charged settles: charging its ledger rows
  inserts one charge per row, summarising succeeds, and the period then closes, because the
  two sums of the realised savings, taken in different orders, differ by less than the
  tolerance. The bounds say how far the tolerance of \<open>1e-9\<close> reaches.
\<close>

theorem period_settles:
  assumes "billing_reachable threshold db" "get_billing_period_row db pid = Inr p" "unbilled db p"
    and "fresh_uuids db uuids" "set_option sid \<subseteq> sub_id ` set (subscriptions db)"
    and "length (period_ledger db p) \<le> limit" "length (period_ledger db p) \<le> 1000"
    and "list_all (\<lambda>r. 0 \<le> lr_estimated_realized_savings_usd r) (period_ledger db p)"
    and "sum_list (map lr_estimated_realized_savings_usd (period_ledger db p)) \<le> 1000"
  shows "\<exists>db1 db2 db3 row closed.
    materialize_usage_charges_from_ledger db now uuids (bp_tenant_id p) sid (Some pid) limit =
      (db1, Inr (length (period_ledger db p))) \<and>
    summarize_billing_period threshold db1 now' pid = Inr (db2, row) \<and>
    update_billing_period_status db2 now'' pid ''closed'' = Inr (db3, closed) \<and>
    bp_status closed = PClosed \<and> bp_closed_at closed = Some now''"
proof -
  obtain cs where cs: "materialize_usage_charges_from_ledger db now uuids (bp_tenant_id p) sid (Some pid) limit =
      (db\<lparr>usage_charges := usage_charges db @ cs\<rparr>, Inr (length (period_ledger db p)))"
    "period_charges (db\<lparr>usage_charges := usage_charges db @ cs\<rparr>) pid = cs"
    and m: "mset (map uc_amount_usd cs) = mset (map lr_estimated_realized_savings_usd (period_ledger db p))"
    using charge_all_requests [OF inv_reachable [OF assms(1)] assms(2,3,6,4,5)] by blast
  let ?db1 = "db\<lparr>usage_charges := usage_charges db @ cs\<rparr>"
  have p1: "get_billing_period_row ?db1 pid = Inr p" "bp_status p = POpen" "period_ledger ?db1 p = period_ledger db p"
    using assms(2,3) by (simp_all add: get_billing_period_row_def unbilled_def period_ledger_def)
  obtain db2 q where s: "summarize_billing_period threshold ?db1 now' pid = Inr (db2, q)"
    "get_billing_period_row db2 pid = Inr q" "usage_charges db2 = usage_charges ?db1"
    "bp_realized_savings_usd_total q = sql_sum (map lr_estimated_realized_savings_usd (period_ledger db p))"
    using summarize_result [OF p1(1,2), of threshold now'] p1(3) by metis
  have "period_charges db2 pid = cs" using cs(2) period_charges_cong [OF s(3)] by simp
  moreover have "\<bar>fsub (sql_sum (map uc_amount_usd cs)) (bp_realized_savings_usd_total q)\<bar> < fl (1 / 10 ^ 9)"
    unfolding s(4)
  proof (rule reconciles [OF m])
    have e: "set (map uc_amount_usd cs) = set (map lr_estimated_realized_savings_usd (period_ledger db p))"
      "length (map uc_amount_usd cs) = length (map lr_estimated_realized_savings_usd (period_ledger db p))"
      using m mset_eq_setD mset_eq_length by blast+
    show "list_all (\<lambda>x. 0 \<le> x) (map uc_amount_usd cs)"
      using assms(8) e(1) by (auto simp: list_all_iff)
    show "sum_list (map uc_amount_usd cs) \<le> 1000" using assms(9) sum_list_mset_eq [OF m] by simp
    show "length (map uc_amount_usd cs) \<le> 1000" using assms(7) e(2) by simp
  qed
  ultimately have "update_billing_period_status db2 now'' pid ''closed'' =
      Inr (update_period db2 pid (set_period_status now'' PClosed), set_period_status now'' PClosed q)"
    by (intro close_result [OF s(2)]) simp
  with cs(1) s(1) show ?thesis by (fastforce simp: set_period_status_def)
qed

lemma demo_period_lookup:
  "get_billing_period_row demo_db ''billing_period_b'' = Inr demo_period"
  "period_ledger demo_db demo_period = [demo_request ''r1'' 5 60]"
  by (simp_all add: get_billing_period_row_def demo_db_def demo_setup_def demo_period_def new_period_def
      period_ledger_def demo_request_def)

lemma demo_unbilled: "unbilled demo_db demo_period"
  by (simp add: unbilled_def demo_period_lookup(2))
    (simp add: demo_db_def demo_setup_def empty_database_def demo_period_def new_period_def period_charges_def)

lemma demo_fresh: "fresh_uuids demo_db (\<lambda>i. replicate i CHR ''a'')"
proof -
  have "inj (\<lambda>i. replicate i CHR ''a'')" by (rule injI) (metis length_replicate)
  then show ?thesis by (simp add: fresh_uuids_def demo_db_def demo_setup_def empty_database_def)
qed

lemma period_settles_witness:
  "\<exists>db1 db2 db3 row closed.
    materialize_usage_charges_from_ledger demo_db 10 (\<lambda>i. replicate i CHR ''a'') ''t1''
      (Some ''subscription_s'') (Some ''billing_period_b'') 500 = (db1, Inr 1) \<and>
    summarize_billing_period 50 db1 11 ''billing_period_b'' = Inr (db2, row) \<and>
    update_billing_period_status db2 12 ''billing_period_b'' ''closed'' = Inr (db3, closed) \<and>
    bp_status closed = PClosed"
proof -
  have sid: "set_option (Some ''subscription_s'') \<subseteq> sub_id ` set (subscriptions demo_db)"
    by (simp add: demo_db_def demo_setup_def demo_subscription_def)
  have t: "bp_tenant_id demo_period = ''t1''" by (simp add: demo_period_def new_period_def)
  have r: "lr_estimated_realized_savings_usd (demo_request ''r1'' 5 60) = 60" by (simp add: demo_request_def)
  show ?thesis
    using period_settles [OF demo_reachable(2) [of 50] demo_period_lookup(1) demo_unbilled demo_fresh sid,
        of 500 10 11 12]
    by (simp add: demo_period_lookup(2) r t) blast
qed

text \<open>
  C21. The closeout preview tells the truth: for a period that is not closed, closing succeeds
  exactly when the preview lists no blocking issue.
\<close>

theorem preview_predicts_close:
  assumes "preview_billing_closeout db pid = Inr pv"
  shows "(\<exists>db' row. update_billing_period_status db now pid ''closed'' = Inr (db', row)) \<longleftrightarrow>
    cp_blocking_issues pv = []"
proof -
  obtain p rc where p: "get_billing_period_row db pid = Inr p" "reconcile_billing_period db pid = Inr rc"
    "cp_blocking_issues pv = [] \<longleftrightarrow> rc_matches_realized_savings rc"
    using assms by (auto simp: preview_billing_closeout_def rbind_eq_Inr Let_def)
  then show ?thesis
    by (cases "rc_matches_realized_savings rc")
      (simp_all add: update_billing_period_status_def parse_period_status_def)
qed

lemma preview_predicts_close_witness:
  "\<exists>pv. preview_billing_closeout demo_setup ''billing_period_b'' = Inr pv \<and>
    ((\<exists>db' row. update_billing_period_status demo_setup 3 ''billing_period_b'' ''closed'' = Inr (db', row)) \<longleftrightarrow>
      cp_blocking_issues pv = [])"
proof -
  obtain pv where "preview_billing_closeout demo_setup ''billing_period_b'' = Inr pv"
    by (simp add: preview_billing_closeout_def reconcile_billing_period_def get_billing_period_row_def
        demo_setup_def demo_period_def new_period_def Let_def)
  with preview_predicts_close [OF this] show ?thesis by blast
qed

text \<open>
  A closing period whose charges do not match its savings cannot be repaired in place: it
  takes no charge from the ledger or the rollups and no manual adjustment, and it does not
  close. Only reopening it, which is allowed, lets charges in again.
\<close>

theorem closing_mismatch_needs_reopening:
  assumes "get_billing_period_row db pid = Inr p" "bp_status p = PClosing"
    and "reconcile_billing_period db pid = Inr rc" "\<not> rc_matches_realized_savings rc"
  shows "materialize_usage_charges_from_ledger db now uuids tenant sid (Some pid) limit =
      (db, Inl (ValueErr ''cannot attach usage charges to a closing or closed billing period'')) \<and>
    materialize_usage_charges_from_rollups db now uuids tenant sid day (Some pid) =
      (db, Inl (ValueErr ''cannot attach usage charges to a closing or closed billing period'')) \<and>
    create_manual_adjustment db now uuid tenant sid amount descr reason (Some pid) =
      Inl (ValueErr ''manual adjustments are only required for closed billing periods'') \<and>
    update_billing_period_status db now pid ''closed'' =
      Inl (ValueErr ''billing period reconciliation failed'') \<and>
    (\<exists>db' row. update_billing_period_status db now pid ''open'' = Inr (db', row) \<and> bp_status row = POpen \<and>
      check_attachable db' (Some pid) = Inr (Some row))"
proof (intro conjI)
  let ?row = "set_period_status now POpen p"
  have "get_billing_period_row (update_period db pid (set_period_status now POpen)) pid = Inr ?row"
    using assms(1) by (rule get_update_period) (simp add: set_period_status_def)
  then have "check_attachable (update_period db pid (set_period_status now POpen)) (Some pid) = Inr (Some ?row)"
    by (simp add: check_attachable_def set_period_status_def)
  moreover have "update_billing_period_status db now pid ''open'' =
      Inr (update_period db pid (set_period_status now POpen), ?row)"
    using assms(1,2) by (simp add: update_billing_period_status_def parse_period_status_def)
  ultimately show "\<exists>db' row. update_billing_period_status db now pid ''open'' = Inr (db', row) \<and>
      bp_status row = POpen \<and> check_attachable db' (Some pid) = Inr (Some row)"
    by (fastforce simp: set_period_status_def)
qed (use assms in \<open>simp_all add: materialize_usage_charges_from_ledger_def check_attachable_def
    materialize_usage_charges_from_rollups_def create_manual_adjustment_def update_billing_period_status_def
    parse_period_status_def\<close>)

text \<open>A period summarised over the threshold before any charge was attached.\<close>

definition stuck_period :: period_row where
  "stuck_period = demo_period\<lparr>bp_status := PClosing, bp_realized_savings_usd_total := 60\<rparr>"

definition stuck_demo :: database where
  "stuck_demo = demo_db\<lparr>billing_periods := [stuck_period]\<rparr>"

lemma stuck_demo_facts:
  "get_billing_period_row stuck_demo ''billing_period_b'' = Inr stuck_period"
  "\<exists>rc. reconcile_billing_period stuck_demo ''billing_period_b'' = Inr rc \<and> \<not> rc_matches_realized_savings rc"
proof -
  show g: "get_billing_period_row stuck_demo ''billing_period_b'' = Inr stuck_period"
    by (simp add: get_billing_period_row_def stuck_demo_def stuck_period_def demo_period_def new_period_def)
  have "period_charges stuck_demo ''billing_period_b'' = []"
    by (simp add: period_charges_def stuck_demo_def demo_db_def demo_setup_def empty_database_def)
  moreover have "fsub 0 60 = - 60" by (simp add: fsub_def fl_numeral)
  moreover have "fl (1 / 10 ^ 9) \<le> fl 1" by (rule fl_mono) simp
  ultimately show "\<exists>rc. reconcile_billing_period stuck_demo ''billing_period_b'' = Inr rc \<and>
      \<not> rc_matches_realized_savings rc"
    using g by (simp add: reconcile_billing_period_def Let_def stuck_period_def)
qed

lemma closing_mismatch_needs_reopening_witness:
  "update_billing_period_status stuck_demo 9 ''billing_period_b'' ''closed'' =
    Inl (ValueErr ''billing period reconciliation failed'')"
proof -
  obtain rc where rc: "reconcile_billing_period stuck_demo ''billing_period_b'' = Inr rc"
    "\<not> rc_matches_realized_savings rc" using stuck_demo_facts(2) by blast
  have "bp_status stuck_period = PClosing" by (simp add: stuck_period_def)
  from closing_mismatch_needs_reopening [OF stuck_demo_facts(1) this rc, of 9] show ?thesis by blast
qed

section \<open>Enforcement\<close>

text \<open>
  Summarising a tenant's current open period, when its realised savings reach the threshold, blocks the
  tenant exactly if its current subscription is not active; activating that subscription lifts
  the block.
\<close>

lemma sort_key_map_on:
  assumes "\<And>x. x \<in> set xs \<Longrightarrow> k (f x) = k x"
  shows "sort_key k (map f xs) = map f (sort_key k xs)"
proof -
  have ins: "insort_key k (f x) (map f ys) = map f (insort_key k x ys)"
    if "\<forall>y \<in> insert x (set ys). k (f y) = k y" for x ys
    using that by (induction ys) simp_all
  show ?thesis using assms by (induction xs) (simp_all add: ins)
qed

lemma first_row_map_order:
  assumes "\<And>x. x \<in> set xs \<Longrightarrow> k (f x) = k x"
  shows "first_row (order_desc k (map f xs)) = map_option f (first_row (order_desc k xs))"
proof -
  have "order_desc k (map f xs) = map f (order_desc k xs)"
    unfolding order_desc_def by (intro sort_key_map_on) (simp add: assms)
  then show ?thesis by (simp add: first_row_def split: list.splits)
qed

lemma summarize_blocks:
  assumes "billing_reachable threshold db"
    and "get_billing_period_row db pid = Inr p" "bp_status p = POpen" "bp_tenant_id p = tenant"
    and "current_period db tenant = Some p"
    and "threshold \<le> sql_sum (map lr_estimated_realized_savings_usd (period_ledger db p))"
  shows "\<exists>db' row. summarize_billing_period threshold db now pid = Inr (db', row) \<and> bp_status row = PClosing \<and>
    current_subscription db' tenant = current_subscription db tenant \<and>
    (es_blocked (get_tenant_enforcement_state threshold db' tenant) \<longleftrightarrow>
      map_option sub_status (current_subscription db tenant) \<noteq> Some ''active'')"
proof -
  let ?q = "set_period_status now PClosing (summarized db now p)"
  let ?db1 = "update_period db pid (\<lambda>_. summarized db now p)"
  let ?db2 = "update_period ?db1 pid (set_period_status now PClosing)"
  have id: "bp_id p = pid" using get_periodD [OF assms(2)] by simp
  have k: "bp_id (summarized db now p) = pid" "bp_status (summarized db now p) = POpen"
    "bp_tenant_id (summarized db now p) = tenant" "bp_period_end (summarized db now p) = bp_period_end p"
    "bp_created_at (summarized db now p) = bp_created_at p"
    using assms(3,4) id by (simp_all add: summarized_def Let_def)
  have t: "threshold \<le> bp_realized_savings_usd_total (summarized db now p)"
    using assms(6) by (simp add: summarized_def Let_def)
  have g: "get_billing_period_row ?db1 pid = Inr (summarized db now p)"
    using assms(2) k(1) find_update_const [of bp_id "summarized db now p" pid "billing_periods db"]
    by (simp add: get_period_mem update_period_def)
  have s: "summarize_billing_period threshold db now pid = Inr (?db2, ?q)"
    using assms(2,3) k(2) t g
    by (simp add: summarize_billing_period_def Let_def update_billing_period_status_def parse_period_status_def)
  let ?f = "\<lambda>q. if bp_id q = pid then ?q else q"
  let ?key = "\<lambda>p. [if bp_status p \<in> {POpen, PClosing} then 1 else 0, bp_period_end p, bp_created_at p] :: int list"
  have only: "bp_id q = pid \<Longrightarrow> q = p" if "q \<in> set (billing_periods db)" for q
    using bp_id_inj [OF inv_reachable [OF assms(1)] that] get_periodD [OF assms(2)] by simp
  have "bp_tenant_id (?f q) = tenant \<longleftrightarrow> bp_tenant_id q = tenant" if "q \<in> set (billing_periods db)" for q
    using only [OF that] assms(4) k(3) by (auto simp: set_period_status_def)
  then have "filter (\<lambda>q. bp_tenant_id q = tenant) (map ?f (billing_periods db)) =
      map ?f (filter (\<lambda>q. bp_tenant_id q = tenant) (billing_periods db))"
    by (rule filter_map_same)
  moreover have "billing_periods ?db2 = map ?f (billing_periods db)"
    using k(1) by (simp add: update_period_def set_period_status_def)
  moreover have "?key (?f q) = ?key q" if "q \<in> set (filter (\<lambda>q. bp_tenant_id q = tenant) (billing_periods db))" for q
    using that only [of q] assms(3) k by (auto simp: set_period_status_def)
  ultimately have cp: "current_period ?db2 tenant = Some ?q"
    using assms(5) id first_row_map_order [of "filter (\<lambda>q. bp_tenant_id q = tenant) (billing_periods db)" ?key ?f]
    by (simp add: current_period_def)
  have sub: "current_subscription ?db2 tenant = current_subscription db tenant"
    by (simp add: current_subscription_def update_period_def)
  with cp t have "es_blocked (get_tenant_enforcement_state threshold ?db2 tenant) \<longleftrightarrow>
      map_option sub_status (current_subscription db tenant) \<noteq> Some ''active''"
    by (simp add: get_tenant_enforcement_state_def Let_def set_period_status_def)
  with s sub show ?thesis by (fastforce simp: set_period_status_def)
qed

lemma demo_over_threshold:
  "bp_status demo_period = POpen" "bp_tenant_id demo_period = ''t1''"
  "current_period demo_db ''t1'' = Some demo_period"
  "sql_sum (map lr_estimated_realized_savings_usd (period_ledger demo_db demo_period)) = 60"
  "current_subscription demo_db ''t1'' = Some demo_subscription"
  "sub_status demo_subscription = ''trialing''" "sub_id demo_subscription = ''subscription_s''"
proof -
  show "sql_sum (map lr_estimated_realized_savings_usd (period_ledger demo_db demo_period)) = 60"
    by (simp add: demo_period_lookup(2) demo_request_def sql_sum_def fadd_def fl_numeral)
qed (simp_all add: demo_db_def demo_setup_def demo_period_def new_period_def current_subscription_def
    current_period_def demo_subscription_def order_desc_def first_row_def)

lemma first_row_mem: "first_row rows = Some r \<Longrightarrow> r \<in> set rows"
  by (auto simp: first_row_def split: list.splits)

lemma activation_lifts_block:
  assumes "current_subscription db tenant = Some s"
  shows "\<exists>db' row. update_subscription_status db now (sub_id s) ''active'' = Inr (db', row) \<and>
    \<not> es_blocked (get_tenant_enforcement_state threshold db' tenant)"
proof -
  let ?f = "\<lambda>s'. if sub_id s' = sub_id s then s'\<lparr>sub_status := ''active'', sub_updated_at := now\<rparr> else s'"
  let ?rows = "map ?f (subscriptions db)"
  have s: "s \<in> set (subscriptions db)"
    using first_row_mem [OF assms [unfolded current_subscription_def]] by simp
  then have "find (\<lambda>s'. sub_id s' = sub_id s) (subscriptions db) \<noteq> None" by (auto simp: find_eq_None)
  then obtain row where row: "find (\<lambda>s'. sub_id s' = sub_id s) ?rows = Some row"
    using find_update [of sub_id "\<lambda>s'. s'\<lparr>sub_status := ''active'', sub_updated_at := now\<rparr>" "sub_id s"
        "subscriptions db"] by auto
  have "filter (\<lambda>s. sub_tenant_id s = tenant) ?rows = map ?f (filter (\<lambda>s. sub_tenant_id s = tenant) (subscriptions db))"
    by (rule filter_map_same) simp
  then have "current_subscription (db\<lparr>subscriptions := ?rows\<rparr>) tenant = map_option ?f (current_subscription db tenant)"
    by (simp add: current_subscription_def order_desc_def sort_key_map_same first_row_def split: list.split)
  then have "\<not> es_blocked (get_tenant_enforcement_state threshold (db\<lparr>subscriptions := ?rows\<rparr>) tenant)"
    using assms by (simp add: get_tenant_enforcement_state_def Let_def)
  moreover have "update_subscription_status db now (sub_id s) ''active'' =
      Inr (db\<lparr>subscriptions := ?rows\<rparr>, row)"
    using row by (simp add: update_subscription_status_def subscription_statuses_def Let_def)
  ultimately show ?thesis by blast
qed

lemma stuck_demo_blocked:
  "current_subscription stuck_demo ''t1'' = Some demo_subscription"
  "es_blocked (get_tenant_enforcement_state 50 stuck_demo ''t1'')"
proof -
  show c: "current_subscription stuck_demo ''t1'' = Some demo_subscription"
    by (simp add: current_subscription_def stuck_demo_def demo_db_def demo_setup_def demo_subscription_def
        order_desc_def first_row_def)
  have "current_period stuck_demo ''t1'' = Some stuck_period"
    by (simp add: current_period_def stuck_demo_def stuck_period_def demo_period_def new_period_def
        order_desc_def first_row_def)
  with c show "es_blocked (get_tenant_enforcement_state 50 stuck_demo ''t1'')"
    by (simp add: get_tenant_enforcement_state_def Let_def stuck_period_def demo_subscription_def)
qed

end
