(* ===== verification/Proxy.thy ===== *)
theory Proxy
  imports SemanticCache Metrics PolicyState Dlp Provider Billing
begin

text \<open>
  The chat proxy, \<open>ProxyService\<close> of \<open>app/services/proxy_service.py\<close>: billing check,
  scrubbing, exact and semantic lookup, the upstream call, the caches it fills, the background
  shadow measurement and the control-plane records. A method takes the service object, the
  times it reads and the world, and returns its result or exception with the world it leaves.
  The world's trace lists the calls made to the provider.
\<close>

section \<open>The service and its world\<close>

record ('k, 's) cache_ops =
  op_get_json :: "'k \<Rightarrow> string \<Rightarrow> payload option"
  op_set_json :: "'k \<Rightarrow> string \<Rightarrow> payload \<Rightarrow> int \<Rightarrow> 'k"
  op_delete_prefix :: "'k \<Rightarrow> string \<Rightarrow> 'k \<times> nat"
  op_add :: "'s \<Rightarrow> semantic_record \<Rightarrow> 's"
  op_find :: "'s \<Rightarrow> semantic_query \<Rightarrow> semantic_match option"
  op_invalidate :: "'s \<Rightarrow> string \<Rightarrow> 's \<times> nat"
  op_prune :: "'s \<Rightarrow> timestamp \<Rightarrow> 's \<times> nat"

text \<open>
  What the constructor is given: settings, overrides, the analyzer, the embedding, SHA-256,
  \<open>float.__repr__\<close>, pydantic's dump and validation of a response, the provider, and which
  optional repositories are configured (\<open>svc_billing\<close> carries the billing threshold).
\<close>

record service =
  svc_settings :: settings
  svc_overrides :: dict
  svc_dlp_policy :: dlp_policy
  svc_analyze :: "string \<Rightarrow> detected_entity list"
  svc_emb :: "string \<Rightarrow> real list"
  svc_sha :: "string \<Rightarrow> string"
  svc_repr_float :: "real \<Rightarrow> string"
  svc_dump :: "chat_response \<Rightarrow> payload"
  svc_load :: "payload \<Rightarrow> chat_response result"
  svc_semantic_threshold :: real
  svc_provider :: "chat_request \<Rightarrow> string option \<Rightarrow> chat_response result"
  svc_stream_provider :: "chat_request \<Rightarrow> string option \<Rightarrow> string list result"
  svc_shadow_analytics :: bool
  svc_request_events :: bool
  svc_request_ledger :: bool
  svc_shadow_savings :: bool
  svc_billing :: "real option"
  svc_commercial_events :: bool

record times =
  t_lookup :: timestamp
  t_cutoff :: timestamp
  t_add :: timestamp
  t_log :: timestamp
  t_latency_ms :: real
  t_elapsed_ms :: real

record shadow_task =
  st_request_id :: string
  st_scope :: semantic_scope
  st_scrubbed_text :: string
  st_prompt_text :: string
  st_estimated_savings_usd :: real
  st_live_threshold :: real
  st_shadow_threshold :: real
  st_created_before :: timestamp

record ('k, 's) world =
  w_metrics :: metrics
  w_exact :: 'k
  w_semantic :: 's
  w_db :: database
  w_tasks :: "shadow_task list"
  w_upstream :: "(chat_request \<times> string option) list"

definition bump :: "string \<Rightarrow> pynum \<Rightarrow> ('k, 's) world \<Rightarrow> ('k, 's) world" where
  "bump name value w = w\<lparr>w_metrics := increment name value (w_metrics w)\<rparr>"

definition tick :: "string \<Rightarrow> ('k, 's) world \<Rightarrow> ('k, 's) world" where
  "tick name w = bump name (PInt 1) w"

section \<open>Policy values\<close>

text \<open>
  \<open>_policy_value\<close> and the inline variants: the override unless it is \<open>None\<close>. Numeric
  overrides are floats by the type of the admin request that sets them.
\<close>

definition policy_bool :: "dict \<Rightarrow> string \<Rightarrow> bool \<Rightarrow> bool" where
  "policy_bool ov key d = (case dict_get ov key of JNull \<Rightarrow> d | v \<Rightarrow> \<not> py_falsy v)"

definition policy_real :: "dict \<Rightarrow> string \<Rightarrow> real \<Rightarrow> real" where
  "policy_real ov key d = (case dict_get ov key of JFloat x \<Rightarrow> x | JInt i \<Rightarrow> fl (of_int i) | _ \<Rightarrow> d)"

definition policy_str :: "dict \<Rightarrow> string \<Rightarrow> string option" where
  "policy_str ov key = (case dict_get ov key of JStr s \<Rightarrow> Some s | _ \<Rightarrow> None)"

definition semantic_reuse_allowed :: "chat_request \<Rightarrow> settings \<Rightarrow> dict \<Rightarrow> bool \<times> string option" where
  "semantic_reuse_allowed r cfg ov =
     (if \<not> policy_bool ov ''semantic_enabled'' (cfg_semantic_enabled cfg)
      then (False, Some ''semantic_disabled'')
      else if req_stream r then (False, Some ''streaming_request'')
      else if opt_else (req_temperature r) 0 >
                policy_real ov ''semantic_max_temperature'' (cfg_semantic_max_temperature cfg)
      then (False, Some ''temperature_above_threshold'')
      else (True, None))"

definition semantic_cache_threshold :: "settings \<Rightarrow> dict \<Rightarrow> real" where
  "semantic_cache_threshold cfg ov = policy_real ov ''semantic_threshold'' (cfg_semantic_threshold cfg)"

definition resolve_upstream_bearer_token :: "service \<Rightarrow> proxy_context \<Rightarrow> string option" where
  "resolve_upstream_bearer_token svc ctx =
     (if cfg_controlplane_identity_enabled (svc_settings svc) \<and> truthy (ctx_tenant_id ctx) then None
      else ctx_bearer_token ctx)"

definition semantic_request_fingerprint :: "service \<Rightarrow> string \<Rightarrow> string" where
  "semantic_request_fingerprint svc t = svc_sha svc t"

section \<open>Billing access\<close>

definition blocked_detail :: "enforcement_state \<Rightarrow> string \<Rightarrow> commercial_event_row option \<Rightarrow> dict" where
  "blocked_detail es tenant_id latest =
     (let reason = opt_else (str_or (es_reason es) (Some ''service_suspended'')) ''service_suspended'';
          show_opt = (\<lambda>v. opt_else v ''None'');
          message = ''Tenant access is blocked pending billing conversion: '' @ reason @
            ''. Billing period '' @ show_opt (es_billing_period_id es) @ '' is '' @
            show_opt (es_billing_period_status es) @ '' after reaching $'' @
            format_fixed 2 (es_realized_savings_usd_total es) @ '' realized savings (threshold $'' @
            format_fixed 2 (es_threshold_usd es) @ '').''
      in [(''message'', JStr message), (''reason'', JStr reason), (''tenant_id'', JStr tenant_id),
          (''subscription_id'', json_of_str_option (es_subscription_id es)),
          (''subscription_status'', json_of_str_option (es_subscription_status es)),
          (''billing_period_id'', json_of_str_option (es_billing_period_id es)),
          (''billing_period_status'', json_of_str_option (es_billing_period_status es)),
          (''realized_savings_usd_total'', JFloat (es_realized_savings_usd_total es)),
          (''threshold_usd'', JFloat (es_threshold_usd es)),
          (''commercial_event_type'', JStr (case latest of
              Some e \<Rightarrow> ce_event_type e
            | None \<Rightarrow> if es_billing_period_status es = Some ''closed'' then ''billing_period_closed''
                      else ''patronage_required'')),
          (''commercial_event_status'', (case latest of
              Some e \<Rightarrow> JStr (ce_status e)
            | None \<Rightarrow> json_of_str_option (es_billing_period_status es))),
          (''recommended_action'', JStr ''activate_subscription'')])"

definition enforce_billing_access :: "service \<Rightarrow> proxy_context \<Rightarrow> database \<Rightarrow> unit result" where
  "enforce_billing_access svc ctx db =
     (case svc_billing svc of
        None \<Rightarrow> Inr ()
      | Some threshold \<Rightarrow>
          if \<not> truthy (ctx_tenant_id ctx) then Inr ()
          else let tenant_id = the (ctx_tenant_id ctx);
                   es = get_tenant_enforcement_state threshold db tenant_id
            in if \<not> es_blocked es then Inr ()
               else let latest = (if svc_commercial_events svc
                                  then latest_event_for_tenant db tenant_id []
                                         [''closing'', ''closed'', ''suspended'']
                                  else None)
                 in Inl (HTTPExceptionDetail 402 (blocked_detail es tenant_id latest)))"

section \<open>Scrubbing, usage and latency\<close>

definition scrub_request :: "service \<Rightarrow> string \<Rightarrow> scrub_result" where
  "scrub_request svc t =
     (if policy_bool (svc_overrides svc) ''dlp_enabled'' (cfg_dlp_enabled (svc_settings svc)) \<and>
         scrub_level (svc_dlp_policy svc) \<noteq> ''off''
      then scrub (svc_analyze svc) (svc_dlp_policy svc) t
      else unscrubbed t)"

definition count_scrub :: "scrub_result \<Rightarrow> ('k, 's) world \<Rightarrow> ('k, 's) world" where
  "count_scrub sr w =
     (let w = (if scrubbed_text sr \<noteq> original_text sr then tick ''scrubbed_requests'' w else w);
          w = (if pii_entities sr \<noteq> []
               then bump ''scrubbed_pii_entities'' (PInt (int (length (pii_entities sr)))) w else w)
      in if secret_entities sr \<noteq> []
         then bump ''scrubbed_secret_entities'' (PInt (int (length (secret_entities sr)))) w else w)"

definition record_usage_and_cost ::
  "chat_response \<Rightarrow> bool \<Rightarrow> ('k, 's) world \<Rightarrow> real \<times> ('k, 's) world" where
  "record_usage_and_cost resp savings w =
     (let u = resp_usage resp;
          w = bump ''usage_prompt_tokens_total'' (PInt (int (prompt_tokens u))) w;
          w = bump ''usage_completion_tokens_total'' (PInt (int (completion_tokens u))) w;
          w = bump ''usage_total_tokens_total'' (PInt (int (total_tokens u))) w;
          cost = estimate_cost_usd (resp_model resp) u
      in (cost, bump (if savings then ''estimated_savings_usd_total'' else ''estimated_upstream_cost_usd_total'')
                  (PFloat cost) w))"

definition record_latency :: "string \<Rightarrow> real \<Rightarrow> ('k, 's) world \<Rightarrow> ('k, 's) world" where
  "record_latency outcome elapsed_ms w =
     w\<lparr>w_metrics := observe (''request_latency_ms_'' @ outcome) elapsed_ms
                       (observe ''request_latency_ms'' elapsed_ms (w_metrics w))\<rparr>"

text \<open>The keys every outcome adds to \<open>response.metera\<close>.\<close>

definition common_metera :: "service \<Rightarrow> proxy_context \<Rightarrow> scrub_result \<Rightarrow> string \<Rightarrow> dict" where
  "common_metera svc ctx sr cache =
     [(''cache'', JStr cache), (''namespace'', JStr (ctx_namespace ctx)),
      (''request_id'', json_of_str_option (ctx_request_id ctx)),
      (''scrubbed'', JBool (scrubbed_text sr \<noteq> original_text sr)),
      (''pii_entities'', JArr (map JStr (pii_entities sr))),
      (''secret_entities'', JArr (map JStr (secret_entities sr))),
      (''scrub_level'', JStr (scrub_level (svc_dlp_policy svc))),
      (''active_custom_detectors'', JArr (map JStr (active_custom_detectors (svc_dlp_policy svc))))]"

definition with_metera :: "chat_response \<Rightarrow> dict \<Rightarrow> chat_response" where
  "with_metera resp kvs = resp\<lparr>resp_metera := dict_merge (resp_metera resp) kvs\<rparr>"

section \<open>Serving upstream\<close>

definition request_scope :: "chat_request \<Rightarrow> proxy_context \<Rightarrow> semantic_scope" where
  "request_scope r ctx = \<lparr>sc_namespace = ctx_namespace ctx, sc_tenant_id = ctx_tenant_id ctx,
     sc_workspace_id = ctx_workspace_id ctx, sc_model = req_model r\<rparr>"

definition entry_metadata :: "service \<Rightarrow> chat_request \<Rightarrow> scrub_result \<Rightarrow> dict" where
  "entry_metadata svc r sr =
     [(''source'', JStr ''upstream''),
      (''temperature'', case req_temperature r of None \<Rightarrow> JNull | Some t \<Rightarrow> JFloat t),
      (''stream'', JBool (req_stream r)), (''model'', JStr (req_model r)),
      (''request_fingerprint'', JStr (semantic_request_fingerprint svc (scrubbed_text sr)))]"

definition serve_upstream ::
  "('k, 's) cache_ops \<Rightarrow> service \<Rightarrow> times \<Rightarrow> chat_request \<Rightarrow> proxy_context \<Rightarrow> scrub_result \<Rightarrow> string \<Rightarrow>
   string \<Rightarrow> bool \<Rightarrow> string option \<Rightarrow> bool \<Rightarrow> ('k, 's) world \<Rightarrow>
   (chat_response \<times> string) result \<times> ('k, 's) world" where
  "serve_upstream ops svc ti r ctx sr normalized cache_key semantic_allowed bypass_reason background_tasks w =
     (let cfg = svc_settings svc;
          w = tick ''cache_misses'' w;
          shadow_threshold = policy_real (svc_overrides svc) ''semantic_shadow_threshold''
                               (cfg_semantic_shadow_threshold cfg);
          live_threshold = policy_real (svc_overrides svc) ''semantic_threshold''
                             (cfg_semantic_threshold cfg);
          bearer = resolve_upstream_bearer_token svc ctx;
          w = w\<lparr>w_upstream := w_upstream w @ [(r, bearer)]\<rparr>
      in case svc_provider svc r bearer of
           Inl e \<Rightarrow> (Inl e, w)
         | Inr resp \<Rightarrow>
             let (cost, w) = record_usage_and_cost resp False w;
                 resp = with_metera resp
                   (common_metera svc ctx sr ''miss'' @
                    [(''semantic_bypass_reason'', json_of_str_option bypass_reason),
                     (''estimated_cost_usd'', JFloat cost), (''estimated_savings_usd'', JFloat 0)]);
                 w = w\<lparr>w_exact := exact_set (op_set_json ops) (w_exact w) cache_key (svc_dump svc resp)
                                   (cfg_default_exact_ttl_seconds cfg)\<rparr>;
                 w = (if semantic_allowed then
                        let w = (if background_tasks \<and> svc_shadow_analytics svc \<and>
                                    shadow_threshold < live_threshold
                                 then w\<lparr>w_tasks := w_tasks w @
                                   [\<lparr>st_request_id = the (str_or (ctx_request_id ctx) (Some ''unknown'')),
                                     st_scope = request_scope r ctx,
                                     st_scrubbed_text = scrubbed_text sr, st_prompt_text = normalized,
                                     st_estimated_savings_usd = cost, st_live_threshold = live_threshold,
                                     st_shadow_threshold = shadow_threshold,
                                     st_created_before = t_cutoff ti\<rparr>]\<rparr>
                                 else w);
                            w = w\<lparr>w_semantic := add_entry (op_add ops) (svc_emb svc)
                                    (cfg_default_semantic_ttl_seconds cfg) (w_semantic w) (t_add ti)
                                    (request_scope r ctx) (scrubbed_text sr) (svc_dump svc resp)
                                    (entry_metadata svc r sr)\<rparr>
                        in tick ''semantic_candidates_indexed'' w
                      else w);
                 w = record_latency ''upstream'' (t_latency_ms ti) w
             in (Inr (resp, ''miss''), w))"

section \<open>Control-plane records\<close>

definition metera_float :: "chat_response \<Rightarrow> string \<Rightarrow> real" where
  "metera_float resp k = (case dict_get (resp_metera resp) k of
     JFloat x \<Rightarrow> x | JInt i \<Rightarrow> fl (of_int i) | _ \<Rightarrow> 0)"

definition event_row ::
  "service \<Rightarrow> times \<Rightarrow> chat_request \<Rightarrow> proxy_context \<Rightarrow> chat_response \<Rightarrow> string \<Rightarrow> string option \<Rightarrow>
   request_event_row" where
  "event_row svc ti r ctx resp cache_outcome bypass_reason = \<lparr>
     re_request_id = opt_else (ctx_request_id ctx) [], re_tenant_id = ctx_tenant_id ctx,
     re_workspace_id = ctx_workspace_id ctx, re_api_key_id = ctx_api_key_id ctx,
     re_namespace = ctx_namespace ctx, re_request_path = ''/v1/chat/completions'',
     re_model = req_model r, re_cache_outcome = cache_outcome,
     re_semantic_bypass_reason = bypass_reason,
     re_policy_mode = policy_str (svc_overrides svc) ''policy_mode'',
     re_request_stream = req_stream r,
     re_estimated_cost_usd = metera_float resp ''estimated_cost_usd'',
     re_estimated_savings_usd = metera_float resp ''estimated_savings_usd'',
     re_prompt_tokens = prompt_tokens (resp_usage resp),
     re_completion_tokens = completion_tokens (resp_usage resp),
     re_total_tokens = total_tokens (resp_usage resp),
     re_timings_ms = [(''request_latency_ms'', JFloat (t_elapsed_ms ti))],
     re_metadata = [(''api_key_prefix'', json_of_str_option (ctx_api_key_prefix ctx)),
                    (''tenant_role'', json_of_str_option (ctx_tenant_role ctx))],
     re_created_at = t_log ti \<rparr>"

definition ledger_entry ::
  "service \<Rightarrow> times \<Rightarrow> chat_request \<Rightarrow> proxy_context \<Rightarrow> chat_response \<Rightarrow> string \<Rightarrow> string option \<Rightarrow>
   ledger_row" where
  "ledger_entry svc ti r ctx resp cache_outcome bypass_reason = \<lparr>
     lr_request_id = opt_else (ctx_request_id ctx) [], lr_observed_at = t_log ti,
     lr_tenant_id = ctx_tenant_id ctx, lr_workspace_id = ctx_workspace_id ctx,
     lr_environment_id = ctx_environment_id ctx, lr_api_key_id = ctx_api_key_id ctx,
     lr_namespace = ctx_namespace ctx, lr_model = req_model r,
     lr_provider = Some ''openai_compatible'', lr_cache_outcome = cache_outcome,
     lr_semantic_bypass_reason = bypass_reason,
     lr_effective_policy_version_id = policy_str (svc_overrides svc) ''policy_version_id'',
     lr_effective_policy_mode = policy_str (svc_overrides svc) ''policy_mode'',
     lr_has_visual_context = False, lr_has_dom_context = False, lr_is_agentic = False,
     lr_identity_sensitive = False,
     lr_prompt_tokens = prompt_tokens (resp_usage resp),
     lr_completion_tokens = completion_tokens (resp_usage resp),
     lr_total_tokens = total_tokens (resp_usage resp),
     lr_estimated_upstream_cost_usd =
       (if cache_outcome = ''miss'' then metera_float resp ''estimated_cost_usd'' else 0),
     lr_estimated_realized_savings_usd = metera_float resp ''estimated_savings_usd'',
     lr_estimated_shadow_savings_usd = 0, lr_request_latency_ms = t_elapsed_ms ti,
     lr_profile_build_ms = 0, lr_semantic_lookup_ms = 0, lr_compatibility_validation_ms = 0,
     lr_upstream_ms = 0,
     lr_metadata = [(''tenant_slug'', json_of_str_option (ctx_tenant_slug ctx)),
                    (''workspace_slug'', json_of_str_option (ctx_workspace_slug ctx)),
                    (''api_key_prefix'', json_of_str_option (ctx_api_key_prefix ctx)),
                    (''api_key_display_name'', json_of_str_option (ctx_api_key_display_name ctx))] \<rparr>"

definition record_controlplane_events ::
  "service \<Rightarrow> times \<Rightarrow> chat_request \<Rightarrow> proxy_context \<Rightarrow> chat_response \<Rightarrow> string \<Rightarrow> string option \<Rightarrow>
   database \<Rightarrow> database" where
  "record_controlplane_events svc ti r ctx resp cache_outcome bypass_reason db =
     (let db = (if svc_request_events svc
                then log_request_event db (t_log ti) None
                       (event_row svc ti r ctx resp cache_outcome bypass_reason)
                else db)
      in if svc_request_ledger svc
         then log_request db (t_log ti) None (ledger_entry svc ti r ctx resp cache_outcome bypass_reason)
         else db)"

section \<open>Handling a request\<close>

definition serve_hit ::
  "service \<Rightarrow> times \<Rightarrow> proxy_context \<Rightarrow> scrub_result \<Rightarrow> string \<Rightarrow> string \<Rightarrow> dict \<Rightarrow> payload \<Rightarrow>
   ('k, 's) world \<Rightarrow> (chat_response \<times> string) result \<times> ('k, 's) world" where
  "serve_hit svc ti ctx sr name counter_name extra p w =
     (let w = tick counter_name w in
      case svc_load svc p of
        Inl e \<Rightarrow> (Inl e, w)
      | Inr resp \<Rightarrow>
          let (cost, w) = record_usage_and_cost resp True w;
              resp = with_metera resp
                (common_metera svc ctx sr name @ extra @
                 [(''estimated_cost_usd'', JFloat cost), (''estimated_savings_usd'', JFloat cost)])
          in (Inr (resp, name), record_latency name (t_latency_ms ti) w))"

text \<open>
  The branch after the exact lookup missed. Its value also carries the bypass reason the
  control-plane records take.
\<close>

definition serve_semantic ::
  "('k, 's) cache_ops \<Rightarrow> service \<Rightarrow> times \<Rightarrow> chat_request \<Rightarrow> proxy_context \<Rightarrow> scrub_result \<Rightarrow> string \<Rightarrow>
   string \<Rightarrow> bool \<Rightarrow> ('k, 's) world \<Rightarrow>
   ((chat_response \<times> string) result \<times> ('k, 's) world) \<times> string option" where
  "serve_semantic ops svc ti r ctx sr normalized cache_key background_tasks w =
     (let (semantic_allowed, bypass_reason) =
            semantic_reuse_allowed r (svc_settings svc) (svc_overrides svc);
          upstream = (\<lambda>reason. serve_upstream ops svc ti r ctx sr normalized cache_key
                        semantic_allowed reason background_tasks)
      in if semantic_allowed then
           let (s', hit) = find_match (op_prune ops) (op_find ops) (svc_emb svc)
                             (svc_semantic_threshold svc) (w_semantic w) (t_lookup ti)
                             (request_scope r ctx) (scrubbed_text sr) None None;
               w = w\<lparr>w_semantic := s'\<rparr>
           in case hit of
                None \<Rightarrow> (upstream bypass_reason w, bypass_reason)
              | Some h \<Rightarrow>
                  if dict_get (sh_metadata h) ''request_fingerprint'' \<noteq>
                       JStr (semantic_request_fingerprint svc (scrubbed_text sr))
                  then (upstream (Some ''shadow_regression_alert'') w, Some ''shadow_regression_alert'')
                  else (serve_hit svc ti ctx sr ''semantic_hit'' ''cache_semantic_hits''
                          [(''semantic_similarity'', JFloat (sh_similarity h)),
                           (''semantic_metadata'', JObj (sh_metadata h))] (sh_payload h) w,
                        bypass_reason)
         else (upstream bypass_reason (tick ''semantic_bypasses'' w), bypass_reason))"

definition request_cache_key :: "service \<Rightarrow> proxy_context \<Rightarrow> scrub_result \<Rightarrow> string" where
  "request_cache_key svc ctx sr =
     build_exact_cache_key (ctx_namespace ctx)
       (compute_exact_hash (svc_sha svc) (ctx_namespace ctx) ''chat.completions'' (scrubbed_text sr))"

definition serve_cached ::
  "('k, 's) cache_ops \<Rightarrow> service \<Rightarrow> times \<Rightarrow> chat_request \<Rightarrow> proxy_context \<Rightarrow> scrub_result \<Rightarrow> string \<Rightarrow>
   bool \<Rightarrow> ('k, 's) world \<Rightarrow> ((chat_response \<times> string) result \<times> ('k, 's) world) \<times> string option" where
  "serve_cached ops svc ti r ctx sr normalized background_tasks w =
     (let cache_key = request_cache_key svc ctx sr in
      case exact_get (op_get_json ops) (w_exact w) cache_key of
        Some hit \<Rightarrow> (serve_hit svc ti ctx sr ''exact_hit'' ''cache_exact_hits'' [] (hit_payload hit) w, None)
      | None \<Rightarrow> serve_semantic ops svc ti r ctx sr normalized cache_key background_tasks w)"

definition handle_chat_completion ::
  "('k, 's) cache_ops \<Rightarrow> service \<Rightarrow> times \<Rightarrow> chat_request \<Rightarrow> proxy_context \<Rightarrow> bool \<Rightarrow>
   ('k, 's) world \<Rightarrow> chat_response result \<times> ('k, 's) world" where
  "handle_chat_completion ops svc ti r ctx background_tasks w =
     (let w = tick ''requests_total'' w in
      case enforce_billing_access svc ctx (w_db w) of
        Inl e \<Rightarrow> (Inl e, w)
      | Inr _ \<Rightarrow>
          (case canonicalize_request (svc_repr_float svc) r of
             Inl e \<Rightarrow> (Inl e, w)
           | Inr normalized \<Rightarrow>
               let sr = scrub_request svc normalized;
                   w = count_scrub sr w;
                   ((res, w), bypass_reason) = serve_cached ops svc ti r ctx sr normalized background_tasks w
               in case res of
                    Inl e \<Rightarrow> (Inl e, w)
                  | Inr (resp, cache_outcome) \<Rightarrow>
                      (Inr resp,
                       w\<lparr>w_db := record_controlplane_events svc ti r ctx resp cache_outcome bypass_reason
                                    (w_db w)\<rparr>)))"

definition handle_chat_completion_stream ::
  "service \<Rightarrow> chat_request \<Rightarrow> proxy_context \<Rightarrow> ('k, 's) world \<Rightarrow> string list result \<times> ('k, 's) world" where
  "handle_chat_completion_stream svc r ctx w =
     (let w = tick ''streaming_requests_total'' (tick ''requests_total'' w) in
      case enforce_billing_access svc ctx (w_db w) of
        Inl e \<Rightarrow> (Inl e, w)
      | Inr _ \<Rightarrow>
          (case canonicalize_request (svc_repr_float svc) r of
             Inl e \<Rightarrow> (Inl e, w)
           | Inr normalized \<Rightarrow>
               let w = count_scrub (scrub_request svc normalized) w;
                   w = tick ''streaming_cache_bypasses'' (tick ''semantic_bypasses'' w);
                   bearer = resolve_upstream_bearer_token svc ctx
               in (svc_stream_provider svc r bearer, w\<lparr>w_upstream := w_upstream w @ [(r, bearer)]\<rparr>)))"

section \<open>Background measurement and invalidation\<close>

definition record_shadow_semantic_outcome ::
  "('k, 's) cache_ops \<Rightarrow> service \<Rightarrow> timestamp \<Rightarrow> shadow_task \<Rightarrow> ('k, 's) world \<Rightarrow> ('k, 's) world" where
  "record_shadow_semantic_outcome ops svc now task w =
     (let (s', hit) = find_match (op_prune ops) (op_find ops) (svc_emb svc)
            (svc_semantic_threshold svc) (w_semantic w) now (st_scope task) (st_scrubbed_text task)
            (Some (st_shadow_threshold task)) (Some (st_created_before task));
          w = w\<lparr>w_semantic := s'\<rparr>
      in case hit of
           None \<Rightarrow> w
         | Some h \<Rightarrow>
             if sh_similarity h \<ge> st_live_threshold task then w
             else
               let db = log_shadow_hit (w_db w) now
                     \<lparr>sa_request_id = st_request_id task, sa_namespace = sc_namespace (st_scope task),
                      sa_model = sc_model (st_scope task), sa_prompt_text = st_prompt_text task,
                      sa_similarity_score = sh_similarity h,
                      sa_calculated_savings_usd = st_estimated_savings_usd task,
                      sa_live_threshold = st_live_threshold task,
                      sa_shadow_threshold = st_shadow_threshold task, sa_created_at = now\<rparr>;
                   db = (if svc_shadow_savings svc
                         then log_shadow_savings db now None
                           \<lparr>ss_request_id = st_request_id task, ss_tenant_id = None,
                            ss_workspace_id = None, ss_namespace = sc_namespace (st_scope task),
                            ss_similarity_score = sh_similarity h,
                            ss_live_threshold = st_live_threshold task,
                            ss_shadow_threshold = st_shadow_threshold task,
                            ss_calculated_savings_usd = st_estimated_savings_usd task,
                            ss_payload = [(''model'', JStr (sc_model (st_scope task))),
                                          (''source'', JStr ''shadow_semantic_analysis'')],
                            ss_created_at = now\<rparr>
                         else db);
                   db = fst (purge_expired db now 14)
               in tick ''semantic_shadow_logs_written'' (tick ''semantic_shadow_hits'' (w\<lparr>w_db := db\<rparr>)))"

definition invalidate_namespace ::
  "('k, 's) cache_ops \<Rightarrow> string \<Rightarrow> ('k, 's) world \<Rightarrow> (nat \<times> nat) \<times> ('k, 's) world" where
  "invalidate_namespace ops ns w =
     (let (k', exact_deleted) = exact_invalidate_namespace (op_delete_prefix ops) (w_exact w) ns;
          (s', semantic_deleted) = op_invalidate ops (w_semantic w) ns;
          w = w\<lparr>w_exact := k', w_semantic := s'\<rparr>;
          w = tick ''admin_cache_invalidations'' w;
          w = bump ''admin_exact_cache_deleted'' (PInt (int exact_deleted)) w;
          w = bump ''admin_semantic_cache_deleted'' (PInt (int semantic_deleted)) w
      in ((exact_deleted, semantic_deleted), w))"

end
