(* ===== verification/ProxyFacts.thy ===== *)
theory ProxyFacts
  imports Proxy
begin

text \<open>
  What handling a request does to the world: which parts each branch touches, the calls that
  reach the provider, what the caches hold afterwards, the ledger row, and the request
  counters. The facts that depend on a cache are proved in the locale \<open>proxy_caches\<close>, which
  joins the two store interfaces, and reach the code through its interpretations.
\<close>

named_theorems frame_simps \<open>parts of the world a helper leaves alone\<close>

section \<open>Frames\<close>

lemma bump_frame [frame_simps]:
  "w_exact (bump n v w) = w_exact w" "w_semantic (bump n v w) = w_semantic w"
  "w_db (bump n v w) = w_db w" "w_tasks (bump n v w) = w_tasks w"
  "w_upstream (bump n v w) = w_upstream w"
  by (simp_all add: bump_def)

lemma tick_frame [frame_simps]:
  "w_exact (tick n w) = w_exact w" "w_semantic (tick n w) = w_semantic w"
  "w_db (tick n w) = w_db w" "w_tasks (tick n w) = w_tasks w" "w_upstream (tick n w) = w_upstream w"
  by (simp_all add: tick_def frame_simps)

lemma count_scrub_frame [frame_simps]:
  "w_exact (count_scrub sr w) = w_exact w" "w_semantic (count_scrub sr w) = w_semantic w"
  "w_db (count_scrub sr w) = w_db w" "w_tasks (count_scrub sr w) = w_tasks w"
  "w_upstream (count_scrub sr w) = w_upstream w"
  by (simp_all add: count_scrub_def Let_def frame_simps)

lemma record_usage_frame [frame_simps]:
  "w_exact (snd (record_usage_and_cost resp b w)) = w_exact w"
  "w_semantic (snd (record_usage_and_cost resp b w)) = w_semantic w"
  "w_db (snd (record_usage_and_cost resp b w)) = w_db w"
  "w_tasks (snd (record_usage_and_cost resp b w)) = w_tasks w"
  "w_upstream (snd (record_usage_and_cost resp b w)) = w_upstream w"
  "fst (record_usage_and_cost resp b w) = estimate_cost_usd (resp_model resp) (resp_usage resp)"
  by (simp_all add: record_usage_and_cost_def Let_def frame_simps)

lemma record_latency_frame [frame_simps]:
  "w_exact (record_latency n x w) = w_exact w" "w_semantic (record_latency n x w) = w_semantic w"
  "w_db (record_latency n x w) = w_db w" "w_tasks (record_latency n x w) = w_tasks w"
  "w_upstream (record_latency n x w) = w_upstream w"
  by (simp_all add: record_latency_def)

lemma with_metera_frame [simp]:
  "resp_choices (with_metera resp d) = resp_choices resp" "resp_usage (with_metera resp d) = resp_usage resp"
  "resp_model (with_metera resp d) = resp_model resp" "resp_id (with_metera resp d) = resp_id resp"
  by (simp_all add: with_metera_def)

section \<open>Branches\<close>

definition resp_cost :: "chat_response \<Rightarrow> real" where
  "resp_cost resp = estimate_cost_usd (resp_model resp) (resp_usage resp)"

text \<open>Reading a key of \<open>response.metera\<close> that an outcome has written.\<close>

lemmas metera_simps = with_metera_def common_metera_def dict_merge_def dict_get_update resp_cost_def

lemma serve_hit_frame:
  "w_exact (snd (serve_hit svc ti ctx sr name cn extra p w)) = w_exact w"
  "w_semantic (snd (serve_hit svc ti ctx sr name cn extra p w)) = w_semantic w"
  "w_db (snd (serve_hit svc ti ctx sr name cn extra p w)) = w_db w"
  "w_tasks (snd (serve_hit svc ti ctx sr name cn extra p w)) = w_tasks w"
  "w_upstream (snd (serve_hit svc ti ctx sr name cn extra p w)) = w_upstream w"
  by (simp_all add: serve_hit_def Let_def case_prod_beta frame_simps split: sum.splits)

lemma serve_hit_cases:
  "serve_hit svc ti ctx sr name cn extra p w = (case svc_load svc p of
     Inl e \<Rightarrow> (Inl e, tick cn w)
   | Inr resp \<Rightarrow>
       (Inr (with_metera resp (common_metera svc ctx sr name @ extra @
               [(''estimated_cost_usd'', JFloat (resp_cost resp)),
                (''estimated_savings_usd'', JFloat (resp_cost resp))]), name),
        record_latency name (t_latency_ms ti) (snd (record_usage_and_cost resp True (tick cn w)))))"
  by (simp add: serve_hit_def Let_def case_prod_beta frame_simps resp_cost_def split: sum.splits)

lemma serve_upstream_error:
  assumes "svc_provider svc r (resolve_upstream_bearer_token svc ctx) = Inl e"
  shows "serve_upstream ops svc ti r ctx sr nt key allowed reason bt w =
    (Inl e, (tick ''cache_misses'' w)\<lparr>w_upstream :=
       w_upstream w @ [(r, resolve_upstream_bearer_token svc ctx)]\<rparr>)"
  using assms by (simp add: serve_upstream_def Let_def frame_simps)

text \<open>The response a successful upstream call is turned into.\<close>

definition miss_response ::
  "service \<Rightarrow> proxy_context \<Rightarrow> scrub_result \<Rightarrow> string option \<Rightarrow> chat_response \<Rightarrow> chat_response" where
  "miss_response svc ctx sr reason resp =
     with_metera resp
       (common_metera svc ctx sr ''miss'' @
        [(''semantic_bypass_reason'', json_of_str_option reason),
         (''estimated_cost_usd'', JFloat (resp_cost resp)), (''estimated_savings_usd'', JFloat 0)])"

lemma serve_upstream_ok:
  assumes "svc_provider svc r (resolve_upstream_bearer_token svc ctx) = Inr resp"
  shows "fst (serve_upstream ops svc ti r ctx sr nt key allowed reason bt w) =
      Inr (miss_response svc ctx sr reason resp, ''miss'')"
    "w_upstream (snd (serve_upstream ops svc ti r ctx sr nt key allowed reason bt w)) =
      w_upstream w @ [(r, resolve_upstream_bearer_token svc ctx)]"
    "w_exact (snd (serve_upstream ops svc ti r ctx sr nt key allowed reason bt w)) =
      exact_set (op_set_json ops) (w_exact w) key (svc_dump svc (miss_response svc ctx sr reason resp))
        (cfg_default_exact_ttl_seconds (svc_settings svc))"
    "w_semantic (snd (serve_upstream ops svc ti r ctx sr nt key allowed reason bt w)) =
      (if allowed
       then add_entry (op_add ops) (svc_emb svc) (cfg_default_semantic_ttl_seconds (svc_settings svc))
              (w_semantic w) (t_add ti) (request_scope r ctx) (scrubbed_text sr)
              (svc_dump svc (miss_response svc ctx sr reason resp)) (entry_metadata svc r sr)
       else w_semantic w)"
    "w_db (snd (serve_upstream ops svc ti r ctx sr nt key allowed reason bt w)) = w_db w"
  using assms
  by (simp_all add: serve_upstream_def Let_def case_prod_beta frame_simps miss_response_def resp_cost_def)

lemma serve_upstream_upstream:
  "w_upstream (snd (serve_upstream ops svc ti r ctx sr nt key allowed reason bt w)) =
   w_upstream w @ [(r, resolve_upstream_bearer_token svc ctx)]"
  by (cases "svc_provider svc r (resolve_upstream_bearer_token svc ctx)")
    (simp_all add: serve_upstream_error serve_upstream_ok)

lemma serve_upstream_outcome:
  assumes "serve_upstream ops svc ti r ctx sr nt key allowed reason bt w = (Inr (resp, outcome), w1)"
  shows "outcome = ''miss''"
proof (cases "svc_provider svc r (resolve_upstream_bearer_token svc ctx)")
  case (Inl err)
  with assms show ?thesis by (simp add: serve_upstream_error)
next
  case (Inr u)
  from serve_upstream_ok(1) [where svc = svc and ops = ops, OF Inr, of ti sr nt key allowed reason bt w] assms
  show ?thesis by simp
qed

text \<open>The world handed to the lookup, and what \<open>handle_chat_completion\<close> does in each case.\<close>

definition scrubbed_request :: "service \<Rightarrow> chat_request \<Rightarrow> scrub_result result" where
  "scrubbed_request svc r =
     rbind (canonicalize_request (svc_repr_float svc) r) (\<lambda>nt. Inr (scrub_request svc nt))"

definition admitted :: "service \<Rightarrow> chat_request \<Rightarrow> proxy_context \<Rightarrow> database \<Rightarrow> scrub_result \<Rightarrow> string \<Rightarrow> bool" where
  "admitted svc r ctx db sr nt \<longleftrightarrow> enforce_billing_access svc ctx db = Inr () \<and>
     canonicalize_request (svc_repr_float svc) r = Inr nt \<and> sr = scrub_request svc nt"

definition entry_world :: "scrub_result \<Rightarrow> ('k, 's) world \<Rightarrow> ('k, 's) world" where
  "entry_world sr w = count_scrub sr (tick ''requests_total'' w)"

lemma entry_world_frame [frame_simps]:
  "w_exact (entry_world sr w) = w_exact w" "w_semantic (entry_world sr w) = w_semantic w"
  "w_db (entry_world sr w) = w_db w" "w_tasks (entry_world sr w) = w_tasks w"
  "w_upstream (entry_world sr w) = w_upstream w"
  by (simp_all add: entry_world_def frame_simps)

lemma handle_refused:
  "enforce_billing_access svc ctx (w_db w) = Inl e \<Longrightarrow>
   handle_chat_completion ops svc ti r ctx bt w = (Inl e, tick ''requests_total'' w)"
  by (simp add: handle_chat_completion_def Let_def frame_simps)

lemma handle_admitted:
  assumes "admitted svc r ctx (w_db w) sr nt"
    and "serve_cached ops svc ti r ctx sr nt bt (entry_world sr w) = ((res, w1), reason)"
  shows "handle_chat_completion ops svc ti r ctx bt w =
    (case res of
       Inl e \<Rightarrow> (Inl e, w1)
     | Inr (resp, outcome) \<Rightarrow>
         (Inr resp, w1\<lparr>w_db := record_controlplane_events svc ti r ctx resp outcome reason (w_db w1)\<rparr>))"
  using assms by (simp add: handle_chat_completion_def Let_def admitted_def entry_world_def frame_simps)

lemma handle_Inr_admitted:
  assumes "handle_chat_completion ops svc ti r ctx bt w = (Inr resp, w')"
  obtains sr nt res w1 reason outcome where "admitted svc r ctx (w_db w) sr nt"
    "serve_cached ops svc ti r ctx sr nt bt (entry_world sr w) = ((Inr (resp, outcome), w1), reason)"
    "w' = w1\<lparr>w_db := record_controlplane_events svc ti r ctx resp outcome reason (w_db w1)\<rparr>"
proof -
  obtain u where e: "enforce_billing_access svc ctx (w_db w) = Inr u"
    using assms by (cases "enforce_billing_access svc ctx (w_db w)")
      (simp_all add: handle_chat_completion_def Let_def frame_simps)
  obtain nt where n: "canonicalize_request (svc_repr_float svc) r = Inr nt"
    using assms e by (cases "canonicalize_request (svc_repr_float svc) r")
      (simp_all add: handle_chat_completion_def Let_def frame_simps)
  let ?sr = "scrub_request svc nt"
  have adm: "admitted svc r ctx (w_db w) ?sr nt" using e n by (simp add: admitted_def)
  obtain res w1 reason where s: "serve_cached ops svc ti r ctx ?sr nt bt (entry_world ?sr w) = ((res, w1), reason)"
    by (metis prod.collapse)
  from handle_admitted [OF adm s] assms obtain outcome where "res = Inr (resp, outcome)"
    "w' = w1\<lparr>w_db := record_controlplane_events svc ti r ctx resp outcome reason (w_db w1)\<rparr>"
    by (auto split: sum.splits)
  with that adm s show thesis by blast
qed

section \<open>The three ways to answer\<close>

definition lookup_match ::
  "('k, 's) cache_ops \<Rightarrow> service \<Rightarrow> times \<Rightarrow> chat_request \<Rightarrow> proxy_context \<Rightarrow> scrub_result \<Rightarrow> 's \<Rightarrow>
   's \<times> semantic_hit option" where
  "lookup_match ops svc ti r ctx sr s =
     find_match (op_prune ops) (op_find ops) (svc_emb svc) (svc_semantic_threshold svc) s (t_lookup ti)
       (request_scope r ctx) (scrubbed_text sr) None None"

lemma serve_cached_cases:
  obtains
    (exact) hit where
      "exact_get (op_get_json ops) (w_exact w) (request_cache_key svc ctx sr) = Some hit"
      "serve_cached ops svc ti r ctx sr nt bt w =
        (serve_hit svc ti ctx sr ''exact_hit'' ''cache_exact_hits'' [] (hit_payload hit) w, None)"
  | (semantic) s' h extra where
      "extra = [(''semantic_similarity'', JFloat (sh_similarity h)), (''semantic_metadata'', JObj (sh_metadata h))]"
      "exact_get (op_get_json ops) (w_exact w) (request_cache_key svc ctx sr) = None"
      "lookup_match ops svc ti r ctx sr (w_semantic w) = (s', Some h)"
      "dict_get (sh_metadata h) ''request_fingerprint'' = JStr (semantic_request_fingerprint svc (scrubbed_text sr))"
      "serve_cached ops svc ti r ctx sr nt bt w =
        (serve_hit svc ti ctx sr ''semantic_hit'' ''cache_semantic_hits'' extra (sh_payload h)
           (w\<lparr>w_semantic := s'\<rparr>), None)"
  | (upstream) w0 allowed reason where
      "exact_get (op_get_json ops) (w_exact w) (request_cache_key svc ctx sr) = None"
      "serve_cached ops svc ti r ctx sr nt bt w =
        (serve_upstream ops svc ti r ctx sr nt (request_cache_key svc ctx sr) allowed reason bt w0, reason)"
      "w0 = w\<lparr>w_semantic := fst (lookup_match ops svc ti r ctx sr (w_semantic w))\<rparr> \<or>
       w0 = tick ''semantic_bypasses'' w"
proof (cases "exact_get (op_get_json ops) (w_exact w) (request_cache_key svc ctx sr)")
  case (Some hit)
  then show thesis by (intro exact) (simp_all add: serve_cached_def Let_def)
next
  case none: None
  obtain allowed reason where al: "semantic_reuse_allowed r (svc_settings svc) (svc_overrides svc) = (allowed, reason)"
    by fastforce
  have sc: "serve_cached ops svc ti r ctx sr nt bt w =
      serve_semantic ops svc ti r ctx sr nt (request_cache_key svc ctx sr) bt w"
    using none by (simp add: serve_cached_def Let_def)
  obtain s' hit where lm: "lookup_match ops svc ti r ctx sr (w_semantic w) = (s', hit)" by fastforce
  show thesis
  proof (cases allowed)
    case False
    with none sc al upstream show thesis by (simp add: serve_semantic_def)
  next
    case True
    then have reason: "reason = None" using al by (auto simp: semantic_reuse_allowed_def split: if_splits)
    show thesis
    proof (cases hit)
      case None
      have "serve_cached ops svc ti r ctx sr nt bt w =
          (serve_upstream ops svc ti r ctx sr nt (request_cache_key svc ctx sr) allowed reason bt
             (w\<lparr>w_semantic := s'\<rparr>), reason)"
        using sc al True None lm by (simp add: serve_semantic_def lookup_match_def)
      from upstream [OF none this] lm show thesis by simp
    next
      case (Some h)
      show thesis
      proof (cases "dict_get (sh_metadata h) ''request_fingerprint'' =
          JStr (semantic_request_fingerprint svc (scrubbed_text sr))")
        case fp: True
        have "serve_cached ops svc ti r ctx sr nt bt w =
            (serve_hit svc ti ctx sr ''semantic_hit'' ''cache_semantic_hits''
               [(''semantic_similarity'', JFloat (sh_similarity h)), (''semantic_metadata'', JObj (sh_metadata h))]
               (sh_payload h) (w\<lparr>w_semantic := s'\<rparr>), None)"
          using sc al True Some lm fp reason by (simp add: serve_semantic_def lookup_match_def)
        with semantic [OF refl none] lm fp Some show thesis by simp
      next
        case False
        have "serve_cached ops svc ti r ctx sr nt bt w =
            (serve_upstream ops svc ti r ctx sr nt (request_cache_key svc ctx sr) allowed
               (Some ''shadow_regression_alert'') bt (w\<lparr>w_semantic := s'\<rparr>), Some ''shadow_regression_alert'')"
          using sc al True Some lm False by (simp add: serve_semantic_def lookup_match_def)
        from upstream [OF none this] lm show thesis by simp
      qed
    qed
  qed
qed

lemma serve_cached_upstream:
  assumes "serve_cached ops svc ti r ctx sr nt bt w = ((res, w1), reason)"
  shows "w_upstream w1 = w_upstream w \<or>
    w_upstream w1 = w_upstream w @ [(r, resolve_upstream_bearer_token svc ctx)]"
proof (cases rule: serve_cached_cases [of ops w svc ctx sr ti r nt bt])
  case (exact hit)
  with assms serve_hit_frame(5) show ?thesis by (metis fst_conv snd_conv)
next
  case (semantic s' h extra)
  with assms have "w1 = snd (serve_hit svc ti ctx sr ''semantic_hit'' ''cache_semantic_hits'' extra
      (sh_payload h) (w\<lparr>w_semantic := s'\<rparr>))" by (metis fst_conv snd_conv)
  then show ?thesis by (simp add: serve_hit_frame)
next
  case (upstream w0 allowed reason')
  with assms have "w1 = snd (serve_upstream ops svc ti r ctx sr nt (request_cache_key svc ctx sr) allowed
      reason' bt w0)" by (metis fst_conv snd_conv)
  moreover have "w_upstream w0 = w_upstream w" using upstream(3) by (auto simp: frame_simps)
  ultimately show ?thesis by (simp add: serve_upstream_upstream)
qed

text \<open>
  An answer from a cache and a failed request leave the semantic store as it was, but for the
  entries a lookup prunes.
\<close>

definition pruned_only ::
  "('k, 's) cache_ops \<Rightarrow> times \<Rightarrow> ('k, 's) world \<Rightarrow> ('k, 's) world \<Rightarrow> bool" where
  "pruned_only ops ti w w' \<longleftrightarrow>
     w_semantic w' = w_semantic w \<or> w_semantic w' = fst (op_prune ops (w_semantic w) (t_lookup ti))"

lemma lookup_match_prunes: "fst (lookup_match ops svc ti r ctx sr s) = fst (op_prune ops s (t_lookup ti))"
  by (simp add: lookup_match_def find_match_def Let_def)

lemma serve_cached_outcome:
  assumes "serve_cached ops svc ti r ctx sr nt bt w = ((Inr (resp, outcome), w1), reason)"
  shows "(outcome = ''miss'' \<and> w_upstream w1 = w_upstream w @ [(r, resolve_upstream_bearer_token svc ctx)] \<and>
     (\<exists>u. svc_provider svc r (resolve_upstream_bearer_token svc ctx) = Inr u \<and>
        resp = miss_response svc ctx sr reason u \<and>
        w_exact w1 = exact_set (op_set_json ops) (w_exact w) (request_cache_key svc ctx sr)
          (svc_dump svc resp) (cfg_default_exact_ttl_seconds (svc_settings svc)))) \<or>
    (outcome \<in> {''exact_hit'', ''semantic_hit''} \<and> w_upstream w1 = w_upstream w \<and> w_exact w1 = w_exact w \<and>
     pruned_only ops ti w w1 \<and>
     (\<exists>c. dict_get (resp_metera resp) ''estimated_cost_usd'' = JFloat c \<and>
          dict_get (resp_metera resp) ''estimated_savings_usd'' = JFloat c \<and> c = resp_cost resp))"
proof (cases rule: serve_cached_cases [of ops w svc ctx sr ti r nt bt])
  case (exact hit)
  with assms have e: "serve_hit svc ti ctx sr ''exact_hit'' ''cache_exact_hits'' [] (hit_payload hit) w =
      (Inr (resp, outcome), w1)" by simp
  from serve_hit_frame [of svc ti ctx sr "''exact_hit''" "''cache_exact_hits''" "[]" "hit_payload hit" w] e
  show ?thesis
    by (auto simp: serve_hit_cases metera_simps pruned_only_def split: sum.splits)
next
  case (semantic s' h extra)
  with assms have e: "serve_hit svc ti ctx sr ''semantic_hit'' ''cache_semantic_hits'' extra (sh_payload h)
      (w\<lparr>w_semantic := s'\<rparr>) = (Inr (resp, outcome), w1)" by simp
  from serve_hit_frame [of svc ti ctx sr "''semantic_hit''" "''cache_semantic_hits''" extra "sh_payload h"
      "w\<lparr>w_semantic := s'\<rparr>"] e
    semantic(3) lookup_match_prunes [of ops svc ti r ctx sr "w_semantic w"]
  show ?thesis
    by (auto simp: serve_hit_cases metera_simps pruned_only_def split: sum.splits)
next
  case (upstream w0 allowed reason')
  with assms have e: "serve_upstream ops svc ti r ctx sr nt (request_cache_key svc ctx sr) allowed
      reason bt w0 = (Inr (resp, outcome), w1)" by auto
  have w0: "w_upstream w0 = w_upstream w" "w_exact w0 = w_exact w" using upstream(3) by (auto simp: frame_simps)
  show ?thesis
  proof (cases "svc_provider svc r (resolve_upstream_bearer_token svc ctx)")
    case (Inl err)
    with e show ?thesis by (simp add: serve_upstream_error)
  next
    case (Inr u)
    from serve_upstream_ok [where svc = svc and ops = ops, OF Inr, of ti sr nt "request_cache_key svc ctx sr"
        allowed reason bt w0] e w0 Inr
    show ?thesis by simp
  qed
qed

text \<open>A failed answer leaves the exact cache and the database as they were.\<close>

lemma serve_cached_error:
  assumes "serve_cached ops svc ti r ctx sr nt bt w = ((Inl e, w1), reason)"
  shows "w_exact w1 = w_exact w \<and> w_db w1 = w_db w \<and> w_tasks w1 = w_tasks w \<and> pruned_only ops ti w w1"
proof (cases rule: serve_cached_cases [of ops w svc ctx sr ti r nt bt])
  case (exact hit)
  with assms have "w1 = snd (serve_hit svc ti ctx sr ''exact_hit'' ''cache_exact_hits'' [] (hit_payload hit) w)"
    by (metis fst_conv snd_conv)
  then show ?thesis by (simp add: serve_hit_frame pruned_only_def)
next
  case (semantic s' h extra)
  have p: "s' = fst (op_prune ops (w_semantic w) (t_lookup ti))"
    using semantic(3) lookup_match_prunes [of ops svc ti r ctx sr "w_semantic w"] by simp
  from semantic assms have "w1 = snd (serve_hit svc ti ctx sr ''semantic_hit'' ''cache_semantic_hits'' extra
      (sh_payload h) (w\<lparr>w_semantic := s'\<rparr>))" by (metis fst_conv snd_conv)
  then show ?thesis by (simp add: serve_hit_frame pruned_only_def p)
next
  case (upstream w0 allowed reason')
  with assms have eq: "serve_upstream ops svc ti r ctx sr nt (request_cache_key svc ctx sr) allowed
      reason' bt w0 = (Inl e, w1)" by auto
  have w0: "w_exact w0 = w_exact w" "w_db w0 = w_db w" "w_tasks w0 = w_tasks w" "pruned_only ops ti w w0"
    using upstream(3) by (auto simp: frame_simps pruned_only_def lookup_match_prunes)
  show ?thesis
  proof (cases "svc_provider svc r (resolve_upstream_bearer_token svc ctx)")
    case (Inl err)
    with eq w0 show ?thesis by (auto simp: serve_upstream_error frame_simps pruned_only_def)
  next
    case (Inr u)
    from serve_upstream_ok(1) [where svc = svc and ops = ops, OF Inr, of ti sr nt "request_cache_key svc ctx sr"
        allowed reason' bt w0] eq show ?thesis by simp
  qed
qed

lemma handle_Inl_frame:
  assumes "handle_chat_completion ops svc ti r ctx bt w = (Inl e, w')"
  shows "w_exact w' = w_exact w \<and> w_db w' = w_db w \<and> w_tasks w' = w_tasks w \<and> pruned_only ops ti w w'"
proof (cases "enforce_billing_access svc ctx (w_db w)")
  case (Inl err)
  then show ?thesis using assms by (auto simp: handle_refused frame_simps pruned_only_def)
next
  case ok: (Inr u)
  show ?thesis
  proof (cases "canonicalize_request (svc_repr_float svc) r")
    case (Inl err)
    with ok assms show ?thesis by (auto simp: handle_chat_completion_def Let_def frame_simps pruned_only_def)
  next
    case (Inr nt)
    let ?sr = "scrub_request svc nt"
    have adm: "admitted svc r ctx (w_db w) ?sr nt" using ok Inr by (simp add: admitted_def)
    obtain res w1 reason where
      sc: "serve_cached ops svc ti r ctx ?sr nt bt (entry_world ?sr w) = ((res, w1), reason)"
      by (metis prod.collapse)
    from handle_admitted [OF adm sc] assms have "res = Inl e" "w' = w1" by (auto split: sum.splits)
    with serve_cached_error [of ops svc ti r ctx ?sr nt bt "entry_world ?sr w" e w1 reason] sc
    show ?thesis by (simp add: frame_simps pruned_only_def)
  qed
qed

text \<open>What a response that says it is a semantic hit was made of.\<close>

lemma serve_cached_semantic:
  assumes "serve_cached ops svc ti r ctx sr nt bt w = ((Inr (resp, outcome), w1), reason)"
    and "dict_get (resp_metera resp) ''cache'' = JStr ''semantic_hit''"
  shows "\<exists>s' h stored. lookup_match ops svc ti r ctx sr (w_semantic w) = (s', Some h) \<and>
    dict_get (sh_metadata h) ''request_fingerprint'' = JStr (semantic_request_fingerprint svc (scrubbed_text sr)) \<and>
    svc_load svc (sh_payload h) = Inr stored \<and> resp_choices resp = resp_choices stored \<and>
    resp_usage resp = resp_usage stored"
proof (cases rule: serve_cached_cases [of ops w svc ctx sr ti r nt bt])
  case (exact hit)
  with assms have "serve_hit svc ti ctx sr ''exact_hit'' ''cache_exact_hits'' [] (hit_payload hit) w =
      (Inr (resp, outcome), w1)" by simp
  with assms(2) show ?thesis by (auto simp: serve_hit_cases metera_simps split: sum.splits)
next
  case (semantic s' h extra)
  with assms have "serve_hit svc ti ctx sr ''semantic_hit'' ''cache_semantic_hits'' extra (sh_payload h)
      (w\<lparr>w_semantic := s'\<rparr>) = (Inr (resp, outcome), w1)" by simp
  with semantic(3,4) show ?thesis by (auto simp: serve_hit_cases split: sum.splits)
next
  case (upstream w0 allowed reason')
  with assms have e: "serve_upstream ops svc ti r ctx sr nt (request_cache_key svc ctx sr) allowed
      reason bt w0 = (Inr (resp, outcome), w1)" by auto
  show ?thesis
  proof (cases "svc_provider svc r (resolve_upstream_bearer_token svc ctx)")
    case (Inl err)
    with e show ?thesis by (simp add: serve_upstream_error)
  next
    case (Inr u)
    from serve_upstream_ok(1) [where svc = svc and ops = ops, OF Inr, of ti sr nt "request_cache_key svc ctx sr"
        allowed reason bt w0] e have "resp = miss_response svc ctx sr reason u" by simp
    with assms(2) show ?thesis by (simp add: miss_response_def metera_simps)
  qed
qed

lemma serve_cached_tag:
  assumes "serve_cached ops svc ti r ctx sr nt bt w = ((Inr (resp, outcome), w1), reason)"
  shows "dict_get (resp_metera resp) ''cache'' = JStr outcome"
proof (cases rule: serve_cached_cases [of ops w svc ctx sr ti r nt bt])
  case (exact hit)
  with assms have "serve_hit svc ti ctx sr ''exact_hit'' ''cache_exact_hits'' [] (hit_payload hit) w =
      (Inr (resp, outcome), w1)" by simp
  then show ?thesis by (auto simp: serve_hit_cases metera_simps split: sum.splits)
next
  case (semantic s' h extra)
  with assms have "serve_hit svc ti ctx sr ''semantic_hit'' ''cache_semantic_hits'' extra (sh_payload h)
      (w\<lparr>w_semantic := s'\<rparr>) = (Inr (resp, outcome), w1)" by simp
  then show ?thesis by (auto simp: serve_hit_cases metera_simps semantic(1) split: sum.splits)
next
  case (upstream w0 allowed reason')
  with assms have e: "serve_upstream ops svc ti r ctx sr nt (request_cache_key svc ctx sr) allowed
      reason bt w0 = (Inr (resp, outcome), w1)" by auto
  show ?thesis
  proof (cases "svc_provider svc r (resolve_upstream_bearer_token svc ctx)")
    case (Inl err)
    with e show ?thesis by (simp add: serve_upstream_error)
  next
    case (Inr u)
    from serve_upstream_ok(1) [where svc = svc and ops = ops, OF Inr, of ti sr nt "request_cache_key svc ctx sr"
        allowed reason bt w0] e show ?thesis by (auto simp: miss_response_def metera_simps)
  qed
qed

text \<open>Only the control-plane records change the database.\<close>

lemma serve_upstream_db:
  "w_db (snd (serve_upstream ops svc ti r ctx sr nt key allowed reason bt w)) = w_db w"
  by (cases "svc_provider svc r (resolve_upstream_bearer_token svc ctx)")
    (simp_all add: serve_upstream_error serve_upstream_ok frame_simps)

lemma serve_cached_db:
  assumes "serve_cached ops svc ti r ctx sr nt bt w = ((res, w1), reason)"
  shows "w_db w1 = w_db w"
proof (cases rule: serve_cached_cases [of ops w svc ctx sr ti r nt bt])
  case (exact hit)
  with assms serve_hit_frame(3) show ?thesis by (metis fst_conv snd_conv)
next
  case (semantic s' h extra)
  with assms have "w1 = snd (serve_hit svc ti ctx sr ''semantic_hit'' ''cache_semantic_hits'' extra
      (sh_payload h) (w\<lparr>w_semantic := s'\<rparr>))" by (metis fst_conv snd_conv)
  then show ?thesis by (simp add: serve_hit_frame)
next
  case (upstream w0 allowed reason')
  with assms have "w1 = snd (serve_upstream ops svc ti r ctx sr nt (request_cache_key svc ctx sr) allowed
      reason' bt w0)" by (metis fst_conv snd_conv)
  moreover have "w_db w0 = w_db w" using upstream(3) by (auto simp: frame_simps)
  ultimately show ?thesis by (simp add: serve_upstream_db)
qed

text \<open>The two cost keys of an answer.\<close>

lemma serve_cached_costs:
  assumes "serve_cached ops svc ti r ctx sr nt bt w = ((Inr (resp, outcome), w1), reason)"
  shows "metera_float resp ''estimated_cost_usd'' = resp_cost resp"
    "metera_float resp ''estimated_savings_usd'' = (if outcome = ''miss'' then 0 else resp_cost resp)"
  using serve_cached_outcome [OF assms]
  by (auto simp: metera_float_def miss_response_def metera_simps)

section \<open>What a handled request did\<close>

text \<open>The answer's \<open>cache\<close> tag tells whether the provider was called.\<close>

lemma handle_outcome:
  assumes "handle_chat_completion ops svc ti r ctx bt w = (Inr resp, w')"
  shows "(dict_get (resp_metera resp) ''cache'' = JStr ''miss'' \<and>
      w_upstream w' = w_upstream w @ [(r, resolve_upstream_bearer_token svc ctx)]) \<or>
    (dict_get (resp_metera resp) ''cache'' \<in> {JStr ''exact_hit'', JStr ''semantic_hit''} \<and>
      w_upstream w' = w_upstream w \<and> w_exact w' = w_exact w \<and> pruned_only ops ti w w')"
proof -
  obtain sr nt w1 reason outcome where s:
    "serve_cached ops svc ti r ctx sr nt bt (entry_world sr w) = ((Inr (resp, outcome), w1), reason)"
    and w': "w' = w1\<lparr>w_db := record_controlplane_events svc ti r ctx resp outcome reason (w_db w1)\<rparr>"
    by (rule handle_Inr_admitted [OF assms])
  show ?thesis
    using serve_cached_outcome [OF s] serve_cached_tag [OF s] w' by (auto simp: frame_simps pruned_only_def)
qed

lemma handle_Inl_upstream:
  assumes "handle_chat_completion ops svc ti r ctx bt w = (Inl e, w')"
  shows "w_upstream w' \<in> {w_upstream w, w_upstream w @ [(r, resolve_upstream_bearer_token svc ctx)]}"
proof (cases "enforce_billing_access svc ctx (w_db w)")
  case (Inl err)
  then show ?thesis using assms by (auto simp: handle_refused frame_simps)
next
  case ok: (Inr u)
  show ?thesis
  proof (cases "canonicalize_request (svc_repr_float svc) r")
    case (Inl err)
    with ok assms show ?thesis by (auto simp: handle_chat_completion_def Let_def frame_simps)
  next
    case (Inr nt)
    let ?sr = "scrub_request svc nt"
    have adm: "admitted svc r ctx (w_db w) ?sr nt" using ok Inr by (simp add: admitted_def)
    obtain res w1 reason where
      sc: "serve_cached ops svc ti r ctx ?sr nt bt (entry_world ?sr w) = ((res, w1), reason)"
      by (metis prod.collapse)
    from handle_admitted [OF adm sc] assms have "w' = w1" by (auto split: sum.splits)
    with serve_cached_upstream [OF sc] show ?thesis by (simp add: frame_simps)
  qed
qed

text \<open>The semantic store gains at most the entry a miss indexes under its own text.\<close>

lemma handle_semantic:
  assumes "handle_chat_completion ops svc ti r ctx bt w = (res, w')"
  shows "pruned_only ops ti w w' \<or> (\<exists>w0 t ttl resp sr. pruned_only ops ti w w0 \<and>
    w_semantic w' = add_entry (op_add ops) (svc_emb svc) ttl (w_semantic w0) t (request_scope r ctx)
      (scrubbed_text sr) (svc_dump svc resp) (entry_metadata svc r sr))"
proof (cases res)
  case (Inl e)
  with assms have "handle_chat_completion ops svc ti r ctx bt w = (Inl e, w')" by simp
  from handle_Inl_frame [OF this] show ?thesis by blast
next
  case (Inr resp)
  with assms have "handle_chat_completion ops svc ti r ctx bt w = (Inr resp, w')" by simp
  then obtain sr nt w1 reason outcome where
    s: "serve_cached ops svc ti r ctx sr nt bt (entry_world sr w) = ((Inr (resp, outcome), w1), reason)"
    and w': "w' = w1\<lparr>w_db := record_controlplane_events svc ti r ctx resp outcome reason (w_db w1)\<rparr>"
    by (rule handle_Inr_admitted)
  have same: "pruned_only ops ti w v = pruned_only ops ti (entry_world sr w) v" for v
    by (simp add: pruned_only_def frame_simps)
  show ?thesis
  proof (cases "outcome = ''miss''")
    case False
    then have "pruned_only ops ti w w1" using serve_cached_outcome [OF s] same by auto
    then have "pruned_only ops ti w w'" by (simp add: w' pruned_only_def)
    then show ?thesis ..
  next
    case True
    show ?thesis
    proof (cases rule: serve_cached_cases [of ops "entry_world sr w" svc ctx sr ti r nt bt])
      case (exact hit)
      with s True show ?thesis by (auto simp: serve_hit_cases split: sum.splits)
    next
      case (semantic s' h extra)
      with s True show ?thesis by (auto simp: serve_hit_cases split: sum.splits)
    next
      case (upstream w0 allowed reason')
      have p: "pruned_only ops ti w w0"
        using upstream(3) by (auto simp: pruned_only_def lookup_match_prunes frame_simps)
      from upstream s have e: "serve_upstream ops svc ti r ctx sr nt (request_cache_key svc ctx sr) allowed
          reason' bt w0 = (Inr (resp, outcome), w1)" by auto
      then obtain u where u: "svc_provider svc r (resolve_upstream_bearer_token svc ctx) = Inr u"
        by (cases "svc_provider svc r (resolve_upstream_bearer_token svc ctx)") (auto simp: serve_upstream_error)
      from serve_upstream_ok(1,4) [where svc = svc and ops = ops, OF u, of ti sr nt "request_cache_key svc ctx sr"
          allowed reason' bt w0] e
      have sem: "w_semantic w' = (if allowed
          then add_entry (op_add ops) (svc_emb svc) (cfg_default_semantic_ttl_seconds (svc_settings svc))
            (w_semantic w0) (t_add ti) (request_scope r ctx) (scrubbed_text sr) (svc_dump svc resp)
            (entry_metadata svc r sr)
          else w_semantic w0)" by (simp add: w')
      show ?thesis
      proof (cases allowed)
        case True
        with sem p show ?thesis by (metis (full_types))
      next
        case False
        with p sem have "pruned_only ops ti w w'" by (simp add: pruned_only_def)
        then show ?thesis ..
      qed
    qed
  qed
qed

text \<open>The row the ledger receives.\<close>

lemma record_controlplane_ledger:
  "request_ledger (record_controlplane_events svc ti r ctx resp outcome reason db) =
    (if svc_request_ledger svc
     then request_ledger (log_request db (t_log ti) None (ledger_entry svc ti r ctx resp outcome reason))
     else request_ledger db)"
  by (simp add: record_controlplane_events_def Let_def log_request_event_def log_request_def)

lemma shadow_frame:
  "w_exact (record_shadow_semantic_outcome ops svc now task w) = w_exact w"
  "w_upstream (record_shadow_semantic_outcome ops svc now task w) = w_upstream w"
  "w_semantic (record_shadow_semantic_outcome ops svc now task w) = fst (op_prune ops (w_semantic w) now)"
  by (simp_all add: record_shadow_semantic_outcome_def Let_def case_prod_beta frame_simps find_match_def
      split: option.split)

lemma invalidate_namespace_upstream:
  "w_upstream (snd (invalidate_namespace ops ns w)) = w_upstream w"
  by (simp add: invalidate_namespace_def Let_def case_prod_beta frame_simps)

section \<open>Hits over any pair of stores\<close>

text \<open>What the code relies on of pydantic: a response survives a dump and a validation.\<close>

definition dump_roundtrip :: "service \<Rightarrow> bool" where
  "dump_roundtrip svc \<longleftrightarrow> (\<forall>resp. svc_dump svc resp \<noteq> [] \<and> svc_load svc (svc_dump svc resp) = Inr resp)"

definition cache_ops_of ::
  "('k \<Rightarrow> string \<Rightarrow> payload option) \<Rightarrow> ('k \<Rightarrow> string \<Rightarrow> payload \<Rightarrow> int \<Rightarrow> 'k) \<Rightarrow> ('k \<Rightarrow> string \<Rightarrow> 'k \<times> nat) \<Rightarrow>
   ('s \<Rightarrow> semantic_record \<Rightarrow> 's) \<Rightarrow> ('s \<Rightarrow> semantic_query \<Rightarrow> semantic_match option) \<Rightarrow>
   ('s \<Rightarrow> string \<Rightarrow> 's \<times> nat) \<Rightarrow> ('s \<Rightarrow> timestamp \<Rightarrow> 's \<times> nat) \<Rightarrow> ('k, 's) cache_ops" where
  "cache_ops_of get_json set_json delete_prefix add find_best invalidate prune =
     \<lparr>op_get_json = get_json, op_set_json = set_json, op_delete_prefix = delete_prefix,
      op_add = add, op_find = find_best, op_invalidate = invalidate, op_prune = prune\<rparr>"

lemma cache_ops_of_simps [simp]:
  "op_get_json (cache_ops_of g st d a f i p) = g" "op_set_json (cache_ops_of g st d a f i p) = st"
  "op_delete_prefix (cache_ops_of g st d a f i p) = d" "op_add (cache_ops_of g st d a f i p) = a"
  "op_find (cache_ops_of g st d a f i p) = f" "op_invalidate (cache_ops_of g st d a f i p) = i"
  "op_prune (cache_ops_of g st d a f i p) = p"
  by (simp_all add: cache_ops_of_def)

text \<open>
  A miss stores its answer; a later request with the same key is answered from the store as long
  as that still holds the answer, and not from the exact cache once it does not.
\<close>

lemma miss_stores_answer:
  assumes first: "handle_chat_completion ops svc ti r ctx bt w = (Inr resp, w')" "w_upstream w' \<noteq> w_upstream w"
    and adm: "admitted svc r ctx (w_db w) sr nt"
  shows "w_exact w' = exact_set (op_set_json ops) (w_exact w) (request_cache_key svc ctx sr) (svc_dump svc resp)
    (cfg_default_exact_ttl_seconds (svc_settings svc))"
proof -
  obtain sr0 nt0 w1 reason outcome where adm0: "admitted svc r ctx (w_db w) sr0 nt0"
    and s: "serve_cached ops svc ti r ctx sr0 nt0 bt (entry_world sr0 w) = ((Inr (resp, outcome), w1), reason)"
    and w': "w' = w1\<lparr>w_db := record_controlplane_events svc ti r ctx resp outcome reason (w_db w1)\<rparr>"
    by (rule handle_Inr_admitted [OF first(1)])
  have "sr0 = sr" using adm adm0 by (simp add: admitted_def)
  with serve_cached_outcome [OF s] first(2) w' show ?thesis by (auto simp: frame_simps)
qed

lemma stored_answer_hits:
  assumes adm: "admitted svc r ctx (w_db w) sr nt" and law: "dump_roundtrip svc"
    and stored: "op_get_json ops (w_exact w) (request_cache_key svc ctx sr) = Some (svc_dump svc resp)"
  shows "\<exists>resp' w'. handle_chat_completion ops svc ti r ctx bt w = (Inr resp', w') \<and>
    w_upstream w' = w_upstream w \<and> resp_choices resp' = resp_choices resp \<and>
    resp_usage resp' = resp_usage resp \<and> dict_get (resp_metera resp') ''cache'' = JStr ''exact_hit''"
proof -
  let ?w = "entry_world sr w"
  have load: "svc_load svc (svc_dump svc resp) = Inr resp" "svc_dump svc resp \<noteq> []"
    using law by (simp_all add: dump_roundtrip_def)
  let ?hit = "serve_hit svc ti ctx sr ''exact_hit'' ''cache_exact_hits'' [] (svc_dump svc resp) ?w"
  have sc: "serve_cached ops svc ti r ctx sr nt bt ?w = (?hit, None)"
    using stored load(2) by (simp add: serve_cached_def exact_get_def frame_simps Let_def)
  obtain resp' where r': "?hit = (Inr (resp', ''exact_hit''), snd ?hit)"
    "resp' = with_metera resp (common_metera svc ctx sr ''exact_hit'' @
       [(''estimated_cost_usd'', JFloat (resp_cost resp)), (''estimated_savings_usd'', JFloat (resp_cost resp))])"
    using load by (simp add: serve_hit_cases)
  have up: "w_upstream (snd ?hit) = w_upstream w" by (simp add: serve_hit_frame frame_simps)
  from sc r'(1) have sc': "serve_cached ops svc ti r ctx sr nt bt ?w =
      ((Inr (resp', ''exact_hit''), snd ?hit), None)" by simp
  have "dict_get (resp_metera resp') ''cache'' = JStr ''exact_hit''"
    using r'(2) by (simp add: metera_simps)
  with handle_admitted [OF adm sc'] r'(2) up show ?thesis by simp
qed

lemma missing_entry_no_exact_hit:
  assumes "handle_chat_completion ops svc ti r ctx bt w = (Inr resp, w')" "admitted svc r ctx (w_db w) sr nt"
    and "op_get_json ops (w_exact w) (request_cache_key svc ctx sr) = None"
  shows "dict_get (resp_metera resp) ''cache'' \<noteq> JStr ''exact_hit''"
proof -
  obtain sr0 nt0 w1 reason outcome where "admitted svc r ctx (w_db w) sr0 nt0"
    and s0: "serve_cached ops svc ti r ctx sr0 nt0 bt (entry_world sr0 w) = ((Inr (resp, outcome), w1), reason)"
    by (rule handle_Inr_admitted [OF assms(1)])
  with assms(2) have "sr0 = sr" "nt0 = nt" by (simp_all add: admitted_def)
  with s0 have s: "serve_cached ops svc ti r ctx sr nt bt (entry_world sr w) = ((Inr (resp, outcome), w1), reason)"
    by simp
  have "outcome \<noteq> ''exact_hit''"
  proof (cases rule: serve_cached_cases [of ops "entry_world sr w" svc ctx sr ti r nt bt])
    case (exact hit)
    with assms(3) show ?thesis by (simp add: exact_get_def frame_simps)
  next
    case (semantic s' h extra)
    with s show ?thesis by (auto simp: serve_hit_cases split: sum.splits)
  next
    case (upstream w0 allowed reason')
    with s have "serve_upstream ops svc ti r ctx sr nt (request_cache_key svc ctx sr) allowed reason' bt w0 =
        (Inr (resp, outcome), w1)" by auto
    from serve_upstream_outcome [OF this] show ?thesis by simp
  qed
  with serve_cached_tag [OF s] show ?thesis by simp
qed

locale proxy_caches =
  prefix_store get_json delete_prefix invar +
  semantic_store add_record find_best invalidate prune rows column similarity accepted
  for get_json :: "'k \<Rightarrow> string \<Rightarrow> payload option"
    and delete_prefix :: "'k \<Rightarrow> string \<Rightarrow> 'k \<times> nat"
    and invar :: "'k \<Rightarrow> bool"
    and add_record :: "'s \<Rightarrow> semantic_record \<Rightarrow> 's"
    and find_best :: "'s \<Rightarrow> semantic_query \<Rightarrow> semantic_match option"
    and invalidate :: "'s \<Rightarrow> string \<Rightarrow> 's \<times> nat"
    and prune :: "'s \<Rightarrow> timestamp \<Rightarrow> 's \<times> nat"
    and rows :: "'s \<Rightarrow> semantic_record list"
    and column :: "real list \<Rightarrow> real list"
    and similarity :: "real list \<Rightarrow> real list \<Rightarrow> real"
    and accepted :: "semantic_query \<Rightarrow> semantic_record \<Rightarrow> bool" +
  fixes set_json :: "'k \<Rightarrow> string \<Rightarrow> payload \<Rightarrow> int \<Rightarrow> 'k"
begin

abbreviation ops where
  "ops \<equiv> cache_ops_of get_json set_json delete_prefix add_record find_best invalidate prune"

lemma shadow_outcome_window:
  assumes "w_db (record_shadow_semantic_outcome ops svc now task w) \<noteq> w_db w"
  shows "\<exists>rec \<in> set (rows (w_semantic w)). sr_tenant_id rec = sc_tenant_id (st_scope task) \<and>
    sr_workspace_id rec = sc_workspace_id (st_scope task) \<and>
    similarity (svc_emb svc (st_scrubbed_text task)) (sr_vector rec) < st_live_threshold task"
proof -
  obtain s' hit where m: "find_match prune find_best (svc_emb svc) (svc_semantic_threshold svc) (w_semantic w)
      now (st_scope task) (st_scrubbed_text task) (Some (st_shadow_threshold task))
      (Some (st_created_before task)) = (s', hit)" by fastforce
  show ?thesis
  proof (cases hit)
    case None
    with assms m show ?thesis by (simp add: record_shadow_semantic_outcome_def)
  next
    case (Some h)
    show ?thesis
    proof (cases "st_live_threshold task \<le> sh_similarity h")
      case True
      with assms m Some show ?thesis by (simp add: record_shadow_semantic_outcome_def)
    next
      case False
      from find_match_sound [OF m [unfolded Some]] False show ?thesis by force
    qed
  qed
qed

lemma invalidated_namespace_misses:
  assumes "invar (w_exact w)" "namespace_ok ns" "ctx_namespace ctx = ns"
  shows "exact_get get_json (w_exact (snd (invalidate_namespace ops ns w))) (request_cache_key svc ctx sr) = None"
    "snd (lookup_match ops svc ti r ctx sr (w_semantic (snd (invalidate_namespace ops ns w)))) = None"
proof -
  have ex: "w_exact (snd (invalidate_namespace ops ns w)) = fst (exact_invalidate_namespace delete_prefix (w_exact w) ns)"
    and se: "w_semantic (snd (invalidate_namespace ops ns w)) = fst (invalidate (w_semantic w) ns)"
    by (simp_all add: invalidate_namespace_def Let_def case_prod_beta frame_simps)
  show "exact_get get_json (w_exact (snd (invalidate_namespace ops ns w))) (request_cache_key svc ctx sr) = None"
    using exact_invalidate_own [OF assms(1,2)] assms(3) by (simp add: ex request_cache_key_def)
  show "snd (lookup_match ops svc ti r ctx sr (w_semantic (snd (invalidate_namespace ops ns w)))) = None"
    using find_match_after_invalidate [of "svc_emb svc" "svc_semantic_threshold svc" "w_semantic w"
        "request_scope r ctx" "t_lookup ti" "scrubbed_text sr" None None] assms(3)
    by (simp add: se lookup_match_def request_scope_def)
qed

end

interpretation mem_proxy: proxy_caches mem_get_json mem_delete_prefix mem_invar
  mem_add mem_find_best_match mem_invalidate_namespace mem_prune_expired "\<lambda>rs. rs" "\<lambda>v. v"
  cosine_similarity mem_accepted mem_set_json
  by unfold_locales

interpretation pg_proxy: proxy_caches mem_get_json mem_delete_prefix mem_invar
  "pg_add to_column" "pg_find_best_match cosdist" pg_invalidate_namespace pg_prune_expired "\<lambda>rs. rs"
  to_column "pg_similarity cosdist" "pg_accepted cosdist" mem_set_json
  for to_column cosdist
  by unfold_locales

section \<open>The request counters\<close>

text \<open>The four counters a chat request moves: requests, exact hits, semantic hits, misses.\<close>

definition request_counts :: "metrics \<Rightarrow> pynum \<times> pynum \<times> pynum \<times> pynum" where
  "request_counts m = (counter m ''requests_total'', counter m ''cache_exact_hits'',
     counter m ''cache_semantic_hits'', counter m ''cache_misses'')"

definition world_counts :: "('k, 's) world \<Rightarrow> pynum \<times> pynum \<times> pynum \<times> pynum" where
  "world_counts w = request_counts (w_metrics w)"

lemma world_counts_cong [simp]:
  "world_counts (w\<lparr>w_exact := k\<rparr>) = world_counts w" "world_counts (w\<lparr>w_semantic := s\<rparr>) = world_counts w"
  "world_counts (w\<lparr>w_db := d\<rparr>) = world_counts w" "world_counts (w\<lparr>w_tasks := t\<rparr>) = world_counts w"
  "world_counts (w\<lparr>w_upstream := u\<rparr>) = world_counts w"
  by (simp_all add: world_counts_def)

lemma world_counts_bump:
  "n \<noteq> ''requests_total'' \<Longrightarrow> n \<noteq> ''cache_exact_hits'' \<Longrightarrow> n \<noteq> ''cache_semantic_hits'' \<Longrightarrow>
   n \<noteq> ''cache_misses'' \<Longrightarrow> world_counts (bump n v w) = world_counts w"
  by (simp add: world_counts_def request_counts_def bump_def counter_increment)

lemma world_counts_count_scrub [simp]: "world_counts (count_scrub sr w) = world_counts w"
  by (simp add: count_scrub_def tick_def world_counts_bump Let_def)

lemma world_counts_usage [simp]: "world_counts (snd (record_usage_and_cost resp b w)) = world_counts w"
  by (simp add: record_usage_and_cost_def world_counts_bump Let_def)

lemma world_counts_latency [simp]: "world_counts (record_latency n x w) = world_counts w"
  by (simp add: record_latency_def world_counts_def request_counts_def)

text \<open>One more request, and at most one more outcome.\<close>

definition counted :: "pynum \<times> pynum \<times> pynum \<times> pynum \<Rightarrow> pynum \<times> pynum \<times> pynum \<times> pynum \<Rightarrow> bool" where
  "counted q q' = (case q of (t, e, s, m) \<Rightarrow> let t' = num_add t (PInt 1) in
     q' = (t', e, s, m) \<or> q' = (t', num_add e (PInt 1), s, m) \<or>
     q' = (t', e, num_add s (PInt 1), m) \<or> q' = (t', e, s, num_add m (PInt 1)))"

lemma world_counts_ticks:
  "world_counts (tick ''requests_total'' w) = (case world_counts w of (t, e, s, m) \<Rightarrow> (num_add t (PInt 1), e, s, m))"
  "world_counts (tick ''cache_exact_hits'' w) = (case world_counts w of (t, e, s, m) \<Rightarrow> (t, num_add e (PInt 1), s, m))"
  "world_counts (tick ''cache_semantic_hits'' w) = (case world_counts w of (t, e, s, m) \<Rightarrow> (t, e, num_add s (PInt 1), m))"
  "world_counts (tick ''cache_misses'' w) = (case world_counts w of (t, e, s, m) \<Rightarrow> (t, e, s, num_add m (PInt 1)))"
  by (simp_all add: tick_def bump_def world_counts_def request_counts_def counter_increment)

lemma world_counts_entry:
  "world_counts (entry_world sr w) = (case world_counts w of (t, e, s, m) \<Rightarrow> (num_add t (PInt 1), e, s, m))"
  by (simp add: entry_world_def world_counts_ticks)

lemma world_counts_hit:
  "world_counts (snd (serve_hit svc ti ctx sr name cn extra p w)) = world_counts (tick cn w)"
  by (simp add: serve_hit_cases split: sum.split)

lemma world_counts_upstream:
  "world_counts (snd (serve_upstream ops svc ti r ctx sr nt key allowed reason bt w)) =
   world_counts (tick ''cache_misses'' w)"
  by (cases "svc_provider svc r (resolve_upstream_bearer_token svc ctx)")
    (simp_all add: serve_upstream_def Let_def case_prod_beta tick_def [of "''semantic_candidates_indexed''"]
      world_counts_bump)

lemma world_counts_cached:
  assumes "serve_cached ops svc ti r ctx sr nt bt w = ((res, w1), reason)"
  shows "world_counts w1 \<in> {world_counts (tick ''cache_exact_hits'' w),
    world_counts (tick ''cache_semantic_hits'' w), world_counts (tick ''cache_misses'' w)}"
proof (cases rule: serve_cached_cases [of ops w svc ctx sr ti r nt bt])
  case (exact hit)
  with assms have "w1 = snd (serve_hit svc ti ctx sr ''exact_hit'' ''cache_exact_hits'' [] (hit_payload hit) w)"
    by (metis fst_conv snd_conv)
  then show ?thesis by (simp add: world_counts_hit)
next
  case (semantic s' h extra)
  with assms have "w1 = snd (serve_hit svc ti ctx sr ''semantic_hit'' ''cache_semantic_hits'' extra
      (sh_payload h) (w\<lparr>w_semantic := s'\<rparr>))" by (metis fst_conv snd_conv)
  then show ?thesis by (simp add: world_counts_hit world_counts_ticks)
next
  case (upstream w0 allowed reason')
  with assms have "w1 = snd (serve_upstream ops svc ti r ctx sr nt (request_cache_key svc ctx sr) allowed
      reason' bt w0)" by (metis fst_conv snd_conv)
  moreover have "world_counts w0 = world_counts w"
    using upstream(3) by (auto simp: tick_def world_counts_bump)
  ultimately show ?thesis by (simp add: world_counts_upstream world_counts_ticks)
qed

lemma handle_counted:
  "counted (world_counts w) (world_counts (snd (handle_chat_completion ops svc ti r ctx bt w)))"
proof -
  obtain t e s m where q: "world_counts w = (t, e, s, m)" by (metis prod_cases4)
  show ?thesis
  proof (cases "enforce_billing_access svc ctx (w_db w)")
    case (Inl err)
    then show ?thesis by (simp add: handle_refused world_counts_ticks counted_def q Let_def)
  next
    case ok: (Inr u)
    show ?thesis
    proof (cases "canonicalize_request (svc_repr_float svc) r")
      case (Inl err)
      with ok show ?thesis
        by (simp add: handle_chat_completion_def Let_def frame_simps world_counts_ticks counted_def q)
    next
      case (Inr nt)
      let ?sr = "scrub_request svc nt"
      have adm: "admitted svc r ctx (w_db w) ?sr nt" using ok Inr by (simp add: admitted_def)
      obtain res w1 reason where
        sc: "serve_cached ops svc ti r ctx ?sr nt bt (entry_world ?sr w) = ((res, w1), reason)"
        by (metis prod.collapse)
      have "world_counts (snd (handle_chat_completion ops svc ti r ctx bt w)) = world_counts w1"
        using handle_admitted [OF adm sc] by (auto split: sum.split)
      then show ?thesis
        using world_counts_cached [OF sc]
        by (auto simp: world_counts_ticks world_counts_entry counted_def q Let_def)
    qed
  qed
qed

lemma stream_counted:
  "counted (world_counts w) (world_counts (snd (handle_chat_completion_stream svc r ctx w)))"
  by (cases "world_counts w")
    (simp add: handle_chat_completion_stream_def Let_def tick_def [of "''streaming_requests_total''"]
      tick_def [of "''streaming_cache_bypasses''"] tick_def [of "''semantic_bypasses''"] world_counts_bump
      world_counts_ticks counted_def split: sum.split)

lemma shadow_counts [simp]:
  "world_counts (record_shadow_semantic_outcome ops svc now task w) = world_counts w"
  by (simp add: record_shadow_semantic_outcome_def Let_def case_prod_beta tick_def world_counts_bump
      split: option.split)

lemma invalidate_counts [simp]:
  "world_counts (snd (invalidate_namespace ops ns w)) = world_counts w"
  by (simp add: invalidate_namespace_def Let_def case_prod_beta tick_def world_counts_bump)

section \<open>Runs of the proxy\<close>

text \<open>
  The process handles chat requests in any order, runs the background tasks they queued, and
  invalidates namespaces; the configuration may change between two steps.
\<close>

inductive proxy_step :: "('k, 's) cache_ops \<Rightarrow> ('k, 's) world \<Rightarrow> ('k, 's) world \<Rightarrow> bool" for ops where
  chat: "w' = snd (handle_chat_completion ops svc ti r ctx bt w) \<Longrightarrow> proxy_step ops w w'"
| stream: "w' = snd (handle_chat_completion_stream svc r ctx w) \<Longrightarrow> proxy_step ops w w'"
| shadow: "task \<in> set (w_tasks w) \<Longrightarrow>
    w' = (record_shadow_semantic_outcome ops svc now task w)\<lparr>w_tasks := remove1 task (w_tasks w)\<rparr> \<Longrightarrow>
    proxy_step ops w w'"
| invalidated: "w' = snd (invalidate_namespace ops ns w) \<Longrightarrow> proxy_step ops w w'"

inductive proxy_run :: "('k, 's) cache_ops \<Rightarrow> ('k, 's) world \<Rightarrow> ('k, 's) world \<Rightarrow> bool" for ops where
  start: "proxy_run ops w w"
| step: "proxy_run ops w w' \<Longrightarrow> proxy_step ops w' w'' \<Longrightarrow> proxy_run ops w w''"

definition counts_ok :: "pynum \<times> pynum \<times> pynum \<times> pynum \<Rightarrow> bool" where
  "counts_ok q \<longleftrightarrow> (\<exists>t e s m. q = (PInt t, PInt e, PInt s, PInt m) \<and>
     0 \<le> e \<and> 0 \<le> s \<and> 0 \<le> m \<and> e + s + m \<le> t)"

lemma counts_ok_cases:
  assumes "counts_ok q"
  obtains t e s m where "q = (PInt t, PInt e, PInt s, PInt m)" "0 \<le> e" "0 \<le> s" "0 \<le> m" "e + s + m \<le> t"
  using assms unfolding counts_ok_def by blast

lemma counts_ok_counted: "counts_ok q \<Longrightarrow> counted q q' \<Longrightarrow> counts_ok q'"
  by (elim counts_ok_cases) (auto simp: counted_def counts_ok_def Let_def)

lemma counts_ok_step: "proxy_step ops w w' \<Longrightarrow> counts_ok (world_counts w) \<Longrightarrow> counts_ok (world_counts w')"
  by (induction rule: proxy_step.induct)
    (auto intro: counts_ok_counted [OF _ handle_counted] counts_ok_counted [OF _ stream_counted])

lemma counts_ok_run: "proxy_run ops w w' \<Longrightarrow> counts_ok (world_counts w) \<Longrightarrow> counts_ok (world_counts w')"
  by (induction rule: proxy_run.induct) (auto intro: counts_ok_step)

lemma counts_ok_hit_rate:
  assumes "counts_ok (request_counts m)"
  shows "0 \<le> snap_hit_rate (snapshot_metrics m) \<and> snap_hit_rate (snapshot_metrics m) \<le> 1"
  using assms
  by (elim counts_ok_cases, intro hit_rate_bounds)
    (simp_all add: request_counts_def is_int_counter_def int_counter_def)

lemma counts_ok_reset: "counts_ok (request_counts (reset_metrics m))"
  by (simp add: request_counts_def counts_ok_def)

section \<open>Where the semantic entries come from\<close>

text \<open>
  A run of one service, whose SHA-256 is \<open>sha\<close>, from the world \<open>w0\<close>. The exact store may change
  between two steps: entries expire, the process restarts, other workers write.
\<close>

inductive service_run ::
  "(string \<Rightarrow> string) \<Rightarrow> ('k, 's) cache_ops \<Rightarrow> ('k, 's) world \<Rightarrow> ('k, 's) world \<Rightarrow> bool" for sha ops w0 where
  begun: "service_run sha ops w0 w0"
| handled: "service_run sha ops w0 w \<Longrightarrow> svc_sha svc = sha \<Longrightarrow>
    handle_chat_completion ops svc ti r ctx bt w = (res, w') \<Longrightarrow> service_run sha ops w0 w'"
| streamed: "service_run sha ops w0 w \<Longrightarrow>
    handle_chat_completion_stream svc r ctx w = (sres, w') \<Longrightarrow> service_run sha ops w0 w'"
| measured: "service_run sha ops w0 w \<Longrightarrow>
    service_run sha ops w0 (record_shadow_semantic_outcome ops svc now task w)"
| invalidated: "service_run sha ops w0 w \<Longrightarrow> service_run sha ops w0 (snd (invalidate_namespace ops ns w))"
| exact_changed: "service_run sha ops w0 w \<Longrightarrow> service_run sha ops w0 (w\<lparr>w_exact := k\<rparr>)"

definition own_fingerprint :: "(string \<Rightarrow> string) \<Rightarrow> semantic_record \<Rightarrow> bool" where
  "own_fingerprint sha rec \<longleftrightarrow> dict_get (sr_metadata rec) ''request_fingerprint'' = JStr (sha (sr_text rec))"

lemma own_fingerprint_new:
  "own_fingerprint (svc_sha svc) ((new_entry emb ttl t sc (scrubbed_text sr) p (entry_metadata svc r sr))\<lparr>sr_vector := v\<rparr>)"
  by (simp add: own_fingerprint_def new_entry_def entry_metadata_def dict_get_def semantic_request_fingerprint_def)

context semantic_store
begin

lemma run_fingerprints:
  assumes "service_run sha (cache_ops_of g st d add_record find_best invalidate prune) w0 w"
    and "\<forall>rec \<in> set (rows (w_semantic w0)). own_fingerprint sha rec"
  shows "\<forall>rec \<in> set (rows (w_semantic w)). own_fingerprint sha rec"
  using assms
proof (induction rule: service_run.induct)
  case (handled w svc ti r ctx bt res w')
  from handle_semantic [OF handled(3)] show ?case
  proof (elim disjE exE conjE)
    assume "pruned_only (cache_ops_of g st d add_record find_best invalidate prune) ti w w'"
    with handled show ?thesis by (auto simp: pruned_only_def rows_prune)
  next
    fix w1 t ttl resp sr
    assume "pruned_only (cache_ops_of g st d add_record find_best invalidate prune) ti w w1"
      and w': "w_semantic w' = add_entry (op_add (cache_ops_of g st d add_record find_best invalidate prune))
        (svc_emb svc) ttl (w_semantic w1) t (request_scope r ctx) (scrubbed_text sr) (svc_dump svc resp)
        (entry_metadata svc r sr)"
    with handled have "\<forall>rec \<in> set (rows (w_semantic w1)). own_fingerprint sha rec"
      by (auto simp: pruned_only_def rows_prune)
    then show ?thesis using own_fingerprint_new [of svc] handled(2) by (auto simp: w' add_entry_def rows_add)
  qed
next
  case (streamed w svc r ctx sres w')
  then show ?case by (auto simp: handle_chat_completion_stream_def Let_def frame_simps split: sum.splits)
next
  case (measured w svc now task)
  then show ?case by (simp add: shadow_frame rows_prune)
next
  case (invalidated w ns)
  then show ?case by (simp add: invalidate_namespace_def Let_def case_prod_beta frame_simps rows_invalidate)
qed simp_all

lemma semantic_answer_source:
  assumes "lookup_match (cache_ops_of g st d add_record find_best invalidate prune) svc ti r ctx sr s = (s', Some h)"
  shows "\<exists>rec \<in> set (rows s). sr_namespace rec = ctx_namespace ctx \<and> sr_tenant_id rec = ctx_tenant_id ctx \<and>
    sr_workspace_id rec = ctx_workspace_id ctx \<and> \<not> is_expired rec (t_lookup ti) \<and>
    sh_payload h = sr_response_payload rec \<and> sh_metadata h = sr_metadata rec"
  using find_match_sound [of "svc_emb svc" "svc_semantic_threshold svc" s "t_lookup ti" "request_scope r ctx"
      "scrubbed_text sr" None None s' h] assms
  by (auto simp: lookup_match_def request_scope_def)

end

end
