(* ===== verification/ProxyProperties.thy ===== *)
theory ProxyProperties
  imports ProxyFacts BillingProperties
begin

text \<open>
  The properties of the chat proxy: who is refused, what reaches the provider, what the two
  caches may answer with and to whom, what is written down for billing, and the hit rate. The
  witnesses run the proxy on a small service over the in-memory stores.
\<close>

section \<open>A response as a dictionary\<close>

text \<open>
  \<open>ChatCompletionResponse.model_dump\<close> and \<open>model_validate\<close> for the fields the class
  declares: the instance of \<open>svc_dump\<close> and \<open>svc_load\<close> the examples use.
\<close>

definition dump_choice :: "choice \<Rightarrow> json" where
  "dump_choice c = JObj [(''index'', JInt (choice_index c)),
     (''message'', JObj [(''role'', JStr (choice_role (choice_msg c))),
                         (''content'', JStr (choice_content (choice_msg c)))]),
     (''finish_reason'', JStr (finish_reason c))]"

definition dump_response :: "chat_response \<Rightarrow> payload" where
  "dump_response resp = [(''id'', JStr (resp_id resp)), (''object'', JStr (resp_object resp)),
     (''model'', JStr (resp_model resp)), (''choices'', JArr (map dump_choice (resp_choices resp))),
     (''usage'', JObj [(''prompt_tokens'', JInt (int (prompt_tokens (resp_usage resp)))),
                       (''completion_tokens'', JInt (int (completion_tokens (resp_usage resp)))),
                       (''total_tokens'', JInt (int (total_tokens (resp_usage resp))))]),
     (''metera'', JObj (resp_metera resp))]"

fun as_str :: "json \<Rightarrow> string result" where
  "as_str (JStr s) = Inr s"
| "as_str _ = Inl (ValueErr ''str'')"

fun as_int :: "json \<Rightarrow> int result" where
  "as_int (JInt i) = Inr i"
| "as_int _ = Inl (ValueErr ''int'')"

fun as_dict :: "json \<Rightarrow> dict result" where
  "as_dict (JObj d) = Inr d"
| "as_dict _ = Inl (ValueErr ''dict'')"

fun as_list :: "json \<Rightarrow> json list result" where
  "as_list (JArr l) = Inr l"
| "as_list _ = Inl (ValueErr ''list'')"

definition load_choice :: "json \<Rightarrow> choice result" where
  "load_choice j = rbind (as_dict j) (\<lambda>d. rbind (as_dict (dict_get d ''message'')) (\<lambda>m.
     rbind (as_int (dict_get d ''index'')) (\<lambda>i. rbind (as_str (dict_get m ''role'')) (\<lambda>ro.
     rbind (as_str (dict_get m ''content'')) (\<lambda>co. rbind (as_str (dict_get d ''finish_reason'')) (\<lambda>fr.
       Inr \<lparr>choice_index = i, choice_msg = \<lparr>choice_role = ro, choice_content = co\<rparr>,
            finish_reason = fr\<rparr>))))))"

fun load_choices :: "json list \<Rightarrow> choice list result" where
  "load_choices [] = Inr []"
| "load_choices (c # cs) = rbind (load_choice c) (\<lambda>x. rbind (load_choices cs) (\<lambda>xs. Inr (x # xs)))"

definition load_usage :: "json \<Rightarrow> usage result" where
  "load_usage j = rbind (as_dict j) (\<lambda>d. rbind (as_int (dict_get d ''prompt_tokens'')) (\<lambda>pt.
     rbind (as_int (dict_get d ''completion_tokens'')) (\<lambda>ct. rbind (as_int (dict_get d ''total_tokens'')) (\<lambda>tt.
       Inr \<lparr>prompt_tokens = nat pt, completion_tokens = nat ct, total_tokens = nat tt\<rparr>))))"

definition load_response :: "payload \<Rightarrow> chat_response result" where
  "load_response p = rbind (as_str (dict_get p ''id'')) (\<lambda>i. rbind (as_str (dict_get p ''object'')) (\<lambda>ob.
     rbind (as_str (dict_get p ''model'')) (\<lambda>m. rbind (as_list (dict_get p ''choices'')) (\<lambda>cs.
     rbind (load_choices cs) (\<lambda>choices. rbind (load_usage (dict_get p ''usage'')) (\<lambda>u.
     rbind (as_dict (dict_get p ''metera'')) (\<lambda>md.
       Inr \<lparr>resp_id = i, resp_object = ob, resp_model = m, resp_choices = choices,
            resp_usage = u, resp_metera = md\<rparr>)))))))"

lemma load_dump_choices: "load_choices (map dump_choice cs) = Inr cs"
  by (induction cs) (simp_all add: dump_choice_def load_choice_def dict_get_def)

lemma load_dump_response: "load_response (dump_response resp) = Inr resp"
  by (simp add: dump_response_def load_response_def load_usage_def load_dump_choices dict_get_def)

lemma dump_response_nonempty: "dump_response resp \<noteq> []"
  by (simp add: dump_response_def)

section \<open>A small service\<close>

definition memory_ops :: "(mem_store, semantic_record list) cache_ops" where
  "memory_ops = cache_ops_of mem_get_json mem_set_json mem_delete_prefix mem_add mem_find_best_match
     mem_invalidate_namespace mem_prune_expired"

definition demo_reply :: chat_response where
  "demo_reply = \<lparr>resp_id = ''c1'', resp_object = ''chat.completion'', resp_model = ''gpt-4o'',
     resp_choices = [\<lparr>choice_index = 0, choice_msg = \<lparr>choice_role = ''assistant'', choice_content = ''ok''\<rparr>,
                      finish_reason = ''stop''\<rparr>],
     resp_usage = \<lparr>prompt_tokens = 10, completion_tokens = 5, total_tokens = 15\<rparr>, resp_metera = []\<rparr>"

definition demo_service :: service where
  "demo_service = \<lparr>svc_settings = default_settings, svc_overrides = [],
     svc_dlp_policy = \<lparr>analyzer_mode = ''regex'', scrub_level = ''off'', enable_email_detection = False,
       enable_phone_detection = False, enable_ip_detection = False, enable_secret_detection = False,
       secret_patterns = [], active_custom_detectors = []\<rparr>,
     svc_analyze = \<lambda>_. [], svc_emb = \<lambda>_. [1], svc_sha = \<lambda>s. s, svc_repr_float = \<lambda>_. ''0.0'',
     svc_dump = dump_response, svc_load = load_response, svc_semantic_threshold = 0,
     svc_provider = \<lambda>_ _. Inr demo_reply, svc_stream_provider = \<lambda>_ _. Inr [],
     svc_shadow_analytics = False, svc_request_events = False, svc_request_ledger = True,
     svc_shadow_savings = False, svc_billing = None, svc_commercial_events = False\<rparr>"

definition demo_times :: times where
  "demo_times = \<lparr>t_lookup = 0, t_cutoff = 0, t_add = 0, t_log = 0, t_latency_ms = 0, t_elapsed_ms = 0\<rparr>"

definition demo_context :: "string \<Rightarrow> proxy_context" where
  "demo_context tenant = (new_context ''n1'' None (Some ''r1''))\<lparr>ctx_tenant_id := Some tenant\<rparr>"

definition demo_message :: "string \<Rightarrow> chat_request" where
  "demo_message s = \<lparr>req_model = ''gpt-4o'', req_messages = [\<lparr>msg_role = RUser, msg_content = CText s\<rparr>],
     req_temperature = None, req_stream = False, req_metadata = []\<rparr>"

definition demo_world :: "(mem_store, semantic_record list) world" where
  "demo_world = \<lparr>w_metrics = \<lparr>COUNTERS = Map.empty, DISTRIBUTIONS = Map.empty\<rparr>, w_exact = [], w_semantic = [],
     w_db = empty_database, w_tasks = [], w_upstream = []\<rparr>"

text \<open>The first request of an empty service reaches the provider and fills the caches.\<close>

lemma demo_not_blocked: "enforce_billing_access demo_service ctx db = Inr ()"
  by (simp add: enforce_billing_access_def demo_service_def)

lemma demo_canonical: "\<exists>nt. canonicalize_request (\<lambda>_. ''0.0'') (demo_message s) = Inr nt"
  by (simp add: canonicalize_request_def demo_message_def dump_message_def del: append.simps)

lemma demo_admitted:
  "\<exists>nt. \<forall>ctx db. admitted demo_service (demo_message s) ctx db (unscrubbed nt) nt"
proof -
  obtain nt where n: "canonicalize_request (\<lambda>_. ''0.0'') (demo_message s) = Inr nt"
    using demo_canonical by blast
  have "scrub_request demo_service nt = unscrubbed nt" by (simp add: scrub_request_def demo_service_def)
  moreover have "canonicalize_request (svc_repr_float demo_service) (demo_message s) = Inr nt"
    using n by (simp add: demo_service_def)
  ultimately show ?thesis by (auto simp: admitted_def demo_not_blocked)
qed

lemma demo_allowed:
  "semantic_reuse_allowed (demo_message s) (svc_settings demo_service) (svc_overrides demo_service) = (True, None)"
  by (simp add: semantic_reuse_allowed_def demo_message_def demo_service_def default_settings_def
      policy_bool_def policy_real_def dict_get_def fl_nonneg not_less)

definition demo_indexed :: "proxy_context \<Rightarrow> string \<Rightarrow> string \<Rightarrow> semantic_record" where
  "demo_indexed ctx s nt = new_entry (\<lambda>_. [1]) 86400 0 (request_scope (demo_message s) ctx) nt
     (dump_response (miss_response demo_service ctx (unscrubbed nt) None demo_reply))
     (entry_metadata demo_service (demo_message s) (unscrubbed nt))"

lemma empty_caches_index:
  assumes none: "\<And>k. g (w_exact w) k = None" and "w_semantic w = []" "t_add ti = 0"
  shows "\<exists>resp w' nt. handle_chat_completion (cache_ops_of g st d mem_add mem_find_best_match
      mem_invalidate_namespace mem_prune_expired) demo_service ti (demo_message s) ctx bt w = (Inr resp, w') \<and>
    w_upstream w' = w_upstream w @ [(demo_message s, resolve_upstream_bearer_token demo_service ctx)] \<and>
    canonicalize_request (\<lambda>_. ''0.0'') (demo_message s) = Inr nt \<and> w_semantic w' = [demo_indexed ctx s nt] \<and>
    resp = miss_response demo_service ctx (unscrubbed nt) None demo_reply"
proof -
  obtain nt where n: "canonicalize_request (\<lambda>_. ''0.0'') (demo_message s) = Inr nt"
    and adm: "\<And>ctx db. admitted demo_service (demo_message s) ctx db (unscrubbed nt) nt"
    using demo_admitted [of s] demo_canonical [of s] by (auto simp: admitted_def demo_service_def)
  let ?ops = "cache_ops_of g st d mem_add mem_find_best_match mem_invalidate_namespace mem_prune_expired"
  let ?w = "entry_world (unscrubbed nt) w"
  have empty: "w_exact ?w = w_exact w" "w_semantic ?w = []" "w_upstream ?w = w_upstream w"
    using assms by (simp_all add: frame_simps)
  have prov: "svc_provider demo_service r b = Inr demo_reply" for r b by (simp add: demo_service_def)
  have lm: "lookup_match ?ops demo_service ti (demo_message s) ctx (unscrubbed nt) [] = ([], None)"
    by (simp add: lookup_match_def find_match_def mem_prune_expired_def
        mem_find_best_match_def Let_def)
  let ?v = "?w\<lparr>w_semantic := []\<rparr>"
  have sc: "serve_cached ?ops demo_service ti (demo_message s) ctx (unscrubbed nt) nt bt ?w =
    (serve_upstream ?ops demo_service ti (demo_message s) ctx (unscrubbed nt) nt
       (request_cache_key demo_service ctx (unscrubbed nt)) True None bt ?v, None)"
    using empty lm
    by (simp add: serve_cached_def serve_semantic_def demo_allowed lookup_match_def exact_get_def none Let_def)
  obtain res w1 where u: "serve_upstream ?ops demo_service ti (demo_message s) ctx
      (unscrubbed nt) nt (request_cache_key demo_service ctx (unscrubbed nt)) True None bt ?v = (res, w1)"
    by fastforce
  have dumped: "svc_dump demo_service = dump_response" "svc_emb demo_service = (\<lambda>_. [1])"
    "cfg_default_semantic_ttl_seconds (svc_settings demo_service) = 86400" "scrubbed_text (unscrubbed nt) = nt"
    by (simp_all add: demo_service_def default_settings_def unscrubbed_def)
  from serve_upstream_ok(1,2,4) [where svc = demo_service and ops = ?ops, OF prov, of ti
      "demo_message s" ctx "unscrubbed nt" nt "request_cache_key demo_service ctx (unscrubbed nt)" True None bt ?v]
  have r: "res = Inr (miss_response demo_service ctx (unscrubbed nt) None demo_reply, ''miss'')"
    "w_upstream w1 = w_upstream w @ [(demo_message s, resolve_upstream_bearer_token demo_service ctx)]"
    "w_semantic w1 = [demo_indexed ctx s nt]"
    using u empty assms(3) by (simp_all add: dumped mem_add_def add_entry_def demo_indexed_def)
  from handle_admitted [OF adm sc [unfolded u]] r n show ?thesis by auto
qed

lemma empty_caches_miss:
  assumes "w_exact w = []" "w_semantic w = []" "t_add ti = 0"
  shows "\<exists>resp w'. handle_chat_completion memory_ops demo_service ti (demo_message s) ctx bt w = (Inr resp, w') \<and>
    w_upstream w' = w_upstream w @ [(demo_message s, resolve_upstream_bearer_token demo_service ctx)]"
  using empty_caches_index [of mem_get_json w ti mem_set_json mem_delete_prefix s ctx bt] assms
  by (simp add: memory_ops_def mem_get_json_def) blast

lemma demo_miss:
  "\<exists>resp w'. handle_chat_completion memory_ops demo_service demo_times (demo_message s) ctx bt demo_world = (Inr resp, w') \<and>
    w_upstream w' = [(demo_message s, resolve_upstream_bearer_token demo_service ctx)]"
  using empty_caches_miss [of demo_world demo_times s ctx bt] by (simp add: demo_world_def demo_times_def)

section \<open>Who is served\<close>

lemma refused_detail:
  assumes "svc_billing svc = Some threshold" "ctx_tenant_id ctx = Some tenant" "tenant \<noteq> []"
    and "es_blocked (get_tenant_enforcement_state threshold db tenant)"
  shows "\<exists>d. enforce_billing_access svc ctx db = Inl (HTTPExceptionDetail 402 d) \<and>
    dict_get d ''recommended_action'' = JStr ''activate_subscription''"
  using assms by (simp add: enforce_billing_access_def Let_def blocked_detail_def dict_get_def)

text \<open>
  C6. A tenant the billing repository blocks gets 402 with the way out, on both endpoints, and
  the refused request changes nothing but the request counters: no provider call, no cache
  access, no record.
\<close>

theorem blocked_tenant_refused:
  assumes "svc_billing svc = Some threshold" "ctx_tenant_id ctx = Some tenant" "tenant \<noteq> []"
    and "es_blocked (get_tenant_enforcement_state threshold (w_db w) tenant)"
  shows "\<exists>d. dict_get d ''recommended_action'' = JStr ''activate_subscription'' \<and>
    handle_chat_completion ops svc ti r ctx bt w = (Inl (HTTPExceptionDetail 402 d), tick ''requests_total'' w) \<and>
    handle_chat_completion_stream svc r ctx w = (Inl (HTTPExceptionDetail 402 d),
      tick ''streaming_requests_total'' (tick ''requests_total'' w))"
proof -
  obtain d where d: "enforce_billing_access svc ctx (w_db w) = Inl (HTTPExceptionDetail 402 d)"
    "dict_get d ''recommended_action'' = JStr ''activate_subscription''"
    using refused_detail [OF assms] by blast
  have "enforce_billing_access svc ctx (w_db (tick ''streaming_requests_total'' (tick ''requests_total'' w))) =
      Inl (HTTPExceptionDetail 402 d)"
    using d(1) by (simp add: frame_simps)
  then have "handle_chat_completion_stream svc r ctx w = (Inl (HTTPExceptionDetail 402 d),
      tick ''streaming_requests_total'' (tick ''requests_total'' w))"
    by (simp add: handle_chat_completion_stream_def Let_def)
  with d handle_refused [OF d(1)] show ?thesis by blast
qed

definition billed_service :: service where
  "billed_service = demo_service\<lparr>svc_billing := Some 50\<rparr>"

lemma billed_context:
  "svc_billing billed_service = Some 50" "ctx_tenant_id (demo_context ''t1'') = Some ''t1''" "''t1'' \<noteq> []"
  by (simp_all add: billed_service_def demo_context_def)

lemma blocked_tenant_refused_witness:
  "\<exists>d. fst (handle_chat_completion memory_ops billed_service demo_times
      (demo_message ''hi'') (demo_context ''t1'') False (demo_world\<lparr>w_db := stuck_demo\<rparr>)) =
    Inl (HTTPExceptionDetail 402 d)"
proof -
  have "es_blocked (get_tenant_enforcement_state 50 (w_db (demo_world\<lparr>w_db := stuck_demo\<rparr>)) ''t1'')"
    using stuck_demo_blocked(2) by simp
  from blocked_tenant_refused [OF billed_context this, of memory_ops demo_times "demo_message ''hi''" False]
  show ?thesis by (metis fst_conv)
qed

text \<open>
  C5. From savings to the gate and back: when the ledger of a tenant's current period, which is
  open, reaches the threshold and its current subscription is not active, summarising the period
  makes the proxy refuse the tenant, and activating that subscription makes it admit the tenant
  again. The current period is the one the enforcement looks at: of the tenant's open and closing
  periods the one that ends last.
\<close>

theorem threshold_blocks_until_activation:
  assumes "billing_reachable threshold db"
    and "get_billing_period_row db pid = Inr p" "bp_status p = POpen" "bp_tenant_id p = tenant"
    and "current_period db tenant = Some p"
    and "threshold \<le> sql_sum (map lr_estimated_realized_savings_usd (period_ledger db p))"
    and "current_subscription db tenant = Some s" "sub_status s \<noteq> ''active''"
    and "svc_billing svc = Some threshold" "ctx_tenant_id ctx = Some tenant" "tenant \<noteq> []"
  shows "\<exists>db1 row d db2 srow.
    summarize_billing_period threshold db now pid = Inr (db1, row) \<and>
    enforce_billing_access svc ctx db1 = Inl (HTTPExceptionDetail 402 d) \<and>
    update_subscription_status db1 now' (sub_id s) ''active'' = Inr (db2, srow) \<and>
    enforce_billing_access svc ctx db2 = Inr ()"
proof -
  obtain db1 row where s: "summarize_billing_period threshold db now pid = Inr (db1, row)"
    "current_subscription db1 tenant = Some s" "es_blocked (get_tenant_enforcement_state threshold db1 tenant)"
    using summarize_blocks [OF assms(1-6), of now] assms(7,8) by auto
  obtain d where d: "enforce_billing_access svc ctx db1 = Inl (HTTPExceptionDetail 402 d)"
    using refused_detail [OF assms(9-11) s(3)] by blast
  obtain db2 srow where u: "update_subscription_status db1 now' (sub_id s) ''active'' = Inr (db2, srow)"
    "\<not> es_blocked (get_tenant_enforcement_state threshold db2 tenant)"
    using activation_lifts_block [OF s(2), of now' threshold] by blast
  have "enforce_billing_access svc ctx db2 = Inr ()"
    using u(2) assms(9-11) by (simp add: enforce_billing_access_def Let_def)
  with s(1) d u(1) show ?thesis by blast
qed

lemma threshold_blocks_until_activation_witness:
  "\<exists>db1 row d. summarize_billing_period 50 demo_db 11 ''billing_period_b'' = Inr (db1, row) \<and>
    enforce_billing_access billed_service (demo_context ''t1'') db1 = Inl (HTTPExceptionDetail 402 d)"
proof -
  have t: "50 \<le> sql_sum (map lr_estimated_realized_savings_usd (period_ledger demo_db demo_period))"
    "sub_status demo_subscription \<noteq> ''active''"
    by (simp_all add: demo_over_threshold)
  from threshold_blocks_until_activation [OF demo_reachable(2) demo_period_lookup(1) demo_over_threshold(1-3)
      t(1) demo_over_threshold(5) t(2) billed_context, of 11 12] show ?thesis by blast
qed

text \<open>
  A request whose content has parts, as multimodal clients send, is counted and then fails
  with the \<open>TypeError\<close> of the canonicalisation: nothing is looked up, sent or stored.
\<close>

theorem multimodal_request_fails:
  assumes "msg_content m = CParts (p # ps)" "m \<in> set (req_messages r)"
    and "enforce_billing_access svc ctx (w_db w) = Inr ()"
  shows "\<exists>msg. handle_chat_completion ops svc ti r ctx bt w = (Inl (TypeErr msg), tick ''requests_total'' w)"
proof -
  obtain msg where "canonicalize_request (svc_repr_float svc) r = Inl (TypeErr msg)"
    using canonicalize_parts [OF assms(2,1)] by blast
  then show ?thesis using assms(3) by (simp add: handle_chat_completion_def Let_def frame_simps)
qed

definition demo_image :: chat_message where
  "demo_image = \<lparr>msg_role = RUser, msg_content = CParts [\<lparr>part_type = ''text'', part_text = Some ''hi'',
     part_source = None, part_image_url = None\<rparr>]\<rparr>"

lemma multimodal_request_fails_witness:
  "\<exists>msg. fst (handle_chat_completion memory_ops demo_service demo_times
      ((demo_message ''hi'')\<lparr>req_messages := [demo_image]\<rparr>) (demo_context ''t1'') False demo_world) = Inl (TypeErr msg)"
proof -
  let ?r = "(demo_message ''hi'')\<lparr>req_messages := [demo_image]\<rparr>"
  have "msg_content demo_image = CParts [\<lparr>part_type = ''text'', part_text = Some ''hi'', part_source = None,
      part_image_url = None\<rparr>]" "demo_image \<in> set (req_messages ?r)"
    by (simp_all add: demo_image_def)
  from multimodal_request_fails [OF this demo_not_blocked, of memory_ops demo_times "demo_context ''t1''" False demo_world]
  show ?thesis by (metis fst_conv)
qed

section \<open>What reaches the provider\<close>

text \<open>
  C3. A handled request calls the provider at most once, with the request as the client sent
  it. An answer says so truthfully: it is tagged as a miss exactly when the provider was
  called, and otherwise as one of the two hits, which store nothing in either cache. A failed
  request stores nothing: not in the two caches, the database or the task queue. All that a hit
  or a failure may do to a cache is that the semantic lookup prunes expired entries.
\<close>

theorem provider_called_once:
  "case handle_chat_completion ops svc ti r ctx bt w of
     (Inr resp, w') \<Rightarrow>
       dict_get (resp_metera resp) ''cache'' = JStr ''miss'' \<and>
         w_upstream w' = w_upstream w @ [(r, resolve_upstream_bearer_token svc ctx)] \<or>
       dict_get (resp_metera resp) ''cache'' \<in> {JStr ''exact_hit'', JStr ''semantic_hit''} \<and>
         w_upstream w' = w_upstream w \<and> w_exact w' = w_exact w \<and>
         w_semantic w' \<in> {w_semantic w, fst (op_prune ops (w_semantic w) (t_lookup ti))}
   | (Inl e, w') \<Rightarrow>
       w_upstream w' \<in> {w_upstream w, w_upstream w @ [(r, resolve_upstream_bearer_token svc ctx)]} \<and>
       w_exact w' = w_exact w \<and> w_db w' = w_db w \<and> w_tasks w' = w_tasks w \<and>
       w_semantic w' \<in> {w_semantic w, fst (op_prune ops (w_semantic w) (t_lookup ti))}"
proof -
  obtain res w' where h: "handle_chat_completion ops svc ti r ctx bt w = (res, w')" by fastforce
  show ?thesis
  proof (cases res)
    case (Inl e)
    with h have "handle_chat_completion ops svc ti r ctx bt w = (Inl e, w')" by simp
    from handle_Inl_frame [OF this] handle_Inl_upstream [OF this] Inl h show ?thesis by (simp add: pruned_only_def)
  next
    case (Inr resp)
    with h have "handle_chat_completion ops svc ti r ctx bt w = (Inr resp, w')" by simp
    from handle_outcome [OF this] Inr h show ?thesis by (simp add: pruned_only_def)
  qed
qed

section \<open>What the caches answer\<close>

text \<open>
  On the in-memory store, which ignores the time to live, a fetched answer is served from the
  exact cache to every admitted caller with the same canonical text under the same namespace,
  however much later. The tenant, the workspace and the metadata play no part, and the lookup
  comes before, and so without, the semantic reuse rules.
\<close>

theorem memory_store_never_expires:
  assumes "mem_invar (w_exact w)" "dump_roundtrip svc"
    and "handle_chat_completion memory_ops svc ti r ctx bt w = (Inr resp, w')" "w_upstream w' \<noteq> w_upstream w"
    and "canonicalize_request (svc_repr_float svc) r' = canonicalize_request (svc_repr_float svc) r"
    and "ctx_namespace ctx' = ctx_namespace ctx" "enforce_billing_access svc ctx' (w_db w') = Inr ()"
  shows "\<exists>resp' w''. handle_chat_completion memory_ops svc ti' r' ctx' bt' w' = (Inr resp', w'') \<and>
    w_upstream w'' = w_upstream w' \<and> resp_choices resp' = resp_choices resp \<and>
    resp_usage resp' = resp_usage resp \<and> dict_get (resp_metera resp') ''cache'' = JStr ''exact_hit''"
proof -
  obtain sr nt res w1 reason outcome where adm: "admitted svc r ctx (w_db w) sr nt"
    by (rule handle_Inr_admitted [OF assms(3)])
  then have adm': "admitted svc r' ctx' (w_db w') sr nt"
    using assms(5,7) by (simp add: admitted_def)
  have "request_cache_key svc ctx' sr = request_cache_key svc ctx sr"
    using assms(6) by (simp add: request_cache_key_def)
  then have "op_get_json memory_ops (w_exact w') (request_cache_key svc ctx' sr) = Some (svc_dump svc resp)"
    using miss_stores_answer [OF assms(3,4) adm] mem.get_set [OF assms(1)]
    by (simp add: memory_ops_def exact_set_def)
  then show ?thesis by (rule stored_answer_hits [OF adm' assms(2)])
qed

lemma demo_roundtrip: "dump_roundtrip demo_service"
  by (simp add: dump_roundtrip_def demo_service_def load_dump_response dump_response_nonempty)

lemma memory_store_never_expires_witness:
  "\<exists>w' resp' w''. handle_chat_completion memory_ops demo_service demo_times
      ((demo_message ''hi'')\<lparr>req_metadata := [(''user'', JStr ''u2'')]\<rparr>) (demo_context ''t2'') False w' = (Inr resp', w'') \<and>
    w_upstream w' = [(demo_message ''hi'', None)] \<and> w_upstream w'' = w_upstream w'"
proof -
  let ?r = "(demo_message ''hi'')\<lparr>req_metadata := [(''user'', JStr ''u2'')]\<rparr>"
  obtain resp w' where first: "handle_chat_completion memory_ops demo_service demo_times (demo_message ''hi'')
      (demo_context ''t1'') False demo_world = (Inr resp, w')" "w_upstream w' = [(demo_message ''hi'', None)]"
    using demo_miss [of "''hi''" "demo_context ''t1''" False]
    by (auto simp: resolve_upstream_bearer_token_def demo_context_def new_context_def)
  have "mem_invar (w_exact demo_world)" "w_upstream w' \<noteq> w_upstream demo_world"
    using first(2) by (simp_all add: demo_world_def mem_invar_def)
  moreover have "canonicalize_request (svc_repr_float demo_service) ?r =
      canonicalize_request (svc_repr_float demo_service) (demo_message ''hi'')"
    by (rule canonicalize_request_cong) simp_all
  moreover have "ctx_namespace (demo_context ''t2'') = ctx_namespace (demo_context ''t1'')"
    by (simp add: demo_context_def new_context_def)
  ultimately show ?thesis
    using memory_store_never_expires [OF _ demo_roundtrip first(1) _ _ _ demo_not_blocked,
        of ?r "demo_context ''t2''" demo_times False] first(2) by metis
qed

text \<open>
  C4. An answer tagged as a semantic hit is the stored answer of an unexpired entry of the
  caller's own namespace, tenant and workspace, and in a run that began with an empty semantic
  store that entry was written for a text with the same SHA-256 as the caller's scrubbed text,
  that is, for the same text unless SHA-256 collides. The exact store is arbitrary.
\<close>

theorem semantic_hit_is_own_text:
  assumes "service_run (svc_sha svc) (cache_ops_of g st d mem_add mem_find_best_match
      mem_invalidate_namespace mem_prune_expired) w0 w" "w_semantic w0 = []"
    and "handle_chat_completion (cache_ops_of g st d mem_add mem_find_best_match
      mem_invalidate_namespace mem_prune_expired) svc ti r ctx bt w = (Inr resp, w')"
    and "dict_get (resp_metera resp) ''cache'' = JStr ''semantic_hit''"
  shows "\<exists>rec \<in> set (w_semantic w). \<exists>stored nt.
    sr_namespace rec = ctx_namespace ctx \<and> sr_tenant_id rec = ctx_tenant_id ctx \<and>
    sr_workspace_id rec = ctx_workspace_id ctx \<and> \<not> is_expired rec (t_lookup ti) \<and>
    canonicalize_request (svc_repr_float svc) r = Inr nt \<and>
    svc_sha svc (sr_text rec) = svc_sha svc (scrubbed_text (scrub_request svc nt)) \<and>
    svc_load svc (sr_response_payload rec) = Inr stored \<and> resp_choices resp = resp_choices stored \<and>
    resp_usage resp = resp_usage stored"
proof -
  let ?ops = "cache_ops_of g st d mem_add mem_find_best_match mem_invalidate_namespace mem_prune_expired"
  obtain sr nt w1 reason outcome where adm: "admitted svc r ctx (w_db w) sr nt"
    and s: "serve_cached ?ops svc ti r ctx sr nt bt (entry_world sr w) = ((Inr (resp, outcome), w1), reason)"
    by (rule handle_Inr_admitted [OF assms(3)])
  obtain s' h stored where h: "lookup_match ?ops svc ti r ctx sr (w_semantic w) = (s', Some h)"
    "dict_get (sh_metadata h) ''request_fingerprint'' = JStr (semantic_request_fingerprint svc (scrubbed_text sr))"
    "svc_load svc (sh_payload h) = Inr stored" "resp_choices resp = resp_choices stored"
    "resp_usage resp = resp_usage stored"
    using serve_cached_semantic [OF s assms(4)] by (auto simp: frame_simps)
  from mem_sem.semantic_answer_source [OF h(1)] obtain rec where rec: "rec \<in> set (w_semantic w)"
    "sr_namespace rec = ctx_namespace ctx" "sr_tenant_id rec = ctx_tenant_id ctx"
    "sr_workspace_id rec = ctx_workspace_id ctx" "\<not> is_expired rec (t_lookup ti)"
    "sh_payload h = sr_response_payload rec" "sh_metadata h = sr_metadata rec" by blast
  have "own_fingerprint (svc_sha svc) rec"
    using mem_sem.run_fingerprints [OF assms(1)] assms(2) rec(1) by simp
  then have "svc_sha svc (sr_text rec) = svc_sha svc (scrubbed_text sr)"
    using h(2) rec(7) by (simp add: own_fingerprint_def semantic_request_fingerprint_def)
  then show ?thesis using rec h(3-) adm by (auto simp: admitted_def)
qed

definition demo_entry :: "string \<Rightarrow> semantic_record" where
  "demo_entry nt = new_entry (\<lambda>_. [1]) 60 0 (request_scope (demo_message ''hi'') (demo_context ''t1'')) nt
     (dump_response demo_reply) [(''request_fingerprint'', JStr nt)]"

lemma demo_lookup:
  fixes nt :: string
  defines "rec \<equiv> demo_indexed (demo_context ''t1'') ''hi'' nt"
  shows "lookup_match memory_ops demo_service demo_times (demo_message ''hi'') (demo_context ''t1'') (unscrubbed nt)
     [rec] = ([rec], Some \<lparr>sh_similarity = 1, sh_payload = sr_response_payload rec, sh_metadata = sr_metadata rec\<rparr>)"
proof -
  have "cosine_similarity [1] [1] = 1"
    by (simp add: cosine_similarity_def fmul_def fadd_def fsqrt_def fdiv_def Let_def)
  then have "mem_find_best_match [rec] (lookup_query (\<lambda>_. [1]) 0 0
      (request_scope (demo_message ''hi'') (demo_context ''t1'')) nt None None) =
      Some \<lparr>match_record = rec, match_similarity = 1\<rparr>"
    by (simp add: mem_find_best_match_def scan_step_def mem_eligible_def lookup_query_def rec_def demo_indexed_def
        new_entry_def is_expired_def)
  moreover have "\<not> is_expired rec 0" by (simp add: rec_def demo_indexed_def new_entry_def is_expired_def)
  moreover have "svc_emb demo_service = (\<lambda>_. [1])" "svc_semantic_threshold demo_service = 0"
    "t_lookup demo_times = 0" "scrubbed_text (unscrubbed nt) = nt"
    by (simp_all add: demo_service_def demo_times_def unscrubbed_def)
  ultimately show ?thesis
    by (simp add: lookup_match_def find_match_def memory_ops_def mem_prune_expired_def Let_def)
qed

text \<open>The entry a first request has indexed answers the second once the exact entry is gone.\<close>

lemma demo_semantic_hit:
  assumes "canonicalize_request (\<lambda>_. ''0.0'') (demo_message ''hi'') = Inr nt" "w_exact w = []"
    and "w_semantic w = [demo_indexed (demo_context ''t1'') ''hi'' nt]"
  shows "\<exists>resp w'. handle_chat_completion memory_ops demo_service demo_times (demo_message ''hi'') (demo_context ''t1'')
      False w = (Inr resp, w') \<and> dict_get (resp_metera resp) ''cache'' = JStr ''semantic_hit''"
proof -
  let ?sr = "unscrubbed nt" and ?rec = "demo_indexed (demo_context ''t1'') ''hi'' nt"
  obtain nt' where adm': "\<And>ctx db. admitted demo_service (demo_message ''hi'') ctx db (unscrubbed nt') nt'"
    using demo_admitted [of "''hi''"] by blast
  then have "nt' = nt" using assms(1) by (simp add: admitted_def demo_service_def)
  with adm' have adm: "\<And>ctx db. admitted demo_service (demo_message ''hi'') ctx db ?sr nt" by simp
  let ?u = "(entry_world ?sr w)\<lparr>w_semantic := [?rec]\<rparr>"
  let ?extra = "[(''semantic_similarity'', JFloat 1), (''semantic_metadata'', JObj (sr_metadata ?rec))]"
  let ?hit = "serve_hit demo_service demo_times (demo_context ''t1'') ?sr ''semantic_hit'' ''cache_semantic_hits''
      ?extra (sr_response_payload ?rec) ?u"
  have e: "w_exact (entry_world ?sr w) = []" "w_semantic (entry_world ?sr w) = [?rec]"
    using assms by (simp_all add: frame_simps)
  have f: "dict_get (sr_metadata ?rec) ''request_fingerprint'' =
      JStr (semantic_request_fingerprint demo_service (scrubbed_text ?sr))"
    by (simp add: demo_indexed_def new_entry_def entry_metadata_def dict_get_def)
  have sc: "serve_cached memory_ops demo_service demo_times (demo_message ''hi'') (demo_context ''t1'') ?sr nt False
      (entry_world ?sr w) = (?hit, None)"
    using e f demo_lookup [of nt]
    by (simp add: serve_cached_def serve_semantic_def demo_allowed lookup_match_def exact_get_def
        memory_ops_def mem_get_json_def)
  have "svc_load demo_service (sr_response_payload ?rec) =
      Inr (miss_response demo_service (demo_context ''t1'') ?sr None demo_reply)"
    by (simp add: demo_service_def load_dump_response demo_indexed_def new_entry_def)
  then obtain resp w1 where r: "?hit = (Inr (resp, ''semantic_hit''), w1)"
    "dict_get (resp_metera resp) ''cache'' = JStr ''semantic_hit''"
    by (simp add: serve_hit_cases metera_simps)
  from handle_admitted [OF adm sc [unfolded r(1)]] r(2) show ?thesis by simp
qed

lemma semantic_hit_is_own_text_witness:
  "\<exists>w resp w' nt. handle_chat_completion memory_ops demo_service demo_times (demo_message ''hi'') (demo_context ''t1'')
      False w = (Inr resp, w') \<and> dict_get (resp_metera resp) ''cache'' = JStr ''semantic_hit'' \<and>
    (\<exists>rec \<in> set (w_semantic w). sr_tenant_id rec = Some ''t1'' \<and>
      svc_sha demo_service (sr_text rec) = svc_sha demo_service nt)"
proof -
  have new: "w_exact demo_world = []" "w_semantic demo_world = []" "t_add demo_times = 0"
    by (simp_all add: demo_world_def demo_times_def)
  obtain resp w1 nt where first: "handle_chat_completion memory_ops demo_service demo_times (demo_message ''hi'')
      (demo_context ''t1'') False demo_world = (Inr resp, w1)"
    "canonicalize_request (\<lambda>_. ''0.0'') (demo_message ''hi'') = Inr nt"
    "w_semantic w1 = [demo_indexed (demo_context ''t1'') ''hi'' nt]"
    using empty_caches_index [of mem_get_json demo_world demo_times mem_set_json mem_delete_prefix "''hi''"
      "demo_context ''t1''" False] new by (auto simp: memory_ops_def mem_get_json_def)
  let ?w = "w1\<lparr>w_exact := []\<rparr>"
  have run: "service_run (svc_sha demo_service) memory_ops demo_world ?w"
    by (rule service_run.exact_changed [OF service_run.handled [OF service_run.begun refl first(1)]])
  obtain resp' w' where hit: "handle_chat_completion memory_ops demo_service demo_times (demo_message ''hi'')
      (demo_context ''t1'') False ?w = (Inr resp', w')" "dict_get (resp_metera resp') ''cache'' = JStr ''semantic_hit''"
    using demo_semantic_hit [OF first(2), of ?w] first(3) by auto
  have "ctx_tenant_id (demo_context ''t1'') = Some ''t1''" by (simp add: demo_context_def)
  with semantic_hit_is_own_text [OF run [unfolded memory_ops_def] new(2) hit(1) [unfolded memory_ops_def] hit(2)] hit
  show ?thesis by metis
qed

section \<open>What is written down\<close>

text \<open>
  C7. With the request ledger attached, every answer of the endpoint without streaming to a request
  id that is new in the ledger adds one ledger row for the caller's tenant, and that row accounts
  for the price of the answer once: as upstream cost when the provider was called, as realised
  savings when a cache answered. A streamed answer adds no row.
\<close>

theorem ledger_accounts_each_answer:
  assumes "handle_chat_completion ops svc ti r ctx bt w = (Inr resp, w')" "svc_request_ledger svc"
    and "opt_else (ctx_request_id ctx) [] \<notin> lr_request_id ` set (request_ledger (w_db w))"
  shows "(\<exists>row. request_ledger (w_db w') = request_ledger (w_db w) @ [row] \<and>
    lr_tenant_id row = ctx_tenant_id ctx \<and> lr_namespace row = ctx_namespace ctx \<and>
    (if w_upstream w' \<noteq> w_upstream w
     then lr_cache_outcome row = ''miss'' \<and> lr_estimated_upstream_cost_usd row = resp_cost resp \<and>
       lr_estimated_realized_savings_usd row = 0
     else lr_cache_outcome row \<noteq> ''miss'' \<and> lr_estimated_upstream_cost_usd row = 0 \<and>
       lr_estimated_realized_savings_usd row = resp_cost resp)) \<and>
    request_ledger (w_db (snd (handle_chat_completion_stream svc r2 ctx2 w2))) = request_ledger (w_db w2)"
proof -
  obtain sr nt w1 reason outcome where s:
    "serve_cached ops svc ti r ctx sr nt bt (entry_world sr w) = ((Inr (resp, outcome), w1), reason)"
    and w': "w' = w1\<lparr>w_db := record_controlplane_events svc ti r ctx resp outcome reason (w_db w1)\<rparr>"
    by (rule handle_Inr_admitted [OF assms(1)])
  let ?row = "(ledger_entry svc ti r ctx resp outcome reason)\<lparr>lr_observed_at := t_log ti\<rparr>"
  have "w_db w1 = w_db w" using serve_cached_db [OF s] by (simp add: frame_simps)
  then have "request_ledger (w_db w') = request_ledger (w_db w) @ [?row]"
    using assms(2,3) by (simp add: w' record_controlplane_ledger log_request_ledger ledger_entry_def)
  moreover have "w_upstream w' \<noteq> w_upstream w \<longleftrightarrow> outcome = ''miss''"
    using serve_cached_outcome [OF s] by (auto simp: w' frame_simps)
  moreover have "lr_tenant_id ?row = ctx_tenant_id ctx" "lr_namespace ?row = ctx_namespace ctx"
    "lr_cache_outcome ?row = outcome"
    "lr_estimated_upstream_cost_usd ?row = (if outcome = ''miss'' then resp_cost resp else 0)"
    "lr_estimated_realized_savings_usd ?row = (if outcome = ''miss'' then 0 else resp_cost resp)"
    using serve_cached_costs [OF s] by (simp_all add: ledger_entry_def)
  moreover have "request_ledger (w_db (snd (handle_chat_completion_stream svc r2 ctx2 w2))) = request_ledger (w_db w2)"
    by (simp add: handle_chat_completion_stream_def Let_def frame_simps split: sum.splits)
  ultimately show ?thesis by (cases "outcome = ''miss''") auto
qed

lemma ledger_accounts_each_answer_witness:
  "\<exists>resp w' row. handle_chat_completion memory_ops demo_service demo_times (demo_message ''hi'')
      (demo_context ''t1'') False demo_world = (Inr resp, w') \<and> request_ledger (w_db w') = [row] \<and>
    lr_tenant_id row = Some ''t1'' \<and> lr_estimated_upstream_cost_usd row = resp_cost resp"
proof -
  obtain resp w' where h: "handle_chat_completion memory_ops demo_service demo_times (demo_message ''hi'')
      (demo_context ''t1'') False demo_world = (Inr resp, w')" "w_upstream w' \<noteq> w_upstream demo_world"
    using demo_miss [of "''hi''" "demo_context ''t1''" False] by (auto simp: demo_world_def)
  have e: "request_ledger (w_db demo_world) = []" "svc_request_ledger demo_service"
    "ctx_tenant_id (demo_context ''t1'') = Some ''t1''"
    by (simp_all add: demo_world_def empty_database_def demo_service_def demo_context_def)
  have "opt_else (ctx_request_id (demo_context ''t1'')) [] \<notin> lr_request_id ` set (request_ledger (w_db demo_world))"
    by (simp add: e)
  from ledger_accounts_each_answer [OF h(1) e(2) this, THEN conjunct1] h e show ?thesis by auto
qed

text \<open>
  The background measurement is a near miss or nothing: it writes analytics only for a
  match of the request's own tenant, workspace and scope that is less similar than the live
  threshold, and it never answers a request, adds to a cache or calls the provider.
\<close>

theorem shadow_measures_near_misses:
  assumes "w_db (record_shadow_semantic_outcome memory_ops svc now task w) \<noteq> w_db w"
  shows "(\<exists>rec \<in> set (w_semantic w). sr_tenant_id rec = sc_tenant_id (st_scope task) \<and>
      sr_workspace_id rec = sc_workspace_id (st_scope task) \<and>
      cosine_similarity (svc_emb svc (st_scrubbed_text task)) (sr_vector rec) < st_live_threshold task) \<and>
    w_exact (record_shadow_semantic_outcome memory_ops svc now task w) = w_exact w \<and>
    set (w_semantic (record_shadow_semantic_outcome memory_ops svc now task w)) \<subseteq> set (w_semantic w) \<and>
    w_upstream (record_shadow_semantic_outcome memory_ops svc now task w) = w_upstream w"
  using mem_proxy.shadow_outcome_window [OF assms [unfolded memory_ops_def]]
    shadow_frame [of memory_ops svc now task w]
    by (auto simp: memory_ops_def mem_prune_expired_def Let_def)

definition demo_task :: shadow_task where
  "demo_task = \<lparr>st_request_id = ''r1'',
     st_scope = request_scope (demo_message ''hi'') (demo_context ''t1''), st_scrubbed_text = ''hi'',
     st_prompt_text = ''hi'', st_estimated_savings_usd = 0, st_live_threshold = 2,
     st_shadow_threshold = 0, st_created_before = 1\<rparr>"

lemma shadow_measures_near_misses_witness:
  "\<exists>rec \<in> set (w_semantic (demo_world\<lparr>w_semantic := [demo_entry ''hi'']\<rparr>)).
    cosine_similarity (svc_emb demo_service ''hi'') (sr_vector rec) < 2"
proof -
  let ?w = "demo_world\<lparr>w_semantic := [demo_entry ''hi'']\<rparr>"
  have c: "cosine_similarity [1] [1] = 1"
    by (simp add: cosine_similarity_def fmul_def fadd_def fsqrt_def fdiv_def Let_def)
  have emb: "svc_emb demo_service = (\<lambda>_. [1])" "svc_shadow_savings demo_service = False"
    by (simp_all add: demo_service_def)
  have "mem_find_best_match [demo_entry ''hi''] (lookup_query (\<lambda>_. [1]) (svc_semantic_threshold demo_service) 5
      (st_scope demo_task) ''hi'' (Some 0) (Some 1)) = Some \<lparr>match_record = demo_entry ''hi'', match_similarity = 1\<rparr>"
    using c by (simp add: mem_find_best_match_def scan_step_def mem_eligible_def lookup_query_def demo_entry_def
        new_entry_def is_expired_def demo_task_def)
  moreover have "\<not> is_expired (demo_entry ''hi'') 5" by (simp add: demo_entry_def new_entry_def is_expired_def)
  ultimately have "length (shadow_analytics (w_db (record_shadow_semantic_outcome memory_ops demo_service 5 demo_task ?w))) = 1"
    using emb by (simp add: record_shadow_semantic_outcome_def find_match_def memory_ops_def mem_prune_expired_def
        demo_task_def frame_simps Let_def log_shadow_hit_def purge_expired_def demo_world_def empty_database_def)
  then have "w_db (record_shadow_semantic_outcome memory_ops demo_service 5 demo_task ?w) \<noteq> w_db ?w"
    by (auto simp: demo_world_def empty_database_def)
  from shadow_measures_near_misses [OF this] show ?thesis by (simp add: demo_task_def)
qed

section \<open>Invalidation\<close>

context proxy_caches
begin

lemma invalidated_goes_upstream:
  assumes "invar (w_exact w)" "namespace_ok (ctx_namespace ctx)"
    and "handle_chat_completion ops svc ti r ctx bt
      (snd (invalidate_namespace ops (ctx_namespace ctx) w)) = (Inr resp, w')"
  shows "w_upstream w' = w_upstream w @ [(r, resolve_upstream_bearer_token svc ctx)] \<and>
    dict_get (resp_metera resp) ''cache'' = JStr ''miss''"
proof -
  let ?w = "snd (invalidate_namespace ops (ctx_namespace ctx) w)"
  obtain sr nt w1 reason outcome where s:
    "serve_cached ops svc ti r ctx sr nt bt (entry_world sr ?w) = ((Inr (resp, outcome), w1), reason)"
    by (rule handle_Inr_admitted [OF assms(3)])
  note inv = invalidated_namespace_misses [where svc = svc and sr = sr, OF assms(1,2) refl]
  have "outcome = ''miss''"
  proof (cases rule: serve_cached_cases [of ops "entry_world sr ?w" svc ctx sr ti r nt bt])
    case (exact hit)
    with inv(1) show ?thesis by (simp add: frame_simps)
  next
    case (semantic s' h extra)
    with inv(2) [of ti r] show ?thesis by (simp add: frame_simps)
  next
    case (upstream w0 allowed reason')
    with s have "serve_upstream ops svc ti r ctx sr nt (request_cache_key svc ctx sr) allowed reason' bt w0 =
        (Inr (resp, outcome), w1)" by auto
    then show ?thesis by (rule serve_upstream_outcome)
  qed
  with handle_outcome [OF assms(3)] serve_cached_tag [OF s] show ?thesis
    by (simp add: invalidate_namespace_upstream)
qed

end

text \<open>
  C16. After an administrator invalidates a namespace, the next admitted request under it finds
  neither cache and is answered by the provider.
\<close>

theorem invalidated_namespace_goes_upstream:
  assumes "mem_invar (w_exact w)" "namespace_ok (ctx_namespace ctx)"
    and "handle_chat_completion memory_ops svc ti r ctx bt
      (snd (invalidate_namespace memory_ops (ctx_namespace ctx) w)) = (Inr resp, w')"
  shows "w_upstream w' = w_upstream w @ [(r, resolve_upstream_bearer_token svc ctx)] \<and>
    dict_get (resp_metera resp) ''cache'' = JStr ''miss''"
  using assms unfolding memory_ops_def by (rule mem_proxy.invalidated_goes_upstream)

lemma invalidated_namespace_goes_upstream_witness:
  "\<exists>resp w'. handle_chat_completion memory_ops demo_service demo_times (demo_message ''hi'') (demo_context ''t1'') False
      (snd (invalidate_namespace memory_ops ''n1'' (demo_world\<lparr>w_semantic := [demo_entry ''hi'']\<rparr>))) = (Inr resp, w') \<and>
    dict_get (resp_metera resp) ''cache'' = JStr ''miss''"
proof -
  let ?w = "demo_world\<lparr>w_semantic := [demo_entry ''hi'']\<rparr>"
  have n: "ctx_namespace (demo_context ''t1'') = ''n1''" by (simp add: demo_context_def new_context_def)
  have ok: "mem_invar (w_exact ?w)" "namespace_ok (ctx_namespace (demo_context ''t1''))"
    by (simp_all add: n demo_world_def mem_invar_def namespace_ok_def valid_namespace_character_def
        is_lower_alpha_def code_point_def is_digit_def)
  have "w_exact (snd (invalidate_namespace memory_ops ''n1'' ?w)) = []"
    "w_semantic (snd (invalidate_namespace memory_ops ''n1'' ?w)) = []"
    by (simp_all add: invalidate_namespace_def case_prod_beta frame_simps memory_ops_def Let_def
        exact_invalidate_namespace_def mem_delete_prefix_eq mem_invalidate_namespace_def demo_world_def
        demo_entry_def new_entry_def request_scope_def n)
  from empty_caches_miss [OF this, of demo_times "''hi''" "demo_context ''t1''" False]
  obtain resp w' where "handle_chat_completion memory_ops demo_service demo_times (demo_message ''hi'')
      (demo_context ''t1'') False (snd (invalidate_namespace memory_ops (ctx_namespace (demo_context ''t1'')) ?w)) =
      (Inr resp, w')"
    unfolding n by (auto simp: demo_times_def)
  from invalidated_namespace_goes_upstream [OF ok this] this show ?thesis unfolding n by blast
qed

section \<open>The hit rate\<close>

text \<open>
  However chat requests, background tasks and invalidations interleave after a reset of
  the counters, every request is counted once with at most one outcome, so the hit rate the
  metrics endpoint reports is between 0 and 1.
\<close>

theorem hit_rate_in_range:
  assumes "proxy_run ops w w'" "w_metrics w = reset_metrics m"
  shows "0 \<le> snap_hit_rate (snapshot_metrics (w_metrics w')) \<and>
    snap_hit_rate (snapshot_metrics (w_metrics w')) \<le> 1"
proof -
  have "counts_ok (world_counts w)" using assms(2) counts_ok_reset by (simp add: world_counts_def)
  from counts_ok_run [OF assms(1) this] show ?thesis
    by (intro counts_ok_hit_rate) (simp add: world_counts_def)
qed

lemma hit_rate_in_range_witness:
  "\<exists>w. proxy_run memory_ops demo_world w \<and> w_upstream w = [(demo_message ''hi'', None)] \<and>
    snap_hit_rate (snapshot_metrics (w_metrics w)) \<le> 1"
proof -
  obtain resp w where "handle_chat_completion memory_ops demo_service demo_times (demo_message ''hi'')
      (demo_context ''t1'') False demo_world = (Inr resp, w)" and u: "w_upstream w = [(demo_message ''hi'', None)]"
    using demo_miss [of "''hi''" "demo_context ''t1''" False]
    by (auto simp: resolve_upstream_bearer_token_def demo_context_def new_context_def)
  then have "proxy_step memory_ops demo_world w" by (metis proxy_step.chat snd_conv)
  then have run: "proxy_run memory_ops demo_world w" by (rule proxy_run.step [OF proxy_run.start])
  have "w_metrics demo_world = reset_metrics (w_metrics demo_world)" by (simp add: demo_world_def reset_metrics_def)
  from hit_rate_in_range [OF run this] run u show ?thesis by blast
qed

end
