(* ===== verification/Identity.thy ===== *)
theory Identity
  imports Authz Tables
begin

text \<open>
  The identity plane: \<open>PostgresApiKeyRepository\<close> of
  \<open>app/controlplane/repositories/api_keys.py\<close> over tables of rows, the two key resolvers of
  \<open>app/controlplane/auth\<close> and \<open>IdentityService\<close>. A transaction that raises leaves the
  tables as they were. SHA-256 and Python's \<open>str\<close> on values other than strings are
  arguments; \<open>uuid4\<close> and \<open>token_urlsafe\<close> hand the operations their fresh texts.
\<close>

section \<open>Tables\<close>

record tenant_row =
  tn_id :: string
  tn_slug :: string
  tn_name :: string
  tn_status :: string
  tn_metadata :: dict
  tn_created_at :: timestamp
  tn_updated_at :: timestamp

record workspace_row =
  ws_id :: string
  ws_tenant_id :: string
  ws_slug :: string
  ws_name :: string
  ws_status :: string
  ws_default_environment_id :: "string option"
  ws_metadata :: dict
  ws_created_at :: timestamp
  ws_updated_at :: timestamp

record environment_row =
  env_id :: string
  env_workspace_id :: string
  env_name :: string
  env_status :: string
  env_metadata :: dict
  env_created_at :: timestamp
  env_updated_at :: timestamp

record api_key_row =
  ak_id :: string
  ak_tenant_id :: string
  ak_workspace_id :: string
  ak_environment_id :: "string option"
  ak_key_prefix :: string
  ak_key_hash :: string
  ak_display_name :: string
  ak_status :: string
  ak_last_used_at :: "timestamp option"
  ak_expires_at :: "timestamp option"
  ak_metadata :: dict
  ak_created_at :: timestamp
  ak_updated_at :: timestamp
  ak_revoked_at :: "timestamp option"

record key_log_row =
  kl_api_key_id :: string
  kl_tenant_id :: string
  kl_workspace_id :: string
  kl_event_type :: string
  kl_actor_type :: string
  kl_actor_id :: "string option"
  kl_payload :: dict
  kl_created_at :: timestamp

record identity_db =
  tenants :: "tenant_row list"
  workspaces :: "workspace_row list"
  environments :: "environment_row list"
  api_keys :: "api_key_row list"
  api_key_lifecycle_log :: "key_log_row list"

definition empty_identity :: identity_db where
  "empty_identity = \<lparr>tenants = [], workspaces = [], environments = [], api_keys = [],
     api_key_lifecycle_log = []\<rparr>"

text \<open>\<open>INSERT ... ON CONFLICT (id) DO UPDATE\<close>, the other constraints aside.\<close>

definition upsert_by :: "('a \<Rightarrow> string) \<Rightarrow> ('a \<Rightarrow> 'a) \<Rightarrow> 'a \<Rightarrow> 'a list \<Rightarrow> 'a list" where
  "upsert_by key f r rows =
     (if list_ex (\<lambda>x. key x = key r) rows then map (\<lambda>x. if key x = key r then f x else x) rows
      else rows @ [r])"

section \<open>Fresh names\<close>

text \<open>
  \<open>str.title\<close>: a cased character after another is lower case, any other title case. The
  upper case of two Latin-1 letters lies outside Latin-1; they are left alone.
\<close>

definition is_cased :: "char \<Rightarrow> bool" where
  "is_cased c = (let n = code_point c in (65 \<le> n \<and> n \<le> 90) \<or> (97 \<le> n \<and> n \<le> 122) \<or>
     n \<in> {170, 181, 186} \<or> (192 \<le> n \<and> n \<le> 255 \<and> n \<noteq> 215 \<and> n \<noteq> 247))"

definition title_char :: "char \<Rightarrow> string" where
  "title_char c = (let n = code_point c in
     if n = 223 then ''Ss''
     else if (97 \<le> n \<and> n \<le> 122) \<or> (224 \<le> n \<and> n \<le> 254 \<and> n \<noteq> 247) then [char_of (n - 32)]
     else [c])"

fun title_from :: "bool \<Rightarrow> string \<Rightarrow> string" where
  "title_from previous_cased [] = []"
| "title_from previous_cased (c # cs) =
     (if previous_cased then [lower_char c] else title_char c) @ title_from (is_cased c) cs"

definition slug_title :: "string \<Rightarrow> string" where
  "slug_title slug = title_from False (map (\<lambda>c. if c = CHR ''-'' then CHR '' '' else c) slug)"

definition generate_tenant_id :: "string \<Rightarrow> string" where
  "generate_tenant_id uuid = ''tenant_'' @ uuid"

definition generate_workspace_id :: "string \<Rightarrow> string" where
  "generate_workspace_id uuid = ''ws_'' @ uuid"

definition generate_api_key_id :: "string \<Rightarrow> string" where
  "generate_api_key_id uuid = ''mk_'' @ uuid"

definition generate_plaintext_api_key :: "string \<Rightarrow> string" where
  "generate_plaintext_api_key token = ''metera_live_'' @ token"

definition derive_key_prefix :: "string \<Rightarrow> string" where
  "derive_key_prefix plaintext =
     ''mk_live_'' @ take 8 (if prefix ''metera_live_'' plaintext then drop 12 plaintext else plaintext)"

definition normalize_metadata :: "dict option \<Rightarrow> dict" where
  "normalize_metadata metadata = opt_else metadata []"

section \<open>Tenants and workspaces\<close>

definition create_tenant ::
  "identity_db \<Rightarrow> timestamp \<Rightarrow> string \<Rightarrow> string \<Rightarrow> string \<Rightarrow> dict option \<Rightarrow> (identity_db \<times> tenant_row) result" where
  "create_tenant db now uuid slug name metadata =
     (let row = \<lparr>tn_id = generate_tenant_id uuid, tn_slug = slug, tn_name = name, tn_status = ''active'',
                 tn_metadata = normalize_metadata metadata, tn_created_at = now, tn_updated_at = now\<rparr>
      in if list_ex (\<lambda>t. tn_slug t = slug) (tenants db)
         then Inl (IdentityConflict (''Tenant slug '' @ quoted slug @ '' already exists''))
         else if list_ex (\<lambda>t. tn_id t = tn_id row) (tenants db) then Inl (UniqueViolation ''tenants_pkey'')
         else Inr (db\<lparr>tenants := tenants db @ [row]\<rparr>, row))"

definition create_workspace ::
  "identity_db \<Rightarrow> timestamp \<Rightarrow> string \<Rightarrow> string \<Rightarrow> string \<Rightarrow> string \<Rightarrow> dict option \<Rightarrow>
   (identity_db \<times> workspace_row) result" where
  "create_workspace db now uuid tenant_id slug name metadata =
     (let row = \<lparr>ws_id = generate_workspace_id uuid, ws_tenant_id = tenant_id, ws_slug = slug,
                 ws_name = name, ws_status = ''active'', ws_default_environment_id = None,
                 ws_metadata = normalize_metadata metadata, ws_created_at = now, ws_updated_at = now\<rparr>
      in if \<not> list_ex (\<lambda>t. tn_id t = tenant_id) (tenants db) then Inl (IdentityNotFound ''Tenant not found'')
         else if list_ex (\<lambda>w. ws_tenant_id w = tenant_id \<and> ws_slug w = slug) (workspaces db)
         then Inl (IdentityConflict (''Workspace slug '' @ quoted slug @ '' already exists for tenant '' @
                quoted tenant_id))
         else if list_ex (\<lambda>w. ws_id w = ws_id row) (workspaces db)
         then Inl (UniqueViolation ''workspaces_pkey'')
         else Inr (db\<lparr>workspaces := workspaces db @ [row]\<rparr>, row))"

section \<open>Keys\<close>

definition insert_api_key :: "identity_db \<Rightarrow> api_key_row \<Rightarrow> identity_db result" where
  "insert_api_key db k =
     (if list_ex (\<lambda>k'. ak_id k' = ak_id k) (api_keys db) then Inl (UniqueViolation ''api_keys_pkey'')
      else if list_ex (\<lambda>k'. ak_key_prefix k' = ak_key_prefix k) (api_keys db)
      then Inl (UniqueViolation ''api_keys_key_prefix_key'')
      else if \<not> list_ex (\<lambda>t. tn_id t = ak_tenant_id k) (tenants db)
      then Inl (ForeignKeyViolation ''api_keys.tenant_id'')
      else Inr (db\<lparr>api_keys := api_keys db @ [k]\<rparr>))"

definition log_key_event :: "identity_db \<Rightarrow> key_log_row \<Rightarrow> identity_db" where
  "log_key_event db e = db\<lparr>api_key_lifecycle_log := api_key_lifecycle_log db @ [e]\<rparr>"

record key_args =
  ka_tenant_id :: string
  ka_workspace_id :: string
  ka_display_name :: string
  ka_tenant_role :: string
  ka_tenant_capabilities :: "string list"
  ka_environment_id :: "string option"
  ka_metadata :: "dict option"
  ka_actor_id :: string

record issued_key =
  ik_row :: api_key_row
  ik_plaintext_api_key :: string
  ik_tenant_role :: string
  ik_tenant_capabilities :: "string list"

text \<open>The checks of the workspace and the environment, then the row.\<close>

definition check_key_scope :: "identity_db \<Rightarrow> key_args \<Rightarrow> unit result" where
  "check_key_scope db a =
     (case find (\<lambda>w. ws_id w = ka_workspace_id a) (workspaces db) of
        None \<Rightarrow> Inl (IdentityNotFound ''Workspace not found'')
      | Some w \<Rightarrow>
          if ws_tenant_id w \<noteq> ka_tenant_id a
          then Inl (IdentityValidation ''Workspace does not belong to tenant'')
          else (case ka_environment_id a of
                  None \<Rightarrow> Inr ()
                | Some e \<Rightarrow>
                    (case find (\<lambda>x. env_id x = e) (environments db) of
                       None \<Rightarrow> Inl (IdentityNotFound ''Environment not found'')
                     | Some x \<Rightarrow>
                         if env_workspace_id x \<noteq> ka_workspace_id a
                         then Inl (IdentityValidation ''Environment does not belong to workspace'')
                         else Inr ())))"

definition issued_row ::
  "(string \<Rightarrow> string) \<Rightarrow> timestamp \<Rightarrow> string \<Rightarrow> string \<Rightarrow> key_args \<Rightarrow> string \<Rightarrow> string list \<Rightarrow> api_key_row" where
  "issued_row sha now uuid plaintext a role caps = \<lparr>
     ak_id = generate_api_key_id uuid, ak_tenant_id = ka_tenant_id a, ak_workspace_id = ka_workspace_id a,
     ak_environment_id = ka_environment_id a, ak_key_prefix = derive_key_prefix plaintext,
     ak_key_hash = sha plaintext, ak_display_name = ka_display_name a, ak_status = ''active'',
     ak_last_used_at = None, ak_expires_at = None,
     ak_metadata = AList.update ''tenant_capabilities'' (JArr (map JStr caps))
       (AList.update ''tenant_role'' (JStr role) (normalize_metadata (ka_metadata a))),
     ak_created_at = now, ak_updated_at = now, ak_revoked_at = None\<rparr>"

definition issue_api_key ::
  "(string \<Rightarrow> string) \<Rightarrow> identity_db \<Rightarrow> timestamp \<Rightarrow> string \<Rightarrow> string \<Rightarrow> key_args \<Rightarrow>
   (identity_db \<times> issued_key) result" where
  "issue_api_key sha db now uuid token a =
     rbind (check_key_scope db a) (\<lambda>_.
       let effective_role = derive_tenant_role (Some (ka_tenant_role a)) (ka_tenant_capabilities a);
           effective_capabilities =
             normalize_tenant_capabilities (Some effective_role) (ka_tenant_capabilities a);
           plaintext = generate_plaintext_api_key token;
           row = issued_row sha now uuid plaintext a effective_role effective_capabilities
       in rbind (insert_api_key db row) (\<lambda>db.
            Inr (log_key_event db \<lparr>kl_api_key_id = ak_id row, kl_tenant_id = ka_tenant_id a,
                   kl_workspace_id = ka_workspace_id a, kl_event_type = ''created'',
                   kl_actor_type = ''platform_admin'', kl_actor_id = Some (ka_actor_id a),
                   kl_payload = [(''key_prefix'', JStr (ak_key_prefix row))], kl_created_at = now\<rparr>,
                 \<lparr>ik_row = row, ik_plaintext_api_key = plaintext, ik_tenant_role = effective_role,
                  ik_tenant_capabilities = effective_capabilities\<rparr>)))"

record bootstrap_args =
  ba_tenant_slug :: string
  ba_tenant_name :: string
  ba_workspace_slug :: string
  ba_workspace_name :: string
  ba_api_key_display_name :: string
  ba_tenant_role :: string
  ba_tenant_capabilities :: "string list"
  ba_metadata :: "dict option"
  ba_actor_id :: string

text \<open>
  The three steps are three transactions: what the earlier ones wrote stays when a later one
  raises, so the tables are returned with every outcome.
\<close>

definition onboarding_metadata :: "dict option \<Rightarrow> dict" where
  "onboarding_metadata metadata =
     (let m = normalize_metadata metadata
      in AList.update ''source'' (opt_else (map_of m ''source'') (JStr ''beta_onboarding'')) m)"

definition bootstrap_tenant_environment ::
  "(string \<Rightarrow> string) \<Rightarrow> identity_db \<Rightarrow> timestamp \<Rightarrow> string \<Rightarrow> string \<Rightarrow> string \<Rightarrow> string \<Rightarrow> bootstrap_args \<Rightarrow>
   identity_db \<times> (tenant_row \<times> workspace_row \<times> issued_key) result" where
  "bootstrap_tenant_environment sha db now uuid_t uuid_w uuid_k token a =
     (if list_ex (\<lambda>t. tn_slug t = ba_tenant_slug a) (tenants db)
      then (db, Inl (IdentityConflict (''Tenant slug '' @ quoted (ba_tenant_slug a) @ '' already exists'')))
      else
        let metadata = Some (onboarding_metadata (ba_metadata a)) in
        case create_tenant db now uuid_t (ba_tenant_slug a) (ba_tenant_name a) metadata of
          Inl e \<Rightarrow> (db, Inl e)
        | Inr (db1, tenant) \<Rightarrow>
            (case create_workspace db1 now uuid_w (tn_id tenant) (ba_workspace_slug a)
                    (ba_workspace_name a) metadata of
               Inl e \<Rightarrow> (db1, Inl e)
             | Inr (db2, workspace) \<Rightarrow>
                 (case issue_api_key sha db2 now uuid_k token
                         \<lparr>ka_tenant_id = tn_id tenant, ka_workspace_id = ws_id workspace,
                          ka_display_name = ba_api_key_display_name a, ka_tenant_role = ba_tenant_role a,
                          ka_tenant_capabilities = ba_tenant_capabilities a, ka_environment_id = None,
                          ka_metadata = metadata, ka_actor_id = ba_actor_id a\<rparr> of
                    Inl e \<Rightarrow> (db2, Inl e)
                  | Inr (db3, key) \<Rightarrow> (db3, Inr (tenant, workspace, key)))))"

definition revoke_api_key :: "identity_db \<Rightarrow> timestamp \<Rightarrow> string \<Rightarrow> string \<Rightarrow> identity_db \<times> bool" where
  "revoke_api_key db now api_key_id actor_id =
     (case find (\<lambda>k. ak_id k = api_key_id) (api_keys db) of
        None \<Rightarrow> (db, False)
      | Some k \<Rightarrow>
          (log_key_event
             (db\<lparr>api_keys := map (\<lambda>k. if ak_id k = api_key_id
                 then k\<lparr>ak_status := ''revoked'', ak_revoked_at := Some now, ak_updated_at := now\<rparr>
                 else k) (api_keys db)\<rparr>)
             \<lparr>kl_api_key_id = api_key_id, kl_tenant_id = ak_tenant_id k, kl_workspace_id = ak_workspace_id k,
              kl_event_type = ''revoked'', kl_actor_type = ''platform_admin'', kl_actor_id = Some actor_id,
              kl_payload = [(''reason'', JStr ''admin_revocation'')], kl_created_at = now\<rparr>,
           True))"

section \<open>Seeding\<close>

record seed_args =
  sa_tenant_id :: string
  sa_tenant_slug :: string
  sa_workspace_id :: string
  sa_workspace_slug :: string
  sa_environment_id :: "string option"
  sa_environment_name :: "string option"
  sa_api_key_id :: string
  sa_api_key_prefix :: string
  sa_api_key_display_name :: string
  sa_api_key_plaintext :: string

definition seeded_metadata :: dict where
  "seeded_metadata = [(''seeded_by'', JStr ''controlplane_identity'')]"

text \<open>Each table has the row an insert writes and what the conflict branch changes.\<close>

definition seeded_tenant :: "timestamp \<Rightarrow> seed_args \<Rightarrow> tenant_row" where
  "seeded_tenant now a = \<lparr>tn_id = sa_tenant_id a, tn_slug = sa_tenant_slug a,
     tn_name = slug_title (sa_tenant_slug a), tn_status = ''active'', tn_metadata = seeded_metadata,
     tn_created_at = now, tn_updated_at = now\<rparr>"

definition reseed_tenant :: "timestamp \<Rightarrow> seed_args \<Rightarrow> tenant_row \<Rightarrow> tenant_row" where
  "reseed_tenant now a t = t\<lparr>tn_slug := sa_tenant_slug a, tn_name := slug_title (sa_tenant_slug a),
     tn_status := ''active'', tn_metadata := seeded_metadata, tn_updated_at := now\<rparr>"

definition seed_tenant :: "timestamp \<Rightarrow> seed_args \<Rightarrow> identity_db \<Rightarrow> identity_db result" where
  "seed_tenant now a db =
     (if list_ex (\<lambda>t. tn_id t \<noteq> sa_tenant_id a \<and> tn_slug t = sa_tenant_slug a) (tenants db)
      then Inl (UniqueViolation ''tenants_slug_key'')
      else Inr (db\<lparr>tenants := upsert_by tn_id (reseed_tenant now a) (seeded_tenant now a) (tenants db)\<rparr>))"

definition seeded_workspace :: "timestamp \<Rightarrow> seed_args \<Rightarrow> workspace_row" where
  "seeded_workspace now a = \<lparr>ws_id = sa_workspace_id a, ws_tenant_id = sa_tenant_id a,
     ws_slug = sa_workspace_slug a, ws_name = slug_title (sa_workspace_slug a), ws_status = ''active'',
     ws_default_environment_id = None, ws_metadata = seeded_metadata,
     ws_created_at = now, ws_updated_at = now\<rparr>"

definition reseed_workspace :: "timestamp \<Rightarrow> seed_args \<Rightarrow> workspace_row \<Rightarrow> workspace_row" where
  "reseed_workspace now a w = w\<lparr>ws_tenant_id := sa_tenant_id a, ws_slug := sa_workspace_slug a,
     ws_name := slug_title (sa_workspace_slug a), ws_status := ''active'',
     ws_metadata := seeded_metadata, ws_updated_at := now\<rparr>"

definition seed_workspace :: "timestamp \<Rightarrow> seed_args \<Rightarrow> identity_db \<Rightarrow> identity_db result" where
  "seed_workspace now a db =
     (if list_ex (\<lambda>w. ws_id w \<noteq> sa_workspace_id a \<and>
           (ws_tenant_id w, ws_slug w) = (sa_tenant_id a, sa_workspace_slug a)) (workspaces db)
      then Inl (UniqueViolation ''workspaces_tenant_id_slug_key'')
      else Inr (db\<lparr>workspaces :=
        upsert_by ws_id (reseed_workspace now a) (seeded_workspace now a) (workspaces db)\<rparr>))"

definition seeded_environment :: "timestamp \<Rightarrow> seed_args \<Rightarrow> string \<Rightarrow> string \<Rightarrow> environment_row" where
  "seeded_environment now a eid name = \<lparr>env_id = eid, env_workspace_id = sa_workspace_id a,
     env_name = name, env_status = ''active'', env_metadata = seeded_metadata,
     env_created_at = now, env_updated_at = now\<rparr>"

definition reseed_environment ::
  "timestamp \<Rightarrow> seed_args \<Rightarrow> string \<Rightarrow> environment_row \<Rightarrow> environment_row" where
  "reseed_environment now a name e = e\<lparr>env_workspace_id := sa_workspace_id a, env_name := name,
     env_status := ''active'', env_metadata := seeded_metadata, env_updated_at := now\<rparr>"

definition set_default_environment ::
  "timestamp \<Rightarrow> string \<Rightarrow> string \<Rightarrow> workspace_row list \<Rightarrow> workspace_row list" where
  "set_default_environment now wid eid rows =
     map (\<lambda>w. if ws_id w = wid then w\<lparr>ws_default_environment_id := Some eid, ws_updated_at := now\<rparr> else w) rows"

definition seed_environment :: "timestamp \<Rightarrow> seed_args \<Rightarrow> identity_db \<Rightarrow> identity_db result" where
  "seed_environment now a db =
     (if truthy (sa_environment_id a) \<and> truthy (sa_environment_name a)
      then let eid = the (sa_environment_id a); name = the (sa_environment_name a)
        in if list_ex (\<lambda>e. env_id e \<noteq> eid \<and>
                (env_workspace_id e, env_name e) = (sa_workspace_id a, name)) (environments db)
           then Inl (UniqueViolation ''environments_workspace_id_name_key'')
           else Inr (db\<lparr>environments :=
                 upsert_by env_id (reseed_environment now a name) (seeded_environment now a eid name) (environments db),
               workspaces := set_default_environment now (sa_workspace_id a) eid (workspaces db)\<rparr>)
      else Inr db)"

definition seeded_key_metadata :: dict where
  "seeded_key_metadata = AList.update ''tenant_role'' (JStr ''tenant_admin'') seeded_metadata"

definition seeded_key :: "(string \<Rightarrow> string) \<Rightarrow> timestamp \<Rightarrow> seed_args \<Rightarrow> api_key_row" where
  "seeded_key sha now a = \<lparr>ak_id = sa_api_key_id a, ak_tenant_id = sa_tenant_id a,
     ak_workspace_id = sa_workspace_id a, ak_environment_id = sa_environment_id a,
     ak_key_prefix = sa_api_key_prefix a, ak_key_hash = sha (sa_api_key_plaintext a),
     ak_display_name = sa_api_key_display_name a, ak_status = ''active'', ak_last_used_at = None,
     ak_expires_at = None, ak_metadata = seeded_key_metadata, ak_created_at = now,
     ak_updated_at = now, ak_revoked_at = None\<rparr>"

definition reseed_key :: "(string \<Rightarrow> string) \<Rightarrow> timestamp \<Rightarrow> seed_args \<Rightarrow> api_key_row \<Rightarrow> api_key_row" where
  "reseed_key sha now a k = k\<lparr>ak_tenant_id := sa_tenant_id a, ak_workspace_id := sa_workspace_id a,
     ak_environment_id := sa_environment_id a, ak_key_prefix := sa_api_key_prefix a,
     ak_key_hash := sha (sa_api_key_plaintext a), ak_display_name := sa_api_key_display_name a,
     ak_status := ''active'', ak_metadata := seeded_key_metadata, ak_updated_at := now,
     ak_revoked_at := None\<rparr>"

text \<open>The key's environment must exist; it does when the environment was seeded just before.\<close>

definition seed_api_key ::
  "(string \<Rightarrow> string) \<Rightarrow> timestamp \<Rightarrow> seed_args \<Rightarrow> identity_db \<Rightarrow> identity_db result" where
  "seed_api_key sha now a db =
     (if list_ex (\<lambda>k. ak_id k \<noteq> sa_api_key_id a \<and> ak_key_prefix k = sa_api_key_prefix a) (api_keys db)
      then Inl (UniqueViolation ''api_keys_key_prefix_key'')
      else if \<not> (case sa_environment_id a of None \<Rightarrow> True
                 | Some eid \<Rightarrow> list_ex (\<lambda>e. env_id e = eid) (environments db))
      then Inl (ForeignKeyViolation ''api_keys.environment_id'')
      else Inr (db\<lparr>api_keys := upsert_by ak_id (reseed_key sha now a) (seeded_key sha now a) (api_keys db)\<rparr>))"

definition seed_static_identity ::
  "(string \<Rightarrow> string) \<Rightarrow> identity_db \<Rightarrow> timestamp \<Rightarrow> seed_args \<Rightarrow> identity_db result" where
  "seed_static_identity sha db now a =
     rbind (seed_tenant now a db) (\<lambda>db.
     rbind (seed_workspace now a db) (\<lambda>db.
     rbind (seed_environment now a db) (\<lambda>db.
     rbind (seed_api_key sha now a db) (\<lambda>db.
       Inr (log_key_event db \<lparr>kl_api_key_id = sa_api_key_id a, kl_tenant_id = sa_tenant_id a,
              kl_workspace_id = sa_workspace_id a, kl_event_type = ''created'', kl_actor_type = ''system'',
              kl_actor_id = Some ''controlplane_seed'',
              kl_payload = [(''key_prefix'', JStr (sa_api_key_prefix a))], kl_created_at = now\<rparr>)))))"

section \<open>Resolving a presented key\<close>

record resolved_key =
  rk_tenant_id :: string
  rk_tenant_slug :: string
  rk_workspace_id :: string
  rk_workspace_slug :: string
  rk_environment_id :: "string option"
  rk_environment_name :: "string option"
  rk_api_key_id :: string
  rk_api_key_prefix :: string
  rk_api_key_display_name :: string
  rk_tenant_role :: string
  rk_tenant_capabilities :: "string list"
  rk_key_source :: string

text \<open>Iterating over the value stored under a key of the metadata, and \<open>str\<close> of an item.\<close>

definition str_json :: "(json \<Rightarrow> string) \<Rightarrow> json \<Rightarrow> string" where
  "str_json py_str v = (case v of JStr s \<Rightarrow> s | _ \<Rightarrow> py_str v)"

definition iterate_json :: "json option \<Rightarrow> json list result" where
  "iterate_json v = (case v of
     None \<Rightarrow> Inr []
   | Some (JArr xs) \<Rightarrow> Inr xs
   | Some (JStr s) \<Rightarrow> Inr (map (\<lambda>c. JStr [c]) s)
   | Some (JObj d) \<Rightarrow> Inr (map (JStr \<circ> fst) d)
   | Some _ \<Rightarrow> Inl (TypeErr ''object is not iterable''))"

definition stored_role :: "(json \<Rightarrow> string) \<Rightarrow> dict \<Rightarrow> string" where
  "stored_role py_str metadata =
     (let v = dict_get metadata ''tenant_role''
      in if py_falsy v then ''tenant_reader'' else str_json py_str v)"

definition stored_capabilities :: "(json \<Rightarrow> string) \<Rightarrow> dict \<Rightarrow> string list result" where
  "stored_capabilities py_str metadata =
     rbind (iterate_json (map_of metadata ''tenant_capabilities'')) (\<lambda>items.
       Inr (filter (\<lambda>s. strip s \<noteq> []) (map (str_json py_str) items)))"

definition key_usable :: "identity_db \<Rightarrow> timestamp \<Rightarrow> string \<Rightarrow> api_key_row \<Rightarrow> bool" where
  "key_usable db now hash k \<longleftrightarrow>
     ak_key_hash k = hash \<and> ak_status k = ''active'' \<and>
     (case ak_expires_at k of None \<Rightarrow> True | Some e \<Rightarrow> e > now) \<and> ak_revoked_at k = None \<and>
     list_ex (\<lambda>t. tn_id t = ak_tenant_id k) (tenants db) \<and>
     list_ex (\<lambda>w. ws_id w = ak_workspace_id k) (workspaces db)"

definition key_context ::
  "identity_db \<Rightarrow> api_key_row \<Rightarrow> string \<Rightarrow> string list \<Rightarrow> resolved_key" where
  "key_context db k role caps = \<lparr>
     rk_tenant_id = ak_tenant_id k,
     rk_tenant_slug = (case find (\<lambda>t. tn_id t = ak_tenant_id k) (tenants db) of
        None \<Rightarrow> [] | Some t \<Rightarrow> tn_slug t),
     rk_workspace_id = ak_workspace_id k,
     rk_workspace_slug = (case find (\<lambda>w. ws_id w = ak_workspace_id k) (workspaces db) of
        None \<Rightarrow> [] | Some w \<Rightarrow> ws_slug w),
     rk_environment_id = ak_environment_id k,
     rk_environment_name = map_option env_name
        (find (\<lambda>e. ak_environment_id k = Some (env_id e)) (environments db)),
     rk_api_key_id = ak_id k, rk_api_key_prefix = ak_key_prefix k,
     rk_api_key_display_name = ak_display_name k, rk_tenant_role = role,
     rk_tenant_capabilities = caps, rk_key_source = ''postgres''\<rparr>"

text \<open>The query has no order; the model takes the first row in insertion order.\<close>

definition touch_key :: "identity_db \<Rightarrow> timestamp \<Rightarrow> string \<Rightarrow> identity_db" where
  "touch_key db now kid = db\<lparr>api_keys := map (\<lambda>k. if ak_id k = kid
     then k\<lparr>ak_last_used_at := Some now, ak_updated_at := now\<rparr> else k) (api_keys db)\<rparr>"

definition resolve_key ::
  "(string \<Rightarrow> string) \<Rightarrow> (json \<Rightarrow> string) \<Rightarrow> identity_db \<Rightarrow> timestamp \<Rightarrow> string option \<Rightarrow>
   identity_db \<times> resolved_key option result" where
  "resolve_key sha py_str db now presented_key =
     (if \<not> truthy presented_key then (db, Inr None)
      else case find (key_usable db now (sha (the presented_key))) (api_keys db) of
             None \<Rightarrow> (db, Inr None)
           | Some k \<Rightarrow>
               (touch_key db now (ak_id k),
                rbind (stored_capabilities py_str (ak_metadata k)) (\<lambda>caps.
                  Inr (Some (key_context db k (stored_role py_str (ak_metadata k)) caps)))))"

section \<open>Listings\<close>

definition list_tenants :: "identity_db \<Rightarrow> tenant_row list" where
  "list_tenants db = sort_key tn_created_at (tenants db)"

definition list_workspaces :: "identity_db \<Rightarrow> string option \<Rightarrow> workspace_row list" where
  "list_workspaces db tenant_id = sort_key ws_created_at
     (if truthy tenant_id then filter (\<lambda>w. Some (ws_tenant_id w) = tenant_id) (workspaces db)
      else workspaces db)"

definition list_api_keys :: "identity_db \<Rightarrow> string option \<Rightarrow> api_key_row list" where
  "list_api_keys db workspace_id = sort_key ak_created_at
     (if truthy workspace_id then filter (\<lambda>k. Some (ak_workspace_id k) = workspace_id) (api_keys db)
      else api_keys db)"

section \<open>Resolvers\<close>

record static_resolver =
  static_key_hash :: string
  static_context :: resolved_key

definition new_static_resolver :: "(string \<Rightarrow> string) \<Rightarrow> seed_args \<Rightarrow> static_resolver" where
  "new_static_resolver sha a = \<lparr>static_key_hash = sha (sa_api_key_plaintext a),
     static_context = \<lparr>rk_tenant_id = sa_tenant_id a, rk_tenant_slug = sa_tenant_slug a,
       rk_workspace_id = sa_workspace_id a, rk_workspace_slug = sa_workspace_slug a,
       rk_environment_id = sa_environment_id a, rk_environment_name = sa_environment_name a,
       rk_api_key_id = sa_api_key_id a, rk_api_key_prefix = sa_api_key_prefix a,
       rk_api_key_display_name = sa_api_key_display_name a, rk_tenant_role = ''tenant_admin'',
       rk_tenant_capabilities = [], rk_key_source = ''static''\<rparr>\<rparr>"

definition static_resolve ::
  "(string \<Rightarrow> string) \<Rightarrow> static_resolver \<Rightarrow> timestamp \<Rightarrow> string option \<Rightarrow>
   static_resolver \<times> resolved_key option result" where
  "static_resolve sha r now presented_key =
     (r, Inr (if \<not> truthy presented_key then None
              else if sha (the presented_key) \<noteq> static_key_hash r then None
              else Some (static_context r)))"

datatype identity_resolver = NoResolver | StaticResolver static_resolver | RepositoryResolver

record identity_config =
  ic_enabled :: bool
  ic_seed_enabled :: bool
  ic_static_api_key :: "string option"
  ic_seed :: seed_args

text \<open>
  \<open>warmup\<close> is the outcome of connecting and creating the schema. Any exception of the
  repository falls back to the static resolver.
\<close>

definition identity_bootstrap ::
  "(string \<Rightarrow> string) \<Rightarrow> string option \<Rightarrow> identity_config \<Rightarrow> unit result \<Rightarrow> identity_db \<Rightarrow> timestamp \<Rightarrow>
   identity_db \<times> identity_resolver \<times> string" where
  "identity_bootstrap sha dsn cfg warmup db now =
     (if \<not> ic_enabled cfg \<or> \<not> truthy (ic_static_api_key cfg) then (db, NoResolver, ''disabled'')
      else let a = (ic_seed cfg)\<lparr>sa_api_key_plaintext := the (ic_static_api_key cfg)\<rparr>;
               static = StaticResolver (new_static_resolver sha a)
        in if \<not> truthy dsn then (db, static, ''static'')
           else case rbind warmup (\<lambda>_. if ic_seed_enabled cfg then seed_static_identity sha db now a else Inr db) of
                  Inl e \<Rightarrow> (db, static, ''static_fallback'')
                | Inr db' \<Rightarrow> (db', RepositoryResolver, ''repository''))"

definition identity_resolve ::
  "(string \<Rightarrow> string) \<Rightarrow> (json \<Rightarrow> string) \<Rightarrow> identity_resolver \<Rightarrow> identity_db \<Rightarrow> timestamp \<Rightarrow> string option \<Rightarrow>
   identity_db \<times> resolved_key option result" where
  "identity_resolve sha py_str resolver db now bearer = (case resolver of
     NoResolver \<Rightarrow> (db, Inr None)
   | StaticResolver r \<Rightarrow> (db, snd (static_resolve sha r now bearer))
   | RepositoryResolver \<Rightarrow> resolve_key sha py_str db now bearer)"

section \<open>What a resolver promises\<close>

text \<open>
  The chat route relies on a resolver for two things: without a key it resolves nothing and
  changes nothing, and what it resolves was granted to the presented key.
\<close>

locale key_resolver =
  fixes resolve :: "'s \<Rightarrow> timestamp \<Rightarrow> string option \<Rightarrow> 's \<times> resolved_key option result"
    and grants :: "'s \<Rightarrow> timestamp \<Rightarrow> string \<Rightarrow> resolved_key \<Rightarrow> bool"
  assumes no_key: "\<not> truthy presented \<Longrightarrow> resolve s now presented = (s, Inr None)"
    and granted: "resolve s now (Some key) = (s', Inr (Some c)) \<Longrightarrow> grants s now key c"
begin

lemma resolved_granted:
  assumes "resolve s now key = (s', Inr (Some c))"
  obtains k where "key = Some k" "k \<noteq> []" "grants s now k c"
proof (cases "truthy key")
  case True
  then obtain k where "key = Some k" "k \<noteq> []" by (rule truthyE)
  with assms that granted show thesis by blast
next
  case False
  with no_key [OF this] assms show thesis by simp
qed

end

definition static_grants :: "(string \<Rightarrow> string) \<Rightarrow> static_resolver \<Rightarrow> timestamp \<Rightarrow> string \<Rightarrow> resolved_key \<Rightarrow> bool" where
  "static_grants sha r now key c \<longleftrightarrow> sha key = static_key_hash r \<and> c = static_context r"

definition repository_grants :: "(string \<Rightarrow> string) \<Rightarrow> identity_db \<Rightarrow> timestamp \<Rightarrow> string \<Rightarrow> resolved_key \<Rightarrow> bool" where
  "repository_grants sha db now key c \<longleftrightarrow> (\<exists>k \<in> set (api_keys db). key_usable db now (sha key) k \<and>
     rk_api_key_id c = ak_id k \<and> rk_tenant_id c = ak_tenant_id k \<and> rk_workspace_id c = ak_workspace_id k)"

interpretation static_keys: key_resolver "static_resolve sha" "static_grants sha" for sha
  by unfold_locales (auto simp: static_resolve_def static_grants_def split: if_splits)

interpretation repository_keys: key_resolver "resolve_key sha py_str" "repository_grants sha" for sha py_str
proof unfold_locales
  fix key :: "string option" and s now assume "\<not> truthy key"
  then show "resolve_key sha py_str s now key = (s, Inr None)" by (simp add: resolve_key_def)
next
  fix s now key s' c assume r: "resolve_key sha py_str s now (Some key) = (s', Inr (Some c))"
  then obtain k where k: "find (key_usable s now (sha key)) (api_keys s) = Some k"
    by (auto simp: resolve_key_def split: if_splits option.splits)
  with r have "rk_api_key_id c = ak_id k \<and> rk_tenant_id c = ak_tenant_id k \<and> rk_workspace_id c = ak_workspace_id k"
    by (auto simp: resolve_key_def rbind_eq_Inr key_context_def split: if_splits)
  with find_Some_mem [OF k] show "repository_grants sha s now key c" by (auto simp: repository_grants_def)
qed

section \<open>Consistency of the tables\<close>

definition identity_ok :: "identity_db \<Rightarrow> bool" where
  "identity_ok db \<longleftrightarrow>
     distinct (map tn_id (tenants db)) \<and> distinct (map tn_slug (tenants db)) \<and>
     distinct (map ws_id (workspaces db)) \<and>
     distinct (map (\<lambda>w. (ws_tenant_id w, ws_slug w)) (workspaces db)) \<and>
     distinct (map env_id (environments db)) \<and>
     distinct (map (\<lambda>e. (env_workspace_id e, env_name e)) (environments db)) \<and>
     distinct (map ak_id (api_keys db)) \<and> distinct (map ak_key_prefix (api_keys db)) \<and>
     ws_tenant_id ` set (workspaces db) \<subseteq> tn_id ` set (tenants db) \<and>
     env_workspace_id ` set (environments db) \<subseteq> ws_id ` set (workspaces db) \<and>
     ak_tenant_id ` set (api_keys db) \<subseteq> tn_id ` set (tenants db) \<and>
     ak_workspace_id ` set (api_keys db) \<subseteq> ws_id ` set (workspaces db) \<and>
     ak_environment_id ` set (api_keys db) \<subseteq> insert None (Some ` env_id ` set (environments db))"

lemma image_upsert_key:
  "(\<And>x. key (f x) = key x) \<Longrightarrow> key ` set (upsert_by key f r rows) = insert (key r) (key ` set rows)"
proof -
  assume k: "\<And>x. key (f x) = key x"
  have "key ` set (map (\<lambda>x. if key x = key r then f x else x) rows) =
      set (map (\<lambda>x. key (if key x = key r then f x else x)) rows)"
    by (simp only: set_map image_image)
  also have "map (\<lambda>x. key (if key x = key r then f x else x)) rows = map key rows" using k by simp
  finally have "key ` set (map (\<lambda>x. if key x = key r then f x else x) rows) = key ` set rows" by simp
  then show "key ` set (upsert_by key f r rows) = insert (key r) (key ` set rows)"
    by (auto simp: upsert_by_def list_ex_iff image_iff eq_commute [of "key r"] simp del: set_map)
qed

lemma map_upsert_distinct:
  assumes "distinct (map g rows)" "\<And>x. key x = key r \<Longrightarrow> g (f x) = g r"
    and "distinct (map key rows)" "\<not> list_ex (\<lambda>x. key x \<noteq> key r \<and> g x = g r) rows"
  shows "distinct (map g (upsert_by key f r rows))"
proof (cases "list_ex (\<lambda>x. key x = key r) rows")
  case True
  have inj: "x = y" if "x \<in> set rows" "y \<in> set rows" "key x = key y" for x y
    using assms(3) that by (meson distinct_map inj_onD)
  have gx: "g x = g r \<Longrightarrow> key x = key r" if "x \<in> set rows" for x
    using assms(4) that by (auto simp: list_ex_iff)
  let ?h = "\<lambda>x. if key x = key r then f x else x"
  have "inj_on (\<lambda>x. g (?h x)) (set rows)"
  proof (rule inj_onI)
    fix x y assume xy: "x \<in> set rows" "y \<in> set rows" "g (?h x) = g (?h y)"
    show "x = y"
    proof (cases "key x = key r \<or> key y = key r")
      case True
      then have "key x = key r" "key y = key r"
        using xy gx assms(2) by (auto split: if_splits)
      then show ?thesis using inj xy by metis
    next
      case False
      then show ?thesis using xy assms(1) by (auto simp: distinct_map dest: inj_onD)
    qed
  qed
  then have "distinct (map (\<lambda>x. g (?h x)) rows)"
    using assms(1) by (simp add: distinct_map)
  then show ?thesis using True by (simp add: upsert_by_def comp_def)
next
  case False
  then show ?thesis using assms(1,4) by (auto simp: upsert_by_def list_ex_iff)
qed

lemma upsert_mem: "x \<in> set (upsert_by key f r rows) \<Longrightarrow> x = r \<or> x \<in> set rows \<or> (\<exists>y \<in> set rows. x = f y \<and> key y = key r)"
  by (auto simp: upsert_by_def split: if_splits)

lemma list_ex_key: "list_ex (\<lambda>x. f x = i) xs \<longleftrightarrow> i \<in> f ` set xs"
  by (auto simp: list_ex_iff)

lemma list_ex_pair: "list_ex (\<lambda>x. f x = i \<and> g x = j) xs \<longleftrightarrow> (i, j) \<in> (\<lambda>x. (f x, g x)) ` set xs"
  by (auto simp: list_ex_iff)

lemma create_tenant_ok:
  "create_tenant db now uuid slug name md = Inr (db', t) \<Longrightarrow> identity_ok db \<Longrightarrow> identity_ok db'"
  by (auto simp: create_tenant_def identity_ok_def Let_def list_ex_key list_ex_pair image_subset_iff split: if_splits)

lemma create_workspace_ok:
  "create_workspace db now uuid tid slug name md = Inr (db', w) \<Longrightarrow> identity_ok db \<Longrightarrow> identity_ok db'"
  by (auto simp: create_workspace_def identity_ok_def Let_def list_ex_key list_ex_pair image_subset_iff split: if_splits)

lemma log_key_event_ok [simp]: "identity_ok (log_key_event db e) \<longleftrightarrow> identity_ok db"
  by (simp add: log_key_event_def identity_ok_def)

lemma check_key_scopeD:
  assumes "check_key_scope db a = Inr u"
  obtains w where "w \<in> set (workspaces db)" "ws_id w = ka_workspace_id a" "ws_tenant_id w = ka_tenant_id a"
    "ka_environment_id a = None \<or>
     (\<exists>x \<in> set (environments db). ka_environment_id a = Some (env_id x) \<and> env_workspace_id x = ka_workspace_id a)"
  using assms unfolding check_key_scope_def
  by (auto split: option.splits if_splits dest!: find_Some_mem)

lemma issue_api_keyD:
  assumes "issue_api_key sha db now uuid token a = Inr (db', key)"
  obtains u db1 where "check_key_scope db a = Inr u" "insert_api_key db (ik_row key) = Inr db1"
    "api_keys db' = api_keys db @ [ik_row key]" "tenants db' = tenants db" "workspaces db' = workspaces db"
    "environments db' = environments db" "identity_ok db' = identity_ok db1"
    "ik_plaintext_api_key key = generate_plaintext_api_key token"
    "ik_row key = issued_row sha now uuid (generate_plaintext_api_key token) a
       (ik_tenant_role key) (ik_tenant_capabilities key)"
    "ik_tenant_role key = derive_tenant_role (Some (ka_tenant_role a)) (ka_tenant_capabilities a)"
    "ik_tenant_capabilities key = normalize_tenant_capabilities (Some (ik_tenant_role key)) (ka_tenant_capabilities a)"
proof -
  define row where "row = (let role = derive_tenant_role (Some (ka_tenant_role a)) (ka_tenant_capabilities a) in
    issued_row sha now uuid (generate_plaintext_api_key token) a role
      (normalize_tenant_capabilities (Some role) (ka_tenant_capabilities a)))"
  obtain u where u: "check_key_scope db a = Inr u"
    using assms by (auto simp: issue_api_key_def rbind_eq_Inr)
  obtain db1 e where i: "insert_api_key db row = Inr db1" "db' = log_key_event db1 e" "ik_row key = row"
    "ik_plaintext_api_key key = generate_plaintext_api_key token"
    "ik_tenant_role key = derive_tenant_role (Some (ka_tenant_role a)) (ka_tenant_capabilities a)"
    "ik_tenant_capabilities key = normalize_tenant_capabilities (Some (ik_tenant_role key)) (ka_tenant_capabilities a)"
    using assms u unfolding issue_api_key_def row_def Let_def by (auto simp: rbind_eq_Inr)
  have db1: "db1 = db\<lparr>api_keys := api_keys db @ [row]\<rparr>"
    using i(1) by (simp add: insert_api_key_def split: if_splits)
  show thesis
  proof (rule that)
    show "check_key_scope db a = Inr u" "insert_api_key db (ik_row key) = Inr db1" using u i by simp_all
    show "ik_row key = issued_row sha now uuid (generate_plaintext_api_key token) a
       (ik_tenant_role key) (ik_tenant_capabilities key)"
      using i(3,5,6) by (simp add: row_def Let_def)
  qed (use i db1 in \<open>simp_all add: log_key_event_def identity_ok_def\<close>)
qed

lemma issue_api_key_ok:
  assumes "issue_api_key sha db now uuid token a = Inr (db', key)" "identity_ok db"
  shows "identity_ok db'"
proof -
  obtain u db1 where i: "check_key_scope db a = Inr u" "insert_api_key db (ik_row key) = Inr db1"
    "identity_ok db' = identity_ok db1"
    and row: "ik_row key = issued_row sha now uuid (generate_plaintext_api_key token) a
       (ik_tenant_role key) (ik_tenant_capabilities key)"
    by (rule issue_api_keyD [OF assms(1)])
  obtain w where w: "w \<in> set (workspaces db)" "ws_id w = ka_workspace_id a" "ws_tenant_id w = ka_tenant_id a"
    "ka_environment_id a = None \<or>
     (\<exists>x \<in> set (environments db). ka_environment_id a = Some (env_id x) \<and> env_workspace_id x = ka_workspace_id a)"
    by (rule check_key_scopeD [OF i(1)])
  have k: "ak_tenant_id (ik_row key) = ka_tenant_id a" "ak_workspace_id (ik_row key) = ka_workspace_id a"
    "ak_environment_id (ik_row key) = ka_environment_id a"
    unfolding row by (simp_all add: issued_row_def)
  have db1: "db1 = db\<lparr>api_keys := api_keys db @ [ik_row key]\<rparr>"
    "ak_id (ik_row key) \<notin> ak_id ` set (api_keys db)"
    "ak_key_prefix (ik_row key) \<notin> ak_key_prefix ` set (api_keys db)"
    "ka_tenant_id a \<in> tn_id ` set (tenants db)"
    using i(2) k by (auto simp: insert_api_key_def list_ex_iff image_iff eq_commute split: if_splits)
  have "ka_workspace_id a \<in> ws_id ` set (workspaces db)" using w(1,2) by (metis image_eqI)
  then show ?thesis
    using assms(2) w(4) k db1 unfolding i(3) by (auto simp: identity_ok_def)
qed

lemma identity_ok_keys:
  "identity_ok db \<Longrightarrow> map ak_id ks = map ak_id (api_keys db) \<Longrightarrow>
   map ak_key_prefix ks = map ak_key_prefix (api_keys db) \<Longrightarrow>
   map ak_tenant_id ks = map ak_tenant_id (api_keys db) \<Longrightarrow>
   map ak_workspace_id ks = map ak_workspace_id (api_keys db) \<Longrightarrow>
   map ak_environment_id ks = map ak_environment_id (api_keys db) \<Longrightarrow> identity_ok (db\<lparr>api_keys := ks\<rparr>)"
proof -
  assume a: "identity_ok db" "map ak_id ks = map ak_id (api_keys db)"
    "map ak_key_prefix ks = map ak_key_prefix (api_keys db)"
    "map ak_tenant_id ks = map ak_tenant_id (api_keys db)"
    "map ak_workspace_id ks = map ak_workspace_id (api_keys db)"
    "map ak_environment_id ks = map ak_environment_id (api_keys db)"
  have s: "ak_tenant_id ` set ks = ak_tenant_id ` set (api_keys db)"
    "ak_workspace_id ` set ks = ak_workspace_id ` set (api_keys db)"
    "ak_environment_id ` set ks = ak_environment_id ` set (api_keys db)"
    using a(4-6) by (metis list.set_map)+
  show "identity_ok (db\<lparr>api_keys := ks\<rparr>)"
    using a(1) unfolding identity_ok_def by (simp add: a(2,3) s)
qed

lemma revoke_api_key_ok: "identity_ok db \<Longrightarrow> identity_ok (fst (revoke_api_key db now kid actor))"
  by (auto simp: revoke_api_key_def comp_def intro!: identity_ok_keys split: option.split)

lemma resolve_key_ok: "identity_ok db \<Longrightarrow> identity_ok (fst (resolve_key sha py_str db now key))"
  by (auto simp: resolve_key_def touch_key_def comp_def intro!: identity_ok_keys split: option.split)

lemma bootstrap_ok:
  "identity_ok db \<Longrightarrow> identity_ok (fst (bootstrap_tenant_environment sha db now ut uw uk token a))"
  by (auto simp: bootstrap_tenant_environment_def Let_def split: sum.split
      dest: create_tenant_ok create_workspace_ok issue_api_key_ok)

end
