(* ===== verification/IdentityProperties.thy ===== *)
theory IdentityProperties
  imports Identity
begin

text \<open>
  The properties of the identity plane: the tables stay consistent over every sequence of
  repository calls, an issued key resolves to what it was issued for, a revoked key never
  resolves again while the process runs, and seeding at start-up revives it.
\<close>

section \<open>Seeding keeps the tables consistent\<close>

lemma subset_insert_trans: "A \<subseteq> insert x B \<Longrightarrow> B \<subseteq> C \<Longrightarrow> x \<in> C \<Longrightarrow> A \<subseteq> C"
  by blast

lemma seed_tenant_ok:
  assumes "seed_tenant now a db = Inr db'" "identity_ok db"
  shows "identity_ok db' \<and> sa_tenant_id a \<in> tn_id ` set (tenants db')"
proof -
  let ?ts = "upsert_by tn_id (reseed_tenant now a) (seeded_tenant now a) (tenants db)"
  have eq: "db' = db\<lparr>tenants := ?ts\<rparr>"
    and new: "\<not> list_ex (\<lambda>t. tn_id t \<noteq> sa_tenant_id a \<and> tn_slug t = sa_tenant_slug a) (tenants db)"
    using assms(1) by (auto simp: seed_tenant_def split: if_splits)
  have f: "tn_id (reseed_tenant now a t) = tn_id t" "tn_slug (reseed_tenant now a t) = sa_tenant_slug a"
    "tn_id (seeded_tenant now a) = sa_tenant_id a" "tn_slug (seeded_tenant now a) = sa_tenant_slug a" for t
    by (simp_all add: reseed_tenant_def seeded_tenant_def)
  have img: "tn_id ` set ?ts = insert (sa_tenant_id a) (tn_id ` set (tenants db))"
    using image_upsert_key [of tn_id "reseed_tenant now a"] f by simp
  have "distinct (map tn_slug ?ts)"
    using assms(2) f new by (intro map_upsert_distinct) (simp_all add: identity_ok_def)
  moreover have "distinct (map tn_id ?ts)"
    using assms(2) f by (intro map_upsert_distinct) (auto simp: identity_ok_def list_ex_iff)
  ultimately show ?thesis using assms(2) unfolding identity_ok_def eq by (simp add: img subset_insertI2)
qed

lemma seed_workspace_ok:
  assumes "seed_workspace now a db = Inr db'" "identity_ok db" "sa_tenant_id a \<in> tn_id ` set (tenants db)"
  shows "identity_ok db' \<and> sa_workspace_id a \<in> ws_id ` set (workspaces db') \<and> tenants db' = tenants db"
proof -
  let ?ws = "upsert_by ws_id (reseed_workspace now a) (seeded_workspace now a) (workspaces db)"
  let ?g = "\<lambda>w. (ws_tenant_id w, ws_slug w)"
  have eq: "db' = db\<lparr>workspaces := ?ws\<rparr>"
    and new: "\<not> list_ex (\<lambda>w. ws_id w \<noteq> sa_workspace_id a \<and> ?g w = (sa_tenant_id a, sa_workspace_slug a))
      (workspaces db)"
    using assms(1) by (auto simp: seed_workspace_def split: if_splits)
  have f: "ws_id (reseed_workspace now a w) = ws_id w" "?g (reseed_workspace now a w) = (sa_tenant_id a, sa_workspace_slug a)"
    "ws_id (seeded_workspace now a) = sa_workspace_id a" "?g (seeded_workspace now a) = (sa_tenant_id a, sa_workspace_slug a)"
    for w by (simp_all add: reseed_workspace_def seeded_workspace_def)
  have img: "ws_id ` set ?ws = insert (sa_workspace_id a) (ws_id ` set (workspaces db))"
    using image_upsert_key [of ws_id "reseed_workspace now a"] f by simp
  have ten: "ws_tenant_id ` set ?ws \<subseteq> insert (sa_tenant_id a) (ws_tenant_id ` set (workspaces db))"
    using f by (auto dest!: upsert_mem)
  have "distinct (map ?g ?ws)"
    using assms(2) f new by (intro map_upsert_distinct) (simp_all add: identity_ok_def)
  moreover have "distinct (map ws_id ?ws)"
    using assms(2) f by (intro map_upsert_distinct) (auto simp: identity_ok_def list_ex_iff)
  moreover have "ws_tenant_id ` set ?ws \<subseteq> tn_id ` set (tenants db)"
    using assms(2,3) by (intro subset_insert_trans [OF ten]) (simp_all add: identity_ok_def)
  ultimately show ?thesis using assms(2) unfolding identity_ok_def eq by (simp add: img subset_insertI2)
qed

lemma seed_environment_ok:
  assumes "seed_environment now a db = Inr db'" "identity_ok db" "sa_workspace_id a \<in> ws_id ` set (workspaces db)"
  shows "identity_ok db' \<and> sa_workspace_id a \<in> ws_id ` set (workspaces db') \<and> tenants db' = tenants db"
proof (cases "truthy (sa_environment_id a) \<and> truthy (sa_environment_name a)")
  case False
  with assms show ?thesis by (auto simp: seed_environment_def)
next
  case True
  define eid name where "eid = the (sa_environment_id a)" and "name = the (sa_environment_name a)"
  let ?es = "upsert_by env_id (reseed_environment now a name) (seeded_environment now a eid name) (environments db)"
  let ?g = "\<lambda>e. (env_workspace_id e, env_name e)"
  let ?ws = "set_default_environment now (sa_workspace_id a) eid (workspaces db)"
  have eq: "db' = db\<lparr>environments := ?es, workspaces := ?ws\<rparr>"
    and new: "\<not> list_ex (\<lambda>e. env_id e \<noteq> eid \<and> ?g e = (sa_workspace_id a, name)) (environments db)"
    using assms(1) True by (auto simp: seed_environment_def eid_def name_def Let_def split: if_splits)
  have f: "env_id (reseed_environment now a name e) = env_id e"
    "?g (reseed_environment now a name e) = (sa_workspace_id a, name)"
    "env_id (seeded_environment now a eid name) = eid"
    "?g (seeded_environment now a eid name) = (sa_workspace_id a, name)" for e
    by (simp_all add: reseed_environment_def seeded_environment_def)
  have img: "env_id ` set ?es = insert eid (env_id ` set (environments db))"
    using image_upsert_key [of env_id "reseed_environment now a name"] f by simp
  have ws: "env_workspace_id ` set ?es \<subseteq> insert (sa_workspace_id a) (env_workspace_id ` set (environments db))"
    using f by (auto dest!: upsert_mem)
  have w: "map ws_id ?ws = map ws_id (workspaces db)" "map ws_tenant_id ?ws = map ws_tenant_id (workspaces db)"
    "map (\<lambda>w. (ws_tenant_id w, ws_slug w)) ?ws = map (\<lambda>w. (ws_tenant_id w, ws_slug w)) (workspaces db)"
    by (simp_all add: set_default_environment_def)
  then have wi: "ws_id ` set ?ws = ws_id ` set (workspaces db)"
    "ws_tenant_id ` set ?ws = ws_tenant_id ` set (workspaces db)"
    by (metis list.set_map)+
  have "distinct (map ?g ?es)"
    using assms(2) f new by (intro map_upsert_distinct) (simp_all add: identity_ok_def)
  moreover have "distinct (map env_id ?es)"
    using assms(2) f by (intro map_upsert_distinct) (auto simp: identity_ok_def list_ex_iff)
  moreover have "env_workspace_id ` set ?es \<subseteq> ws_id ` set (workspaces db)"
    using assms(2,3) by (intro subset_insert_trans [OF ws]) (simp_all add: identity_ok_def)
  moreover have "ak_environment_id ` set (api_keys db) \<subseteq> insert None (Some ` insert eid (env_id ` set (environments db)))"
    using assms(2) by (auto simp: identity_ok_def)
  ultimately show ?thesis
    using assms(2,3) unfolding identity_ok_def eq by (simp add: img w wi del: image_insert)
qed

lemma seed_api_key_ok:
  assumes "seed_api_key sha now a db = Inr db'" "identity_ok db"
    and "sa_tenant_id a \<in> tn_id ` set (tenants db)" "sa_workspace_id a \<in> ws_id ` set (workspaces db)"
  shows "identity_ok db'"
proof -
  let ?ks = "upsert_by ak_id (reseed_key sha now a) (seeded_key sha now a) (api_keys db)"
  have eq: "db' = db\<lparr>api_keys := ?ks\<rparr>"
    and new: "\<not> list_ex (\<lambda>k. ak_id k \<noteq> sa_api_key_id a \<and> ak_key_prefix k = sa_api_key_prefix a) (api_keys db)"
    and env: "sa_environment_id a \<in> insert None (Some ` env_id ` set (environments db))"
    using assms(1) by (auto simp: seed_api_key_def list_ex_key split: if_splits option.splits)
  have f: "ak_id (reseed_key sha now a k) = ak_id k" "ak_key_prefix (reseed_key sha now a k) = sa_api_key_prefix a"
    "ak_tenant_id (reseed_key sha now a k) = sa_tenant_id a" "ak_workspace_id (reseed_key sha now a k) = sa_workspace_id a"
    "ak_environment_id (reseed_key sha now a k) = sa_environment_id a" for k
    by (simp_all add: reseed_key_def)
  have r: "ak_id (seeded_key sha now a) = sa_api_key_id a" "ak_key_prefix (seeded_key sha now a) = sa_api_key_prefix a"
    "ak_tenant_id (seeded_key sha now a) = sa_tenant_id a" "ak_workspace_id (seeded_key sha now a) = sa_workspace_id a"
    "ak_environment_id (seeded_key sha now a) = sa_environment_id a"
    by (simp_all add: seeded_key_def)
  have sub: "ak_tenant_id ` set ?ks \<subseteq> insert (sa_tenant_id a) (ak_tenant_id ` set (api_keys db))"
    "ak_workspace_id ` set ?ks \<subseteq> insert (sa_workspace_id a) (ak_workspace_id ` set (api_keys db))"
    "ak_environment_id ` set ?ks \<subseteq> insert (sa_environment_id a) (ak_environment_id ` set (api_keys db))"
    using f r by (auto dest!: upsert_mem)
  have "distinct (map ak_key_prefix ?ks)"
    using assms(2) f r new by (intro map_upsert_distinct) (simp_all add: identity_ok_def)
  moreover have "distinct (map ak_id ?ks)"
    using assms(2) f r by (intro map_upsert_distinct) (auto simp: identity_ok_def list_ex_iff)
  moreover have "ak_tenant_id ` set ?ks \<subseteq> tn_id ` set (tenants db)" "ak_workspace_id ` set ?ks \<subseteq> ws_id ` set (workspaces db)"
    "ak_environment_id ` set ?ks \<subseteq> insert None (Some ` env_id ` set (environments db))"
    by (rule subset_insert_trans [OF sub(1)] subset_insert_trans [OF sub(2)] subset_insert_trans [OF sub(3)];
        use assms(2-4) env in \<open>simp add: identity_ok_def\<close>)+
  ultimately show ?thesis using assms(2) unfolding identity_ok_def eq by simp
qed

lemma seed_static_identity_ok:
  assumes "seed_static_identity sha db now a = Inr db'" "identity_ok db"
  shows "identity_ok db'"
proof -
  obtain d1 d2 d3 d4 where s: "seed_tenant now a db = Inr d1" "seed_workspace now a d1 = Inr d2"
    "seed_environment now a d2 = Inr d3" "seed_api_key sha now a d3 = Inr d4" "identity_ok db' = identity_ok d4"
    using assms(1) by (auto simp: seed_static_identity_def rbind_eq_Inr)
  have 1: "identity_ok d1" "sa_tenant_id a \<in> tn_id ` set (tenants d1)" using seed_tenant_ok [OF s(1) assms(2)] by auto
  have 2: "identity_ok d2" "sa_workspace_id a \<in> ws_id ` set (workspaces d2)" "sa_tenant_id a \<in> tn_id ` set (tenants d2)"
    using seed_workspace_ok [OF s(2) 1] 1 by auto
  have 3: "identity_ok d3" "sa_workspace_id a \<in> ws_id ` set (workspaces d3)" "sa_tenant_id a \<in> tn_id ` set (tenants d3)"
    using seed_environment_ok [OF s(3) 2(1,2)] 2 by auto
  show ?thesis using seed_api_key_ok [OF s(4) 3(1,3,2)] s(5) by simp
qed

section \<open>Sequences of calls\<close>

datatype identity_call =
    CreateTenant string string string "dict option"
  | CreateWorkspace string string string string "dict option"
  | IssueKey string string key_args
  | BootstrapTenant string string string string bootstrap_args
  | ResolveKey "string option"
  | RevokeKey string string
  | SeedIdentity seed_args

definition committed :: "identity_db \<Rightarrow> (identity_db \<times> 'a) result \<Rightarrow> identity_db" where
  "committed db r = (case r of Inl _ \<Rightarrow> db | Inr (db', _) \<Rightarrow> db')"

definition run_call ::
  "(string \<Rightarrow> string) \<Rightarrow> (json \<Rightarrow> string) \<Rightarrow> identity_db \<Rightarrow> timestamp \<times> identity_call \<Rightarrow> identity_db" where
  "run_call sha py_str db tc = (case tc of (now, call) \<Rightarrow> (case call of
     CreateTenant uuid slug name md \<Rightarrow> committed db (create_tenant db now uuid slug name md)
   | CreateWorkspace uuid tid slug name md \<Rightarrow> committed db (create_workspace db now uuid tid slug name md)
   | IssueKey uuid token a \<Rightarrow> committed db (issue_api_key sha db now uuid token a)
   | BootstrapTenant ut uw uk token a \<Rightarrow> fst (bootstrap_tenant_environment sha db now ut uw uk token a)
   | ResolveKey key \<Rightarrow> fst (resolve_key sha py_str db now key)
   | RevokeKey kid actor \<Rightarrow> fst (revoke_api_key db now kid actor)
   | SeedIdentity a \<Rightarrow> (case seed_static_identity sha db now a of Inl _ \<Rightarrow> db | Inr db' \<Rightarrow> db')))"

definition run_calls ::
  "(string \<Rightarrow> string) \<Rightarrow> (json \<Rightarrow> string) \<Rightarrow> identity_db \<Rightarrow> (timestamp \<times> identity_call) list \<Rightarrow> identity_db" where
  "run_calls sha py_str db cs = foldl (run_call sha py_str) db cs"

lemma run_call_ok: "identity_ok db \<Longrightarrow> identity_ok (run_call sha py_str db tc)"
  by (auto simp: run_call_def committed_def resolve_key_ok revoke_api_key_ok bootstrap_ok
      intro: create_tenant_ok create_workspace_ok issue_api_key_ok seed_static_identity_ok
      split: prod.split identity_call.split sum.split)

text \<open>
  C12. Every sequence of calls of the key repository, failed and partly done ones included,
  leaves tables with unique ids, slugs and key prefixes and with valid references.
\<close>

theorem identity_tables_consistent:
  "identity_ok (run_calls sha py_str empty_identity cs)"
proof -
  have "identity_ok db \<Longrightarrow> identity_ok (foldl (run_call sha py_str) db cs)" for db
    by (induction cs arbitrary: db) (auto intro: run_call_ok)
  then show ?thesis by (simp add: run_calls_def empty_identity_def identity_ok_def)
qed

section \<open>Revocation\<close>

text \<open>A key that exists and is not active.\<close>

definition key_dead :: "string \<Rightarrow> identity_db \<Rightarrow> bool" where
  "key_dead kid db \<longleftrightarrow> kid \<in> ak_id ` set (api_keys db) \<and>
     (\<forall>k \<in> set (api_keys db). ak_id k = kid \<longrightarrow> ak_status k \<noteq> ''active'')"

lemma key_dead_cong: "api_keys db' = api_keys db \<Longrightarrow> key_dead kid db' = key_dead kid db"
  by (simp add: key_dead_def)

lemma key_dead_map:
  assumes "api_keys db' = map f (api_keys db)" "\<And>k. ak_id (f k) = ak_id k" "kid \<in> ak_id ` set (api_keys db)"
    and "\<And>k. k \<in> set (api_keys db) \<Longrightarrow> ak_id k = kid \<Longrightarrow> ak_status (f k) \<noteq> ''active''"
  shows "key_dead kid db'"
proof -
  have "ak_id ` set (api_keys db') = ak_id ` set (api_keys db)" using assms(1,2) by (simp add: image_image)
  then show ?thesis using assms by (auto simp: key_dead_def)
qed

lemma key_deadD:
  "key_dead kid db \<Longrightarrow> kid \<in> ak_id ` set (api_keys db)"
  "key_dead kid db \<Longrightarrow> k \<in> set (api_keys db) \<Longrightarrow> ak_id k = kid \<Longrightarrow> ak_status k \<noteq> ''active''"
  by (auto simp: key_dead_def)

lemma issue_keeps_dead:
  assumes "issue_api_key sha db now uuid token a = Inr (db', key)" "key_dead kid db"
  shows "key_dead kid db'"
proof -
  obtain db1 where "insert_api_key db (ik_row key) = Inr db1" "api_keys db' = api_keys db @ [ik_row key]"
    using issue_api_keyD [OF assms(1)] by metis
  then show ?thesis using assms(2) by (auto simp: key_dead_def insert_api_key_def list_ex_key split: if_splits)
qed

lemma create_keeps_keys:
  "create_tenant db now uuid slug name md = Inr (db', t) \<Longrightarrow> api_keys db' = api_keys db"
  "create_workspace db now uuid tid slug name md = Inr (db', w) \<Longrightarrow> api_keys db' = api_keys db"
  by (auto simp: create_tenant_def create_workspace_def Let_def split: if_splits)

lemma seed_keeps_dead:
  assumes "seed_static_identity sha db now a = Inr db'" "sa_api_key_id a \<noteq> kid" "key_dead kid db"
  shows "key_dead kid db'"
proof -
  obtain d1 d2 d3 d4 where s: "seed_tenant now a db = Inr d1" "seed_workspace now a d1 = Inr d2"
    "seed_environment now a d2 = Inr d3" "seed_api_key sha now a d3 = Inr d4" "api_keys db' = api_keys d4"
    using assms(1) by (auto simp: seed_static_identity_def rbind_eq_Inr log_key_event_def)
  have "api_keys d3 = api_keys db" using s(1-3)
    by (auto simp: seed_tenant_def seed_workspace_def seed_environment_def Let_def split: if_splits)
  moreover have "api_keys d4 = upsert_by ak_id (reseed_key sha now a) (seeded_key sha now a) (api_keys d3)"
    using s(4) by (auto simp: seed_api_key_def split: if_splits)
  moreover have "ak_id (seeded_key sha now a) = sa_api_key_id a" "ak_id (reseed_key sha now a k) = ak_id k" for k
    by (simp_all add: seeded_key_def reseed_key_def)
  ultimately consider
      "api_keys db' = map (\<lambda>k. if ak_id k = sa_api_key_id a then reseed_key sha now a k else k) (api_keys db)"
      "\<And>k. ak_id (reseed_key sha now a k) = ak_id k"
    | "api_keys db' = api_keys db @ [seeded_key sha now a]" "ak_id (seeded_key sha now a) = sa_api_key_id a"
    using s(5) by (auto simp: upsert_by_def split: if_splits)
  then show ?thesis
  proof cases
    case 1
    show ?thesis by (rule key_dead_map [OF 1(1)]) (use 1(2) assms(2,3) key_deadD in auto)
  next
    case 2
    then show ?thesis using assms(2,3) by (auto simp: key_dead_def)
  qed
qed

definition reseeds :: "string \<Rightarrow> identity_call \<Rightarrow> bool" where
  "reseeds kid call = (case call of SeedIdentity a \<Rightarrow> sa_api_key_id a = kid | _ \<Rightarrow> False)"

lemma committed_keeps_dead:
  "key_dead kid db \<Longrightarrow> (\<And>db' x. r = Inr (db', x) \<Longrightarrow> key_dead kid db') \<Longrightarrow> key_dead kid (committed db r)"
  by (auto simp: committed_def split: sum.split)

lemma create_keeps_dead:
  "create_tenant db now uuid slug name md = Inr (db', t) \<Longrightarrow> key_dead kid db \<Longrightarrow> key_dead kid db'"
  "create_workspace db now uuid tid slug name md = Inr (db', w) \<Longrightarrow> key_dead kid db \<Longrightarrow> key_dead kid db'"
  using key_dead_cong create_keeps_keys by metis+

lemma bootstrap_keeps_dead:
  assumes "key_dead kid db"
  shows "key_dead kid (fst (bootstrap_tenant_environment sha db now ut uw uk token a))"
  unfolding bootstrap_tenant_environment_def Let_def
  using assms by (auto split: sum.split intro: create_keeps_dead) (meson create_keeps_dead issue_keeps_dead)

lemma touch_keeps_dead: "key_dead kid db \<Longrightarrow> key_dead kid (touch_key db now k)"
  by (rule key_dead_map [where f = "\<lambda>r. if ak_id r = k then r\<lparr>ak_last_used_at := Some now, ak_updated_at := now\<rparr> else r"])
    (auto simp: touch_key_def dest: key_deadD)

lemma resolve_keeps_dead: "key_dead kid db \<Longrightarrow> key_dead kid (fst (resolve_key sha py_str db now key))"
  by (simp add: resolve_key_def touch_keeps_dead split: option.split)

lemma revoke_kills:
  assumes "revoke_api_key db now k actor = (db', True)"
  shows "key_dead k db'"
proof -
  obtain r where "find (\<lambda>r. ak_id r = k) (api_keys db) = Some r"
    using assms by (auto simp: revoke_api_key_def split: option.splits)
  then have "k \<in> ak_id ` set (api_keys db)" using find_Some_mem by fastforce
  moreover have "api_keys db' = map (\<lambda>r. if ak_id r = k
      then r\<lparr>ak_status := ''revoked'', ak_revoked_at := Some now, ak_updated_at := now\<rparr> else r) (api_keys db)"
    using assms by (auto simp: revoke_api_key_def log_key_event_def split: option.splits)
  ultimately show ?thesis by (auto intro: key_dead_map)
qed

lemma revoke_keeps_dead: "key_dead kid db \<Longrightarrow> key_dead kid (fst (revoke_api_key db now k actor))"
proof (cases "find (\<lambda>r. ak_id r = k) (api_keys db)")
  case (Some r)
  assume "key_dead kid db"
  then show ?thesis
    by (intro key_dead_map [where f = "\<lambda>r. if ak_id r = k
          then r\<lparr>ak_status := ''revoked'', ak_revoked_at := Some now, ak_updated_at := now\<rparr> else r" and db = db])
      (auto simp: revoke_api_key_def Some log_key_event_def dest: key_deadD)
qed (simp add: revoke_api_key_def)

lemma run_call_keeps_dead:
  assumes "key_dead kid db" "\<not> reseeds kid (snd tc)"
  shows "key_dead kid (run_call sha py_str db tc)"
proof -
  obtain now call where tc: "tc = (now, call)" by fastforce
  show ?thesis
  proof (cases call)
    case (SeedIdentity a)
    with assms show ?thesis
      by (auto simp: tc run_call_def reseeds_def intro: seed_keeps_dead split: sum.split)
  qed (use assms(1) in \<open>auto simp: tc run_call_def bootstrap_keeps_dead resolve_keeps_dead revoke_keeps_dead
      intro!: committed_keeps_dead intro: issue_keeps_dead create_keeps_dead\<close>)
qed

lemma run_calls_keep_dead:
  "list_all (\<lambda>tc. \<not> reseeds kid (snd tc)) cs \<Longrightarrow> key_dead kid db \<Longrightarrow> key_dead kid (run_calls sha py_str db cs)"
  unfolding run_calls_def by (induction cs arbitrary: db) (auto intro: run_call_keeps_dead)

text \<open>
  C10. Once an existing key is revoked it resolves nobody any more, whatever calls follow: no
  key presented at any later time resolves to it, as long as no start-up seeds that very key.
\<close>

theorem revoked_key_stays_revoked:
  assumes "revoke_api_key db now kid actor = (db1, True)" "list_all (\<lambda>tc. \<not> reseeds kid (snd tc)) cs"
    and "resolve_key sha py_str (run_calls sha py_str db1 cs) t presented = (db2, Inr (Some c))"
  shows "rk_api_key_id c \<noteq> kid"
proof -
  have "key_dead kid db1" by (rule revoke_kills [OF assms(1)])
  then have dead: "key_dead kid (run_calls sha py_str db1 cs)" by (rule run_calls_keep_dead [OF assms(2)])
  obtain k where "repository_grants sha (run_calls sha py_str db1 cs) t k c"
    by (rule repository_keys.resolved_granted [OF assms(3)])
  then show ?thesis using dead by (auto simp: repository_grants_def key_usable_def key_dead_def)
qed

definition demo_seed :: seed_args where
  "demo_seed = \<lparr>sa_tenant_id = ''t1'', sa_tenant_slug = ''acme'', sa_workspace_id = ''w1'',
     sa_workspace_slug = ''main'', sa_environment_id = None, sa_environment_name = None,
     sa_api_key_id = ''k1'', sa_api_key_prefix = ''mk_dev'', sa_api_key_display_name = ''Dev'',
     sa_api_key_plaintext = ''secret''\<rparr>"

definition demo_key_args :: key_args where
  "demo_key_args = \<lparr>ka_tenant_id = ''t1'', ka_workspace_id = ''w1'', ka_display_name = ''App'',
     ka_tenant_role = ''tenant_reader'', ka_tenant_capabilities = [''billing:history:read''],
     ka_environment_id = None, ka_metadata = None, ka_actor_id = ''admin_api''\<rparr>"

definition seeded_demo :: identity_db where
  "seeded_demo = \<lparr>tenants = [seeded_tenant 1 demo_seed], workspaces = [seeded_workspace 1 demo_seed],
     environments = [], api_keys = [seeded_key (\<lambda>s. s) 1 demo_seed],
     api_key_lifecycle_log = [\<lparr>kl_api_key_id = ''k1'', kl_tenant_id = ''t1'', kl_workspace_id = ''w1'',
       kl_event_type = ''created'', kl_actor_type = ''system'', kl_actor_id = Some ''controlplane_seed'',
       kl_payload = [(''key_prefix'', JStr ''mk_dev'')], kl_created_at = 1\<rparr>]\<rparr>"

lemma demo_seeded: "seed_static_identity (\<lambda>s. s) empty_identity 1 demo_seed = Inr seeded_demo"
  by (simp add: seed_static_identity_def seed_tenant_def seed_workspace_def seed_environment_def
      seed_api_key_def empty_identity_def demo_seed_def upsert_by_def log_key_event_def seeded_demo_def)

lemma demo_issued: "\<exists>db key. issue_api_key (\<lambda>s. s) seeded_demo 2 ''u'' ''tok'' demo_key_args = Inr (db, key)"
  by (simp add: issue_api_key_def check_key_scope_def demo_key_args_def seeded_demo_def seeded_workspace_def
      seeded_tenant_def seeded_key_def demo_seed_def insert_api_key_def issued_row_def generate_api_key_id_def
      derive_key_prefix_def Let_def)

section \<open>Issued keys\<close>

text \<open>An issued key is found under its hash, with the role and capabilities of the issue.\<close>

lemma issued_key_found:
  assumes "issue_api_key sha db now uuid token a = Inr (db', key)"
    and "sha (ik_plaintext_api_key key) \<notin> ak_key_hash ` set (api_keys db)"
  shows "resolve_key sha py_str db' t (Some (ik_plaintext_api_key key)) =
    (touch_key db' t (ak_id (ik_row key)),
     Inr (Some (key_context db' (ik_row key) (ik_tenant_role key) (ik_tenant_capabilities key))))
   \<and> ak_tenant_id (ik_row key) = ka_tenant_id a \<and> ak_workspace_id (ik_row key) = ka_workspace_id a"
proof -
  obtain u db1 where i: "check_key_scope db a = Inr u" "insert_api_key db (ik_row key) = Inr db1"
    "api_keys db' = api_keys db @ [ik_row key]" "tenants db' = tenants db" "workspaces db' = workspaces db"
    and plain: "ik_plaintext_api_key key = generate_plaintext_api_key token"
    and row: "ik_row key = issued_row sha now uuid (generate_plaintext_api_key token) a
       (ik_tenant_role key) (ik_tenant_capabilities key)"
    and caps: "ik_tenant_role key = derive_tenant_role (Some (ka_tenant_role a)) (ka_tenant_capabilities a)"
      "ik_tenant_capabilities key = normalize_tenant_capabilities (Some (ik_tenant_role key)) (ka_tenant_capabilities a)"
    by (rule issue_api_keyD [OF assms(1)])
  have k: "ak_tenant_id (ik_row key) = ka_tenant_id a" "ak_workspace_id (ik_row key) = ka_workspace_id a"
    "ak_key_hash (ik_row key) = sha (ik_plaintext_api_key key)" "ak_status (ik_row key) = ''active''"
    "ak_expires_at (ik_row key) = None" "ak_revoked_at (ik_row key) = None"
    unfolding row by (simp_all add: issued_row_def plain)
  have ten: "ka_tenant_id a \<in> tn_id ` set (tenants db)"
    using i(2) k(1) by (simp add: insert_api_key_def list_ex_key split: if_splits)
  obtain w where "w \<in> set (workspaces db)" "ws_id w = ka_workspace_id a" by (rule check_key_scopeD [OF i(1)])
  then have "ka_workspace_id a \<in> ws_id ` set (workspaces db)" by (metis image_eqI)
  with ten k i(4,5) have usable: "key_usable db' t (sha (ik_plaintext_api_key key)) (ik_row key)"
    by (simp add: key_usable_def list_ex_key)
  have "find (key_usable db' t (sha (ik_plaintext_api_key key))) (api_keys db) = None"
    using assms(2) unfolding find_eq_None key_usable_def by (metis image_eqI)
  with usable i(3) have found: "find (key_usable db' t (sha (ik_plaintext_api_key key))) (api_keys db') = Some (ik_row key)"
    by (simp add: find_append)
  have "strip c \<noteq> []" if "c \<in> set (ik_tenant_capabilities key)" for c
    using that role_capabilities_stripped by (auto simp: caps(2) set_normalize)
  then have c: "stored_capabilities py_str (ak_metadata (ik_row key)) = Inr (ik_tenant_capabilities key)"
    unfolding row by (simp add: stored_capabilities_def issued_row_def map_of_update iterate_json_def comp_def
        str_json_def filter_id_conv)
  have "derive_tenant_role r cs \<noteq> []" for r cs
    by (cases r) (auto simp: derive_tenant_role_def Let_def ROLE_CAPABILITIES_def)
  then have r: "stored_role py_str (ak_metadata (ik_row key)) = ik_tenant_role key"
    unfolding row by (simp add: stored_role_def issued_row_def dict_get_update py_falsy_def str_json_def caps(1))
  have "truthy (Some (ik_plaintext_api_key key))" by (simp add: plain generate_plaintext_api_key_def)
  with found c r k(1,2) show ?thesis by (simp add: resolve_key_def)
qed

text \<open>
  C11. An issued key resolves to what it was issued for: presented afterwards, its plaintext
  yields the tenant and workspace it was issued to, with the role and the capabilities the
  issue settled on. Only SHA-256 must not collide with a key stored before.
\<close>

theorem issued_key_resolves:
  assumes "identity_ok db" "issue_api_key sha db now uuid token a = Inr (db', key)"
    and "sha (ik_plaintext_api_key key) \<notin> ak_key_hash ` set (api_keys db)"
  shows "\<exists>db'' c. resolve_key sha py_str db' t (Some (ik_plaintext_api_key key)) = (db'', Inr (Some c)) \<and>
    rk_tenant_id c = ka_tenant_id a \<and> rk_workspace_id c = ka_workspace_id a \<and>
    rk_api_key_id c = ak_id (ik_row key) \<and> rk_tenant_role c = ik_tenant_role key \<and>
    rk_tenant_capabilities c = ik_tenant_capabilities key"
  using issued_key_found [OF assms(2,3)] by (simp add: key_context_def)

lemma issued_key_resolves_witness:
  "\<exists>db db' c. resolve_key (\<lambda>s. s) (\<lambda>_. []) db 3 (Some ''metera_live_tok'') = (db', Inr (Some c)) \<and>
    rk_tenant_id c = ''t1'' \<and> rk_tenant_role c = ''tenant_reader''"
proof -
  have ok: "identity_ok seeded_demo"
    by (rule seed_static_identity_ok [OF demo_seeded]) (simp add: empty_identity_def identity_ok_def)
  obtain db key where i: "issue_api_key (\<lambda>s. s) seeded_demo 2 ''u'' ''tok'' demo_key_args = Inr (db, key)"
    using demo_issued by blast
  have p: "ik_plaintext_api_key key = ''metera_live_tok''"
    using issue_api_keyD [OF i] by (metis generate_plaintext_api_key_def append.simps)
  have "ik_tenant_role key = derive_tenant_role (Some ''tenant_reader'') [''billing:history:read'']"
    using issue_api_keyD [OF i] by (metis demo_key_args_def key_args.select_convs(4,5))
  then have r: "ik_tenant_role key = ''tenant_reader''" "ka_tenant_id demo_key_args = ''t1''"
    by (simp_all add: derive_tenant_role_def ROLE_CAPABILITIES_def demo_key_args_def Let_def)
  have "(\<lambda>s. s) (ik_plaintext_api_key key) \<notin> ak_key_hash ` set (api_keys seeded_demo)"
    by (simp add: p seeded_demo_def seeded_key_def demo_seed_def)
  from issued_key_resolves [OF ok i this, of "\<lambda>_. []" 3] show ?thesis unfolding p r by blast
qed

section \<open>Seeding revives a revoked key\<close>

lemma first_seed:
  assumes "seed_static_identity sha empty_identity now a = Inr db"
  shows "tenants db = [seeded_tenant now a]" "api_keys db = [seeded_key sha now a]"
    "map ws_id (workspaces db) = [sa_workspace_id a]" "map ws_tenant_id (workspaces db) = [sa_tenant_id a]"
    "map ws_slug (workspaces db) = [sa_workspace_slug a]"
    "environments db = (if truthy (sa_environment_id a) \<and> truthy (sa_environment_name a)
       then [seeded_environment now a (the (sa_environment_id a)) (the (sa_environment_name a))] else [])"
    "case sa_environment_id a of None \<Rightarrow> True | Some e \<Rightarrow> list_ex (\<lambda>x. env_id x = e) (environments db)"
  using assms by (auto simp: seed_static_identity_def rbind_eq_Inr seed_tenant_def seed_workspace_def
      seed_environment_def seed_api_key_def empty_identity_def upsert_by_def log_key_event_def Let_def
      set_default_environment_def seeded_workspace_def split: if_splits option.splits)

lemma seed_again:
  assumes "tenants db = [t]" "tn_id t = sa_tenant_id a" "workspaces db = [w]" "ws_id w = sa_workspace_id a"
    and "api_keys db = [k]" "ak_id k = sa_api_key_id a"
    and "environments db = (if truthy (sa_environment_id a) \<and> truthy (sa_environment_name a)
       then [seeded_environment now a (the (sa_environment_id a)) (the (sa_environment_name a))] else [])"
    and "case sa_environment_id a of None \<Rightarrow> True | Some e \<Rightarrow> list_ex (\<lambda>x. env_id x = e) (environments db)"
  shows "\<exists>db'. seed_static_identity sha db now' a = Inr db' \<and> tn_id ` set (tenants db') = {sa_tenant_id a} \<and>
    ws_id ` set (workspaces db') = {sa_workspace_id a} \<and> api_keys db' = [reseed_key sha now' a k]"
  using assms
  by (cases "sa_environment_id a"; cases "sa_environment_name a")
    (auto simp: seed_static_identity_def seed_tenant_def seed_workspace_def seed_environment_def seed_api_key_def
      upsert_by_def log_key_event_def Let_def set_default_environment_def seeded_environment_def
      reseed_environment_def reseed_workspace_def reseed_tenant_def seeded_tenant_def seeded_workspace_def
      seeded_key_def)

text \<open>
  Revoking the seeded key lasts until the next start-up: seeding the same configuration
  again succeeds and makes the key resolve, with the administrator role.
\<close>

theorem reseeding_revives_revoked_key:
  assumes "seed_static_identity sha empty_identity now a = Inr db1" "sa_api_key_plaintext a \<noteq> []"
    and "revoke_api_key db1 t1 (sa_api_key_id a) actor = (db2, True)"
  shows "snd (resolve_key sha py_str db2 t2 (Some (sa_api_key_plaintext a))) = Inr None \<and>
    (\<exists>db3 db4 c. seed_static_identity sha db2 t3 a = Inr db3 \<and>
      resolve_key sha py_str db3 t4 (Some (sa_api_key_plaintext a)) = (db4, Inr (Some c)) \<and>
      rk_api_key_id c = sa_api_key_id a \<and> rk_tenant_role c = ''tenant_admin'')"
proof -
  define k where "k = (seeded_key sha now a)\<lparr>ak_status := ''revoked'', ak_revoked_at := Some t1, ak_updated_at := t1\<rparr>"
  note f = first_seed [OF assms(1)]
  have id: "ak_id (seeded_key sha now a) = sa_api_key_id a" by (simp add: seeded_key_def)
  have db2: "tenants db2 = tenants db1" "workspaces db2 = workspaces db1" "environments db2 = environments db1"
    "api_keys db2 = [k]"
    using assms(3) f(2) id by (auto simp: revoke_api_key_def log_key_event_def k_def)
  have revoked: "snd (resolve_key sha py_str db2 t2 (Some (sa_api_key_plaintext a))) = Inr None"
    by (simp add: resolve_key_def db2 key_usable_def k_def)
  obtain w where w: "workspaces db2 = [w]" "ws_id w = sa_workspace_id a"
    using f(3) db2(2) by (cases "workspaces db1") auto
  have t: "tenants db2 = [seeded_tenant now a]" "tn_id (seeded_tenant now a) = sa_tenant_id a"
    using f(1) db2(1) by (simp_all add: seeded_tenant_def)
  have kid: "ak_id k = sa_api_key_id a" "ak_expires_at k = None" by (simp_all add: k_def seeded_key_def)
  obtain db3 where db3: "seed_static_identity sha db2 t3 a = Inr db3" "tn_id ` set (tenants db3) = {sa_tenant_id a}"
    "ws_id ` set (workspaces db3) = {sa_workspace_id a}" "api_keys db3 = [reseed_key sha t3 a k]"
    using seed_again [OF t w db2(4) kid(1), of now sha t3, unfolded db2(3), OF f(6,7)] by blast
  let ?k = "reseed_key sha t3 a k"
  have k': "ak_id ?k = sa_api_key_id a" "ak_key_hash ?k = sha (sa_api_key_plaintext a)" "ak_status ?k = ''active''"
    "ak_expires_at ?k = None" "ak_revoked_at ?k = None" "ak_tenant_id ?k = sa_tenant_id a"
    "ak_workspace_id ?k = sa_workspace_id a" "ak_metadata ?k = seeded_key_metadata"
    using kid by (simp_all add: reseed_key_def)
  have "key_usable db3 t4 (sha (sa_api_key_plaintext a)) ?k"
    using k' db3(2,3) by (simp add: key_usable_def list_ex_key)
  moreover have "stored_capabilities py_str seeded_key_metadata = Inr []"
    "stored_role py_str seeded_key_metadata = ''tenant_admin''"
    by (simp_all add: stored_capabilities_def stored_role_def seeded_key_metadata_def seeded_metadata_def
        iterate_json_def dict_get_def py_falsy_def str_json_def)
  ultimately have "\<exists>db4 c. resolve_key sha py_str db3 t4 (Some (sa_api_key_plaintext a)) = (db4, Inr (Some c)) \<and>
      rk_api_key_id c = sa_api_key_id a \<and> rk_tenant_role c = ''tenant_admin''"
    using assms(2) db3(4) k'(1,8) by (simp add: resolve_key_def key_context_def)
  with revoked db3(1) show ?thesis by blast
qed

lemma demo_revoked:
  "\<exists>db2. revoke_api_key seeded_demo 2 (sa_api_key_id demo_seed) ''admin'' = (db2, True)"
  by (simp add: revoke_api_key_def seeded_demo_def seeded_key_def)

lemma reseeding_revives_revoked_key_witness:
  "\<exists>db2 db3 db4 c. revoke_api_key seeded_demo 2 ''k1'' ''admin'' = (db2, True) \<and>
    seed_static_identity (\<lambda>s. s) db2 3 demo_seed = Inr db3 \<and>
    resolve_key (\<lambda>s. s) (\<lambda>_. []) db3 4 (Some ''secret'') = (db4, Inr (Some c)) \<and> rk_tenant_role c = ''tenant_admin''"
proof -
  obtain db2 where r: "revoke_api_key seeded_demo 2 (sa_api_key_id demo_seed) ''admin'' = (db2, True)"
    using demo_revoked by blast
  have s: "sa_api_key_plaintext demo_seed = ''secret''" "sa_api_key_id demo_seed = ''k1''"
    "sa_api_key_plaintext demo_seed \<noteq> []"
    by (simp_all add: demo_seed_def)
  from reseeding_revives_revoked_key [OF demo_seeded s(3) r, of "\<lambda>_. []" 4 3 4] r show ?thesis
    unfolding s(1,2) by blast
qed

definition two_keys :: identity_db where
  "two_keys = seeded_demo\<lparr>api_keys := [seeded_key (\<lambda>s. s) 1 demo_seed,
     (seeded_key (\<lambda>s. s) 1 demo_seed)\<lparr>ak_id := ''k2'', ak_key_prefix := ''mk_2'', ak_key_hash := ''other''\<rparr>]\<rparr>"

lemma revoked_key_stays_revoked_witness:
  "\<exists>db1 db2 c. revoke_api_key two_keys 2 ''k1'' ''admin'' = (db1, True) \<and>
    resolve_key (\<lambda>s. s) (\<lambda>_. []) (run_calls (\<lambda>s. s) (\<lambda>_. []) db1 [(3, ResolveKey (Some ''secret''))]) 4 (Some ''other'') =
      (db2, Inr (Some c)) \<and> rk_api_key_id c \<noteq> ''k1''"
proof -
  let ?cs = "[(3, ResolveKey (Some ''secret''))]"
  obtain db1 where r: "revoke_api_key two_keys 2 ''k1'' ''admin'' = (db1, True)"
    by (simp add: revoke_api_key_def two_keys_def seeded_demo_def seeded_key_def demo_seed_def)
  have "\<exists>db2 c. resolve_key (\<lambda>s. s) (\<lambda>_. []) (run_calls (\<lambda>s. s) (\<lambda>_. []) db1 ?cs) 4 (Some ''other'') = (db2, Inr (Some c))"
    using r by (auto simp: revoke_api_key_def two_keys_def seeded_demo_def seeded_key_def demo_seed_def run_calls_def
        run_call_def resolve_key_def key_usable_def log_key_event_def seeded_tenant_def seeded_workspace_def
        stored_capabilities_def iterate_json_def seeded_key_metadata_def seeded_metadata_def)
  then obtain db2 c where c: "resolve_key (\<lambda>s. s) (\<lambda>_. []) (run_calls (\<lambda>s. s) (\<lambda>_. []) db1 ?cs) 4 (Some ''other'') =
      (db2, Inr (Some c))" by blast
  have "list_all (\<lambda>tc. \<not> reseeds ''k1'' (snd tc)) ?cs" by (simp add: reseeds_def)
  from revoked_key_stays_revoked [OF r this c] r c show ?thesis by blast
qed

end
