(* ===== verification/ChatRoute.thy ===== *)
theory ChatRoute
  imports Proxy Identity
begin

text \<open>
  The public endpoint, \<open>app/api/routes_chat.py\<close>, and the service it is given
  (\<open>app/core/dependencies.py\<close>): the presented key becomes the request's tenant, the header
  or the tenant's slugs its namespace, and the proxy handles it. The state of the resolver
  (the key tables) is threaded beside the world of the proxy.
\<close>

section \<open>The service\<close>

text \<open>
  \<open>get_proxy_service\<close>: the configured service with the stored overrides, whose threshold
  replaces the one of the settings unless it is \<open>None\<close>.
\<close>

definition get_proxy_service :: "service \<Rightarrow> dict \<Rightarrow> service" where
  "get_proxy_service svc overrides =
     svc\<lparr>svc_overrides := overrides,
         svc_semantic_threshold := semantic_cache_threshold (svc_settings svc) overrides\<rparr>"

section \<open>The request context\<close>

definition chat_bearer_token :: "string option \<Rightarrow> string option" where
  "chat_bearer_token authorization =
     (if \<not> truthy authorization then None
      else let a = the authorization in
        if prefix ''bearer '' (py_lower a) then Some (strip (drop (length ''bearer '') a))
        else Some (strip a))"

definition with_identity :: "resolved_key \<Rightarrow> proxy_context \<Rightarrow> proxy_context" where
  "with_identity c ctx = ctx\<lparr>
     ctx_tenant_id := Some (rk_tenant_id c), ctx_tenant_slug := Some (rk_tenant_slug c),
     ctx_workspace_id := Some (rk_workspace_id c), ctx_workspace_slug := Some (rk_workspace_slug c),
     ctx_environment_id := rk_environment_id c, ctx_environment_name := rk_environment_name c,
     ctx_api_key_id := Some (rk_api_key_id c), ctx_api_key_prefix := Some (rk_api_key_prefix c),
     ctx_api_key_display_name := Some (rk_api_key_display_name c),
     ctx_tenant_role := Some (rk_tenant_role c), ctx_tenant_capabilities := rk_tenant_capabilities c\<rparr>"

definition context_namespace :: "string \<Rightarrow> string option \<Rightarrow> proxy_context \<Rightarrow> proxy_context result" where
  "context_namespace header_name namespace_header ctx =
     (if truthy namespace_header
      then rbind (resolve_namespace namespace_header header_name) (\<lambda>ns. Inr (ctx\<lparr>ctx_namespace := ns\<rparr>))
      else if truthy (ctx_tenant_slug ctx) \<and> truthy (ctx_workspace_slug ctx)
      then rbind (derive_default_namespace (the (ctx_tenant_slug ctx)) (the (ctx_workspace_slug ctx)))
             (\<lambda>ns. Inr (ctx\<lparr>ctx_namespace := ns\<rparr>))
      else Inr ctx)"

text \<open>\<open>None\<close> for the resolver is an application without one.\<close>

type_synonym 's resolver = "'s \<Rightarrow> timestamp \<Rightarrow> string option \<Rightarrow> 's \<times> resolved_key option result"

definition identified_context ::
  "bool \<Rightarrow> 's resolver option \<Rightarrow> timestamp \<Rightarrow> proxy_context \<Rightarrow> 's \<Rightarrow> 's \<times> proxy_context result" where
  "identified_context identity_enabled resolver now ctx s =
     (if \<not> identity_enabled then (s, Inr ctx)
      else case resolver of
             None \<Rightarrow> (s, Inl (HTTPException 503
               ''Control-plane identity is enabled but no identity resolver is configured''))
           | Some resolve \<Rightarrow>
               (case resolve s now (ctx_bearer_token ctx) of
                  (s', Inl e) \<Rightarrow> (s', Inl e)
                | (s', Inr None) \<Rightarrow> (s', Inl (HTTPException 401 ''Invalid workspace API key''))
                | (s', Inr (Some c)) \<Rightarrow> (s', Inr (with_identity c ctx))))"

definition chat_context ::
  "bool \<Rightarrow> 's resolver option \<Rightarrow> string \<Rightarrow> timestamp \<Rightarrow> string \<Rightarrow> string option \<Rightarrow> string option \<Rightarrow> 's \<Rightarrow>
   's \<times> proxy_context result" where
  "chat_context identity_enabled resolver header_name now request_id namespace_header authorization s =
     (let ctx = new_context ''default'' (chat_bearer_token authorization) (Some request_id)
      in case identified_context identity_enabled resolver now ctx s of
           (s', Inl e) \<Rightarrow> (s', Inl e)
         | (s', Inr ctx) \<Rightarrow> (s', context_namespace header_name namespace_header ctx))"

section \<open>The endpoint\<close>

datatype chat_reply = Completion chat_response | EventStream "string list"

definition identity_metera :: "proxy_context \<Rightarrow> dict" where
  "identity_metera ctx =
     [(''tenant_id'', json_of_str_option (ctx_tenant_id ctx)),
      (''tenant_slug'', json_of_str_option (ctx_tenant_slug ctx)),
      (''workspace_id'', json_of_str_option (ctx_workspace_id ctx)),
      (''workspace_slug'', json_of_str_option (ctx_workspace_slug ctx)),
      (''environment_id'', json_of_str_option (ctx_environment_id ctx)),
      (''environment_name'', json_of_str_option (ctx_environment_name ctx)),
      (''api_key_id'', json_of_str_option (ctx_api_key_id ctx)),
      (''api_key_prefix'', json_of_str_option (ctx_api_key_prefix ctx)),
      (''api_key_display_name'', json_of_str_option (ctx_api_key_display_name ctx))]"

definition upstream_as_http :: "py_exc \<Rightarrow> py_exc" where
  "upstream_as_http e = (case e of
     UpstreamErr message code retryable \<Rightarrow>
       HTTPExceptionDetail code [(''message'', JStr message), (''retryable'', JBool retryable)]
   | _ \<Rightarrow> e)"

definition serve_context ::
  "('k, 's) cache_ops \<Rightarrow> service \<Rightarrow> times \<Rightarrow> chat_request \<Rightarrow> proxy_context \<Rightarrow> ('k, 's) world \<Rightarrow>
   chat_reply result \<times> ('k, 's) world" where
  "serve_context ops svc ti r ctx w =
     (if req_stream r
      then (case handle_chat_completion_stream svc r ctx w of
              (Inl e, w') \<Rightarrow> (Inl (upstream_as_http e), w')
            | (Inr chunks, w') \<Rightarrow> (Inr (EventStream chunks), w'))
      else (case handle_chat_completion ops svc ti r ctx True w of
              (Inl e, w') \<Rightarrow> (Inl (upstream_as_http e), w')
            | (Inr resp, w') \<Rightarrow> (Inr (Completion (with_metera resp (identity_metera ctx))), w')))"

definition chat_completions ::
  "('k, 's) cache_ops \<Rightarrow> service \<Rightarrow> times \<Rightarrow> bool \<Rightarrow> 'i resolver option \<Rightarrow> timestamp \<Rightarrow> string \<Rightarrow>
   string option \<Rightarrow> string option \<Rightarrow> chat_request \<Rightarrow> 'i \<times> ('k, 's) world \<Rightarrow>
   chat_reply result \<times> 'i \<times> ('k, 's) world" where
  "chat_completions ops svc ti identity_enabled resolver now request_id namespace_header authorization r iw =
     (case iw of (i, w) \<Rightarrow>
        (case chat_context identity_enabled resolver (cfg_namespace_header (svc_settings svc)) now
                request_id namespace_header authorization i of
           (i', Inl e) \<Rightarrow> (Inl e, i', w)
         | (i', Inr ctx) \<Rightarrow> (case serve_context ops svc ti r ctx w of (res, w') \<Rightarrow> (res, i', w'))))"

section \<open>Facts over any resolver\<close>

lemma context_namespace_frame:
  "context_namespace h nsh ctx = Inr ctx' \<Longrightarrow>
   \<exists>ns. ctx' = ctx\<lparr>ctx_namespace := ns\<rparr> \<and> (namespace_ok ns \<or> ns = ctx_namespace ctx)"
  by (auto simp: context_namespace_def rbind_eq_Inr split: if_splits
      dest!: resolve_namespace_ok derive_default_namespace_ok)
    (metis proxy_context.surjective proxy_context.update_convs(1) old.unit.exhaust)+

context key_resolver
begin

text \<open>An identified request acts for the tenant of the key it presents.\<close>

lemma chat_context_granted:
  assumes "chat_context True (Some resolve) h now rid nsh auth s = (s', Inr ctx)"
  obtains key c where "chat_bearer_token auth = Some key" "grants s now key c"
    "ctx_tenant_id ctx = Some (rk_tenant_id c)" "ctx_workspace_id ctx = Some (rk_workspace_id c)"
    "ctx_api_key_id ctx = Some (rk_api_key_id c)" "namespace_ok (ctx_namespace ctx)"
proof -
  obtain s1 c where r: "resolve s now (chat_bearer_token auth) = (s1, Inr (Some c))"
    and n: "context_namespace h nsh (with_identity c (new_context ''default'' (chat_bearer_token auth) (Some rid))) = Inr ctx"
    using assms by (auto simp: chat_context_def identified_context_def new_context_def
        split: prod.splits sum.splits option.splits)
  obtain ns where ctx: "ctx = (with_identity c (new_context ''default'' (chat_bearer_token auth) (Some rid)))\<lparr>ctx_namespace := ns\<rparr>"
    "namespace_ok ns"
    using context_namespace_frame [OF n] namespace_ok_default by (auto simp: with_identity_def new_context_def)
  from resolved_granted [OF r] obtain key where "chat_bearer_token auth = Some key" "grants s now key c" by blast
  with that ctx show thesis by (simp add: with_identity_def)
qed

text \<open>A request without a key, or with one that resolves to nobody, never reaches the proxy.\<close>

lemma chat_context_unresolved:
  "resolve s now (chat_bearer_token auth) = (s', Inr None) \<Longrightarrow>
   chat_context True (Some resolve) h now rid nsh auth s = (s', Inl (HTTPException 401 ''Invalid workspace API key''))"
  by (simp add: chat_context_def identified_context_def new_context_def)

lemma chat_context_no_key:
  "\<not> truthy (chat_bearer_token auth) \<Longrightarrow>
   chat_context True (Some resolve) h now rid nsh auth s = (s, Inl (HTTPException 401 ''Invalid workspace API key''))"
  by (rule chat_context_unresolved) (rule no_key)

end

lemma chat_completions_refused:
  "chat_context en rv (cfg_namespace_header (svc_settings svc)) now rid nsh auth i = (i', Inl e) \<Longrightarrow>
   chat_completions ops svc ti en rv now rid nsh auth r (i, w) = (Inl e, i', w)"
  by (simp add: chat_completions_def)

lemma chat_completions_served:
  assumes "chat_completions ops svc ti en rv now rid nsh auth r (i, w) = (Inr reply, i', w')"
  obtains ctx where "chat_context en rv (cfg_namespace_header (svc_settings svc)) now rid nsh auth i = (i', Inr ctx)"
    "serve_context ops svc ti r ctx w = (Inr reply, w')"
  using assms by (auto simp: chat_completions_def split: prod.splits sum.splits)

lemma serve_context_admitted:
  assumes "serve_context ops svc ti r ctx w = (Inr reply, w')"
  shows "enforce_billing_access svc ctx (w_db w) = Inr ()"
proof (rule ccontr)
  assume "enforce_billing_access svc ctx (w_db w) \<noteq> Inr ()"
  then obtain e where "enforce_billing_access svc ctx (w_db w) = Inl e"
    by (cases "enforce_billing_access svc ctx (w_db w)") auto
  with assms show False
    by (simp add: serve_context_def handle_chat_completion_def handle_chat_completion_stream_def
        tick_def bump_def Let_def split: if_splits)
qed

end
