(* ===== verification/ChatProperties.thy ===== *)
theory ChatProperties
  imports ChatRoute ProxyProperties IdentityProperties
begin

text \<open>
  The properties of the public endpoint with the control-plane identity switched on: who is
  turned away before the proxy, and for whom a served request acts.
\<close>

text \<open>
  C9. With the identity enabled, a request whose key is missing, unknown, expired or revoked
  is turned away with 401 before anything else happens: the proxy's counters, caches, records
  and the provider see nothing of it, and the key tables are not touched.
\<close>

theorem unresolved_key_rejected:
  assumes "find (key_usable i now (sha (opt_else (chat_bearer_token auth) []))) (api_keys i) = None"
  shows "chat_completions ops svc ti True (Some (resolve_key sha py_str)) now rid nsh auth r (i, w) =
    (Inl (HTTPException 401 ''Invalid workspace API key''), i, w)"
proof (rule chat_completions_refused, rule repository_keys.chat_context_unresolved)
  show "resolve_key sha py_str i now (chat_bearer_token auth) = (i, Inr None)"
    using assms by (cases "chat_bearer_token auth") (simp_all add: resolve_key_def)
qed

lemma unresolved_key_rejected_witness:
  "chat_completions memory_ops demo_service demo_times True (Some (resolve_key (\<lambda>s. s) (\<lambda>_. []))) 3 ''r1'' None
     (Some ''Bearer nope'') (demo_message ''hi'') (seeded_demo, demo_world) =
   (Inl (HTTPException 401 ''Invalid workspace API key''), seeded_demo, demo_world)"
proof (rule unresolved_key_rejected)
  have "chat_bearer_token (Some ''Bearer nope'') = Some ''nope''" by code_simp
  then show "find (key_usable seeded_demo 3 (opt_else (chat_bearer_token (Some ''Bearer nope'')) [])) (api_keys seeded_demo) = None"
    by (simp add: seeded_demo_def key_usable_def seeded_key_def demo_seed_def)
qed

text \<open>
  C8. With the identity enabled, a served request acts for the tenant and workspace of an
  active, unexpired, unrevoked key whose hash is that of the presented token; it passed that
  tenant's billing check, and the tenant's own token is never sent to the provider.
\<close>

theorem served_request_acts_for_key:
  assumes "chat_completions ops svc ti True (Some (resolve_key sha py_str)) now rid nsh auth r (i, w) = (Inr reply, i', w')"
    and "cfg_controlplane_identity_enabled (svc_settings svc)" "list_all (\<lambda>k. ak_tenant_id k \<noteq> []) (api_keys i)"
  shows "\<exists>key ctx. \<exists>k \<in> set (api_keys i). chat_bearer_token auth = Some key \<and> key_usable i now (sha key) k \<and>
    ctx_tenant_id ctx = Some (ak_tenant_id k) \<and> ctx_workspace_id ctx = Some (ak_workspace_id k) \<and>
    enforce_billing_access svc ctx (w_db w) = Inr () \<and> serve_context ops svc ti r ctx w = (Inr reply, w') \<and>
    namespace_ok (ctx_namespace ctx) \<and> resolve_upstream_bearer_token svc ctx = None"
proof -
  obtain ctx where c: "chat_context True (Some (resolve_key sha py_str)) (cfg_namespace_header (svc_settings svc))
      now rid nsh auth i = (i', Inr ctx)" and s: "serve_context ops svc ti r ctx w = (Inr reply, w')"
    by (rule chat_completions_served [OF assms(1)])
  obtain key rk where g: "chat_bearer_token auth = Some key" "repository_grants sha i now key rk"
    "ctx_tenant_id ctx = Some (rk_tenant_id rk)" "ctx_workspace_id ctx = Some (rk_workspace_id rk)"
    "namespace_ok (ctx_namespace ctx)"
    by (rule repository_keys.chat_context_granted [OF c])
  then obtain k where k: "k \<in> set (api_keys i)" "key_usable i now (sha key) k"
    "rk_tenant_id rk = ak_tenant_id k" "rk_workspace_id rk = ak_workspace_id k"
    by (auto simp: repository_grants_def)
  have "resolve_upstream_bearer_token svc ctx = None"
    using assms(2,3) g(3) k(1,3) by (auto simp: resolve_upstream_bearer_token_def list_all_iff)
  with g k serve_context_admitted [OF s] s show ?thesis by metis
qed

definition identity_service :: service where
  "identity_service = demo_service\<lparr>svc_settings := default_settings\<lparr>cfg_controlplane_identity_enabled := True\<rparr>\<rparr>"

definition demo_stream :: chat_request where
  "demo_stream = (demo_message ''hi'')\<lparr>req_stream := True\<rparr>"

lemma demo_stream_served:
  "\<exists>reply i' w'. chat_completions memory_ops identity_service demo_times True (Some (resolve_key (\<lambda>s. s) (\<lambda>_. []))) 3 ''r1''
     (Some ''n1'') (Some ''Bearer secret'') demo_stream (seeded_demo, demo_world) = (Inr reply, i', w')"
proof -
  have t: "chat_bearer_token (Some ''Bearer secret'') = Some ''secret''" by code_simp
  have "namespace_ok ''n1''"
    by (simp add: namespace_ok_def valid_namespace_character_def is_lower_alpha_def is_digit_def code_point_def)
  then have "validate_namespace (cfg_namespace_header (svc_settings identity_service)) ''n1'' = Inr ''n1''"
    by (simp add: validate_namespace_Inr)
  moreover have "strip ''n1'' = ''n1''" by code_simp
  ultimately have n: "resolve_namespace (Some ''n1'') (cfg_namespace_header (svc_settings identity_service)) = Inr ''n1''"
    by (simp add: resolve_namespace_def Let_def)
  have r: "\<exists>i' c. resolve_key (\<lambda>s. s) (\<lambda>_. []) seeded_demo 3 (Some ''secret'') = (i', Inr (Some c))"
    by (simp add: resolve_key_def seeded_demo_def key_usable_def seeded_key_def demo_seed_def seeded_tenant_def
        seeded_workspace_def stored_capabilities_def iterate_json_def seeded_key_metadata_def seeded_metadata_def)
  then obtain i' ctx where c: "chat_context True (Some (resolve_key (\<lambda>s. s) (\<lambda>_. [])))
      (cfg_namespace_header (svc_settings identity_service)) 3 ''r1'' (Some ''n1'') (Some ''Bearer secret'') seeded_demo = (i', Inr ctx)"
    by (auto simp: chat_context_def identified_context_def new_context_def t context_namespace_def n)
  have "\<exists>nt. canonicalize_request (svc_repr_float identity_service) demo_stream = Inr nt"
    by (simp add: identity_service_def demo_service_def demo_stream_def canonicalize_request_def demo_message_def
        dump_message_def del: append.simps)
  then have "\<exists>reply w'. serve_context memory_ops identity_service demo_times demo_stream ctx demo_world = (Inr reply, w')"
    by (auto simp: serve_context_def handle_chat_completion_stream_def enforce_billing_access_def Let_def
        demo_stream_def identity_service_def demo_service_def)
  with c show ?thesis by (auto simp: chat_completions_def)
qed

lemma served_request_acts_for_key_witness:
  "\<exists>reply i' w' ctx. chat_completions memory_ops identity_service demo_times True (Some (resolve_key (\<lambda>s. s) (\<lambda>_. []))) 3 ''r1''
     (Some ''n1'') (Some ''Bearer secret'') demo_stream (seeded_demo, demo_world) = (Inr reply, i', w') \<and>
    ctx_tenant_id ctx = Some ''t1'' \<and> resolve_upstream_bearer_token identity_service ctx = None"
proof -
  obtain reply i' w' where s: "chat_completions memory_ops identity_service demo_times True
     (Some (resolve_key (\<lambda>s. s) (\<lambda>_. []))) 3 ''r1'' (Some ''n1'') (Some ''Bearer secret'') demo_stream
     (seeded_demo, demo_world) = (Inr reply, i', w')"
    using demo_stream_served by blast
  have k: "cfg_controlplane_identity_enabled (svc_settings identity_service)"
    "list_all (\<lambda>k. ak_tenant_id k \<noteq> []) (api_keys seeded_demo)"
    by (simp_all add: identity_service_def demo_service_def seeded_demo_def seeded_key_def demo_seed_def)
  have "ak_tenant_id k = ''t1''" if "k \<in> set (api_keys seeded_demo)" for k
    using that by (simp add: seeded_demo_def seeded_key_def demo_seed_def)
  with served_request_acts_for_key [OF s k] s show ?thesis by metis
qed

end
