(* ===== verification/ReportProperties.thy ===== *)
theory ReportProperties
  imports BillingProperties
begin

text \<open>
  The tables, reports and preview invoices over every run of the billing repository: that the
  tables stay consistent, what the invoice table can hold, what a preview writes, and how the report of a
  closed period can still change.
\<close>

section \<open>The invoice table\<close>

lemma step_invoices:
  assumes "billing_step threshold db db'"
  shows "invoices db' = invoices db \<or>
    (\<exists>float_repr jsonb now uuid pid fmt stub.
       generate_invoice_stub float_repr jsonb db now uuid pid fmt = Inr (db', stub))"
  using assms
proof (induction rule: billing_step.induct)
  case (step_plan db now uuid a db' pid)
  then show ?case by (auto simp: upsert_plan_def Let_def)
next
  case (step_subscription db now uuid tenant pid st s e t db' sid)
  then show ?case
    by (auto simp: create_subscription_def Let_def split: if_splits simp del: append.simps)
next
  case (step_subscription_status db now sid st db' row)
  then show ?case by (auto simp: update_subscription_status_def Let_def split: if_splits option.splits)
next
  case (step_period db now uuid tenant sid s e db' pid)
  from step_period(1) show ?case by (cases rule: create_period_cases) auto
next
  case (step_summarize db now pid db' row)
  from step_summarize(1) show ?case by (cases rule: summarize_cases) (simp_all add: update_period_def)
next
  case (step_status db now pid st db' row)
  then show ?case by (rule update_status_cases) (simp add: update_period_def)
next
  case (step_adjustment db now uuid tenant sid amount descr reason target db' res)
  from adjustment_frame [OF step_adjustment(1)] show ?case by auto
next
  case (step_ledger db now uuids tenant sid pid limit db' res)
  from materialize_ledger_frame [OF step_ledger(1)] show ?case by auto
next
  case (step_rollups db now uuids tenant sid day pid db' res)
  from materialize_rollups_frame [OF step_rollups(1)] show ?case by auto
next
  case (step_invoice float_repr jsonb db now uuid pid fmt db' stub)
  then show ?case by blast
next
  case (step_event db now t e db')
  then show ?case by (auto simp: log_commercial_event_def)
next
  case (step_request db now t r db')
  then show ?case by (auto simp: log_request_def)
next
  case (step_rebuild db now db' n)
  then show ?case by (auto simp: rebuild_daily_usage_rollups_def Let_def)
qed

text \<open>One preview per period, of the period's tenant; \<open>owners\<close> are the periods with their tenants.\<close>

definition period_owner :: "period_row \<Rightarrow> string \<times> string" where
  "period_owner p = (bp_id p, bp_tenant_id p)"

definition invoice_owner :: "invoice_row \<Rightarrow> string \<times> string" where
  "invoice_owner i = (inv_billing_period_id i, inv_tenant_id i)"

definition preview_row :: "invoice_row \<Rightarrow> bool" where
  "preview_row i \<longleftrightarrow> inv_status i = ''draft'' \<and> inv_issued_at i = None \<and> inv_total_usd i = 0"

definition invoices_ok :: "(string \<times> string) set \<Rightarrow> invoice_row list \<Rightarrow> bool" where
  "invoices_ok owners is \<longleftrightarrow> distinct (map inv_id is) \<and> distinct (map inv_billing_period_id is) \<and>
     invoice_owner ` set is \<subseteq> owners \<and> list_all preview_row is"

lemma invoices_ok_mono: "invoices_ok A is \<Longrightarrow> A \<subseteq> B \<Longrightarrow> invoices_ok B is"
  by (auto simp: invoices_ok_def)

lemma owners_evolve: "periods_evolve ps ps' \<Longrightarrow> period_owner ` set ps \<subseteq> period_owner ` set ps'"
proof
  fix o' assume e: "periods_evolve ps ps'" and "o' \<in> period_owner ` set ps"
  then obtain p where p: "p \<in> set ps" "o' = period_owner p" by blast
  with e obtain p' where "p' \<in> set ps'" "period_evolves p p'" unfolding periods_evolve_def by blast
  then have "period_owner p' = period_owner p" by (simp add: period_evolves_def period_owner_def)
  with p \<open>p' \<in> set ps'\<close> show "o' \<in> period_owner ` set ps'" by (metis image_eqI)
qed

lemma rewrite_invoice_simps [simp]:
  "inv_id (rewrite_invoice now p payload i) = inv_id i"
  "inv_billing_period_id (rewrite_invoice now p payload i) = inv_billing_period_id i"
  "invoice_owner (rewrite_invoice now p payload i) = invoice_owner i"
  "preview_row i \<Longrightarrow> preview_row (rewrite_invoice now p payload i)"
  by (simp_all add: rewrite_invoice_def invoice_owner_def preview_row_def)

lemma invoices_ok_write:
  assumes "write_invoice db now uuid p payload = Inr (db', iid)"
    and ok: "invoices_ok owners (invoices db)" and p: "period_owner p \<in> owners"
  shows "invoices_ok owners (invoices db')"
  using assms(1)
proof (cases rule: write_invoice_cases)
  case draft
  then have "bp_id p \<notin> inv_billing_period_id ` set (invoices db)" "iid \<notin> inv_id ` set (invoices db)"
    by (auto simp: find_eq_None list_all_iff)
  with ok p draft(3) show ?thesis
    by (simp add: invoices_ok_def draft_invoice_def invoice_owner_def period_owner_def preview_row_def)
next
  case (rewrite i)
  let ?f = "\<lambda>j. if inv_id j = iid then rewrite_invoice now p payload j else j"
  have "map inv_id (map ?f is) = map inv_id is"
    "map inv_billing_period_id (map ?f is) = map inv_billing_period_id is"
    "invoice_owner ` set (map ?f is) = invoice_owner ` set is" for "is"
    by (intro map_update_same image_update_same; simp)+
  moreover have "list_all preview_row (map ?f (invoices db))"
    using ok by (auto simp: invoices_ok_def list_all_iff)
  ultimately show ?thesis using ok rewrite(3) by (simp add: invoices_ok_def del: map_map list.map_comp)
qed

lemma invoices_ok_generate:
  assumes "generate_invoice_stub float_repr jsonb db now uuid pid fmt = Inr (db', stub)"
    and "invoices_ok (period_owner ` set (billing_periods db)) (invoices db)"
  shows "invoices_ok (period_owner ` set (billing_periods db)) (invoices db')"
  using assms(1)
proof (rule generate_invoice_cases)
  fix p iid row
  assume "get_billing_period_row db pid = Inr p"
    and w: "write_invoice db now uuid p (new_invoice_payload p fmt) = Inr (db', iid)"
  then have "period_owner p \<in> period_owner ` set (billing_periods db)" using get_periodD by blast
  with w assms(2) show ?thesis using invoices_ok_write by blast
qed

lemma invoices_ok_reachable:
  "billing_reachable threshold db \<Longrightarrow> invoices_ok (period_owner ` set (billing_periods db)) (invoices db)"
  unfolding billing_reachable_def
proof (induction rule: rtranclp_induct)
  case base
  then show ?case by (simp add: invoices_ok_def empty_database_def)
next
  case (step db db')
  have "billing_inv db" using step(1) inv_reachable by (simp add: billing_reachable_def)
  then have m: "period_owner ` set (billing_periods db) \<subseteq> period_owner ` set (billing_periods db')"
    using owners_evolve step_frame [OF step(2)] by blast
  have "invoices_ok (period_owner ` set (billing_periods db)) (invoices db')"
    using step_invoices [OF step(2)] step(3) invoices_ok_generate by auto
  then show ?case using m by (rule invoices_ok_mono)
qed

section \<open>Consistent tables\<close>

text \<open>
  C1. Whatever repository calls are made, in any order and with any arguments, the billing
  tables stay consistent: the identifiers of plans, subscriptions, periods, charges and invoices
  are unique, a plan code names one plan, a subscription has one period per window, a source is
  charged once and a period has one invoice; a subscription's plan, a period's subscription, a
  charge's period and subscription and an invoice's period exist; and a period is closed exactly
  when it has a closing time.
\<close>

theorem billing_tables_consistent:
  assumes "billing_reachable threshold db"
  shows "distinct (map plan_id (plans db)) \<and> distinct (map plan_code (plans db)) \<and>
    distinct (map sub_id (subscriptions db)) \<and> distinct (map bp_id (billing_periods db)) \<and>
    distinct (map (\<lambda>p. (bp_subscription_id p, bp_period_start p, bp_period_end p)) (billing_periods db)) \<and>
    distinct (map uc_id (usage_charges db)) \<and>
    distinct (map (\<lambda>c. (uc_source_table c, uc_source_ref c, uc_charge_type c)) (usage_charges db)) \<and>
    distinct (map inv_id (invoices db)) \<and> distinct (map inv_billing_period_id (invoices db)) \<and>
    sub_plan_id ` set (subscriptions db) \<subseteq> plan_id ` set (plans db) \<and>
    bp_subscription_id ` set (billing_periods db) \<subseteq> sub_id ` set (subscriptions db) \<and>
    (\<forall>c \<in> set (usage_charges db). set_option (uc_billing_period_id c) \<subseteq> bp_id ` set (billing_periods db) \<and>
       set_option (uc_subscription_id c) \<subseteq> sub_id ` set (subscriptions db)) \<and>
    inv_billing_period_id ` set (invoices db) \<subseteq> bp_id ` set (billing_periods db) \<and>
    (\<forall>p \<in> set (billing_periods db). bp_status p = PClosed \<longleftrightarrow> bp_closed_at p \<noteq> None)"
proof -
  have e: "period_window = (\<lambda>p. (bp_subscription_id p, bp_period_start p, bp_period_end p))"
    "charge_source = (\<lambda>c. (uc_source_table c, uc_source_ref c, uc_charge_type c))"
    by (simp_all add: fun_eq_iff period_window_def charge_source_def)
  have i: "invoices_ok (period_owner ` set (billing_periods db)) (invoices db)"
    by (rule invoices_ok_reachable [OF assms])
  have "bp_id ` set (billing_periods db) = fst ` (period_owner ` set (billing_periods db))"
    "inv_billing_period_id ` set (invoices db) = fst ` (invoice_owner ` set (invoices db))"
    by (simp_all add: image_image period_owner_def invoice_owner_def)
  moreover have "fst ` (invoice_owner ` set (invoices db)) \<subseteq> fst ` (period_owner ` set (billing_periods db))"
    using i by (intro image_mono) (simp add: invoices_ok_def)
  ultimately have fk: "inv_billing_period_id ` set (invoices db) \<subseteq> bp_id ` set (billing_periods db)"
    by (simp only:)
  show ?thesis
    using inv_reachable [OF assms] i fk
    unfolding billing_inv_def plans_ok_def subs_ok_def periods_ok_def charges_ok_def invoices_ok_def e
    by (elim conjE) (intro conjI; assumption)
qed

lemma billing_tables_consistent_witness:
  "distinct (map bp_id (billing_periods demo_db)) \<and> billing_periods demo_db = [demo_period]"
  using billing_tables_consistent [OF demo_reachable(2) [of 50]]
  by (simp add: demo_db_def demo_setup_def)

text \<open>
  C30. Over every run of the repository a billing period has at most one invoice, which carries
  the period's own tenant; and since the preview is the only writer, every invoice is an
  unissued draft with a total of zero.
\<close>

theorem invoices_stay_previews:
  assumes "billing_reachable threshold db"
  shows "distinct (map inv_id (invoices db)) \<and> distinct (map inv_billing_period_id (invoices db)) \<and>
    (\<lambda>i. (inv_billing_period_id i, inv_tenant_id i)) ` set (invoices db) \<subseteq>
      (\<lambda>p. (bp_id p, bp_tenant_id p)) ` set (billing_periods db) \<and>
    list_all (\<lambda>i. inv_status i = ''draft'' \<and> inv_issued_at i = None \<and> inv_total_usd i = 0) (invoices db)"
proof -
  have "invoice_owner = (\<lambda>i. (inv_billing_period_id i, inv_tenant_id i))"
    "period_owner = (\<lambda>p. (bp_id p, bp_tenant_id p))"
    "preview_row = (\<lambda>i. inv_status i = ''draft'' \<and> inv_issued_at i = None \<and> inv_total_usd i = 0)"
    by (simp_all add: fun_eq_iff invoice_owner_def period_owner_def preview_row_def)
  with invoices_ok_reachable [OF assms] show ?thesis unfolding invoices_ok_def by (simp only:)
qed

definition invoiced_demo :: database where
  "invoiced_demo = demo_setup\<lparr>invoices :=
     [draft_invoice 9 ''invoice_i'' demo_period (new_invoice_payload demo_period ''json'')]\<rparr>"

lemma invoiced_demo_reachable: "billing_reachable threshold invoiced_demo"
proof -
  have "get_billing_period_row demo_setup ''billing_period_b'' = Inr demo_period"
    by (simp add: get_billing_period_row_def demo_setup_def demo_period_def new_period_def)
  moreover have "write_invoice demo_setup 9 ''i'' demo_period (new_invoice_payload demo_period ''json'') =
      Inr (invoiced_demo, ''invoice_i'')"
    by (simp add: write_invoice_def demo_setup_def empty_database_def invoiced_demo_def Let_def)
  moreover have "find (\<lambda>i. inv_id i = ''invoice_i'') (invoices invoiced_demo) =
      Some (draft_invoice 9 ''invoice_i'' demo_period (new_invoice_payload demo_period ''json''))"
    by (simp add: invoiced_demo_def draft_invoice_def)
  ultimately have "\<exists>stub. generate_invoice_stub (\<lambda>_. []) (\<lambda>d. d) demo_setup 9 ''i'' ''billing_period_b''
      ''json'' = Inr (invoiced_demo, stub)"
    by (simp add: generate_invoice_stub_def)
  then have "billing_step threshold demo_setup invoiced_demo" by (metis billing_step.step_invoice)
  with demo_reachable(1) show ?thesis
    unfolding billing_reachable_def by (rule rtranclp.rtrancl_into_rtrancl)
qed

lemma invoices_stay_previews_witness:
  "length (invoices invoiced_demo) = 1 \<and> list_all (\<lambda>i. inv_status i = ''draft'') (invoices invoiced_demo)"
  using invoices_stay_previews [OF invoiced_demo_reachable [of 50]]
  by (simp add: invoiced_demo_def)

section \<open>Reports of closed periods\<close>

lemma reachable_trans:
  "billing_reachable threshold db \<Longrightarrow> (billing_step threshold)\<^sup>*\<^sup>* db db' \<Longrightarrow> billing_reachable threshold db'"
  unfolding billing_reachable_def by (rule rtranclp_trans)

lemma closed_stays:
  assumes "billing_reachable threshold db" "(billing_step threshold)\<^sup>*\<^sup>* db db'"
    and "get_billing_period_row db pid = Inr p" "bp_status p = PClosed"
  shows "\<exists>p'. get_billing_period_row db' pid = Inr p' \<and> bp_status p' = PClosed \<and> period_evolves p p'"
proof -
  obtain p' where p': "p' \<in> set (billing_periods db')" "period_evolves p p'"
    using reachable_evolve [OF assms(2,1)] get_periodD [OF assms(3)] unfolding periods_evolve_def by blast
  then have "bp_id p' = pid" "bp_status p' = PClosed"
    using get_periodD [OF assms(3)] assms(4) by (simp_all add: period_evolves_def)
  moreover have "get_billing_period_row db' pid = Inr p'"
  proof -
    obtain q where q: "find (\<lambda>p. bp_id p = pid) (billing_periods db') = Some q"
      using p'(1) \<open>bp_id p' = pid\<close> by (cases "find (\<lambda>p. bp_id p = pid) (billing_periods db')")
        (auto simp: find_eq_None)
    then have "q = p'"
      using bp_id_inj [OF inv_reachable [OF reachable_trans [OF assms(1,2)]]] p'(1) \<open>bp_id p' = pid\<close>
        find_Some_mem [OF q] by blast
    with q show ?thesis by (simp add: get_period_mem)
  qed
  ultimately show ?thesis using p'(2) by blast
qed

lemma closed_period_charges:
  assumes "billing_reachable threshold db" "(billing_step threshold)\<^sup>*\<^sup>* db db'"
    and "get_billing_period_row db pid = Inr p" "bp_status p = PClosed"
  shows "\<exists>cs. period_charges db' pid = period_charges db pid @ cs \<and>
    list_all (\<lambda>c. uc_source_table c = ''manual'') cs"
  using assms(2)
proof (induction rule: rtranclp_induct)
  case base
  then show ?case by (intro exI [of _ "[]"]) simp
next
  case (step db1 db2)
  have r1: "billing_reachable threshold db1" using reachable_trans [OF assms(1) step(1)] .
  obtain p1 where p1: "get_billing_period_row db1 pid = Inr p1" "bp_status p1 = PClosed"
    using closed_stays [OF assms(1) step(1) assms(3,4)] by blast
  obtain cs where cs: "usage_charges db2 = usage_charges db1 @ cs"
    "list_all (charge_admissible (billing_periods db1)) cs"
    using step_frame [OF step(2) inv_reachable [OF r1]] by blast
  have "uc_source_table c = ''manual''" if m: "c \<in> set cs" "uc_billing_period_id c = Some pid" for c
  proof -
    obtain q where q: "q \<in> set (billing_periods db1)" "bp_id q = pid"
      "bp_status q = POpen \<or> bp_status q = PClosed \<and> uc_source_table c = ''manual''"
      using cs(2) m unfolding list_all_iff charge_admissible_def by blast
    then have "q = p1" using bp_id_inj [OF inv_reachable [OF r1]] get_periodD [OF p1(1)] by blast
    with q(3) p1(2) show ?thesis by simp
  qed
  then have "list_all (\<lambda>c. uc_source_table c = ''manual'') (filter (\<lambda>c. uc_billing_period_id c = Some pid) cs)"
    by (simp add: list_all_iff)
  with step(3) cs(1) show ?case by (auto simp: period_charges_def)
qed

lemma sql_sum_append: "sql_sum (xs @ ys) = foldl fadd (sql_sum xs) ys"
  by (simp add: sql_sum_def)

lemma generate_report_eq:
  assumes "get_billing_period_row db pid = Inr p"
  obtains r where "generate_billing_report float_repr db pid fmt = Inr r" "rp_billing_period_id r = bp_id p"
    "rp_tenant_id r = bp_tenant_id p" "rp_status r = period_status_str (bp_status p)"
    "rp_period_start r = isoformat (bp_period_start p)" "rp_period_end r = isoformat (bp_period_end p)"
    "rp_request_count r = bp_request_count p" "rp_gross_cost_usd r = bp_upstream_cost_usd_total p"
    "rp_metera_savings_usd r = bp_realized_savings_usd_total p"
    "rp_shadow_savings_usd r = bp_shadow_savings_usd_total p"
    "rp_total_tokens_saved r = bp_total_tokens_saved p" "rp_realized_savings_ratio r = savings_ratio p"
    "rp_usage_charges_total_usd r = sql_sum (map uc_amount_usd (period_charges db pid))"
  using assms
  by (simp add: generate_billing_report_def reconcile_billing_period_def Let_def
      billing_report.extend_def report_payload_def)

lemma period_status_str_closed [simp]: "period_status_str st = ''closed'' \<longleftrightarrow> st = PClosed"
  by (cases st) simp_all

text \<open>
  C31. The report of a closed period keeps its window, counters, costs, savings and ratio over
  every later run; the charges of the period at the time of the report stay, those added since
  are all manual adjustments, and the charge total moves by exactly these, added in order.
\<close>

theorem closed_report_stable:
  assumes "billing_reachable threshold db" "(billing_step threshold)\<^sup>*\<^sup>* db db'"
    and "generate_billing_report float_repr db pid fmt = Inr r" "rp_status r = ''closed''"
  shows "\<exists>r'. \<exists>cs :: charge_row list. generate_billing_report float_repr db' pid fmt = Inr r' \<and> rp_status r' = ''closed'' \<and>
    rp_tenant_id r' = rp_tenant_id r \<and> rp_period_start r' = rp_period_start r \<and>
    rp_period_end r' = rp_period_end r \<and> rp_request_count r' = rp_request_count r \<and>
    rp_gross_cost_usd r' = rp_gross_cost_usd r \<and> rp_metera_savings_usd r' = rp_metera_savings_usd r \<and>
    rp_shadow_savings_usd r' = rp_shadow_savings_usd r \<and>
    rp_total_tokens_saved r' = rp_total_tokens_saved r \<and>
    rp_realized_savings_ratio r' = rp_realized_savings_ratio r \<and>
    period_charges db' pid = period_charges db pid @ cs \<and>
    list_all (\<lambda>c. uc_source_table c = ''manual'') cs \<and>
    rp_usage_charges_total_usd r' = foldl fadd (rp_usage_charges_total_usd r) (map uc_amount_usd cs)"
proof -
  obtain p where p: "get_billing_period_row db pid = Inr p"
    using assms(3) by (auto simp: generate_billing_report_def rbind_eq_Inr)
  note r = generate_report_eq [OF p, of float_repr fmt]
  have st: "bp_status p = PClosed"
    by (rule r) (use assms(3,4) in simp)
  obtain p' where p': "get_billing_period_row db' pid = Inr p'" "bp_status p' = PClosed" "period_evolves p p'"
    using closed_stays [OF assms(1,2) p st] by blast
  obtain cs where cs: "period_charges db' pid = period_charges db pid @ cs"
    "list_all (\<lambda>c. uc_source_table c = ''manual'') cs"
    using closed_period_charges [OF assms(1,2) p st] by blast
  have same: "bp_tenant_id p' = bp_tenant_id p" "bp_period_start p' = bp_period_start p"
    "bp_period_end p' = bp_period_end p" "bp_request_count p' = bp_request_count p"
    "bp_total_tokens_saved p' = bp_total_tokens_saved p"
    "bp_upstream_cost_usd_total p' = bp_upstream_cost_usd_total p"
    "bp_realized_savings_usd_total p' = bp_realized_savings_usd_total p"
    "bp_shadow_savings_usd_total p' = bp_shadow_savings_usd_total p"
    using p'(3) st by (simp_all add: period_evolves_def period_window_def period_figures_def)
  have sum: "sql_sum (map uc_amount_usd (period_charges db' pid)) =
      foldl fadd (sql_sum (map uc_amount_usd (period_charges db pid))) (map uc_amount_usd cs)"
    by (simp only: cs(1) map_append sql_sum_append)
  from generate_report_eq [OF p'(1), of float_repr fmt] obtain r' where r':
    "generate_billing_report float_repr db' pid fmt = Inr r'" "rp_tenant_id r' = rp_tenant_id r"
    "rp_status r' = ''closed''" "rp_period_start r' = rp_period_start r"
    "rp_period_end r' = rp_period_end r" "rp_request_count r' = rp_request_count r"
    "rp_gross_cost_usd r' = rp_gross_cost_usd r" "rp_metera_savings_usd r' = rp_metera_savings_usd r"
    "rp_shadow_savings_usd r' = rp_shadow_savings_usd r"
    "rp_total_tokens_saved r' = rp_total_tokens_saved r"
    "rp_realized_savings_ratio r' = rp_realized_savings_ratio r"
    "rp_usage_charges_total_usd r' = foldl fadd (rp_usage_charges_total_usd r) (map uc_amount_usd cs)"
    by (rule r) (use assms(3) p'(2) same sum in \<open>simp add: savings_ratio_def\<close>)
  show ?thesis by (intro exI [of _ r'] exI [of _ cs] conjI; fact r' cs)
qed

lemma closed_report_stable_witness:
  "\<exists>r. generate_billing_report (\<lambda>_. []) closed_demo ''billing_period_b'' ''txt'' = Inr r \<and>
    rp_request_count r = 0"
proof -
  have "get_billing_period_row closed_demo ''billing_period_b'' = Inr (set_period_status 7 PClosed demo_period)"
    by (simp add: get_billing_period_row_def closed_demo_def set_period_status_def demo_period_def new_period_def)
  then obtain r where r: "generate_billing_report (\<lambda>_. []) closed_demo ''billing_period_b'' ''txt'' = Inr r"
    "rp_status r = ''closed''" "rp_request_count r = 0"
    by (rule generate_report_eq)
      (simp add: set_period_status_def demo_period_def new_period_def)
  from closed_report_stable [OF closed_demo_reachable [of 50] _ r(1,2), of closed_demo] r(3)
  show ?thesis by fastforce
qed

end
