(* ===== verification/BillingModels.thy ===== *)
theory BillingModels
  imports BillingReport Authz
begin

text \<open>
  The response models of the billing routes (\<open>app/models/api.py\<close>), the conversions
  from table rows that the admin and the tenant routes make, and the wording of statuses for
  customers. A dictionary of fixed keys in a response is a record.
\<close>

section \<open>Response models\<close>

record plan_summary =
  ps_id :: string
  ps_code :: string
  ps_name :: string
  ps_status :: string
  ps_monthly_base_price_usd :: real

record subscription_summary =
  sb_id :: string
  sb_tenant_id :: string
  sb_plan_id :: string
  sb_status :: string
  sb_current_period_start :: string
  sb_current_period_end :: string

record billing_period_summary =
  bs_id :: string
  bs_tenant_id :: string
  bs_subscription_id :: string
  bs_period_start :: string
  bs_period_end :: string
  bs_status :: string
  bs_request_count :: nat
  bs_upstream_cost_usd_total :: real
  bs_realized_savings_usd_total :: real
  bs_shadow_savings_usd_total :: real
  bs_total_tokens_saved :: nat
  bs_closed_at :: "string option"

record usage_charge_summary =
  us_id :: string
  us_tenant_id :: string
  us_subscription_id :: "string option"
  us_source_table :: string
  us_source_ref :: string
  us_charge_type :: string
  us_description :: string
  us_amount_usd :: real

record commercial_event_summary =
  cs_event_id :: string
  cs_tenant_id :: "string option"
  cs_subscription_id :: "string option"
  cs_billing_period_id :: "string option"
  cs_event_type :: string
  cs_status :: string
  cs_reason :: "string option"

definition plan_summary_of :: "plan_row \<Rightarrow> plan_summary" where
  "plan_summary_of p = \<lparr>ps_id = plan_id p, ps_code = plan_code p, ps_name = plan_name p,
     ps_status = plan_status p, ps_monthly_base_price_usd = plan_monthly_base_price_usd p\<rparr>"

definition subscription_summary_of :: "subscription_row \<Rightarrow> subscription_summary" where
  "subscription_summary_of s = \<lparr>sb_id = sub_id s, sb_tenant_id = sub_tenant_id s,
     sb_plan_id = sub_plan_id s, sb_status = sub_status s,
     sb_current_period_start = isoformat (sub_current_period_start s),
     sb_current_period_end = isoformat (sub_current_period_end s)\<rparr>"

definition serialize_billing_period :: "period_row \<Rightarrow> billing_period_summary" where
  "serialize_billing_period p = \<lparr>bs_id = bp_id p, bs_tenant_id = bp_tenant_id p,
     bs_subscription_id = bp_subscription_id p, bs_period_start = isoformat (bp_period_start p),
     bs_period_end = isoformat (bp_period_end p), bs_status = period_status_str (bp_status p),
     bs_request_count = bp_request_count p,
     bs_upstream_cost_usd_total = bp_upstream_cost_usd_total p,
     bs_realized_savings_usd_total = bp_realized_savings_usd_total p,
     bs_shadow_savings_usd_total = bp_shadow_savings_usd_total p,
     bs_total_tokens_saved = bp_total_tokens_saved p,
     bs_closed_at = map_option isoformat (bp_closed_at p)\<rparr>"

definition usage_charge_summary_of :: "charge_row \<Rightarrow> usage_charge_summary" where
  "usage_charge_summary_of c = \<lparr>us_id = uc_id c, us_tenant_id = uc_tenant_id c,
     us_subscription_id = uc_subscription_id c, us_source_table = uc_source_table c,
     us_source_ref = uc_source_ref c, us_charge_type = uc_charge_type c,
     us_description = uc_description c, us_amount_usd = uc_amount_usd c\<rparr>"

definition commercial_event_summary_of :: "commercial_event_row \<Rightarrow> commercial_event_summary" where
  "commercial_event_summary_of e = \<lparr>cs_event_id = ce_event_id e, cs_tenant_id = ce_tenant_id e,
     cs_subscription_id = ce_subscription_id e, cs_billing_period_id = ce_billing_period_id e,
     cs_event_type = ce_event_type e, cs_status = ce_status e, cs_reason = ce_reason e\<rparr>"

section \<open>Tenant response models\<close>

record tenant_report_summary =
  tr_billing_period_id :: string
  tr_tenant_id :: string
  tr_subscription_id :: string
  tr_status :: string
  tr_customer_status :: string
  tr_status_explainer :: string
  tr_period_start :: string
  tr_period_end :: string
  tr_request_count :: nat
  tr_gross_cost_usd :: real
  tr_metera_savings_usd :: real
  tr_shadow_savings_usd :: real
  tr_additional_savings_opportunity_usd :: real
  tr_usage_charges_total_usd :: real
  tr_total_tokens_saved :: nat
  tr_realized_savings_ratio :: real
  tr_matches_realized_savings :: bool
  tr_blocking_issues :: "string list"
  tr_summary_lines :: "string list"
  tr_billing_window :: billing_window
  tr_totals :: report_totals
  tr_narrative :: "string list"
  tr_format :: string
  tr_export_filename :: string

record tenant_invoice_summary =
  ti_id :: string
  ti_tenant_id :: string
  ti_billing_period_id :: string
  ti_status :: string
  ti_customer_status :: string
  ti_status_explainer :: string
  ti_subtotal_usd :: real
  ti_total_usd :: real
  ti_gross_cost_usd :: real
  ti_metera_savings_usd :: real
  ti_net_cost_avoided_usd :: real
  ti_total_tokens_saved :: nat
  ti_realized_savings_ratio :: real
  ti_summary_lines :: "string list"
  ti_billing_window :: billing_window
  ti_totals :: invoice_totals
  ti_narrative :: "string list"
  ti_proven_roi :: invoice_totals
  ti_format :: string
  ti_export_filename :: string

record tenant_history_entry =
  th_event_id :: string
  th_billing_period_id :: "string option"
  th_event_type :: string
  th_status :: string
  th_reason :: "string option"

record tenant_adjustment_entry =
  ta_id :: string
  ta_billing_period_id :: "string option"
  ta_description :: string
  ta_amount_usd :: real
  ta_charge_type :: string

text \<open>The list responses share their envelope.\<close>

record 'a envelope =
  env_items :: "'a list"
  env_count :: nat
  env_limit :: int
  env_has_more :: bool
  env_next_offset :: "int option"

definition history_entry_of :: "commercial_event_row \<Rightarrow> tenant_history_entry" where
  "history_entry_of e = \<lparr>th_event_id = ce_event_id e, th_billing_period_id = ce_billing_period_id e,
     th_event_type = ce_event_type e, th_status = ce_status e, th_reason = ce_reason e\<rparr>"

definition adjustment_entry_of :: "charge_row \<Rightarrow> tenant_adjustment_entry" where
  "adjustment_entry_of c = \<lparr>ta_id = uc_id c, ta_billing_period_id = uc_billing_period_id c,
     ta_description = uc_description c, ta_amount_usd = uc_amount_usd c,
     ta_charge_type = uc_charge_type c\<rparr>"

section \<open>Statuses as the customer reads them\<close>

definition mapped_or :: "(string \<times> string) list \<Rightarrow> string \<Rightarrow> string \<Rightarrow> string" where
  "mapped_or mapping key fallback = opt_else (map_of mapping key) fallback"

definition customer_billing_status :: "string option \<Rightarrow> string option" where
  "customer_billing_status st = map_option (\<lambda>s.
     mapped_or [(''open'', ''in_progress''), (''closing'', ''review_ready''), (''closed'', ''finalized'')] s s) st"

definition billing_status_explainer :: "string option \<Rightarrow> string option" where
  "billing_status_explainer st = map_option (\<lambda>s.
     mapped_or
       [(''open'', ''This billing period is still accumulating usage and savings.''),
        (''closing'', ''This billing period has reached the review stage and is ready for closeout.''),
        (''closed'', ''This billing period has been finalized.'')] s
       ''This billing period is in a tracked state.'') st"

definition customer_document_status :: "string option \<Rightarrow> string option" where
  "customer_document_status st = map_option (\<lambda>s.
     mapped_or [(''draft'', ''preview''), (''issued'', ''issued''), (''paid'', ''paid'')] s s) st"

definition invoice_status_explainer :: "string option \<Rightarrow> string option" where
  "invoice_status_explainer st = map_option (\<lambda>s.
     mapped_or
       [(''draft'', ''This invoice is a preview generated from the current billing snapshot.''),
        (''issued'', ''This invoice has been issued.''), (''paid'', ''This invoice has been paid.'')] s
       ''This invoice is in a tracked state.'') st"

definition recommended_action_explainer :: "string \<Rightarrow> string" where
  "recommended_action_explainer action =
     mapped_or
       [(''no_action_required'', ''No immediate follow-up is needed on the current billing snapshot.''),
        (''review_blocking_issues'', ''Review the listed billing issues before finalizing this period.''),
        (''review_period_for_closeout'', ''Review this billing period and confirm whether it is ready for closeout.''),
        (''review_manual_adjustments'', ''Review the manual adjustments attached to this billing view.'')] action
       ''Review the current billing state for the next best step.''"

definition to_tenant_billing_report :: "exported_report \<Rightarrow> tenant_report_summary" where
  "to_tenant_billing_report r = \<lparr>
     tr_billing_period_id = rp_billing_period_id r, tr_tenant_id = rp_tenant_id r,
     tr_subscription_id = rp_subscription_id r, tr_status = rp_status r,
     tr_customer_status = the (customer_billing_status (Some (rp_status r))),
     tr_status_explainer = the (billing_status_explainer (Some (rp_status r))),
     tr_period_start = rp_period_start r, tr_period_end = rp_period_end r,
     tr_request_count = rp_request_count r, tr_gross_cost_usd = rp_gross_cost_usd r,
     tr_metera_savings_usd = rp_metera_savings_usd r,
     tr_shadow_savings_usd = rp_shadow_savings_usd r,
     tr_additional_savings_opportunity_usd = rp_shadow_savings_usd r,
     tr_usage_charges_total_usd = rp_usage_charges_total_usd r,
     tr_total_tokens_saved = rp_total_tokens_saved r,
     tr_realized_savings_ratio = rp_realized_savings_ratio r,
     tr_matches_realized_savings = rp_matches_realized_savings r,
     tr_blocking_issues = rp_blocking_issues r, tr_summary_lines = rp_summary_lines r,
     tr_billing_window = rp_billing_window r, tr_totals = rp_totals r, tr_narrative = rp_narrative r,
     tr_format = rp_format r, tr_export_filename = rp_export_filename r\<rparr>"

definition to_tenant_invoice :: "invoice_stub \<Rightarrow> tenant_invoice_summary" where
  "to_tenant_invoice i = (let p = is_payload i in \<lparr>
     ti_id = is_id i, ti_tenant_id = is_tenant_id i, ti_billing_period_id = is_billing_period_id i,
     ti_status = is_status i,
     ti_customer_status = the (customer_document_status (Some (is_status i))),
     ti_status_explainer = the (invoice_status_explainer (Some (is_status i))),
     ti_subtotal_usd = is_subtotal_usd i, ti_total_usd = is_total_usd i,
     ti_gross_cost_usd = ip_gross_cost_usd p, ti_metera_savings_usd = ip_metera_savings_usd p,
     ti_net_cost_avoided_usd = ip_net_cost_avoided_usd p,
     ti_total_tokens_saved = ip_total_tokens_saved p,
     ti_realized_savings_ratio = ip_realized_savings_ratio p,
     ti_summary_lines = ip_summary_lines p, ti_billing_window = ip_billing_window p,
     ti_totals = ip_totals p, ti_narrative = ip_narrative p, ti_proven_roi = ip_proven_roi p,
     ti_format = ip_format p, ti_export_filename = is_export_filename i\<rparr>)"

end
