(* ===== verification/TenantBilling.thy ===== *)
theory TenantBilling
  imports BillingModels ChatRoute
begin

text \<open>
  The billing routes of a tenant, \<open>app/api/routes_tenant_billing.py\<close>. A handler takes the
  application, the call, the state of the key resolver and the database, and returns the states
  with its answer. Every handler resolves the scope of the call, checks one capability and then
  reads the tables of the scope's tenant; the overview and the invoice routes also write
  preview invoices.
\<close>

section \<open>The application and a call\<close>

record 's billing_app =
  app_settings :: settings
  app_identity_enabled :: bool
  app_identity_resolver :: "'s resolver option"
  app_billing_repository :: bool
  app_commercial_event_repository :: bool

record tenant_call =
  tc_proxy_context :: "proxy_context option"
  tc_authorization :: "string option"
  tc_tenant_id :: "string option"
  tc_request_id :: string
  tc_now :: timestamp

definition require_billing_repository :: "'s billing_app \<Rightarrow> unit result" where
  "require_billing_repository app =
     raise_if (\<not> app_billing_repository app) (HTTPException 503 ''Billing repository is not available'')"

definition require_commercial_event_repository :: "'s billing_app \<Rightarrow> unit result" where
  "require_commercial_event_repository app =
     raise_if (\<not> app_commercial_event_repository app)
       (HTTPException 503 ''Commercial event repository is not available'')"

text \<open>
  The context of the call: the one already attached to the request, or the identity the bearer
  token resolves to. A token that resolves to nobody leaves the request without a context.
\<close>

definition tenant_context :: "'s billing_app \<Rightarrow> tenant_call \<Rightarrow> 's \<Rightarrow> 's \<times> proxy_context option result" where
  "tenant_context app call s =
     (case tc_proxy_context call of
        Some ctx \<Rightarrow> (s, Inr (Some ctx))
      | None \<Rightarrow>
          let token = extract_bearer_token (tc_authorization call) in
          if \<not> truthy token then (s, Inr None)
          else if \<not> app_identity_enabled app then (s, Inr None)
          else (case app_identity_resolver app of
                  None \<Rightarrow> (s, Inr None)
                | Some resolve \<Rightarrow>
                    (case resolve s (tc_now call) token of
                       (s', Inl e) \<Rightarrow> (s', Inl e)
                     | (s', Inr None) \<Rightarrow> (s', Inr None)
                     | (s', Inr (Some c)) \<Rightarrow>
                         (s', Inr (Some (with_identity c
                           (new_context ''tenant-control'' token (Some (tc_request_id call)))))))))"

definition resolve_scope :: "'s billing_app \<Rightarrow> tenant_call \<Rightarrow> 's \<Rightarrow> 's \<times> access_scope result" where
  "resolve_scope app call s =
     (case tenant_context app call s of
        (s', Inl e) \<Rightarrow> (s', Inl e)
      | (s', Inr ctx) \<Rightarrow> (s', resolve_tenant_access_scope (app_settings app) ctx (tc_tenant_id call)))"

text \<open>The frame of a handler: scope, capability, then its body over the database.\<close>

definition with_scope ::
  "'s billing_app \<Rightarrow> tenant_call \<Rightarrow> string \<Rightarrow> (access_scope \<Rightarrow> database \<Rightarrow> database \<times> 'a result) \<Rightarrow>
   's \<times> database \<Rightarrow> ('s \<times> database) \<times> 'a result" where
  "with_scope app call capability body sd =
     (case sd of (s, db) \<Rightarrow>
        (case resolve_scope app call s of
           (s', Inl e) \<Rightarrow> ((s', db), Inl e)
         | (s', Inr sc) \<Rightarrow>
             (case require_tenant_capability sc capability of
                Inl e \<Rightarrow> ((s', db), Inl e)
              | Inr _ \<Rightarrow> (case body sc db of (db', r) \<Rightarrow> ((s', db'), r)))))"

section \<open>Pages\<close>

definition slice_rows :: "'a list \<Rightarrow> int \<Rightarrow> int \<Rightarrow> 'a list \<times> bool \<times> int option" where
  "slice_rows rows limit offset =
     (let safe_limit = max 1 limit; safe_offset = max 0 offset;
          page_rows = take (nat safe_limit) (drop (nat safe_offset) rows);
          has_more = int (length rows) > safe_offset + safe_limit
      in (page_rows, has_more, if has_more then Some (safe_offset + safe_limit) else None))"

definition envelope_of :: "('a \<Rightarrow> 'b) \<Rightarrow> 'a list \<Rightarrow> int \<Rightarrow> int \<Rightarrow> 'b envelope" where
  "envelope_of f rows limit offset =
     (case slice_rows rows limit offset of (page_rows, has_more, next_offset) \<Rightarrow>
        \<lparr>env_items = map f page_rows, env_count = length page_rows, env_limit = limit,
         env_has_more = has_more, env_next_offset = next_offset\<rparr>)"

text \<open>The bound of a query: PostgreSQL refuses a negative \<open>LIMIT\<close>.\<close>

definition sql_limit :: "int \<Rightarrow> nat result" where
  "sql_limit n = (if n < 0 then Inl (RuntimeErr ''LIMIT must not be negative'') else Inr (nat n))"

definition fetch_bound :: "int \<Rightarrow> int \<Rightarrow> int" where
  "fetch_bound limit offset = max (limit + offset + 1) (limit + 1)"

definition period_matches :: "string option \<Rightarrow> period_row \<Rightarrow> bool" where
  "period_matches status_filter p \<longleftrightarrow> given status_filter (period_status_str (bp_status p))"

text \<open>A body that only reads.\<close>

definition reading :: "(database \<Rightarrow> 'a result) \<Rightarrow> database \<Rightarrow> database \<times> 'a result" where
  "reading f db = (db, f db)"

section \<open>Listings\<close>

record scope_response =
  sp_tenant_id :: string
  sp_source :: string
  sp_role :: string
  sp_capabilities :: "string list"

definition tenant_billing_scope ::
  "'s billing_app \<Rightarrow> tenant_call \<Rightarrow> 's \<times> database \<Rightarrow> ('s \<times> database) \<times> scope_response result" where
  "tenant_billing_scope app call =
     with_scope app call ''billing:scope:read'' (\<lambda>sc. reading (\<lambda>db.
       Inr \<lparr>sp_tenant_id = scope_tenant_id sc, sp_source = scope_source sc, sp_role = scope_role sc,
            sp_capabilities = scope_capabilities sc\<rparr>))"

definition tenant_list_subscriptions ::
  "'s billing_app \<Rightarrow> tenant_call \<Rightarrow> int \<Rightarrow> int \<Rightarrow> 's \<times> database \<Rightarrow>
   ('s \<times> database) \<times> subscription_summary envelope result" where
  "tenant_list_subscriptions app call limit offset =
     with_scope app call ''billing:read'' (\<lambda>sc. reading (\<lambda>db.
       rbind (require_billing_repository app) (\<lambda>_.
         Inr (envelope_of subscription_summary_of (list_subscriptions db (Some (scope_tenant_id sc)))
                limit offset))))"

definition tenant_list_billing_periods ::
  "'s billing_app \<Rightarrow> tenant_call \<Rightarrow> string option \<Rightarrow> string option \<Rightarrow> int \<Rightarrow> int \<Rightarrow> 's \<times> database \<Rightarrow>
   ('s \<times> database) \<times> billing_period_summary envelope result" where
  "tenant_list_billing_periods app call subscription_id status_filter limit offset =
     with_scope app call ''billing:read'' (\<lambda>sc. reading (\<lambda>db.
       rbind (require_billing_repository app) (\<lambda>_.
         Inr (envelope_of serialize_billing_period
                (filter (period_matches status_filter)
                   (list_billing_periods db (Some (scope_tenant_id sc)) subscription_id)) limit offset))))"

definition tenant_billing_history ::
  "'s billing_app \<Rightarrow> tenant_call \<Rightarrow> string option \<Rightarrow> int \<Rightarrow> int \<Rightarrow> 's \<times> database \<Rightarrow>
   ('s \<times> database) \<times> tenant_history_entry envelope result" where
  "tenant_billing_history app call event_type limit offset =
     with_scope app call ''billing:history:read'' (\<lambda>sc. reading (\<lambda>db.
       rbind (require_commercial_event_repository app) (\<lambda>_.
       rbind (sql_limit (fetch_bound limit offset)) (\<lambda>n.
         Inr (envelope_of history_entry_of
                (filter (\<lambda>e. given event_type (ce_event_type e))
                   (list_events_for_tenant db (scope_tenant_id sc) n)) limit offset)))))"

definition in_period :: "string option \<Rightarrow> charge_row \<Rightarrow> bool" where
  "in_period pid c \<longleftrightarrow> (case pid of None \<Rightarrow> True | Some i \<Rightarrow> uc_billing_period_id c = Some i)"

definition tenant_billing_usage_charges ::
  "'s billing_app \<Rightarrow> tenant_call \<Rightarrow> string option \<Rightarrow> string option \<Rightarrow> int \<Rightarrow> int \<Rightarrow> 's \<times> database \<Rightarrow>
   ('s \<times> database) \<times> usage_charge_summary envelope result" where
  "tenant_billing_usage_charges app call billing_period_id charge_type limit offset =
     with_scope app call ''billing:read'' (\<lambda>sc. reading (\<lambda>db.
       rbind (require_billing_repository app) (\<lambda>_.
       rbind (sql_limit (fetch_bound limit offset)) (\<lambda>n.
         Inr (envelope_of usage_charge_summary_of
                (filter (\<lambda>c. given charge_type (uc_charge_type c))
                   (filter (in_period billing_period_id)
                      (list_usage_charges db (Some (scope_tenant_id sc)) n))) limit offset)))))"

definition tenant_billing_adjustments ::
  "'s billing_app \<Rightarrow> tenant_call \<Rightarrow> string option \<Rightarrow> int \<Rightarrow> int \<Rightarrow> 's \<times> database \<Rightarrow>
   ('s \<times> database) \<times> tenant_adjustment_entry envelope result" where
  "tenant_billing_adjustments app call billing_period_id limit offset =
     with_scope app call ''billing:adjustments:read'' (\<lambda>sc. reading (\<lambda>db.
       rbind (require_billing_repository app) (\<lambda>_.
       rbind (sql_limit (fetch_bound limit offset)) (\<lambda>n.
         Inr (envelope_of adjustment_entry_of
                (filter (\<lambda>c. uc_charge_type c = ''manual_adjustment'')
                   (filter (in_period billing_period_id)
                      (list_usage_charges db (Some (scope_tenant_id sc)) n))) limit offset)))))"

section \<open>Reports and invoices\<close>

primrec collect_results :: "('a \<Rightarrow> 'b result) \<Rightarrow> 'a list \<Rightarrow> 'b list result" where
  "collect_results f [] = Inr []"
| "collect_results f (x # xs) = rbind (f x) (\<lambda>y. rbind (collect_results f xs) (\<lambda>ys. Inr (y # ys)))"

text \<open>The period must be one of the tenant's.\<close>

definition tenant_period :: "database \<Rightarrow> string \<Rightarrow> string \<Rightarrow> unit result" where
  "tenant_period db tenant_id pid =
     (case find (\<lambda>p. bp_id p = pid) (list_billing_periods db (Some tenant_id) None) of
        None \<Rightarrow> Inl (HTTPException 404 ''Billing period not found for tenant'')
      | Some _ \<Rightarrow> Inr ())"

definition tenant_billing_report ::
  "(real \<Rightarrow> string) \<Rightarrow> 's billing_app \<Rightarrow> tenant_call \<Rightarrow> string \<Rightarrow> string \<Rightarrow> 's \<times> database \<Rightarrow>
   ('s \<times> database) \<times> tenant_report_summary result" where
  "tenant_billing_report float_repr app call pid fmt =
     with_scope app call ''billing:read'' (\<lambda>sc. reading (\<lambda>db.
       rbind (require_billing_repository app) (\<lambda>_.
       rbind (tenant_period db (scope_tenant_id sc) pid) (\<lambda>_.
       rbind (generate_billing_report float_repr db pid fmt) (\<lambda>r. Inr (to_tenant_billing_report r))))))"

definition requested_periods ::
  "database \<Rightarrow> string \<Rightarrow> string option \<Rightarrow> string option \<Rightarrow> period_row list" where
  "requested_periods db tenant_id subscription_id status_filter =
     filter (period_matches status_filter) (list_billing_periods db (Some tenant_id) subscription_id)"

definition tenant_billing_reports ::
  "(real \<Rightarrow> string) \<Rightarrow> 's billing_app \<Rightarrow> tenant_call \<Rightarrow> string option \<Rightarrow> string option \<Rightarrow> int \<Rightarrow> int \<Rightarrow>
   string \<Rightarrow> 's \<times> database \<Rightarrow> ('s \<times> database) \<times> tenant_report_summary envelope result" where
  "tenant_billing_reports float_repr app call subscription_id status_filter limit offset fmt =
     with_scope app call ''billing:read'' (\<lambda>sc. reading (\<lambda>db.
       rbind (require_billing_repository app) (\<lambda>_.
         let page = envelope_of id (requested_periods db (scope_tenant_id sc) subscription_id status_filter)
                      limit offset in
         rbind (collect_results (\<lambda>p. rbind (generate_billing_report float_repr db (bp_id p) fmt)
                                       (\<lambda>r. Inr (to_tenant_billing_report r))) (env_items page))
           (\<lambda>reports. Inr \<lparr>env_items = reports, env_count = length reports, env_limit = limit,
                            env_has_more = env_has_more page, env_next_offset = env_next_offset page\<rparr>))))"

text \<open>An invoice is written; a step that fails keeps what the earlier ones wrote.\<close>

definition period_invoice ::
  "(real \<Rightarrow> string) \<Rightarrow> (dict \<Rightarrow> dict) \<Rightarrow> timestamp \<Rightarrow> string \<Rightarrow> string \<Rightarrow> string \<Rightarrow> database \<Rightarrow>
   database \<times> tenant_invoice_summary result" where
  "period_invoice float_repr jsonb now uuid pid fmt db =
     (case generate_invoice_stub float_repr jsonb db now uuid pid fmt of
        Inl e \<Rightarrow> (db, Inl e)
      | Inr (db', i) \<Rightarrow> (db', Inr (to_tenant_invoice i)))"

fun period_invoices ::
  "(real \<Rightarrow> string) \<Rightarrow> (dict \<Rightarrow> dict) \<Rightarrow> timestamp \<Rightarrow> (nat \<Rightarrow> string) \<Rightarrow> string \<Rightarrow> nat \<Rightarrow> string list \<Rightarrow>
   database \<Rightarrow> database \<times> tenant_invoice_summary list result" where
  "period_invoices float_repr jsonb now uuids fmt n [] db = (db, Inr [])"
| "period_invoices float_repr jsonb now uuids fmt n (pid # pids) db =
     (case period_invoice float_repr jsonb now (uuids n) pid fmt db of
        (db', Inl e) \<Rightarrow> (db', Inl e)
      | (db', Inr i) \<Rightarrow>
          (case period_invoices float_repr jsonb now uuids fmt (Suc n) pids db' of
             (db'', r) \<Rightarrow> (db'', rbind r (\<lambda>is. Inr (i # is)))))"

definition tenant_billing_invoice ::
  "(real \<Rightarrow> string) \<Rightarrow> (dict \<Rightarrow> dict) \<Rightarrow> string \<Rightarrow> 's billing_app \<Rightarrow> tenant_call \<Rightarrow> string \<Rightarrow> string \<Rightarrow>
   's \<times> database \<Rightarrow> ('s \<times> database) \<times> tenant_invoice_summary result" where
  "tenant_billing_invoice float_repr jsonb uuid app call pid fmt =
     with_scope app call ''billing:read'' (\<lambda>sc db.
       case rbind (require_billing_repository app) (\<lambda>_. tenant_period db (scope_tenant_id sc) pid) of
         Inl e \<Rightarrow> (db, Inl e)
       | Inr _ \<Rightarrow> period_invoice float_repr jsonb (tc_now call) uuid pid fmt db)"

definition tenant_billing_invoices ::
  "(real \<Rightarrow> string) \<Rightarrow> (dict \<Rightarrow> dict) \<Rightarrow> (nat \<Rightarrow> string) \<Rightarrow> 's billing_app \<Rightarrow> tenant_call \<Rightarrow>
   string option \<Rightarrow> string option \<Rightarrow> int \<Rightarrow> int \<Rightarrow> string \<Rightarrow> 's \<times> database \<Rightarrow>
   ('s \<times> database) \<times> tenant_invoice_summary envelope result" where
  "tenant_billing_invoices float_repr jsonb uuids app call subscription_id status_filter limit offset fmt =
     with_scope app call ''billing:read'' (\<lambda>sc db.
       case require_billing_repository app of
         Inl e \<Rightarrow> (db, Inl e)
       | Inr _ \<Rightarrow>
           let page = envelope_of bp_id (requested_periods db (scope_tenant_id sc) subscription_id status_filter)
                        limit offset in
           (case period_invoices float_repr jsonb (tc_now call) uuids fmt 0 (env_items page) db of
              (db', r) \<Rightarrow> (db', rbind r (\<lambda>is.
                 Inr \<lparr>env_items = is, env_count = length is, env_limit = limit,
                      env_has_more = env_has_more page, env_next_offset = env_next_offset page\<rparr>))))"

section \<open>The overview\<close>

definition active_subscription_row :: "subscription_row list \<Rightarrow> subscription_row option" where
  "active_subscription_row subs =
     (case find (\<lambda>s. sub_status s \<in> {''active'', ''trialing''}) subs of
        Some s \<Rightarrow> Some s
      | None \<Rightarrow> first_row subs)"

text \<open>
  Without a period of the tenant the overview falls back to the periods of its subscription,
  whatever tenant they name.
\<close>

definition overview_periods :: "database \<Rightarrow> string \<Rightarrow> subscription_row option \<Rightarrow> period_row list" where
  "overview_periods db tenant_id sub =
     (let periods = list_billing_periods db (Some tenant_id) None in
      if periods = [] then
        (case sub of None \<Rightarrow> [] | Some s \<Rightarrow> list_billing_periods db None (Some (sub_id s)))
      else periods)"

definition current_period_row :: "period_row list \<Rightarrow> period_row option" where
  "current_period_row periods =
     (case find (\<lambda>p. bp_status p \<in> {POpen, PClosing}) periods of
        Some p \<Rightarrow> Some p
      | None \<Rightarrow> first_row periods)"

definition is_adjustment :: "charge_row \<Rightarrow> bool" where
  "is_adjustment c \<longleftrightarrow> uc_charge_type c = ''manual_adjustment''"

definition charge_key :: "charge_row \<Rightarrow> string" where
  "charge_key c = (if uc_charge_type c \<noteq> [] then uc_charge_type c else ''unknown'')"

definition grouped_charge_totals :: "charge_row list \<Rightarrow> (string \<times> real) list" where
  "grouped_charge_totals rows =
     foldl (\<lambda>d c. AList.update (charge_key c)
              (fadd (opt_else (map_of d (charge_key c)) 0) (uc_amount_usd c)) d) [] rows"

definition totals_snapshot ::
  "subscription_row list \<Rightarrow> period_row list \<Rightarrow> charge_row list \<Rightarrow> period_row option \<Rightarrow> (string \<times> real) list" where
  "totals_snapshot subs periods charges current =
     [(''subscription_count'', float_of_nat (length subs)),
      (''billing_period_count'', float_of_nat (length periods)),
      (''usage_charge_count'', float_of_nat (length charges)),
      (''usage_charge_total_usd'', fsum (map uc_amount_usd charges)),
      (''adjustment_total_usd'', fsum (map uc_amount_usd (filter is_adjustment charges)))] @
     (case current of
        None \<Rightarrow> []
      | Some p \<Rightarrow>
          [(''current_period_upstream_cost_usd_total'', bp_upstream_cost_usd_total p),
           (''current_period_realized_savings_usd_total'', bp_realized_savings_usd_total p),
           (''current_period_shadow_savings_usd_total'', bp_shadow_savings_usd_total p),
           (''current_period_total_tokens_saved'', float_of_nat (bp_total_tokens_saved p))])"

definition is_closing :: "period_row option \<Rightarrow> bool" where
  "is_closing current \<longleftrightarrow> map_option bp_status current = Some PClosing"

definition health_flags ::
  "period_row option \<Rightarrow> tenant_report_summary option \<Rightarrow> tenant_adjustment_entry list \<Rightarrow> string list" where
  "health_flags current report adjustments =
     (if is_closing current then [''billing_period_closing''] else []) @
     (case report of
        None \<Rightarrow> []
      | Some r \<Rightarrow> if \<not> tr_matches_realized_savings r then [''reconciliation_mismatch''] else []) @
     (if adjustments \<noteq> [] then [''manual_adjustments_present''] else [])"

definition recommended_action ::
  "period_row option \<Rightarrow> tenant_report_summary option \<Rightarrow> tenant_adjustment_entry list \<Rightarrow> string" where
  "recommended_action current report adjustments =
     (if (case report of None \<Rightarrow> False | Some r \<Rightarrow> tr_blocking_issues r \<noteq> []) then ''review_blocking_issues''
      else if is_closing current then ''review_period_for_closeout''
      else if adjustments \<noteq> [] then ''review_manual_adjustments''
      else ''no_action_required'')"

record overview_response =
  ov_tenant_id :: string
  ov_role :: string
  ov_capabilities :: "string list"
  ov_active_subscription :: "subscription_summary option"
  ov_current_billing_period :: "billing_period_summary option"
  ov_current_billing_customer_status :: "string option"
  ov_current_billing_status_explainer :: "string option"
  ov_latest_report :: "tenant_report_summary option"
  ov_latest_invoice :: "tenant_invoice_summary option"
  ov_recent_history :: "tenant_history_entry list"
  ov_recent_usage_charges :: "usage_charge_summary list"
  ov_outstanding_adjustments :: "tenant_adjustment_entry list"
  ov_totals_snapshot :: "(string \<times> real) list"
  ov_grouped_charge_totals :: "(string \<times> real) list"
  ov_health_flags :: "string list"
  ov_recommended_action :: string
  ov_recommended_action_explainer :: string

text \<open>The report and the invoice of the current period; both or none.\<close>

definition latest_documents ::
  "(real \<Rightarrow> string) \<Rightarrow> (dict \<Rightarrow> dict) \<Rightarrow> timestamp \<Rightarrow> string \<Rightarrow> period_row option \<Rightarrow> database \<Rightarrow>
   database \<times> (tenant_report_summary option \<times> tenant_invoice_summary option) result" where
  "latest_documents float_repr jsonb now uuid current db =
     (case current of
        None \<Rightarrow> (db, Inr (None, None))
      | Some p \<Rightarrow>
          (case generate_billing_report float_repr db (bp_id p) ''json'' of
             Inl e \<Rightarrow> (db, Inl e)
           | Inr r \<Rightarrow>
               (case period_invoice float_repr jsonb now uuid (bp_id p) ''json'' db of
                  (db', Inl e) \<Rightarrow> (db', Inl e)
                | (db', Inr i) \<Rightarrow> (db', Inr (Some (to_tenant_billing_report r), Some i)))))"

definition overview_history ::
  "'s billing_app \<Rightarrow> access_scope \<Rightarrow> database \<Rightarrow> tenant_history_entry list result" where
  "overview_history app sc db =
     (if ''billing:history:read'' \<in> set (scope_capabilities sc)
      then rbind (require_commercial_event_repository app) (\<lambda>_.
             Inr (map history_entry_of (list_events_for_tenant db (scope_tenant_id sc) 3)))
      else Inr [])"

definition overview_body ::
  "(real \<Rightarrow> string) \<Rightarrow> (dict \<Rightarrow> dict) \<Rightarrow> string \<Rightarrow> 's billing_app \<Rightarrow> timestamp \<Rightarrow> access_scope \<Rightarrow> database \<Rightarrow>
   database \<times> overview_response result" where
  "overview_body float_repr jsonb uuid app now sc db =
     (let tenant_id = scope_tenant_id sc;
          subs = list_subscriptions db (Some tenant_id);
          sub = active_subscription_row subs;
          periods = overview_periods db tenant_id sub;
          current = current_period_row periods;
          status = map_option (\<lambda>p. period_status_str (bp_status p)) current
      in case latest_documents float_repr jsonb now uuid current db of
           (db', Inl e) \<Rightarrow> (db', Inl e)
         | (db', Inr (report, invoice)) \<Rightarrow>
             (db', rbind (overview_history app sc db') (\<lambda>history.
                let charges = list_usage_charges db' (Some tenant_id) 5;
                    adjustments =
                      (if ''billing:adjustments:read'' \<in> set (scope_capabilities sc)
                       then map adjustment_entry_of (filter is_adjustment charges) else []);
                    action = recommended_action current report adjustments
                in Inr \<lparr>ov_tenant_id = tenant_id, ov_role = scope_role sc,
                        ov_capabilities = scope_capabilities sc,
                        ov_active_subscription = map_option subscription_summary_of sub,
                        ov_current_billing_period = map_option serialize_billing_period current,
                        ov_current_billing_customer_status = customer_billing_status status,
                        ov_current_billing_status_explainer = billing_status_explainer status,
                        ov_latest_report = report, ov_latest_invoice = invoice,
                        ov_recent_history = history,
                        ov_recent_usage_charges = map usage_charge_summary_of charges,
                        ov_outstanding_adjustments = adjustments,
                        ov_totals_snapshot = totals_snapshot subs periods charges current,
                        ov_grouped_charge_totals = grouped_charge_totals charges,
                        ov_health_flags = health_flags current report adjustments,
                        ov_recommended_action = action,
                        ov_recommended_action_explainer = recommended_action_explainer action\<rparr>)))"

definition tenant_billing_overview ::
  "(real \<Rightarrow> string) \<Rightarrow> (dict \<Rightarrow> dict) \<Rightarrow> string \<Rightarrow> 's billing_app \<Rightarrow> tenant_call \<Rightarrow> 's \<times> database \<Rightarrow>
   ('s \<times> database) \<times> overview_response result" where
  "tenant_billing_overview float_repr jsonb uuid app call =
     with_scope app call ''billing:read'' (\<lambda>sc db.
       case require_billing_repository app of
         Inl e \<Rightarrow> (db, Inl e)
       | Inr _ \<Rightarrow> overview_body float_repr jsonb uuid app (tc_now call) sc db)"

section \<open>Facts\<close>

lemma with_scope_ok:
  assumes "with_scope app call cap body (s, db) = ((s', db'), Inr v)"
  obtains sc where "resolve_scope app call s = (s', Inr sc)" "require_tenant_capability sc cap = Inr ()"
    "body sc db = (db', Inr v)"
  using assms by (auto simp: with_scope_def split: prod.splits sum.splits)

lemma with_scope_refused:
  "resolve_scope app call s = (s', Inl e) \<Longrightarrow> with_scope app call cap body (s, db) = ((s', db), Inl e)"
  "resolve_scope app call s = (s', Inr sc) \<Longrightarrow> require_tenant_capability sc cap = Inl e \<Longrightarrow>
   with_scope app call cap body (s, db) = ((s', db), Inl e)"
  by (simp_all add: with_scope_def)

lemma reading_ok: "reading f db = (db', r) \<longleftrightarrow> db' = db \<and> r = f db"
  by (auto simp: reading_def)

lemma set_list_billing_periods:
  "set (list_billing_periods db tenant sid) =
   {p \<in> set (billing_periods db). given tenant (bp_tenant_id p) \<and> given sid (bp_subscription_id p)}"
  by (auto simp: list_billing_periods_def)

lemma set_envelope: "set (env_items (envelope_of f rows limit offset)) \<subseteq> f ` set rows"
  by (auto simp: envelope_of_def slice_rows_def Let_def dest: in_set_takeD in_set_dropD)

end
