(* ===== verification/TenantBillingProperties.thy ===== *)
theory TenantBillingProperties
  imports TenantBilling BillingProperties IdentityProperties
begin

text \<open>
  What a tenant can read through its billing routes: whose scope a call gets, that the listings
  depend on the tenant's own rows only, and that following the pages of a listing ends and
  visits every row once; with two cases in which an answer is not what the caller asked for.
\<close>

section \<open>Whose scope\<close>

lemma resolve_scope_cases:
  assumes "resolve_scope app call s = (s', Inr sc)"
  obtains (ctx) ctx where "tenant_context app call s = (s', Inr (Some ctx))"
      "ctx_tenant_id ctx = Some (scope_tenant_id sc)" "scope_tenant_id sc \<noteq> []"
      "tc_tenant_id call \<in> {None, Some [], Some (scope_tenant_id sc)}"
  | (query) "cfg_tenant_query_param_fallback_enabled (app_settings app)"
      "tc_tenant_id call = Some (scope_tenant_id sc)" "scope_role sc = ''tenant_reader''"
      "set (scope_capabilities sc) = set (capabilities_for_role (Some ''tenant_reader''))"
proof -
  from assms obtain ctx where c: "tenant_context app call s = (s', Inr ctx)"
    and r: "resolve_tenant_access_scope (app_settings app) ctx (tc_tenant_id call) = Inr sc"
    by (auto simp: resolve_scope_def split: prod.splits sum.splits)
  show thesis
  proof (cases "truthy (case ctx of None \<Rightarrow> None | Some c \<Rightarrow> ctx_tenant_id c)")
    case True
    then obtain c' where c': "ctx = Some c'" "truthy (ctx_tenant_id c')" by (cases ctx) auto
    with scope_from_context [of "app_settings app" c' "tc_tenant_id call" sc] r
    have "ctx_tenant_id c' = Some (scope_tenant_id sc)" "tc_tenant_id call \<in> {None, Some [], ctx_tenant_id c'}"
      by auto
    with c c' that(1) [of c'] show thesis by (simp add: truthy_def)
  next
    case False
    with scope_from_query [OF r False] that(2) show thesis by blast
  qed
qed

context key_resolver
begin

lemma tenant_context_granted:
  assumes "tenant_context app call s = (s', Inr (Some ctx))"
    and "tc_proxy_context call = None" "app_identity_resolver app = Some resolve"
  obtains key c where "extract_bearer_token (tc_authorization call) = Some key"
    "grants s (tc_now call) key c" "ctx_tenant_id ctx = Some (rk_tenant_id c)"
    "ctx_tenant_role ctx = Some (rk_tenant_role c)" "ctx_tenant_capabilities ctx = rk_tenant_capabilities c"
proof -
  obtain c where r: "resolve s (tc_now call) (extract_bearer_token (tc_authorization call)) = (s', Inr (Some c))"
    and ctx: "ctx = with_identity c (new_context ''tenant-control'' (extract_bearer_token (tc_authorization call))
      (Some (tc_request_id call)))"
    using assms by (auto simp: tenant_context_def Let_def split: prod.splits sum.splits option.splits if_splits)
  from resolved_granted [OF r] that ctx show thesis by (simp add: with_identity_def) blast
qed

end

text \<open>
  C25. A tenant route answers for the tenant of a usable key whose hash is the presented token's;
  only with the query parameter fallback switched on can a call without such a key name its
  tenant, and then it reads with the reader's capabilities.
\<close>

theorem tenant_scope_from_key:
  assumes "resolve_scope app call s = (s', Inr sc)" and "tc_proxy_context call = None"
    and "app_identity_resolver app = Some (resolve_key sha py_str)"
  shows "(\<exists>key. \<exists>k \<in> set (api_keys s). extract_bearer_token (tc_authorization call) = Some key \<and>
      key_usable s (tc_now call) (sha key) k \<and> ak_tenant_id k = scope_tenant_id sc \<and>
      tc_tenant_id call \<in> {None, Some [], Some (scope_tenant_id sc)}) \<or>
    (cfg_tenant_query_param_fallback_enabled (app_settings app) \<and>
      tc_tenant_id call = Some (scope_tenant_id sc) \<and>
      set (scope_capabilities sc) = {''billing:read'', ''billing:scope:read''})"
  using assms(1)
proof (cases rule: resolve_scope_cases)
  case (ctx ctx)
  obtain key c where g: "extract_bearer_token (tc_authorization call) = Some key"
    "repository_grants sha s (tc_now call) key c" "ctx_tenant_id ctx = Some (rk_tenant_id c)"
    using repository_keys.tenant_context_granted [OF ctx(1) assms(2,3)] by blast
  then obtain k where "k \<in> set (api_keys s)" "key_usable s (tc_now call) (sha key) k"
    "rk_tenant_id c = ak_tenant_id k" by (auto simp: repository_grants_def)
  with g ctx show ?thesis by auto
next
  case query
  then show ?thesis by (simp add: capabilities_for_role_def ROLE_CAPABILITIES_def)
qed

section \<open>Own rows only\<close>

text \<open>The rows of one tenant in the tables the listings read.\<close>

definition tenant_rows ::
  "database \<Rightarrow> string \<Rightarrow> subscription_row list \<times> period_row list \<times> charge_row list \<times> commercial_event_row list" where
  "tenant_rows db t = (filter (\<lambda>s. sub_tenant_id s = t) (subscriptions db),
     filter (\<lambda>p. bp_tenant_id p = t) (billing_periods db),
     filter (\<lambda>c. uc_tenant_id c = t) (usage_charges db),
     filter (\<lambda>e. ce_tenant_id e = Some t) (commercial_events db))"

lemma given_simps [simp]: "given (Some w) v \<longleftrightarrow> v = w" "given None v"
  by (simp_all add: given_def)

lemma listings_cong:
  assumes "tenant_rows db1 t = tenant_rows db2 t"
  shows "list_subscriptions db1 (Some t) = list_subscriptions db2 (Some t)"
    "list_billing_periods db1 (Some t) sid = list_billing_periods db2 (Some t) sid"
    "list_usage_charges db1 (Some t) n = list_usage_charges db2 (Some t) n"
    "list_events_for_tenant db1 t n = list_events_for_tenant db2 t n"
  using assms unfolding tenant_rows_def list_subscriptions_def list_billing_periods_def
    list_usage_charges_def list_events_for_tenant_def given_simps filter_conj
  by (simp_all only: prod.inject)

lemma with_scope_cong:
  assumes "\<And>sc s'. resolve_scope app call s = (s', Inr sc) \<Longrightarrow> f sc db1 = f sc db2"
  shows "snd (with_scope app call cap (\<lambda>sc. reading (f sc)) (s, db1)) =
    snd (with_scope app call cap (\<lambda>sc. reading (f sc)) (s, db2))"
  using assms by (auto simp: with_scope_def reading_def split: prod.splits sum.splits)

text \<open>
  C26. The tenant's listings of subscriptions, billing periods, history, usage charges and adjustments
  depend on nothing but that tenant's rows: if two databases agree on the rows of the tenant a
  call is scoped to, the call gets the same answer from both, whatever the other tenants' rows
  are. The listing of reports is not one of them: a reconciliation sums the charges of a period
  whoever they belong to.
\<close>

theorem tenant_listings_own_rows:
  assumes "\<And>sc s'. resolve_scope app call s = (s', Inr sc) \<Longrightarrow>
      tenant_rows db1 (scope_tenant_id sc) = tenant_rows db2 (scope_tenant_id sc)"
  shows "snd (tenant_list_subscriptions app call limit offset (s, db1)) =
      snd (tenant_list_subscriptions app call limit offset (s, db2)) \<and>
    snd (tenant_list_billing_periods app call sid st limit offset (s, db1)) =
      snd (tenant_list_billing_periods app call sid st limit offset (s, db2)) \<and>
    snd (tenant_billing_history app call et limit offset (s, db1)) =
      snd (tenant_billing_history app call et limit offset (s, db2)) \<and>
    snd (tenant_billing_usage_charges app call pid ct limit offset (s, db1)) =
      snd (tenant_billing_usage_charges app call pid ct limit offset (s, db2)) \<and>
    snd (tenant_billing_adjustments app call pid limit offset (s, db1)) =
      snd (tenant_billing_adjustments app call pid limit offset (s, db2))"
  unfolding tenant_list_subscriptions_def tenant_list_billing_periods_def tenant_billing_history_def
    tenant_billing_usage_charges_def tenant_billing_adjustments_def
  by (intro conjI with_scope_cong) (simp_all add: listings_cong [OF assms])

section \<open>Pages\<close>

text \<open>
  A client that follows \<open>next_offset\<close>, asking \<open>page\<close> for one page after the other;
  \<open>None\<close> is a client that never gets to the end.
\<close>

partial_function (option) follow_pages :: "(int \<Rightarrow> 'a envelope) \<Rightarrow> int \<Rightarrow> 'a list option" where
  "follow_pages page offset =
     (case env_next_offset (page offset) of
        None \<Rightarrow> Some (env_items (page offset))
      | Some next \<Rightarrow> Option.bind (follow_pages page next) (\<lambda>items. Some (env_items (page offset) @ items)))"

lemma envelope_bounded:
  assumes "1 \<le> limit" "0 \<le> offset"
  shows "envelope_of f (take (nat (fetch_bound limit offset)) rows) limit offset = envelope_of f rows limit offset"
proof -
  have b: "nat (fetch_bound limit offset) = nat limit + nat offset + 1"
    using assms by (simp add: fetch_bound_def nat_add_distrib)
  have t: "take (nat limit) (drop (nat offset) (take (nat (fetch_bound limit offset)) rows)) =
      take (nat limit) (drop (nat offset) rows)"
    by (simp add: b drop_take)
  have l: "(int (length (take (nat (fetch_bound limit offset)) rows)) > offset + limit) \<longleftrightarrow>
      (int (length rows) > offset + limit)"
    using assms by (simp only: b length_take) linarith
  show ?thesis using assms t l by (simp add: envelope_of_def slice_rows_def Let_def)
qed

lemma follow_pages_from:
  assumes "1 \<le> limit"
  shows "follow_pages (\<lambda>offset. envelope_of f (take (nat (fetch_bound limit offset)) rows) limit offset) (int n) =
    Some (map f (drop n rows))"
proof (induction "length rows - n" arbitrary: n rule: less_induct)
  case less
  let ?page = "\<lambda>offset. envelope_of f (take (nat (fetch_bound limit offset)) rows) limit offset"
  let ?m = "n + nat limit"
  have page: "?page (int n) = envelope_of f rows limit (int n)"
    using assms by (intro envelope_bounded) simp_all
  have items: "env_items (?page (int n)) = map f (take (nat limit) (drop n rows))"
    unfolding page using assms by (simp add: envelope_of_def slice_rows_def Let_def)
  have nxt: "env_next_offset (?page (int n)) = (if length rows > ?m then Some (int ?m) else None)"
    unfolding page using assms by (auto simp: envelope_of_def slice_rows_def Let_def)
  show ?case
  proof (cases "length rows > ?m")
    case True
    then have "follow_pages ?page (int ?m) = Some (map f (drop ?m rows))"
      using assms by (intro less) linarith
    then have "follow_pages ?page (int n) =
        Some (map f (take (nat limit) (drop n rows)) @ map f (drop ?m rows))"
      using True by (simp add: follow_pages.simps [of ?page "int n"] nxt items del: of_nat_add)
    also have "map f (take (nat limit) (drop n rows)) @ map f (drop ?m rows) = map f (drop n rows)"
      by (metis append_take_drop_id drop_drop add.commute map_append)
    finally show ?thesis .
  next
    case False
    then show ?thesis
      by (simp add: follow_pages.simps [of ?page "int n"] nxt items)
  qed
qed

text \<open>
  C32. A client that reads a tenant's history with a positive page size and no filter, following
  \<open>next_offset\<close> from 0, reaches the last page and has then read every event of the tenant once,
  newest first.
\<close>

theorem history_pages_complete:
  assumes "1 \<le> limit" and "resolve_scope app call s = (s', Inr sc)"
    and "\<And>offset. snd (tenant_billing_history app call None limit offset (s, db)) = Inr (page offset)"
  shows "follow_pages page 0 = Some (map history_entry_of (order_desc (\<lambda>e. [ce_created_at e])
    (filter (\<lambda>e. ce_tenant_id e = Some (scope_tenant_id sc)) (commercial_events db))))"
proof -
  let ?rows = "order_desc (\<lambda>e. [ce_created_at e])
    (filter (\<lambda>e. ce_tenant_id e = Some (scope_tenant_id sc)) (commercial_events db))"
  have "page offset = envelope_of history_entry_of (take (nat (fetch_bound limit offset)) ?rows) limit offset" for offset
  proof -
    have b: "0 \<le> fetch_bound limit offset" using assms(1) by (simp add: fetch_bound_def)
    show ?thesis
      using assms(2) assms(3) [of offset] b
      by (auto simp: tenant_billing_history_def with_scope_def reading_def sql_limit_def
          list_events_for_tenant_def given_def rbind_eq_Inr split: sum.splits)
  qed
  then have "page = (\<lambda>offset. envelope_of history_entry_of (take (nat (fetch_bound limit offset)) ?rows) limit offset)"
    by (rule ext)
  then show ?thesis using follow_pages_from [OF assms(1), of history_entry_of ?rows 0] by simp
qed

section \<open>Filters and fallbacks\<close>

text \<open>
  The event type filter is applied after the history is cut to one page: if the newest events
  of the tenant have other types, the first page is empty and ends the listing, even when an older
  event has the type asked for.
\<close>

theorem filtered_history_ends_early:
  assumes "resolve_scope app call s = (s', Inr sc)" "require_tenant_capability sc ''billing:history:read'' = Inr ()"
    and "app_commercial_event_repository app" "1 \<le> limit"
    and "list_all (\<lambda>e. ce_event_type e \<noteq> et) (list_events_for_tenant db (scope_tenant_id sc) (nat limit + 1))"
  shows "tenant_billing_history app call (Some et) limit 0 (s, db) =
    ((s', db), Inr \<lparr>env_items = [], env_count = 0, env_limit = limit, env_has_more = False, env_next_offset = None\<rparr>)"
proof -
  have b: "sql_limit (fetch_bound limit 0) = Inr (nat limit + 1)"
    using assms(4) by (simp add: sql_limit_def fetch_bound_def nat_add_distrib)
  have "filter (\<lambda>e. given (Some et) (ce_event_type e))
      (list_events_for_tenant db (scope_tenant_id sc) (nat limit + 1)) = []"
    using assms(5) by (simp add: filter_empty_conv list_all_iff)
  with b assms(1-4) show ?thesis
    by (simp add: tenant_billing_history_def with_scope_def reading_def require_commercial_event_repository_def
        envelope_of_def slice_rows_def Let_def)
qed

lemma current_period_row_mem: "current_period_row ps = Some p \<Longrightarrow> p \<in> set ps"
  by (auto simp: current_period_row_def first_row_def split: option.splits list.splits dest: find_Some_mem)

lemma active_subscription_row_mem: "active_subscription_row ss = Some s \<Longrightarrow> s \<in> set ss"
  by (auto simp: active_subscription_row_def first_row_def split: option.splits list.splits dest: find_Some_mem)

lemma overview_periods_owner:
  assumes "p \<in> set (overview_periods db t (active_subscription_row (list_subscriptions db (Some t))))"
  shows "p \<in> set (billing_periods db) \<and> (bp_tenant_id p = t \<or>
    list_billing_periods db (Some t) None = [] \<and>
    (\<exists>s \<in> set (subscriptions db). sub_tenant_id s = t \<and> sub_id s = bp_subscription_id p))"
proof (cases "list_billing_periods db (Some t) None = []")
  case True
  then obtain s where s: "active_subscription_row (list_subscriptions db (Some t)) = Some s"
    "p \<in> set (list_billing_periods db None (Some (sub_id s)))"
    using assms by (cases "active_subscription_row (list_subscriptions db (Some t))")
      (auto simp: overview_periods_def)
  then have "s \<in> set (subscriptions db)" "sub_tenant_id s = t"
    using active_subscription_row_mem by (fastforce simp: list_subscriptions_def)+
  with s(2) True show ?thesis by (auto simp: set_list_billing_periods)
next
  case False
  with assms show ?thesis by (simp add: overview_periods_def set_list_billing_periods)
qed

lemma latest_documents_some:
  assumes "latest_documents float_repr jsonb now uuid (Some p) db = (db', Inr (report, invoice))"
  shows "\<exists>r. generate_billing_report float_repr db (bp_id p) ''json'' = Inr r \<and>
    report = Some (to_tenant_billing_report r)"
  using assms by (auto simp: latest_documents_def split: sum.splits prod.splits)

text \<open>
  The period an overview shows, with its report, belongs to the tenant or, when the tenant has
  no period of its own, to one of the tenant's subscriptions, whatever tenant the period names.
\<close>

theorem overview_period_owner:
  assumes "tenant_billing_overview float_repr jsonb uuid app call (s, db) = ((s', db'), Inr ov)"
    and "ov_current_billing_period ov = Some shown"
  shows "\<exists>sc. \<exists>p \<in> set (billing_periods db). resolve_scope app call s = (s', Inr sc) \<and>
    shown = serialize_billing_period p \<and>
    map_option tr_tenant_id (ov_latest_report ov) = map_option bp_tenant_id
      (find (\<lambda>q. bp_id q = bp_id p) (billing_periods db)) \<and>
    (bp_tenant_id p = scope_tenant_id sc \<or>
      list_billing_periods db (Some (scope_tenant_id sc)) None = [] \<and>
      (\<exists>sub \<in> set (subscriptions db). sub_tenant_id sub = scope_tenant_id sc \<and> sub_id sub = bp_subscription_id p))"
proof -
  obtain sc where sc: "resolve_scope app call s = (s', Inr sc)"
    and b: "overview_body float_repr jsonb uuid app (tc_now call) sc db = (db', Inr ov)"
    using assms(1) unfolding tenant_billing_overview_def
    by (auto elim!: with_scope_ok simp: split: sum.splits)
  let ?periods = "overview_periods db (scope_tenant_id sc)
    (active_subscription_row (list_subscriptions db (Some (scope_tenant_id sc))))"
  obtain db1 docs where d1: "latest_documents float_repr jsonb (tc_now call) uuid
      (current_period_row ?periods) db = (db1, docs)" by fastforce
  with b obtain report invoice where docs: "docs = Inr (report, invoice)"
    by (cases docs) (auto simp: overview_body_def)
  have d: "latest_documents float_repr jsonb (tc_now call) uuid (current_period_row ?periods) db =
      (db', Inr (report, invoice))"
    and ov: "ov_current_billing_period ov = map_option serialize_billing_period (current_period_row ?periods)"
      "ov_latest_report ov = report"
    using b d1 docs by (auto simp: overview_body_def Let_def rbind_eq_Inr)
  obtain p where p: "current_period_row ?periods = Some p" "shown = serialize_billing_period p"
    using ov(1) assms(2) by (cases "current_period_row ?periods") simp_all
  obtain r where r: "generate_billing_report float_repr db (bp_id p) ''json'' = Inr r"
    "report = Some (to_tenant_billing_report r)"
    using latest_documents_some d p(1) by metis
  obtain q where q: "find (\<lambda>q. bp_id q = bp_id p) (billing_periods db) = Some q" "rp_tenant_id r = bp_tenant_id q"
    using r(1) by (auto simp: generate_billing_report_def get_period_mem rbind_eq_Inr report_payload_def
        billing_report.extend_def)
  have "map_option tr_tenant_id (ov_latest_report ov) = Some (bp_tenant_id q)"
    using ov(2) r(2) q(2) by (simp add: to_tenant_billing_report_def)
  with overview_periods_owner [OF current_period_row_mem [OF p(1)]] sc p(2) q(1) show ?thesis
    by (intro exI [of _ sc] bexI [of _ p]) simp_all
qed

section \<open>Examples\<close>

definition demo_app :: "identity_db billing_app" where
  "demo_app = \<lparr>app_settings = default_settings, app_identity_enabled = True,
     app_identity_resolver = Some (resolve_key (\<lambda>s. s) (\<lambda>_. [])), app_billing_repository = True,
     app_commercial_event_repository = True\<rparr>"

definition demo_tenant_call :: tenant_call where
  "demo_tenant_call = \<lparr>tc_proxy_context = None, tc_authorization = Some ''Bearer secret'',
     tc_tenant_id = None, tc_request_id = ''r'', tc_now = 3\<rparr>"

definition tenant_demo_scope :: access_scope where
  "tenant_demo_scope = \<lparr>scope_tenant_id = ''t1'', scope_source = ''proxy_context'', scope_role = ''tenant_admin'',
     scope_capabilities = [''billing:adjustments:read'', ''billing:history:read'', ''billing:read'',
       ''billing:scope:read'']\<rparr>"

lemma demo_capabilities:
  "derive_tenant_role (Some ''tenant_admin'') [] = ''tenant_admin''"
  "normalize_tenant_capabilities (Some ''tenant_admin'') [] =
     [''billing:adjustments:read'', ''billing:history:read'', ''billing:read'', ''billing:scope:read'']"
  by code_simp+

lemma demo_scope_resolved: "\<exists>s'. resolve_scope demo_app demo_tenant_call seeded_demo = (s', Inr tenant_demo_scope)"
proof -
  have t: "extract_bearer_token (Some ''Bearer secret'') = Some ''secret''" by code_simp
  obtain s' c where r: "resolve_key (\<lambda>s. s) (\<lambda>_. []) seeded_demo 3 (Some ''secret'') = (s', Inr (Some c))"
    "rk_tenant_id c = ''t1''" "rk_tenant_role c = ''tenant_admin''" "rk_tenant_capabilities c = []"
    by (simp add: resolve_key_def seeded_demo_def key_usable_def seeded_key_def demo_seed_def seeded_tenant_def
        seeded_workspace_def stored_capabilities_def iterate_json_def seeded_key_metadata_def seeded_metadata_def
        key_context_def stored_role_def dict_get_def py_falsy_def str_json_def)
  then show ?thesis
    by (simp add: resolve_scope_def tenant_context_def demo_app_def demo_tenant_call_def t
        resolve_tenant_access_scope_def with_identity_def demo_capabilities tenant_demo_scope_def Let_def)
qed

lemma demo_scope_allows [simp]:
  "require_tenant_capability tenant_demo_scope ''billing:read'' = Inr ()"
  "require_tenant_capability tenant_demo_scope ''billing:history:read'' = Inr ()"
  by (simp_all add: require_tenant_capability_def tenant_demo_scope_def)

lemma tenant_scope_from_key_witness:
  "\<exists>s'. resolve_scope demo_app demo_tenant_call seeded_demo = (s', Inr tenant_demo_scope) \<and>
    (\<exists>k \<in> set (api_keys seeded_demo). ak_key_hash k = ''secret'' \<and> ak_tenant_id k = ''t1'')"
proof -
  obtain s' where s: "resolve_scope demo_app demo_tenant_call seeded_demo = (s', Inr tenant_demo_scope)"
    using demo_scope_resolved by blast
  have f: "\<not> cfg_tenant_query_param_fallback_enabled (app_settings demo_app)"
    by (simp add: demo_app_def default_settings_def)
  have t: "extract_bearer_token (tc_authorization demo_tenant_call) = Some ''secret''"
    unfolding demo_tenant_call_def by code_simp
  have "tc_proxy_context demo_tenant_call = None"
    "app_identity_resolver demo_app = Some (resolve_key (\<lambda>s. s) (\<lambda>_. []))" "scope_tenant_id tenant_demo_scope = ''t1''"
    by (simp_all add: demo_tenant_call_def demo_app_def tenant_demo_scope_def)
  with tenant_scope_from_key [OF s this(1,2)] s f t show ?thesis by (auto simp: key_usable_def)
qed

text \<open>Another tenant's period, on the subscription of \<open>t1\<close>.\<close>

definition foreign_period :: period_row where
  "foreign_period = new_period ''billing_period_f'' ''t2'' ''subscription_s'' 0 50 1"

definition foreign_demo :: database where
  "foreign_demo = demo_setup\<lparr>billing_periods := [foreign_period]\<rparr>"

lemma tenant_listings_own_rows_witness:
  "snd (tenant_list_billing_periods demo_app demo_tenant_call None None 50 0 (seeded_demo, demo_db)) =
   snd (tenant_list_billing_periods demo_app demo_tenant_call None None 50 0
     (seeded_demo, demo_db\<lparr>billing_periods := foreign_period # billing_periods demo_db\<rparr>))"
proof -
  obtain s' where s: "resolve_scope demo_app demo_tenant_call seeded_demo = (s', Inr tenant_demo_scope)"
    using demo_scope_resolved by blast
  have "tenant_rows demo_db (scope_tenant_id sc) =
      tenant_rows (demo_db\<lparr>billing_periods := foreign_period # billing_periods demo_db\<rparr>) (scope_tenant_id sc)"
    if "resolve_scope demo_app demo_tenant_call seeded_demo = (s'', Inr sc)" for sc s''
  proof -
    have "scope_tenant_id sc = ''t1''" using that s by (auto simp: tenant_demo_scope_def)
    then show ?thesis by (simp add: tenant_rows_def foreign_period_def new_period_def)
  qed
  then show ?thesis by (rule tenant_listings_own_rows [THEN conjunct2, THEN conjunct1])
qed

definition demo_event :: "string \<Rightarrow> string \<Rightarrow> timestamp \<Rightarrow> commercial_event_row" where
  "demo_event eid et t = \<lparr>ce_event_id = eid, ce_tenant_id = Some ''t1'', ce_workspace_id = None,
     ce_subscription_id = None, ce_billing_period_id = None, ce_event_type = et, ce_status = ''s'',
     ce_reason = None, ce_payload = [], ce_created_at = t\<rparr>"

definition events_demo :: database where
  "events_demo = empty_database\<lparr>commercial_events :=
     [demo_event ''e1'' ''billing_period_closed'' 1, demo_event ''e2'' ''service_suspended'' 2,
      demo_event ''e3'' ''service_suspended'' 3]\<rparr>"

lemma events_demo_listed:
  "list_events_for_tenant events_demo ''t1'' n = take n
     [demo_event ''e3'' ''service_suspended'' 3, demo_event ''e2'' ''service_suspended'' 2,
      demo_event ''e1'' ''billing_period_closed'' 1]"
  by (simp add: list_events_for_tenant_def events_demo_def order_desc_def demo_event_def)

lemma filtered_history_ends_early_witness:
  "\<exists>s'. tenant_billing_history demo_app demo_tenant_call (Some ''billing_period_closed'') 1 0
      (seeded_demo, events_demo) = ((s', events_demo), Inr \<lparr>env_items = [], env_count = 0, env_limit = 1,
        env_has_more = False, env_next_offset = None\<rparr>) \<and>
    demo_event ''e1'' ''billing_period_closed'' 1 \<in> set (list_events_for_tenant events_demo ''t1'' 3)"
proof -
  obtain s' where s: "resolve_scope demo_app demo_tenant_call seeded_demo = (s', Inr tenant_demo_scope)"
    using demo_scope_resolved by blast
  have a: "app_commercial_event_repository demo_app" by (simp add: demo_app_def)
  have "list_all (\<lambda>e. ce_event_type e \<noteq> ''billing_period_closed'')
      (list_events_for_tenant events_demo (scope_tenant_id tenant_demo_scope) (nat 1 + 1))"
    by (simp add: tenant_demo_scope_def events_demo_listed) (simp add: demo_event_def)
  from filtered_history_ends_early [OF s demo_scope_allows(2) a order_refl this]
  show ?thesis by (simp add: events_demo_listed)
qed

lemma history_pages_complete_witness:
  "\<exists>page. \<forall>offset. snd (tenant_billing_history demo_app demo_tenant_call None 2 offset (seeded_demo, events_demo)) =
      Inr (page offset) \<and>
    map_option length (follow_pages page 0) = Some 3"
proof -
  obtain s' where s: "resolve_scope demo_app demo_tenant_call seeded_demo = (s', Inr tenant_demo_scope)"
    using demo_scope_resolved by blast
  let ?page = "\<lambda>offset. envelope_of history_entry_of
    (filter (\<lambda>e. given None (ce_event_type e))
      (list_events_for_tenant events_demo ''t1'' (nat (fetch_bound 2 offset)))) 2 offset"
  have p: "snd (tenant_billing_history demo_app demo_tenant_call None 2 offset (seeded_demo, events_demo)) =
      Inr (?page offset)" for offset
    using s by (simp add: tenant_billing_history_def with_scope_def reading_def sql_limit_def fetch_bound_def
        require_commercial_event_repository_def demo_app_def) (simp add: tenant_demo_scope_def)
  have "follow_pages ?page 0 = Some (map history_entry_of (order_desc (\<lambda>e. [ce_created_at e])
      (filter (\<lambda>e. ce_tenant_id e = Some (scope_tenant_id tenant_demo_scope)) (commercial_events events_demo))))"
    by (rule history_pages_complete [OF _ s p]) simp
  then have "map_option length (follow_pages ?page 0) = Some 3"
    by (simp add: tenant_demo_scope_def events_demo_def demo_event_def)
  with p show ?thesis by (intro exI [of _ ?page] allI conjI)
qed

lemma foreign_overview:
  "\<exists>s' db' ov. tenant_billing_overview (\<lambda>_. []) (\<lambda>d. d) ''u'' demo_app demo_tenant_call (seeded_demo, foreign_demo) =
     ((s', db'), Inr ov) \<and> ov_current_billing_period ov = Some (serialize_billing_period foreign_period)"
proof -
  obtain s' where s: "resolve_scope demo_app demo_tenant_call seeded_demo = (s', Inr tenant_demo_scope)"
    using demo_scope_resolved by blast
  have p: "overview_periods foreign_demo ''t1'' (active_subscription_row (list_subscriptions foreign_demo (Some ''t1''))) =
      [foreign_period]"
    by (simp add: overview_periods_def list_billing_periods_def order_desc_def foreign_demo_def demo_setup_def
        foreign_period_def new_period_def list_subscriptions_def demo_subscription_def active_subscription_row_def)
  have c: "current_period_row [foreign_period] = Some foreign_period"
    by (simp add: current_period_row_def foreign_period_def new_period_def)
  have g: "get_billing_period_row foreign_demo (bp_id foreign_period) = Inr foreign_period"
    by (simp add: get_billing_period_row_def foreign_demo_def)
  have r: "\<exists>r. generate_billing_report (\<lambda>_. []) foreign_demo (bp_id foreign_period) ''json'' = Inr r"
    by (simp add: generate_billing_report_def reconcile_billing_period_def g Let_def)
  have no: "invoices foreign_demo = []"
    by (simp add: foreign_demo_def demo_setup_def empty_database_def)
  have i: "\<exists>db' i. period_invoice (\<lambda>_. []) (\<lambda>d. d) 3 ''u'' (bp_id foreign_period) ''json'' foreign_demo = (db', Inr i)"
    by (simp add: period_invoice_def generate_invoice_stub_def g write_invoice_def no draft_invoice_def Let_def)
  have d: "\<exists>db' docs. latest_documents (\<lambda>_. []) (\<lambda>d. d) 3 ''u'' (Some foreign_period) foreign_demo = (db', Inr docs)"
    using r i by (auto simp: latest_documents_def)
  have h: "\<exists>hs. overview_history demo_app tenant_demo_scope db = Inr hs" for db
    by (simp add: overview_history_def require_commercial_event_repository_def demo_app_def)
  have t: "scope_tenant_id tenant_demo_scope = ''t1''" "tc_now demo_tenant_call = 3"
    by (simp_all add: tenant_demo_scope_def demo_tenant_call_def)
  have "\<exists>db' ov. overview_body (\<lambda>_. []) (\<lambda>d. d) ''u'' demo_app 3 tenant_demo_scope foreign_demo = (db', Inr ov) \<and>
      ov_current_billing_period ov = Some (serialize_billing_period foreign_period)"
  proof -
    obtain db' report invoice where d': "latest_documents (\<lambda>_. []) (\<lambda>d. d) 3 ''u'' (Some foreign_period) foreign_demo =
        (db', Inr (report, invoice))" using d by (auto simp: split_paired_all)
    obtain hs where "overview_history demo_app tenant_demo_scope db' = Inr hs" using h by blast
    with d' show ?thesis by (simp add: overview_body_def Let_def t p c)
  qed
  with s show ?thesis
    by (auto simp: tenant_billing_overview_def with_scope_def t require_billing_repository_def demo_app_def)
qed

lemma overview_period_owner_witness:
  "\<exists>s' db' ov. tenant_billing_overview (\<lambda>_. []) (\<lambda>d. d) ''u'' demo_app demo_tenant_call (seeded_demo, foreign_demo) =
     ((s', db'), Inr ov) \<and> (\<exists>p \<in> set (billing_periods foreign_demo). bp_tenant_id p = ''t2'' \<and>
       ov_current_billing_period ov = Some (serialize_billing_period p))"
proof -
  obtain s' db' ov where o: "tenant_billing_overview (\<lambda>_. []) (\<lambda>d. d) ''u'' demo_app demo_tenant_call
      (seeded_demo, foreign_demo) = ((s', db'), Inr ov)"
    "ov_current_billing_period ov = Some (serialize_billing_period foreign_period)"
    using foreign_overview by blast
  have "bp_tenant_id p = ''t2''" if "p \<in> set (billing_periods foreign_demo)" for p
    using that by (simp add: foreign_demo_def foreign_period_def new_period_def)
  with overview_period_owner [OF o] o show ?thesis by metis
qed

end
