(* ===== verification/BillingAdmin.thy ===== *)
theory BillingAdmin
  imports TenantBilling
begin

text \<open>
  The billing routes of an administrator, \<open>app/api/routes_billing_admin.py\<close>: each checks the
  admin key, validates its payload, calls the billing repository, records a commercial event
  where the operation has one, and answers with a response model. A handler returns the database
  with its answer, since the repository commits before an event is written.
\<close>

section \<open>Application and errors\<close>

record admin_app =
  aa_admin_api_key :: "string option"
  aa_billing_patronage_threshold_usd :: real
  aa_repository_threshold_usd :: real
  aa_billing_repository :: bool
  aa_commercial_event_repository :: bool

record admin_headers =
  ah_admin_key :: "string option"
  ah_authorization :: "string option"

text \<open>The 422 of a payload the framework rejects; its detail is the framework's.\<close>

definition unprocessable :: py_exc where
  "unprocessable = HTTPException 422 []"

definition admin_billing_repository :: "admin_app \<Rightarrow> unit result" where
  "admin_billing_repository app =
     raise_if (\<not> aa_billing_repository app) (HTTPException 503 ''Billing repository is not available'')"

text \<open>\<open>except ValueError\<close> with the status the handler gives the message.\<close>

definition value_error_as :: "(string \<Rightarrow> nat) \<Rightarrow> py_exc \<Rightarrow> py_exc" where
  "value_error_as code e = (case e of ValueErr detail \<Rightarrow> HTTPException (code detail) detail | _ \<Rightarrow> e)"

definition not_found_or_bad :: "string \<Rightarrow> nat" where
  "not_found_or_bad detail = (if sublist ''not found'' detail then 404 else 400)"

definition map_error :: "(py_exc \<Rightarrow> py_exc) \<Rightarrow> 'a result \<Rightarrow> 'a result" where
  "map_error f r = (case r of Inl e \<Rightarrow> Inl (f e) | Inr x \<Rightarrow> Inr x)"

text \<open>\<open>next(row for row in rows if row["id"] == i)\<close> in a coroutine.\<close>

definition next_row :: "('a \<Rightarrow> bool) \<Rightarrow> 'a list \<Rightarrow> 'a result" where
  "next_row P rows = (case find P rows of
     None \<Rightarrow> Inl (RuntimeErr ''coroutine raised StopIteration'') | Some r \<Rightarrow> Inr r)"

section \<open>Commercial events\<close>

definition new_event ::
  "string \<Rightarrow> string \<Rightarrow> string \<Rightarrow> string option \<Rightarrow> string option \<Rightarrow> string option \<Rightarrow> string option \<Rightarrow> dict \<Rightarrow>
   commercial_event_row" where
  "new_event event_id event_type status tenant_id subscription_id billing_period_id reason payload = \<lparr>
     ce_event_id = event_id, ce_tenant_id = tenant_id, ce_workspace_id = None,
     ce_subscription_id = subscription_id, ce_billing_period_id = billing_period_id,
     ce_event_type = event_type, ce_status = status, ce_reason = reason, ce_payload = payload,
     ce_created_at = 0\<rparr>"

definition emit_commercial_event :: "admin_app \<Rightarrow> timestamp \<Rightarrow> commercial_event_row \<Rightarrow> database \<Rightarrow> database" where
  "emit_commercial_event app now e db =
     (if aa_commercial_event_repository app then log_commercial_event db now None e else db)"

definition patronage_required_threshold_usd :: "admin_app \<Rightarrow> real" where
  "patronage_required_threshold_usd app =
     (if aa_billing_patronage_threshold_usd app = 0 then 50 else aa_billing_patronage_threshold_usd app)"

definition emit_patronage_required_event :: "admin_app \<Rightarrow> timestamp \<Rightarrow> period_row \<Rightarrow> database \<Rightarrow> database" where
  "emit_patronage_required_event app now p db =
     (if bp_realized_savings_usd_total p < patronage_required_threshold_usd app then db
      else emit_commercial_event app now
             (new_event (''patronage_required:'' @ bp_id p) ''patronage_required''
                (period_status_str (bp_status p)) (Some (bp_tenant_id p)) (Some (bp_subscription_id p))
                (Some (bp_id p)) (Some ''free_tier_threshold_reached'')
                [(''billing_period_id'', JStr (bp_id p)),
                 (''realized_savings_usd_total'', JFloat (bp_realized_savings_usd_total p))]) db)"

definition emit_service_suspended_event_if_required ::
  "admin_app \<Rightarrow> timestamp \<Rightarrow> period_row \<Rightarrow> database \<Rightarrow> database" where
  "emit_service_suspended_event_if_required app now p db =
     (if bp_tenant_id p = [] then db
      else let st = get_tenant_enforcement_state (aa_repository_threshold_usd app) db (bp_tenant_id p) in
        if \<not> es_blocked st then db
        else if es_billing_period_status st \<noteq> Some ''closed'' then db
        else emit_commercial_event app now
               (new_event (''service_suspended:'' @ bp_id p) ''service_suspended'' ''suspended''
                  (Some (bp_tenant_id p)) (Some (bp_subscription_id p)) (Some (bp_id p))
                  (Some (the (str_or (es_reason st) (Some ''service_suspended''))))
                  [(''billing_period_id'', JStr (bp_id p)),
                   (''billing_period_status'', json_of_str_option (es_billing_period_status st)),
                   (''subscription_status'', json_of_str_option (es_subscription_status st)),
                   (''realized_savings_usd_total'', JFloat (es_realized_savings_usd_total st)),
                   (''threshold_usd'', JFloat (es_threshold_usd st))]) db)"

section \<open>Plans and subscriptions\<close>

text \<open>
  The payload models strip their strings and bound their numbers. A body the framework rejects
  is a 422 before the handler runs.
\<close>

definition clean_plan_request :: "plan_args \<Rightarrow> plan_args result" where
  "clean_plan_request a =
     (if 0 \<le> pa_monthly_base_price_usd a \<and> (case pa_included_requests a of None \<Rightarrow> True | Some n \<Rightarrow> 0 \<le> n) \<and>
         (case pa_included_upstream_cost_usd a of None \<Rightarrow> True | Some x \<Rightarrow> 0 \<le> x) \<and>
         (case pa_included_realized_savings_usd a of None \<Rightarrow> True | Some x \<Rightarrow> 0 \<le> x) \<and>
         0 \<le> pa_soft_cap_threshold_ratio a
      then Inr (a\<lparr>pa_code := strip (pa_code a), pa_name := strip (pa_name a)\<rparr>)
      else Inl unprocessable)"

definition admin_list_plans :: "admin_app \<Rightarrow> database \<Rightarrow> database \<times> plan_summary list result" where
  "admin_list_plans app = reading (\<lambda>db.
     rbind (admin_billing_repository app) (\<lambda>_. Inr (map plan_summary_of (list_plans db))))"

definition admin_upsert_plan ::
  "admin_app \<Rightarrow> timestamp \<Rightarrow> string \<Rightarrow> plan_args \<Rightarrow> database \<Rightarrow> database \<times> plan_summary result" where
  "admin_upsert_plan app now uuid payload db =
     (case rbind (clean_plan_request payload) (\<lambda>a. rbind (admin_billing_repository app) (\<lambda>_. Inr a)) of
        Inl e \<Rightarrow> (db, Inl e)
      | Inr a \<Rightarrow>
          (case upsert_plan db now uuid a of
             (db', pid) \<Rightarrow> (db', rbind (next_row (\<lambda>p. plan_id p = pid) (list_plans db'))
                                   (\<lambda>p. Inr (plan_summary_of p)))))"

definition admin_list_subscriptions ::
  "admin_app \<Rightarrow> string option \<Rightarrow> database \<Rightarrow> database \<times> subscription_summary list result" where
  "admin_list_subscriptions app tenant_id = reading (\<lambda>db.
     rbind (admin_billing_repository app) (\<lambda>_. Inr (map subscription_summary_of (list_subscriptions db tenant_id))))"

record subscription_request =
  sq_tenant_id :: string
  sq_plan_id :: string
  sq_status :: string
  sq_current_period_start :: string
  sq_current_period_end :: string
  sq_trial_ends_at :: "string option"

definition clean_subscription_request :: "subscription_request \<Rightarrow> subscription_request" where
  "clean_subscription_request a = a\<lparr>sq_tenant_id := strip (sq_tenant_id a), sq_plan_id := strip (sq_plan_id a),
     sq_status := strip (sq_status a), sq_current_period_start := strip (sq_current_period_start a),
     sq_current_period_end := strip (sq_current_period_end a),
     sq_trial_ends_at := map_option strip (sq_trial_ends_at a)\<rparr>"

text \<open>
  \<open>fromisoformat\<close> is \<open>datetime.fromisoformat\<close>, whose accepted formats depend on the Python
  version. An absent or empty optional time is \<open>None\<close>.
\<close>

definition optional_time :: "(string \<Rightarrow> timestamp result) \<Rightarrow> string option \<Rightarrow> timestamp option result" where
  "optional_time fromisoformat t =
     (if truthy t then rbind (fromisoformat (the t)) (\<lambda>x. Inr (Some x)) else Inr None)"

definition admin_create_subscription ::
  "(string \<Rightarrow> timestamp result) \<Rightarrow> admin_app \<Rightarrow> timestamp \<Rightarrow> string \<Rightarrow> subscription_request \<Rightarrow> database \<Rightarrow>
   database \<times> subscription_summary result" where
  "admin_create_subscription fromisoformat app now uuid payload db =
     (let a = clean_subscription_request payload in
      case rbind (admin_billing_repository app) (\<lambda>_.
           rbind (fromisoformat (sq_current_period_start a)) (\<lambda>s.
           rbind (fromisoformat (sq_current_period_end a)) (\<lambda>e.
           rbind (optional_time fromisoformat (sq_trial_ends_at a)) (\<lambda>t.
             create_subscription db now uuid (sq_tenant_id a) (sq_plan_id a) (sq_status a) s e t)))) of
        Inl e \<Rightarrow> (db, Inl e)
      | Inr (db', sid) \<Rightarrow>
          (db', rbind (next_row (\<lambda>s. sub_id s = sid) (list_subscriptions db' (Some (sq_tenant_id a))))
                  (\<lambda>s. Inr (subscription_summary_of s))))"

definition admin_update_subscription_status ::
  "admin_app \<Rightarrow> timestamp \<Rightarrow> string \<Rightarrow> string \<Rightarrow> database \<Rightarrow> database \<times> subscription_summary result" where
  "admin_update_subscription_status app now sid status db =
     (if status \<notin> set subscription_statuses then (db, Inl unprocessable)
      else case rbind (admin_billing_repository app) (\<lambda>_.
             map_error (value_error_as (\<lambda>d. if d = ''subscription not found'' then 404 else 400))
               (update_subscription_status db now sid status)) of
        Inl e \<Rightarrow> (db, Inl e)
      | Inr (db', row) \<Rightarrow>
          (emit_commercial_event app now
             (new_event (''subscription_status_updated:'' @ sid @ '':'' @ status)
                ''subscription_status_updated'' status (Some (sub_tenant_id row)) (Some (sub_id row))
                None (Some ''operator_status_change'')
                [(''subscription_id'', JStr (sub_id row)), (''status'', JStr status)]) db',
           Inr (subscription_summary_of row)))"

section \<open>Billing periods\<close>

definition admin_list_billing_periods ::
  "admin_app \<Rightarrow> string option \<Rightarrow> string option \<Rightarrow> database \<Rightarrow> database \<times> billing_period_summary list result" where
  "admin_list_billing_periods app tenant_id sid = reading (\<lambda>db.
     rbind (admin_billing_repository app) (\<lambda>_.
       Inr (map serialize_billing_period (list_billing_periods db tenant_id sid))))"

definition admin_create_billing_period ::
  "(string \<Rightarrow> timestamp result) \<Rightarrow> admin_app \<Rightarrow> timestamp \<Rightarrow> string \<Rightarrow> string \<Rightarrow> string \<Rightarrow> string option \<Rightarrow>
   string option \<Rightarrow> database \<Rightarrow> database \<times> billing_period_summary result" where
  "admin_create_billing_period fromisoformat app now uuid tenant_id sid period_start period_end db =
     (let tenant_id = strip tenant_id; sid = strip sid in
      case rbind (admin_billing_repository app) (\<lambda>_. map_error (value_error_as (\<lambda>_. 404))
           (rbind (optional_time fromisoformat (map_option strip period_start)) (\<lambda>s.
            rbind (optional_time fromisoformat (map_option strip period_end)) (\<lambda>e.
              create_billing_period db now uuid tenant_id sid s e)))) of
        Inl e \<Rightarrow> (db, Inl e)
      | Inr (db', pid) \<Rightarrow>
          (db', rbind (next_row (\<lambda>p. bp_id p = pid) (list_billing_periods db' (Some tenant_id) (Some sid)))
                  (\<lambda>p. Inr (serialize_billing_period p))))"

definition admin_summarize_billing_period ::
  "admin_app \<Rightarrow> timestamp \<Rightarrow> string \<Rightarrow> database \<Rightarrow> database \<times> billing_period_summary result" where
  "admin_summarize_billing_period app now pid db =
     (case rbind (admin_billing_repository app) (\<lambda>_. map_error (value_error_as (\<lambda>_. 404))
             (summarize_billing_period (aa_repository_threshold_usd app) db now pid)) of
        Inl e \<Rightarrow> (db, Inl e)
      | Inr (db', row) \<Rightarrow>
          (if bp_status row = PClosing
           then emit_service_suspended_event_if_required app now row
                  (emit_patronage_required_event app now row db')
           else db', Inr (serialize_billing_period row)))"

record status_response =
  pr_billing_period_id :: string
  pr_status :: string

definition status_response_of :: "period_row \<Rightarrow> status_response" where
  "status_response_of p = \<lparr>pr_billing_period_id = bp_id p, pr_status = period_status_str (bp_status p)\<rparr>"

definition admin_update_billing_period_status ::
  "admin_app \<Rightarrow> timestamp \<Rightarrow> string \<Rightarrow> string \<Rightarrow> database \<Rightarrow> database \<times> status_response result" where
  "admin_update_billing_period_status app now pid status db =
     (if parse_period_status status = None then (db, Inl unprocessable)
      else case rbind (admin_billing_repository app) (\<lambda>_. map_error (value_error_as not_found_or_bad)
             (update_billing_period_status db now pid status)) of
        Inl e \<Rightarrow> (db, Inl e)
      | Inr (db', row) \<Rightarrow> (db', Inr (status_response_of row)))"

definition admin_reconcile_billing_period ::
  "admin_app \<Rightarrow> string \<Rightarrow> database \<Rightarrow> database \<times> reconciliation result" where
  "admin_reconcile_billing_period app pid = reading (\<lambda>db.
     rbind (admin_billing_repository app) (\<lambda>_.
       map_error (value_error_as not_found_or_bad) (reconcile_billing_period db pid)))"

definition admin_preview_billing_closeout ::
  "admin_app \<Rightarrow> timestamp \<Rightarrow> string \<Rightarrow> database \<Rightarrow> database \<times> closeout_preview result" where
  "admin_preview_billing_closeout app now pid db =
     (case rbind (admin_billing_repository app) (\<lambda>_. map_error (value_error_as not_found_or_bad)
             (preview_billing_closeout db pid)) of
        Inl e \<Rightarrow> (db, Inl e)
      | Inr r \<Rightarrow>
          (let matched = find (\<lambda>p. bp_id p = pid) (list_billing_periods db None None) in
           (emit_commercial_event app now
              (new_event (''billing_closeout_preview:'' @ pid) ''billing_closeout_previewed'' (cp_status r)
                 (map_option bp_tenant_id matched) (map_option bp_subscription_id matched) (Some pid)
                 (Some (cp_recommended_action r))
                 [(''recommended_action'', JStr (cp_recommended_action r)),
                  (''blocking_issues'', json_strings (cp_blocking_issues r)),
                  (''matches_realized_savings'', JBool (cp_matches_realized_savings r))]) db,
            Inr r)))"

definition admin_generate_billing_report ::
  "(real \<Rightarrow> string) \<Rightarrow> admin_app \<Rightarrow> string \<Rightarrow> string \<Rightarrow> database \<Rightarrow> database \<times> exported_report result" where
  "admin_generate_billing_report float_repr app pid fmt = reading (\<lambda>db.
     rbind (admin_billing_repository app) (\<lambda>_.
       map_error (value_error_as not_found_or_bad) (generate_billing_report float_repr db pid fmt)))"

definition admin_generate_invoice_stub ::
  "(real \<Rightarrow> string) \<Rightarrow> (dict \<Rightarrow> dict) \<Rightarrow> admin_app \<Rightarrow> timestamp \<Rightarrow> string \<Rightarrow> string \<Rightarrow> string \<Rightarrow> database \<Rightarrow>
   database \<times> invoice_stub result" where
  "admin_generate_invoice_stub float_repr jsonb app now uuid pid fmt db =
     (case rbind (admin_billing_repository app) (\<lambda>_. map_error (value_error_as not_found_or_bad)
             (generate_invoice_stub float_repr jsonb db now uuid pid fmt)) of
        Inl e \<Rightarrow> (db, Inl e)
      | Inr (db', i) \<Rightarrow> (db', Inr i))"

definition admin_close_billing_period ::
  "admin_app \<Rightarrow> timestamp \<Rightarrow> string \<Rightarrow> database \<Rightarrow> database \<times> status_response result" where
  "admin_close_billing_period app now pid db =
     (case rbind (admin_billing_repository app) (\<lambda>_. map_error (value_error_as not_found_or_bad)
             (update_billing_period_status db now pid ''closed'')) of
        Inl e \<Rightarrow> (db, Inl e)
      | Inr (db', row) \<Rightarrow>
          (emit_service_suspended_event_if_required app now row
             (emit_commercial_event app now
                (new_event (''billing_period_closed:'' @ pid) ''billing_period_closed''
                   (period_status_str (bp_status row)) (Some (bp_tenant_id row)) (Some (bp_subscription_id row))
                   (Some pid) (Some ''close_confirmed'') [(''billing_period_id'', JStr pid)]) db'),
           Inr (status_response_of row)))"

section \<open>Charges\<close>

record adjustment_request =
  aq_tenant_id :: string
  aq_subscription_id :: "string option"
  aq_amount_usd :: real
  aq_description :: string
  aq_reason :: string
  aq_target_billing_period_id :: "string option"

definition clean_adjustment_request :: "adjustment_request \<Rightarrow> adjustment_request" where
  "clean_adjustment_request a = a\<lparr>aq_tenant_id := strip (aq_tenant_id a),
     aq_subscription_id := map_option strip (aq_subscription_id a), aq_description := strip (aq_description a),
     aq_reason := strip (aq_reason a),
     aq_target_billing_period_id := map_option strip (aq_target_billing_period_id a)\<rparr>"

definition admin_create_billing_adjustment ::
  "admin_app \<Rightarrow> timestamp \<Rightarrow> string \<Rightarrow> adjustment_request \<Rightarrow> database \<Rightarrow>
   database \<times> adjustment_result result" where
  "admin_create_billing_adjustment app now uuid payload db =
     (let a = clean_adjustment_request payload in
      case rbind (admin_billing_repository app) (\<lambda>_. map_error (value_error_as not_found_or_bad)
             (create_manual_adjustment db now uuid (aq_tenant_id a) (aq_subscription_id a) (aq_amount_usd a)
                (aq_description a) (aq_reason a) (aq_target_billing_period_id a))) of
        Inl e \<Rightarrow> (db, Inl e)
      | Inr (db', r) \<Rightarrow>
          (emit_commercial_event app now
             (new_event (''billing_adjustment_created:'' @ adj_charge_id r) ''billing_adjustment_created''
                (if truthy (aq_target_billing_period_id a) then ''closed_adjustment_recorded''
                 else ''adjustment_recorded'')
                (Some (aq_tenant_id a)) (aq_subscription_id a) (aq_target_billing_period_id a)
                (Some (aq_reason a))
                [(''adjustment_charge_id'', JStr (adj_charge_id r)), (''amount_usd'', JFloat (aq_amount_usd a)),
                 (''description'', JStr (aq_description a))]) db',
           Inr r))"

definition admin_list_usage_charges ::
  "admin_app \<Rightarrow> string option \<Rightarrow> int \<Rightarrow> database \<Rightarrow> database \<times> usage_charge_summary list result" where
  "admin_list_usage_charges app tenant_id limit = reading (\<lambda>db.
     rbind (admin_billing_repository app) (\<lambda>_. rbind (sql_limit limit) (\<lambda>n.
       Inr (map usage_charge_summary_of (list_usage_charges db tenant_id n)))))"

definition admin_list_billing_reports ::
  "(real \<Rightarrow> string) \<Rightarrow> admin_app \<Rightarrow> string option \<Rightarrow> string option \<Rightarrow> string option \<Rightarrow> int \<Rightarrow> int \<Rightarrow> string \<Rightarrow>
   database \<Rightarrow> database \<times> exported_report list result" where
  "admin_list_billing_reports float_repr app tenant_id sid status_filter limit offset fmt = reading (\<lambda>db.
     rbind (admin_billing_repository app) (\<lambda>_.
       collect_results (\<lambda>p. generate_billing_report float_repr db (bp_id p) fmt)
         (take (nat (max 1 limit)) (drop (nat (max 0 offset))
            (filter (period_matches status_filter) (list_billing_periods db tenant_id sid))))))"

record materialization_request =
  mq_tenant_id :: string
  mq_subscription_id :: "string option"
  mq_billing_period_id :: "string option"
  mq_rollup_date :: "string option"
  mq_limit :: int

definition clean_materialization_request :: "materialization_request \<Rightarrow> materialization_request result" where
  "clean_materialization_request a =
     (if mq_limit a < 1 then Inl unprocessable
      else Inr (a\<lparr>mq_tenant_id := strip (mq_tenant_id a),
                  mq_subscription_id := map_option strip (mq_subscription_id a),
                  mq_billing_period_id := map_option strip (mq_billing_period_id a),
                  mq_rollup_date := map_option strip (mq_rollup_date a)\<rparr>))"

text \<open>
  The date of the payload is a string; the driver takes dates only for a \<open>DATE\<close> parameter and
  refuses a string with a \<open>ValueError\<close>, whose text is the parameter \<open>date_refused\<close>.
\<close>

definition rollups_by_date ::
  "(string \<Rightarrow> string) \<Rightarrow> database \<Rightarrow> timestamp \<Rightarrow> (nat \<Rightarrow> string) \<Rightarrow> materialization_request \<Rightarrow>
   database \<times> nat result" where
  "rollups_by_date date_refused db now uuids a =
     (case mq_rollup_date a of
        None \<Rightarrow> materialize_usage_charges_from_rollups db now uuids (mq_tenant_id a) (mq_subscription_id a)
                  None (mq_billing_period_id a)
      | Some d \<Rightarrow> (db, rbind (check_attachable db (mq_billing_period_id a)) (\<lambda>_. Inl (ValueErr (date_refused d)))))"

definition admin_materialize_from_rollups ::
  "(string \<Rightarrow> string) \<Rightarrow> admin_app \<Rightarrow> timestamp \<Rightarrow> (nat \<Rightarrow> string) \<Rightarrow> materialization_request \<Rightarrow> database \<Rightarrow>
   database \<times> nat result" where
  "admin_materialize_from_rollups date_refused app now uuids a db =
     (case admin_billing_repository app of
        Inl e \<Rightarrow> (db, Inl e)
      | Inr _ \<Rightarrow> (case rollups_by_date date_refused db now uuids a of
                     (db', r) \<Rightarrow> (db', map_error (value_error_as not_found_or_bad) r)))"

definition admin_materialize_from_ledger ::
  "admin_app \<Rightarrow> timestamp \<Rightarrow> (nat \<Rightarrow> string) \<Rightarrow> materialization_request \<Rightarrow> database \<Rightarrow> database \<times> nat result" where
  "admin_materialize_from_ledger app now uuids a db =
     (case admin_billing_repository app of
        Inl e \<Rightarrow> (db, Inl e)
      | Inr _ \<Rightarrow> (case materialize_usage_charges_from_ledger db now uuids (mq_tenant_id a) (mq_subscription_id a)
                        (mq_billing_period_id a) (nat (mq_limit a)) of
                     (db', r) \<Rightarrow> (db', map_error (value_error_as not_found_or_bad) r)))"

definition admin_materialize_usage_charges ::
  "(string \<Rightarrow> string) \<Rightarrow> admin_app \<Rightarrow> timestamp \<Rightarrow> (nat \<Rightarrow> string) \<Rightarrow> string \<Rightarrow> materialization_request \<Rightarrow>
   database \<Rightarrow> database \<times> nat result" where
  "admin_materialize_usage_charges date_refused app now uuids source a db =
     (let normalized_source = py_lower (strip source) in
      if normalized_source = ''ledger'' then admin_materialize_from_ledger app now uuids a db
      else if normalized_source = ''rollups'' then admin_materialize_from_rollups date_refused app now uuids a db
      else (db, Inl (HTTPException 400 (''source must be '' @ quoted ''ledger'' @ '' or '' @ quoted ''rollups''))))"

definition admin_recent_commercial_events ::
  "admin_app \<Rightarrow> int \<Rightarrow> string option \<Rightarrow> database \<Rightarrow> database \<times> commercial_event_summary list result" where
  "admin_recent_commercial_events app limit tenant_id = reading (\<lambda>db.
     rbind (raise_if (\<not> aa_commercial_event_repository app)
              (HTTPException 503 ''Commercial event repository is not available'')) (\<lambda>_.
     rbind (sql_limit limit) (\<lambda>n.
       Inr (map commercial_event_summary_of
              (if truthy tenant_id then list_events_for_tenant db (the tenant_id) n
               else recent_commercial_events db n)))))"

section \<open>The router\<close>

text \<open>
  A call of the router. Fresh identifiers are the stream \<open>uuids\<close>, of which an operation that
  needs one takes the first.
\<close>

datatype billing_admin_call =
    ListPlans
  | UpsertPlan plan_args
  | ListSubscriptions "string option"
  | CreateSubscription subscription_request
  | UpdateSubscriptionStatus string string
  | ListPeriods "string option" "string option"
  | CreatePeriod string string "string option" "string option"
  | SummarizePeriod string
  | UpdatePeriodStatus string string
  | ReconcilePeriod string
  | PreviewCloseout string
  | BillingReport string string
  | InvoiceStub string string
  | ClosePeriod string
  | CreateAdjustment adjustment_request
  | ListCharges "string option" int
  | ListReports "string option" "string option" "string option" int int string
  | MaterializeRollups materialization_request
  | MaterializeLedger materialization_request
  | MaterializeCharges string materialization_request
  | RecentEvents int "string option"

datatype billing_admin_reply =
    PlansReply "plan_summary list"
  | PlanReply plan_summary
  | SubscriptionsReply "subscription_summary list"
  | SubscriptionReply subscription_summary
  | PeriodsReply "billing_period_summary list"
  | PeriodReply billing_period_summary
  | StatusReply status_response
  | ReconciliationReply reconciliation
  | PreviewReply closeout_preview
  | ReportReply exported_report
  | InvoiceReply invoice_stub
  | AdjustmentReply adjustment_result
  | ChargesReply "usage_charge_summary list"
  | ReportsReply "exported_report list"
  | CreatedReply nat
  | EventsReply "commercial_event_summary list"

record admin_library =
  al_float_repr :: "real \<Rightarrow> string"
  al_jsonb :: "dict \<Rightarrow> dict"
  al_fromisoformat :: "string \<Rightarrow> timestamp result"
  al_date_refused :: "string \<Rightarrow> string"

definition reply_as :: "('a \<Rightarrow> 'b) \<Rightarrow> database \<times> 'a result \<Rightarrow> database \<times> 'b result" where
  "reply_as f dr = (fst dr, rbind (snd dr) (\<lambda>x. Inr (f x)))"

definition cleaned_materialization ::
  "(materialization_request \<Rightarrow> database \<Rightarrow> database \<times> 'a result) \<Rightarrow> materialization_request \<Rightarrow> database \<Rightarrow>
   database \<times> 'a result" where
  "cleaned_materialization f a db =
     (case clean_materialization_request a of Inl e \<Rightarrow> (db, Inl e) | Inr a' \<Rightarrow> f a' db)"

fun billing_admin_handler ::
  "admin_library \<Rightarrow> admin_app \<Rightarrow> timestamp \<Rightarrow> (nat \<Rightarrow> string) \<Rightarrow> billing_admin_call \<Rightarrow> database \<Rightarrow>
   database \<times> billing_admin_reply result" where
  "billing_admin_handler lib app now uuids ListPlans db = reply_as PlansReply (admin_list_plans app db)"
| "billing_admin_handler lib app now uuids (UpsertPlan a) db =
     reply_as PlanReply (admin_upsert_plan app now (uuids 0) a db)"
| "billing_admin_handler lib app now uuids (ListSubscriptions t) db =
     reply_as SubscriptionsReply (admin_list_subscriptions app t db)"
| "billing_admin_handler lib app now uuids (CreateSubscription a) db =
     reply_as SubscriptionReply (admin_create_subscription (al_fromisoformat lib) app now (uuids 0) a db)"
| "billing_admin_handler lib app now uuids (UpdateSubscriptionStatus sid st) db =
     reply_as SubscriptionReply (admin_update_subscription_status app now sid st db)"
| "billing_admin_handler lib app now uuids (ListPeriods t sid) db =
     reply_as PeriodsReply (admin_list_billing_periods app t sid db)"
| "billing_admin_handler lib app now uuids (CreatePeriod t sid s e) db =
     reply_as PeriodReply (admin_create_billing_period (al_fromisoformat lib) app now (uuids 0) t sid s e db)"
| "billing_admin_handler lib app now uuids (SummarizePeriod pid) db =
     reply_as PeriodReply (admin_summarize_billing_period app now pid db)"
| "billing_admin_handler lib app now uuids (UpdatePeriodStatus pid st) db =
     reply_as StatusReply (admin_update_billing_period_status app now pid st db)"
| "billing_admin_handler lib app now uuids (ReconcilePeriod pid) db =
     reply_as ReconciliationReply (admin_reconcile_billing_period app pid db)"
| "billing_admin_handler lib app now uuids (PreviewCloseout pid) db =
     reply_as PreviewReply (admin_preview_billing_closeout app now pid db)"
| "billing_admin_handler lib app now uuids (BillingReport pid fmt) db =
     reply_as ReportReply (admin_generate_billing_report (al_float_repr lib) app pid fmt db)"
| "billing_admin_handler lib app now uuids (InvoiceStub pid fmt) db =
     reply_as InvoiceReply
       (admin_generate_invoice_stub (al_float_repr lib) (al_jsonb lib) app now (uuids 0) pid fmt db)"
| "billing_admin_handler lib app now uuids (ClosePeriod pid) db =
     reply_as StatusReply (admin_close_billing_period app now pid db)"
| "billing_admin_handler lib app now uuids (CreateAdjustment a) db =
     reply_as AdjustmentReply (admin_create_billing_adjustment app now (uuids 0) a db)"
| "billing_admin_handler lib app now uuids (ListCharges t n) db =
     reply_as ChargesReply (admin_list_usage_charges app t n db)"
| "billing_admin_handler lib app now uuids (ListReports t sid st n m fmt) db =
     reply_as ReportsReply (admin_list_billing_reports (al_float_repr lib) app t sid st n m fmt db)"
| "billing_admin_handler lib app now uuids (MaterializeRollups a) db =
     reply_as CreatedReply
       (cleaned_materialization (admin_materialize_from_rollups (al_date_refused lib) app now uuids) a db)"
| "billing_admin_handler lib app now uuids (MaterializeLedger a) db =
     reply_as CreatedReply (cleaned_materialization (admin_materialize_from_ledger app now uuids) a db)"
| "billing_admin_handler lib app now uuids (MaterializeCharges src a) db =
     reply_as CreatedReply
       (cleaned_materialization (admin_materialize_usage_charges (al_date_refused lib) app now uuids src) a db)"
| "billing_admin_handler lib app now uuids (RecentEvents n t) db =
     reply_as EventsReply (admin_recent_commercial_events app n t db)"

definition billing_admin ::
  "admin_library \<Rightarrow> admin_app \<Rightarrow> admin_headers \<Rightarrow> timestamp \<Rightarrow> (nat \<Rightarrow> string) \<Rightarrow> billing_admin_call \<Rightarrow>
   database \<Rightarrow> database \<times> billing_admin_reply result" where
  "billing_admin lib app hs now uuids call db =
     (case require_admin_api_key (aa_admin_api_key app) (ah_admin_key hs) (ah_authorization hs) of
        Inl e \<Rightarrow> (db, Inl e)
      | Inr _ \<Rightarrow> billing_admin_handler lib app now uuids call db)"

end
