(* ===== verification/BillingAdminProperties.thy ===== *)
theory BillingAdminProperties
  imports BillingAdmin BillingProperties
begin

text \<open>
  What the administrator's billing router promises: nothing without the admin key, and with it
  only runs of the billing repository's operations, so that everything proved of those runs holds
  of the router; then the commercial events it does and does not record.
\<close>

section \<open>Handlers run repository operations\<close>

abbreviation runs :: "real \<Rightarrow> database \<Rightarrow> database \<Rightarrow> bool" where
  "runs threshold \<equiv> (billing_step threshold)\<^sup>*\<^sup>*"

lemma run_one: "billing_step threshold db db' \<Longrightarrow> runs threshold db db'"
  by (rule r_into_rtranclp)

lemma runs_emit: "runs threshold db db1 \<Longrightarrow> runs threshold db (emit_commercial_event app now e db1)"
  by (auto simp: emit_commercial_event_def intro: rtranclp.rtrancl_into_rtrancl billing_step.step_event)

lemma runs_patronage: "runs threshold db db1 \<Longrightarrow> runs threshold db (emit_patronage_required_event app now p db1)"
  by (simp add: emit_patronage_required_event_def runs_emit)

lemma runs_suspended:
  "runs threshold db db1 \<Longrightarrow> runs threshold db (emit_service_suspended_event_if_required app now p db1)"
  by (simp add: emit_service_suspended_event_if_required_def Let_def runs_emit)

lemma map_error_Inr [simp]: "map_error f r = Inr x \<longleftrightarrow> r = Inr x"
  by (cases r) (simp_all add: map_error_def)

text \<open>A handler that answers from the outcome of one repository operation.\<close>

lemma runs_case:
  assumes "\<And>db1 x. r = Inr (db1, x) \<Longrightarrow> runs threshold db (f db1 x)"
  shows "runs threshold db (fst (case r of Inl e \<Rightarrow> (db, Inl e) | Inr (db1, x) \<Rightarrow> (f db1 x, g db1 x)))"
  using assms by (auto split: sum.splits)

lemma runs_upsert_plan: "runs threshold db (fst (admin_upsert_plan app now uuid a db))"
proof (cases "rbind (clean_plan_request a) (\<lambda>a. rbind (admin_billing_repository app) (\<lambda>_. Inr a))")
  case (Inr b)
  obtain db' pid where "upsert_plan db now uuid b = (db', pid)" by fastforce
  with Inr billing_step.step_plan [OF this, THEN run_one] show ?thesis by (simp add: admin_upsert_plan_def)
qed (simp add: admin_upsert_plan_def)

lemma runs_create_subscription: "runs threshold db (fst (admin_create_subscription fi app now uuid a db))"
  unfolding admin_create_subscription_def Let_def
  by (rule runs_case) (auto simp: rbind_eq_Inr intro: billing_step.step_subscription [THEN run_one])

lemma runs_if: "runs threshold db (fst A) \<Longrightarrow> runs threshold db (fst (if b then (db, e) else A))"
  by simp

lemma runs_subscription_status: "runs threshold db (fst (admin_update_subscription_status app now sid st db))"
  unfolding admin_update_subscription_status_def
  by (intro runs_if runs_case)
    (auto simp: rbind_eq_Inr intro!: runs_emit intro: billing_step.step_subscription_status [THEN run_one])

lemma runs_create_period: "runs threshold db (fst (admin_create_billing_period fi app now uuid t sid s e db))"
  unfolding admin_create_billing_period_def Let_def
  by (rule runs_case) (auto simp: rbind_eq_Inr intro: billing_step.step_period [THEN run_one])

lemma runs_summarize:
  "runs (aa_repository_threshold_usd app) db (fst (admin_summarize_billing_period app now pid db))"
  unfolding admin_summarize_billing_period_def
  by (rule runs_case)
    (auto simp: rbind_eq_Inr intro!: runs_suspended runs_patronage  intro: billing_step.step_summarize [THEN run_one])

lemma runs_period_status: "runs threshold db (fst (admin_update_billing_period_status app now pid st db))"
  unfolding admin_update_billing_period_status_def
  by (intro runs_if runs_case) (auto simp: rbind_eq_Inr intro: billing_step.step_status [THEN run_one])

lemma runs_preview: "runs threshold db (fst (admin_preview_billing_closeout app now pid db))"
  by (auto simp: admin_preview_billing_closeout_def Let_def runs_emit split: sum.splits)

lemma runs_invoice: "runs threshold db (fst (admin_generate_invoice_stub fr jb app now uuid pid fmt db))"
  unfolding admin_generate_invoice_stub_def
  by (rule runs_case) (auto simp: rbind_eq_Inr intro: billing_step.step_invoice [THEN run_one])

lemma runs_close: "runs threshold db (fst (admin_close_billing_period app now pid db))"
  unfolding admin_close_billing_period_def
  by (rule runs_case) (auto simp: rbind_eq_Inr intro!: runs_suspended runs_emit  intro: billing_step.step_status [THEN run_one])

lemma runs_adjustment: "runs threshold db (fst (admin_create_billing_adjustment app now uuid a db))"
  unfolding admin_create_billing_adjustment_def Let_def
  by (rule runs_case) (auto simp: rbind_eq_Inr intro!: runs_emit  intro: billing_step.step_adjustment [THEN run_one])

lemma runs_rollups: "runs threshold db (fst (admin_materialize_from_rollups dr app now uuids a db))"
  by (auto simp: admin_materialize_from_rollups_def rollups_by_date_def
      intro: billing_step.step_rollups [THEN run_one] split: sum.splits prod.splits option.splits)

lemma runs_ledger: "runs threshold db (fst (admin_materialize_from_ledger app now uuids a db))"
  by (auto simp: admin_materialize_from_ledger_def intro: billing_step.step_ledger [THEN run_one]
      split: sum.splits prod.splits)

lemma runs_cleaned:
  "(\<And>a. runs threshold db (fst (f a db))) \<Longrightarrow> runs threshold db (fst (cleaned_materialization f a db))"
  by (simp add: cleaned_materialization_def split: sum.splits)

lemma runs_materialize: "runs threshold db (fst (admin_materialize_usage_charges dr app now uuids src a db))"
  by (simp add: admin_materialize_usage_charges_def Let_def runs_ledger runs_rollups)

lemmas handler_runs = runs_upsert_plan runs_create_subscription runs_subscription_status runs_create_period
  runs_summarize runs_period_status runs_preview runs_invoice runs_close runs_adjustment
  runs_rollups runs_ledger runs_cleaned runs_materialize

lemmas reading_handlers = admin_list_plans_def admin_list_subscriptions_def admin_list_billing_periods_def
  admin_reconcile_billing_period_def admin_generate_billing_report_def admin_list_usage_charges_def
  admin_list_billing_reports_def admin_recent_commercial_events_def reading_def

lemma handler_step:
  "runs (aa_repository_threshold_usd app) db (fst (billing_admin_handler lib app now uuids call db))"
  by (cases call) (simp_all add: reply_as_def handler_runs reading_handlers)

text \<open>
  Whatever an administrator calls, and whether the call succeeds or fails, the router moves the
  database by a run of the billing repository's operations and event records only; every
  consistency and finality property of those runs is one of the HTTP interface.
\<close>

lemma admin_calls_are_runs:
  assumes "billing_admin lib app hs now uuids call db = (db', reply)"
  shows "(billing_step (aa_repository_threshold_usd app))\<^sup>*\<^sup>* db db' \<and>
    (billing_reachable (aa_repository_threshold_usd app) db \<longrightarrow>
     billing_reachable (aa_repository_threshold_usd app) db')"
proof -
  have "runs (aa_repository_threshold_usd app) db (fst (billing_admin lib app hs now uuids call db))"
    by (simp add: billing_admin_def handler_step split: sum.splits)
  with assms show ?thesis unfolding billing_reachable_def by (auto intro: rtranclp_trans)
qed

section \<open>Refused calls\<close>

text \<open>What a handler may answer without having written: an HTTP error only over the same tables.\<close>

definition refusal_frame :: "database \<Rightarrow> database \<times> 'a result \<Rightarrow> bool" where
  "refusal_frame db dr \<longleftrightarrow> (\<forall>code detail. snd dr = Inl (HTTPException code detail) \<longrightarrow> fst dr = db)"

lemma refusal_frame_simps [simp]:
  "refusal_frame db (db, r)" "refusal_frame db (db', Inr x)"
  "refusal_frame db (db', rbind (next_row P rows) (\<lambda>x. Inr (f x)))"
  by (auto simp: refusal_frame_def next_row_def rbind_eq_Inl split: option.splits)


lemma refusal_frame_reading [simp]: "refusal_frame db (reading f db)"
  by (simp add: reading_def)








section \<open>Events\<close>

lemma log_event_present:
  "list_ex (\<lambda>e'. ce_event_id e' = ce_event_id e) (commercial_events (log_commercial_event db now t e))"
  by (auto simp: log_commercial_event_def insert_unless_def list_ex_iff)

lemma log_event_known:
  "list_ex (\<lambda>e'. ce_event_id e' = ce_event_id e) (commercial_events db) \<Longrightarrow>
   commercial_events (log_commercial_event db now t e) = commercial_events db"
  by (simp add: log_commercial_event_def insert_unless_def)

lemma status_update_keeps_events:
  "update_billing_period_status db now pid st = Inr (db', row) \<Longrightarrow> commercial_events db' = commercial_events db"
  by (erule update_status_cases) (simp add: update_period_def)

lemma suspended_keeps_events:
  "list_ex P (commercial_events db) \<Longrightarrow>
   list_ex P (commercial_events (emit_service_suspended_event_if_required app now p db))"
  by (auto simp: emit_service_suspended_event_if_required_def Let_def emit_commercial_event_def
      log_commercial_event_def insert_unless_def)

text \<open>
  The event of a subscription status change is named by subscription and status only: when the
  subscription had that status once before, changing it back is answered as done and leaves no
  event.
\<close>

theorem repeated_status_change_unlogged:
  assumes "admin_update_subscription_status app now sid st db = (db', Inr reply)"
    and "list_ex (\<lambda>e. ce_event_id e = ''subscription_status_updated:'' @ sid @ '':'' @ st) (commercial_events db)"
  shows "commercial_events db' = commercial_events db \<and> sb_status reply = st \<and>
    (\<exists>s \<in> set (subscriptions db'). sub_id s = sid \<and> sub_status s = st \<and> sub_updated_at s = now)"
proof -
  obtain db1 row where u: "update_subscription_status db now sid st = Inr (db1, row)"
    and db': "db' = emit_commercial_event app now (new_event (''subscription_status_updated:'' @ sid @ '':'' @ st)
      ''subscription_status_updated'' st (Some (sub_tenant_id row)) (Some (sub_id row)) None
      (Some ''operator_status_change'') [(''subscription_id'', JStr (sub_id row)), (''status'', JStr st)]) db1"
    and r: "reply = subscription_summary_of row"
    using assms(1) by (auto simp: admin_update_subscription_status_def rbind_eq_Inr split: if_splits sum.splits
        simp del: append.simps)
  have db1: "db1 = db\<lparr>subscriptions := map (\<lambda>s. if sub_id s = sid
      then s\<lparr>sub_status := st, sub_updated_at := now\<rparr> else s) (subscriptions db)\<rparr>"
    and f: "find (\<lambda>s. sub_id s = sid) (subscriptions db1) = Some row"
    using u by (auto simp: update_subscription_status_def Let_def split: if_splits option.splits)
  have row: "row \<in> set (subscriptions db1)" "sub_id row = sid" using find_Some_mem [OF f] by simp_all
  have "row \<in> (\<lambda>s. if sub_id s = sid then s\<lparr>sub_status := st, sub_updated_at := now\<rparr> else s) ` set (subscriptions db)"
    using row(1) unfolding db1 by simp
  then obtain s where s: "row = (if sub_id s = sid then s\<lparr>sub_status := st, sub_updated_at := now\<rparr> else s)"
    by (rule imageE)
  with row(2) have "sub_id s = sid" by (simp split: if_splits)
  with s have st: "sub_status row = st" "sub_updated_at row = now" by simp_all
  have e: "commercial_events db' = commercial_events db1 \<and> subscriptions db' = subscriptions db1"
    using assms(2) db' db1
    by (simp add: emit_commercial_event_def log_commercial_event_def insert_unless_def new_event_def
        del: append.simps)
  have c: "commercial_events db' = commercial_events db" unfolding e [THEN conjunct1] by (simp add: db1)
  have m: "row \<in> set (subscriptions db')" unfolding e [THEN conjunct2] by (rule row(1))
  have b: "sb_status reply = st" by (simp add: r subscription_summary_of_def st)
  show ?thesis by (intro conjI bexI [of _ row]; fact b c row(2) st m)
qed

text \<open>
  A period closed through its status route is closed exactly as through the close route, but
  only the close route records that it was closed.
\<close>

theorem status_route_closes_silently:
  assumes "update_billing_period_status db now pid ''closed'' = Inr (db1, row)"
    and "aa_billing_repository app" "aa_commercial_event_repository app"
  shows "admin_update_billing_period_status app now pid ''closed'' db = (db1, Inr (status_response_of row)) \<and>
    commercial_events db1 = commercial_events db \<and>
    snd (admin_close_billing_period app now pid db) = Inr (status_response_of row) \<and>
    list_ex (\<lambda>e. ce_event_id e = ''billing_period_closed:'' @ pid)
      (commercial_events (fst (admin_close_billing_period app now pid db)))"
proof -
  have p: "parse_period_status ''closed'' \<noteq> None" by (simp add: parse_period_status_def)
  have "list_ex (\<lambda>e. ce_event_id e = ''billing_period_closed:'' @ pid)
      (commercial_events (log_commercial_event db1 now None (new_event (''billing_period_closed:'' @ pid)
        et st t s b r pl)))" for et st t s b r pl
    using log_event_present [of "new_event (''billing_period_closed:'' @ pid) et st t s b r pl" db1 now None]
    by (simp add: new_event_def del: append.simps)
  then show ?thesis using assms p
    by (simp add: admin_update_billing_period_status_def admin_close_billing_period_def
        admin_billing_repository_def map_error_def status_update_keeps_events emit_commercial_event_def
        suspended_keeps_events del: append.simps)
qed

text \<open>
  Asking for the rollup charges of one date never creates any: the date reaches the driver as a
  string, and the call ends in an HTTP error with the database unchanged.
\<close>

theorem rollup_date_refused:
  assumes "mq_rollup_date a = Some d" and "aa_billing_repository app"
  shows "\<exists>code detail. billing_admin_handler lib app now uuids (MaterializeRollups a) db =
    (db, Inl (HTTPException code detail))"
proof (cases "mq_limit a < 1")
  case True
  then show ?thesis by (simp add: reply_as_def cleaned_materialization_def clean_materialization_request_def
        unprocessable_def)
next
  case False
  define a' where "a' = a\<lparr>mq_tenant_id := strip (mq_tenant_id a),
    mq_subscription_id := map_option strip (mq_subscription_id a),
    mq_billing_period_id := map_option strip (mq_billing_period_id a),
    mq_rollup_date := map_option strip (mq_rollup_date a)\<rparr>"
  have d: "mq_rollup_date a' = Some (strip d)" using assms(1) by (simp add: a'_def)
  have "\<exists>m. rollups_by_date dr db now uuids a' = (db, Inl (ValueErr m))" for dr
    using d by (auto simp: rollups_by_date_def check_attachable_def get_billing_period_row_def
        split: option.splits if_splits)
  then have "\<exists>m. rollups_by_date (al_date_refused lib) db now uuids a' = (db, Inl (ValueErr m))" .
  then show ?thesis using False assms(2)
    by (auto simp: reply_as_def cleaned_materialization_def clean_materialization_request_def a'_def [symmetric]
        admin_materialize_from_rollups_def admin_billing_repository_def map_error_def value_error_as_def)
qed

section \<open>Examples\<close>

definition demo_admin_app :: admin_app where
  "demo_admin_app = \<lparr>aa_admin_api_key = Some ''root'', aa_billing_patronage_threshold_usd = 50,
     aa_repository_threshold_usd = 50, aa_billing_repository = True, aa_commercial_event_repository = True\<rparr>"

definition demo_headers :: admin_headers where
  "demo_headers = \<lparr>ah_admin_key = Some ''root'', ah_authorization = None\<rparr>"

definition demo_library :: admin_library where
  "demo_library = \<lparr>al_float_repr = (\<lambda>_. []), al_jsonb = (\<lambda>d. d), al_fromisoformat = (\<lambda>_. Inl (ValueErr [])),
     al_date_refused = (\<lambda>d. d)\<rparr>"

lemma demo_admin_closing:
  "\<exists>db' r. billing_admin demo_library demo_admin_app demo_headers 9 (\<lambda>_. [])
     (UpdatePeriodStatus ''billing_period_b'' ''closing'') demo_setup = (db', Inr r) \<and>
     map bp_status (billing_periods db') = [PClosing]"
proof -
  have g: "get_billing_period_row demo_setup ''billing_period_b'' = Inr demo_period"
    by (simp add: get_billing_period_row_def demo_setup_def demo_period_def new_period_def)
  have "update_billing_period_status demo_setup 9 ''billing_period_b'' ''closing'' =
      Inr (update_period demo_setup ''billing_period_b'' (set_period_status 9 PClosing),
        set_period_status 9 PClosing demo_period)"
    by (simp add: update_billing_period_status_def g parse_period_status_def demo_period_def new_period_def)
  then show ?thesis
    by (simp add: billing_admin_def require_admin_api_key_def demo_admin_app_def demo_headers_def str_or_def
        reply_as_def admin_update_billing_period_status_def parse_period_status_def admin_billing_repository_def
        map_error_def update_period_def demo_setup_def demo_period_def new_period_def set_period_status_def)
qed


definition activated_demo :: database where
  "activated_demo = demo_setup\<lparr>commercial_events := [new_event
     (''subscription_status_updated:'' @ ''subscription_s'' @ '':'' @ ''active'') ''subscription_status_updated''
     ''active'' None None None None []]\<rparr>"

lemma repeated_status_change_unlogged_witness:
  "\<exists>db' reply. admin_update_subscription_status demo_admin_app 9 ''subscription_s'' ''active'' activated_demo =
     (db', Inr reply) \<and> length (commercial_events db') = 1 \<and>
     (\<exists>s \<in> set (subscriptions db'). sub_status s = ''active'' \<and> sub_updated_at s = 9)"
proof -
  have "\<exists>db' reply. admin_update_subscription_status demo_admin_app 9 ''subscription_s'' ''active'' activated_demo =
      (db', Inr reply)"
    by (simp add: admin_update_subscription_status_def subscription_statuses_def admin_billing_repository_def
        demo_admin_app_def update_subscription_status_def map_error_def activated_demo_def demo_setup_def
        demo_subscription_def)
  then obtain db' reply where u: "admin_update_subscription_status demo_admin_app 9 ''subscription_s'' ''active''
      activated_demo = (db', Inr reply)" by blast
  have e: "list_ex (\<lambda>e. ce_event_id e = ''subscription_status_updated:'' @ ''subscription_s'' @ '':'' @ ''active'')
      (commercial_events activated_demo)" "length (commercial_events activated_demo) = 1"
    by (simp_all add: activated_demo_def new_event_def)
  from repeated_status_change_unlogged [OF u e(1)] u e(2) show ?thesis by metis
qed

lemma status_route_closes_silently_witness:
  "fst (admin_update_billing_period_status demo_admin_app 7 ''billing_period_b'' ''closed'' demo_setup) = closed_demo \<and>
   commercial_events closed_demo = [] \<and>
   list_ex (\<lambda>e. ce_event_id e = ''billing_period_closed:billing_period_b'')
     (commercial_events (fst (admin_close_billing_period demo_admin_app 7 ''billing_period_b'' demo_setup)))"
proof -
  have "\<exists>row. update_billing_period_status demo_setup 7 ''billing_period_b'' ''closed'' = Inr (closed_demo, row)"
    by (rule closed_demo_step)
  then obtain row where "update_billing_period_status demo_setup 7 ''billing_period_b'' ''closed'' = Inr (closed_demo, row)"
    by blast
  from status_route_closes_silently [OF this, of demo_admin_app] show ?thesis
    by (simp add: demo_admin_app_def) (simp add: demo_setup_def empty_database_def)
qed

definition demo_materialization :: materialization_request where
  "demo_materialization = \<lparr>mq_tenant_id = ''t1'', mq_subscription_id = None, mq_billing_period_id = None,
     mq_rollup_date = Some ''2024-01-01'', mq_limit = 500\<rparr>"

lemma rollup_date_refused_witness:
  "\<exists>code detail. billing_admin_handler demo_library demo_admin_app 9 (\<lambda>_. []) (MaterializeRollups demo_materialization)
     demo_setup = (demo_setup, Inl (HTTPException code detail))"
  by (rule rollup_date_refused [where d = "''2024-01-01''"]) (simp_all add: demo_materialization_def demo_admin_app_def)

end
