(* ===== verification/PolicyStore.thy ===== *)
theory PolicyStore
  imports EventLog Authz
begin

text \<open>
  Scoped policies: the repository of \<open>app/controlplane/repositories/policies.py\<close> with its
  versions, assignments, namespace overrides and change log, and the resolver of
  \<open>app/controlplane/services/policy_resolver.py\<close>. Writes are separate statements: what came
  before a failing one stays, so an operation returns the tables with every outcome.
\<close>

section \<open>Tables\<close>

record policy_fields =
  pf_dlp_enabled :: bool
  pf_dlp_scrub_level :: string
  pf_semantic_enabled :: bool
  pf_semantic_threshold :: real
  pf_semantic_shadow_threshold :: real
  pf_semantic_max_temperature :: real
  pf_identity_guard_enabled :: bool
  pf_identity_strict_mode_enabled :: bool
  pf_identity_partitioning_enabled :: bool
  pf_multimodal_hard_alignment_enabled :: bool
  pf_policy_timing_breakdown_enabled :: bool
  pf_strict_namespace_prefixes :: "string list"
  pf_high_risk_namespace_prefixes :: "string list"
  pf_extension_fields :: dict

record policy_version_row =
  pv_id :: string
  pv_scope_type :: string
  pv_scope_ref_id :: "string option"
  pv_version_number :: int
  pv_is_active :: bool
  pv_fields :: policy_fields
  pv_created_by :: "string option"
  pv_change_reason :: "string option"
  pv_created_at :: timestamp

record assignment_row =
  pa_id :: string
  pa_tenant_id :: "string option"
  pa_workspace_id :: "string option"
  pa_environment_id :: "string option"
  pa_scope_type :: string
  pa_policy_version_id :: string
  pa_effective_from :: timestamp
  pa_effective_to :: "timestamp option"
  pa_status :: string
  pa_created_at :: timestamp

record namespace_override_row =
  no_id :: string
  no_tenant_id :: string
  no_workspace_id :: string
  no_environment_id :: "string option"
  no_namespace :: string
  no_policy_version_id :: string
  no_status :: string
  no_created_at :: timestamp
  no_updated_at :: timestamp

record policy_change_row =
  pc_id :: string
  pc_tenant_id :: "string option"
  pc_workspace_id :: "string option"
  pc_namespace :: "string option"
  pc_previous_policy_version_id :: "string option"
  pc_new_policy_version_id :: string
  pc_change_actor_type :: string
  pc_change_actor_id :: "string option"
  pc_change_reason :: "string option"
  pc_source :: string
  pc_created_at :: timestamp

record policy_db =
  policy_versions :: "policy_version_row list"
  policy_assignments :: "assignment_row list"
  namespace_policy_overrides :: "namespace_override_row list"
  policy_change_log :: "policy_change_row list"

definition empty_policies :: policy_db where
  "empty_policies = \<lparr>policy_versions = [], policy_assignments = [], namespace_policy_overrides = [],
     policy_change_log = []\<rparr>"

section \<open>Versions\<close>

definition insert_version :: "policy_db \<Rightarrow> policy_version_row \<Rightarrow> policy_db result" where
  "insert_version db v =
     (if list_ex (\<lambda>w. pv_id w = pv_id v) (policy_versions db) then Inl (UniqueViolation ''policy_versions_pkey'')
      else if list_ex (\<lambda>w. pv_scope_type w = pv_scope_type v \<and> pv_scope_ref_id v \<noteq> None \<and>
                 pv_scope_ref_id w = pv_scope_ref_id v \<and> pv_version_number w = pv_version_number v)
             (policy_versions db)
      then Inl (UniqueViolation ''policy_versions_scope_type_scope_ref_id_version_number_key'')
      else Inr (db\<lparr>policy_versions := policy_versions db @ [v]\<rparr>))"

definition scope_versions :: "policy_db \<Rightarrow> string \<Rightarrow> string option \<Rightarrow> policy_version_row list" where
  "scope_versions db scope_type scope_ref_id =
     filter (\<lambda>v. pv_scope_type v = scope_type \<and> pv_scope_ref_id v = scope_ref_id) (policy_versions db)"

definition current_version :: "policy_db \<Rightarrow> string \<Rightarrow> string option \<Rightarrow> int" where
  "current_version db scope_type scope_ref_id =
     fold max (map pv_version_number (scope_versions db scope_type scope_ref_id)) 0"

definition create_policy_version ::
  "policy_db \<Rightarrow> timestamp \<Rightarrow> string \<Rightarrow> string \<Rightarrow> string option \<Rightarrow> policy_fields \<Rightarrow> string \<Rightarrow> string option \<Rightarrow>
   (policy_db \<times> string) result" where
  "create_policy_version db now uuid scope_type scope_ref_id policy created_by change_reason =
     (let version_id = ''policy_'' @ uuid in
      rbind (insert_version db
              \<lparr>pv_id = version_id, pv_scope_type = scope_type, pv_scope_ref_id = scope_ref_id,
               pv_version_number = current_version db scope_type scope_ref_id + 1, pv_is_active = True,
               pv_fields = policy, pv_created_by = Some created_by, pv_change_reason = change_reason,
               pv_created_at = now\<rparr>)
        (\<lambda>db'. Inr (db', version_id)))"

definition list_policy_versions :: "policy_db \<Rightarrow> string option \<Rightarrow> string option \<Rightarrow> policy_version_row list" where
  "list_policy_versions db scope_type scope_ref_id =
     order_desc (\<lambda>v. [pv_created_at v])
       (filter (\<lambda>v. (truthy scope_type \<longrightarrow> Some (pv_scope_type v) = scope_type) \<and>
                    (scope_ref_id \<noteq> None \<longrightarrow> pv_scope_ref_id v = scope_ref_id)) (policy_versions db))"

section \<open>Assignments and overrides\<close>

definition version_exists :: "policy_db \<Rightarrow> string \<Rightarrow> bool" where
  "version_exists db vid = list_ex (\<lambda>v. pv_id v = vid) (policy_versions db)"

definition insert_assignment :: "policy_db \<Rightarrow> assignment_row \<Rightarrow> policy_db result" where
  "insert_assignment db a =
     (if list_ex (\<lambda>b. pa_id b = pa_id a) (policy_assignments db)
      then Inl (UniqueViolation ''policy_assignments_pkey'')
      else if \<not> version_exists db (pa_policy_version_id a)
      then Inl (ForeignKeyViolation ''policy_assignments.policy_version_id'')
      else Inr (db\<lparr>policy_assignments := policy_assignments db @ [a]\<rparr>))"

definition insert_override :: "policy_db \<Rightarrow> namespace_override_row \<Rightarrow> policy_db result" where
  "insert_override db r =
     (if list_ex (\<lambda>b. no_id b = no_id r) (namespace_policy_overrides db)
      then Inl (UniqueViolation ''namespace_policy_overrides_pkey'')
      else if \<not> version_exists db (no_policy_version_id r)
      then Inl (ForeignKeyViolation ''namespace_policy_overrides.policy_version_id'')
      else Inr (db\<lparr>namespace_policy_overrides := namespace_policy_overrides db @ [r]\<rparr>))"

definition log_policy_change :: "policy_db \<Rightarrow> policy_change_row \<Rightarrow> policy_db result" where
  "log_policy_change db c =
     (if list_ex (\<lambda>b. pc_id b = pc_id c) (policy_change_log db)
      then Inl (UniqueViolation ''policy_change_log_pkey'')
      else if \<not> version_exists db (pc_new_policy_version_id c)
      then Inl (ForeignKeyViolation ''policy_change_log.new_policy_version_id'')
      else Inr (db\<lparr>policy_change_log := policy_change_log db @ [c]\<rparr>))"

record assign_args =
  as_scope_type :: string
  as_policy_version_id :: string
  as_tenant_id :: "string option"
  as_workspace_id :: "string option"
  as_environment_id :: "string option"
  as_actor_id :: string
  as_change_reason :: "string option"

definition same_scope :: "assign_args \<Rightarrow> assignment_row \<Rightarrow> bool" where
  "same_scope a r \<longleftrightarrow> pa_scope_type r = as_scope_type a \<and> pa_tenant_id r = as_tenant_id a \<and>
     pa_workspace_id r = as_workspace_id a \<and> pa_environment_id r = as_environment_id a \<and>
     pa_status r = ''active''"

definition retire_assignment :: "timestamp \<Rightarrow> string \<Rightarrow> policy_db \<Rightarrow> policy_db" where
  "retire_assignment now aid db = db\<lparr>policy_assignments := map (\<lambda>r. if pa_id r = aid
     then r\<lparr>pa_status := ''inactive'', pa_effective_to := Some now\<rparr> else r) (policy_assignments db)\<rparr>"

definition new_assignment :: "timestamp \<Rightarrow> string \<Rightarrow> assign_args \<Rightarrow> assignment_row" where
  "new_assignment now aid a = \<lparr>pa_id = aid, pa_tenant_id = as_tenant_id a,
     pa_workspace_id = as_workspace_id a, pa_environment_id = as_environment_id a,
     pa_scope_type = as_scope_type a, pa_policy_version_id = as_policy_version_id a,
     pa_effective_from = now, pa_effective_to = None, pa_status = ''active'', pa_created_at = now\<rparr>"

definition assign_policy ::
  "policy_db \<Rightarrow> timestamp \<Rightarrow> string \<Rightarrow> string \<Rightarrow> assign_args \<Rightarrow> policy_db \<times> string result" where
  "assign_policy db now uuid uuid_log a =
     (let previous = find (same_scope a) (policy_assignments db);
          db1 = (case previous of None \<Rightarrow> db | Some r \<Rightarrow> retire_assignment now (pa_id r) db);
          aid = ''assignment_'' @ uuid
      in case insert_assignment db1 (new_assignment now aid a) of
           Inl e \<Rightarrow> (db1, Inl e)
         | Inr db2 \<Rightarrow>
             (case log_policy_change db2
                     \<lparr>pc_id = ''policy_change_'' @ uuid_log, pc_tenant_id = as_tenant_id a,
                      pc_workspace_id = as_workspace_id a, pc_namespace = None,
                      pc_previous_policy_version_id = map_option pa_policy_version_id previous,
                      pc_new_policy_version_id = as_policy_version_id a,
                      pc_change_actor_type = ''platform_admin'', pc_change_actor_id = Some (as_actor_id a),
                      pc_change_reason = as_change_reason a, pc_source = ''api'', pc_created_at = now\<rparr> of
                Inl e \<Rightarrow> (db2, Inl e)
              | Inr db3 \<Rightarrow> (db3, Inr aid)))"

record override_args =
  oa_tenant_id :: string
  oa_workspace_id :: string
  oa_environment_id :: "string option"
  oa_namespace :: string
  oa_policy_version_id :: string
  oa_actor_id :: string
  oa_change_reason :: "string option"

definition same_namespace :: "override_args \<Rightarrow> namespace_override_row \<Rightarrow> bool" where
  "same_namespace a r \<longleftrightarrow> no_workspace_id r = oa_workspace_id a \<and>
     no_environment_id r = oa_environment_id a \<and> no_namespace r = oa_namespace a \<and> no_status r = ''active''"

definition retire_override :: "timestamp \<Rightarrow> string \<Rightarrow> policy_db \<Rightarrow> policy_db" where
  "retire_override now rid db = db\<lparr>namespace_policy_overrides := map (\<lambda>r. if no_id r = rid
     then r\<lparr>no_status := ''inactive'', no_updated_at := now\<rparr> else r) (namespace_policy_overrides db)\<rparr>"

definition set_namespace_override ::
  "policy_db \<Rightarrow> timestamp \<Rightarrow> string \<Rightarrow> string \<Rightarrow> override_args \<Rightarrow> policy_db \<times> string result" where
  "set_namespace_override db now uuid uuid_log a =
     (let previous = find (same_namespace a) (namespace_policy_overrides db);
          db1 = (case previous of None \<Rightarrow> db | Some r \<Rightarrow> retire_override now (no_id r) db);
          rid = ''namespace_override_'' @ uuid
      in case insert_override db1
                \<lparr>no_id = rid, no_tenant_id = oa_tenant_id a, no_workspace_id = oa_workspace_id a,
                 no_environment_id = oa_environment_id a, no_namespace = oa_namespace a,
                 no_policy_version_id = oa_policy_version_id a, no_status = ''active'',
                 no_created_at = now, no_updated_at = now\<rparr> of
           Inl e \<Rightarrow> (db1, Inl e)
         | Inr db2 \<Rightarrow>
             (case log_policy_change db2
                     \<lparr>pc_id = ''policy_change_'' @ uuid_log, pc_tenant_id = Some (oa_tenant_id a),
                      pc_workspace_id = Some (oa_workspace_id a), pc_namespace = Some (oa_namespace a),
                      pc_previous_policy_version_id = map_option no_policy_version_id previous,
                      pc_new_policy_version_id = oa_policy_version_id a,
                      pc_change_actor_type = ''platform_admin'', pc_change_actor_id = Some (oa_actor_id a),
                      pc_change_reason = oa_change_reason a, pc_source = ''api'', pc_created_at = now\<rparr> of
                Inl e \<Rightarrow> (db2, Inl e)
              | Inr db3 \<Rightarrow> (db3, Inr rid)))"

text \<open>The first global version and its assignment, made at start-up.\<close>

definition global_version :: "policy_db \<Rightarrow> timestamp \<Rightarrow> string \<Rightarrow> policy_fields \<Rightarrow> (policy_db \<times> string) result" where
  "global_version db now uuid defaults =
     (case find (\<lambda>v. pv_scope_type v = ''global'' \<and> pv_scope_ref_id v = None \<and> pv_version_number v = 1)
             (policy_versions db) of
        Some v \<Rightarrow> Inr (db, pv_id v)
      | None \<Rightarrow>
          let vid = ''policy_global_'' @ uuid in
          rbind (insert_version db
                  \<lparr>pv_id = vid, pv_scope_type = ''global'', pv_scope_ref_id = None, pv_version_number = 1,
                   pv_is_active = True, pv_fields = defaults\<lparr>pf_extension_fields := []\<rparr>,
                   pv_created_by = Some ''system'', pv_change_reason = Some ''bootstrap'', pv_created_at = now\<rparr>)
            (\<lambda>db'. Inr (db', vid)))"

definition ensure_global_policy ::
  "policy_db \<Rightarrow> timestamp \<Rightarrow> string \<Rightarrow> string \<Rightarrow> policy_fields \<Rightarrow> policy_db \<times> string result" where
  "ensure_global_policy db now uuid_v uuid_a defaults =
     (case global_version db now uuid_v defaults of
        Inl e \<Rightarrow> (db, Inl e)
      | Inr (db1, vid) \<Rightarrow>
          if list_ex (\<lambda>r. pa_scope_type r = ''global'' \<and> pa_status r = ''active'') (policy_assignments db1)
          then (db1, Inr vid)
          else (case insert_assignment db1 (new_assignment now (''assignment_global_'' @ uuid_a)
                       \<lparr>as_scope_type = ''global'', as_policy_version_id = vid, as_tenant_id = None,
                        as_workspace_id = None, as_environment_id = None, as_actor_id = [],
                        as_change_reason = None\<rparr>) of
                  Inl e \<Rightarrow> (db1, Inl e)
                | Inr db2 \<Rightarrow> (db2, Inr vid)))"

section \<open>Listings\<close>

definition list_policy_assignments :: "policy_db \<Rightarrow> assignment_row list" where
  "list_policy_assignments db = order_desc (\<lambda>r. [pa_created_at r]) (policy_assignments db)"

definition list_namespace_overrides :: "policy_db \<Rightarrow> string option \<Rightarrow> namespace_override_row list" where
  "list_namespace_overrides db workspace_id =
     order_desc (\<lambda>r. [no_updated_at r])
       (if truthy workspace_id then filter (\<lambda>r. Some (no_workspace_id r) = workspace_id) (namespace_policy_overrides db)
        else namespace_policy_overrides db)"

definition list_policy_change_log :: "policy_db \<Rightarrow> nat \<Rightarrow> policy_change_row list" where
  "list_policy_change_log db limit = take limit (order_desc (\<lambda>r. [pc_created_at r]) (policy_change_log db))"

section \<open>The effective policy\<close>

record effective_policy =
  ep_policy_version_id :: "string option"
  ep_policy_mode :: string
  ep_fields :: policy_fields
  ep_source_scope :: string
  ep_source_ref_id :: "string option"

definition infer_policy_mode :: "string list \<Rightarrow> string list \<Rightarrow> string" where
  "infer_policy_mode strict_prefixes high_risk_prefixes =
     (if strict_prefixes \<noteq> [] then ''hard''
      else if high_risk_prefixes \<noteq> [] then ''soft'' else ''soft'')"

definition row_to_effective_policy :: "policy_version_row \<Rightarrow> string \<Rightarrow> string option \<Rightarrow> effective_policy" where
  "row_to_effective_policy v source_scope source_ref_id = (let f = pv_fields v in
     \<lparr>ep_policy_version_id = Some (pv_id v),
      ep_policy_mode = infer_policy_mode (pf_strict_namespace_prefixes f) (pf_high_risk_namespace_prefixes f),
      ep_fields = f, ep_source_scope = source_scope, ep_source_ref_id = source_ref_id\<rparr>)"

text \<open>
  SQL \<open>LIKE\<close>: \<open>%\<close> stands for any text, \<open>_\<close> for one character, and a backslash takes the next
  character literally. (PostgreSQL raises for a pattern that ends in the backslash; here it
  matches nothing.)
\<close>

fun like :: "string \<Rightarrow> string \<Rightarrow> bool" where
  "like [] s = (s = [])"
| "like (c # p) s =
     (if c = CHR 0x25 then like p s \<or> (case s of [] \<Rightarrow> False | _ # t \<Rightarrow> like (c # p) t)
      else if c = CHR 0x5C then (case p of [] \<Rightarrow> False | e # q \<Rightarrow>
             (case s of [] \<Rightarrow> False | d # t \<Rightarrow> d = e \<and> like q t))
      else (case s of [] \<Rightarrow> False | d # t \<Rightarrow> (c = CHR 0x5F \<or> c = d) \<and> like p t))"

definition override_pattern :: "string \<Rightarrow> string" where
  "override_pattern ns = map (\<lambda>c. if c = CHR ''*'' then CHR 0x25 else c) ns"

definition version_of :: "policy_db \<Rightarrow> string \<Rightarrow> policy_version_row option" where
  "version_of db vid = find (\<lambda>v. pv_id v = vid) (policy_versions db)"

definition override_applies :: "string \<Rightarrow> string option \<Rightarrow> string \<Rightarrow> namespace_override_row \<Rightarrow> bool" where
  "override_applies workspace_id environment_id namespace r \<longleftrightarrow>
     no_workspace_id r = workspace_id \<and>
     (no_environment_id r = None \<or> no_environment_id r = environment_id) \<and>
     no_status r = ''active'' \<and> like (override_pattern (no_namespace r)) namespace"

definition matched_override ::
  "policy_db \<Rightarrow> string option \<Rightarrow> string option \<Rightarrow> string \<Rightarrow> (namespace_override_row \<times> policy_version_row) option" where
  "matched_override db workspace_id environment_id namespace =
     (if \<not> truthy workspace_id then None
      else first_row (order_desc (\<lambda>(r, v). [int (length (no_namespace r))])
             (List.map_filter (\<lambda>r. map_option (Pair r) (version_of db (no_policy_version_id r)))
                (filter (override_applies (the workspace_id) environment_id namespace)
                   (namespace_policy_overrides db)))))"

definition scope_rank :: "string \<Rightarrow> int" where
  "scope_rank scope_type =
     (if scope_type = ''workspace'' then 3 else if scope_type = ''tenant'' then 2
      else if scope_type = ''global'' then 1 else 0)"

definition assignment_applies ::
  "timestamp \<Rightarrow> string option \<Rightarrow> string option \<Rightarrow> assignment_row \<Rightarrow> bool" where
  "assignment_applies now workspace_id tenant_id r \<longleftrightarrow>
     pa_status r = ''active'' \<and> pa_effective_from r \<le> now \<and>
     (case pa_effective_to r of None \<Rightarrow> True | Some t \<Rightarrow> t > now) \<and>
     (pa_scope_type r = ''workspace'' \<and> workspace_id \<noteq> None \<and> pa_workspace_id r = workspace_id \<or>
      pa_scope_type r = ''tenant'' \<and> tenant_id \<noteq> None \<and> pa_tenant_id r = tenant_id \<or>
      pa_scope_type r = ''global'')"

definition matched_assignment ::
  "policy_db \<Rightarrow> timestamp \<Rightarrow> string option \<Rightarrow> string option \<Rightarrow> (assignment_row \<times> policy_version_row) option" where
  "matched_assignment db now workspace_id tenant_id =
     first_row (order_desc (\<lambda>(r, v). [scope_rank (pa_scope_type r), pa_created_at r])
       (List.map_filter (\<lambda>r. map_option (Pair r) (version_of db (pa_policy_version_id r)))
          (filter (assignment_applies now workspace_id tenant_id) (policy_assignments db))))"

definition resolve_effective_policy ::
  "policy_db \<Rightarrow> timestamp \<Rightarrow> string option \<Rightarrow> string option \<Rightarrow> string option \<Rightarrow> string \<Rightarrow>
   effective_policy option" where
  "resolve_effective_policy db now tenant_id workspace_id environment_id namespace =
     (case matched_override db workspace_id environment_id namespace of
        Some (r, v) \<Rightarrow> Some (row_to_effective_policy v ''namespace'' (Some (no_workspace_id r)))
      | None \<Rightarrow>
          map_option (\<lambda>(r, v). row_to_effective_policy v (pa_scope_type r)
                                 (str_or (pa_workspace_id r) (pa_tenant_id r)))
            (matched_assignment db now workspace_id tenant_id))"

section \<open>The resolver\<close>

record policy_context =
  px_tenant_id :: "string option"
  px_workspace_id :: "string option"
  px_environment_id :: "string option"
  px_namespace :: string

fun split_on :: "char \<Rightarrow> string \<Rightarrow> string list" where
  "split_on sep [] = [[]]"
| "split_on sep (c # cs) =
     (case split_on sep cs of
        [] \<Rightarrow> [[c]]
      | w # ws \<Rightarrow> if c = sep then [] # w # ws else (c # w) # ws)"

definition split_prefixes :: "string \<Rightarrow> string list" where
  "split_prefixes raw = map strip (filter (\<lambda>item. strip item \<noteq> []) (split_on CHR '','' raw))"

definition runtime_default_policy :: "settings \<Rightarrow> effective_policy" where
  "runtime_default_policy cfg = \<lparr>ep_policy_version_id = None, ep_policy_mode = ''soft'',
     ep_fields = \<lparr>pf_dlp_enabled = cfg_dlp_enabled cfg, pf_dlp_scrub_level = cfg_dlp_scrub_level cfg,
       pf_semantic_enabled = cfg_semantic_enabled cfg, pf_semantic_threshold = cfg_semantic_threshold cfg,
       pf_semantic_shadow_threshold = cfg_semantic_shadow_threshold cfg,
       pf_semantic_max_temperature = cfg_semantic_max_temperature cfg,
       pf_identity_guard_enabled = cfg_identity_guard_enabled cfg,
       pf_identity_strict_mode_enabled = cfg_identity_strict_mode_enabled cfg,
       pf_identity_partitioning_enabled = cfg_identity_partitioning_enabled cfg,
       pf_multimodal_hard_alignment_enabled = cfg_multimodal_hard_alignment_enabled cfg,
       pf_policy_timing_breakdown_enabled = cfg_policy_timing_breakdown_enabled cfg,
       pf_strict_namespace_prefixes = split_prefixes (cfg_semantic_disabled_namespace_prefixes cfg),
       pf_high_risk_namespace_prefixes = split_prefixes (cfg_semantic_high_risk_namespace_prefixes cfg),
       pf_extension_fields = []\<rparr>,
     ep_source_scope = ''runtime_default'', ep_source_ref_id = None\<rparr>"

definition resolver_resolve ::
  "policy_db option \<Rightarrow> timestamp \<Rightarrow> settings \<Rightarrow> policy_context \<Rightarrow> effective_policy" where
  "resolver_resolve repository now cfg ctx =
     (case (case repository of
              None \<Rightarrow> None
            | Some db \<Rightarrow>
                if truthy (px_tenant_id ctx) \<and> truthy (px_workspace_id ctx)
                then resolve_effective_policy db now (px_tenant_id ctx) (px_workspace_id ctx)
                       (px_environment_id ctx) (px_namespace ctx)
                else None) of
        Some p \<Rightarrow> p
      | None \<Rightarrow> runtime_default_policy cfg)"

end
