(* ===== verification/PolicyStoreProperties.thy ===== *)
theory PolicyStoreProperties
  imports PolicyStore
begin

text \<open>
  The scoped policies: what every run of the repository keeps of its tables, which policy a
  request resolves to, and how far a namespace override and an assignment reach.
\<close>

section \<open>Runs of the repository\<close>

text \<open>A step is one call, successful or not: the tables it leaves are those the code commits.\<close>

inductive policy_step :: "policy_db \<Rightarrow> policy_db \<Rightarrow> bool" where
  step_version: "create_policy_version db now uuid st ref f by why = Inr (db', vid) \<Longrightarrow> policy_step db db'"
| step_assign: "assign_policy db now uuid uuid' a = (db', r) \<Longrightarrow> policy_step db db'"
| step_override: "set_namespace_override db now uuid uuid' b = (db', r) \<Longrightarrow> policy_step db db'"
| step_global: "ensure_global_policy db now uuid uuid' f = (db', r) \<Longrightarrow> policy_step db db'"

definition policies_reachable :: "policy_db \<Rightarrow> bool" where
  "policies_reachable db = policy_step\<^sup>*\<^sup>* empty_policies db"

definition assignment_scope :: "assignment_row \<Rightarrow> string \<times> string option \<times> string option \<times> string option" where
  "assignment_scope r = (pa_scope_type r, pa_tenant_id r, pa_workspace_id r, pa_environment_id r)"

definition override_scope :: "namespace_override_row \<Rightarrow> string \<times> string option \<times> string" where
  "override_scope r = (no_workspace_id r, no_environment_id r, no_namespace r)"

definition active_assignments :: "policy_db \<Rightarrow> assignment_row list" where
  "active_assignments db = filter (\<lambda>r. pa_status r = ''active'') (policy_assignments db)"

definition active_overrides :: "policy_db \<Rightarrow> namespace_override_row list" where
  "active_overrides db = filter (\<lambda>r. no_status r = ''active'') (namespace_policy_overrides db)"

definition numbered :: "policy_db \<Rightarrow> bool" where
  "numbered db \<longleftrightarrow> (\<forall>st ref. map pv_version_number (scope_versions db st ref) =
     map int [1..<Suc (length (scope_versions db st ref))])"

definition policies_ok :: "policy_db \<Rightarrow> bool" where
  "policies_ok db \<longleftrightarrow> distinct (map pv_id (policy_versions db)) \<and> numbered db \<and>
     distinct (map pa_id (policy_assignments db)) \<and>
     distinct (map assignment_scope (active_assignments db)) \<and>
     distinct (map no_id (namespace_policy_overrides db)) \<and>
     distinct (map override_scope (active_overrides db)) \<and>
     pa_policy_version_id ` set (policy_assignments db) \<subseteq> pv_id ` set (policy_versions db) \<and>
     no_policy_version_id ` set (namespace_policy_overrides db) \<subseteq> pv_id ` set (policy_versions db)"

section \<open>Versions are numbered in order\<close>

lemma version_exists_iff: "version_exists db vid \<longleftrightarrow> vid \<in> pv_id ` set (policy_versions db)"
  by (auto simp: version_exists_def list_ex_iff)

lemma fold_max_upto: "fold max (map int [1..<Suc n]) 0 = int n"
  by (induction n) simp_all

lemma current_version_numbered:
  "numbered db \<Longrightarrow> current_version db st ref = int (length (scope_versions db st ref))"
  unfolding numbered_def current_version_def by (simp only: fold_max_upto)

lemma numbered_insert:
  assumes "insert_version db v = Inr db'" "numbered db"
    and "pv_version_number v = current_version db (pv_scope_type v) (pv_scope_ref_id v) + 1"
  shows "numbered db'"
  unfolding numbered_def
proof (intro allI)
  fix st ref
  have db': "policy_versions db' = policy_versions db @ [v]"
    using assms(1) by (auto simp: insert_version_def split: if_splits)
  show "map pv_version_number (scope_versions db' st ref) = map int [1..<Suc (length (scope_versions db' st ref))]"
  proof (cases "pv_scope_type v = st \<and> pv_scope_ref_id v = ref")
    case True
    then have s: "scope_versions db' st ref = scope_versions db st ref @ [v]" by (simp add: scope_versions_def db')
    have "pv_version_number v = int (length (scope_versions db st ref)) + 1"
      using assms(3) True current_version_numbered [OF assms(2)] by simp
    with s assms(2) show ?thesis by (simp add: numbered_def)
  next
    case False
    then have "scope_versions db' st ref = scope_versions db st ref" by (auto simp: scope_versions_def db')
    with assms(2) show ?thesis by (simp add: numbered_def)
  qed
qed

lemma policies_ok_version:
  assumes "insert_version db v = Inr db'" "policies_ok db"
    and "pv_version_number v = current_version db (pv_scope_type v) (pv_scope_ref_id v) + 1"
  shows "policies_ok db'"
proof -
  have "numbered db'" using numbered_insert assms by (simp add: policies_ok_def)
  moreover have "db' = db\<lparr>policy_versions := policy_versions db @ [v]\<rparr>" "pv_id v \<notin> pv_id ` set (policy_versions db)"
    using assms(1) by (auto simp: insert_version_def list_ex_iff split: if_splits)
  ultimately show ?thesis using assms(2)
    by (auto simp: policies_ok_def active_assignments_def active_overrides_def)
qed

section \<open>One active row per scope\<close>

lemma same_scope_iff:
  "same_scope a r \<longleftrightarrow> pa_status r = ''active'' \<and>
     assignment_scope r = (as_scope_type a, as_tenant_id a, as_workspace_id a, as_environment_id a)"
  by (auto simp: same_scope_def assignment_scope_def)

lemma same_namespace_iff:
  "same_namespace b r \<longleftrightarrow> no_status r = ''active'' \<and>
     override_scope r = (oa_workspace_id b, oa_environment_id b, oa_namespace b)"
  by (auto simp: same_namespace_def override_scope_def)

text \<open>Retiring the row of one identifier takes exactly its scope out of the active ones.\<close>

lemma retire_filter:
  assumes "distinct (map k rows)" "\<And>r. k (f r) = k r" "\<And>r. \<not> P (f r)"
  shows "filter P (map (\<lambda>r. if k r = i then f r else r) rows) = filter (\<lambda>r. k r \<noteq> i) (filter P rows)"
  using assms by (induction rows) auto

lemma active_retired:
  "distinct (map pa_id (policy_assignments db)) \<Longrightarrow>
   active_assignments (retire_assignment now aid db) = filter (\<lambda>r. pa_id r \<noteq> aid) (active_assignments db)"
  using retire_filter [of pa_id "policy_assignments db" "\<lambda>r. r\<lparr>pa_status := ''inactive'', pa_effective_to := Some now\<rparr>"
      "\<lambda>r. pa_status r = ''active''" aid]
  by (simp add: active_assignments_def retire_assignment_def)

lemma overrides_retired:
  "distinct (map no_id (namespace_policy_overrides db)) \<Longrightarrow>
   active_overrides (retire_override now rid db) = filter (\<lambda>r. no_id r \<noteq> rid) (active_overrides db)"
  using retire_filter [of no_id "namespace_policy_overrides db" "\<lambda>r. r\<lparr>no_status := ''inactive'', no_updated_at := now\<rparr>"
      "\<lambda>r. no_status r = ''active''" rid]
  by (simp add: active_overrides_def retire_override_def)

section \<open>Every call keeps the invariant\<close>

lemma numbered_cong: "policy_versions db' = policy_versions db \<Longrightarrow> numbered db' = numbered db"
  by (simp add: numbered_def scope_versions_def)

lemma policies_ok_log:
  assumes "log_policy_change db c = Inr db'"
  shows "policies_ok db' = policies_ok db"
proof -
  have "db' = db\<lparr>policy_change_log := policy_change_log db @ [c]\<rparr>"
    using assms by (auto simp: log_policy_change_def split: if_splits)
  then show ?thesis
    by (simp add: policies_ok_def active_assignments_def active_overrides_def numbered_def scope_versions_def)
qed

lemma map_pa_id_retire [simp]:
  "map pa_id (policy_assignments (retire_assignment now i db)) = map pa_id (policy_assignments db)"
  "map no_id (namespace_policy_overrides (retire_override now i db)) = map no_id (namespace_policy_overrides db)"
  by (simp_all add: retire_assignment_def retire_override_def)

lemma retired_versions [simp]:
  "pa_policy_version_id ` set (policy_assignments (retire_assignment now i db))
     = pa_policy_version_id ` set (policy_assignments db)"
  "no_policy_version_id ` set (namespace_policy_overrides (retire_override now i db))
     = no_policy_version_id ` set (namespace_policy_overrides db)"
proof -
  have "map pa_policy_version_id (policy_assignments (retire_assignment now i db))
      = map pa_policy_version_id (policy_assignments db)"
    by (simp add: retire_assignment_def)
  then show "pa_policy_version_id ` set (policy_assignments (retire_assignment now i db))
     = pa_policy_version_id ` set (policy_assignments db)"
    by (metis list.set_map)
  have "map no_policy_version_id (namespace_policy_overrides (retire_override now i db))
      = map no_policy_version_id (namespace_policy_overrides db)"
    by (simp add: retire_override_def)
  then show "no_policy_version_id ` set (namespace_policy_overrides (retire_override now i db))
     = no_policy_version_id ` set (namespace_policy_overrides db)"
    by (metis list.set_map)
qed

lemma retire_frame [simp]:
  "policy_versions (retire_assignment now i db) = policy_versions db"
  "namespace_policy_overrides (retire_assignment now i db) = namespace_policy_overrides db"
  "policy_change_log (retire_assignment now i db) = policy_change_log db"
  "policy_versions (retire_override now i db) = policy_versions db"
  "policy_assignments (retire_override now i db) = policy_assignments db"
  "policy_change_log (retire_override now i db) = policy_change_log db"
  by (simp_all add: retire_assignment_def retire_override_def)

lemma policies_ok_retire:
  assumes "policies_ok db"
  shows "policies_ok (retire_assignment now i db)" "policies_ok (retire_override now i db)"
proof -
  have a: "active_overrides (retire_assignment now i db) = active_overrides db"
    "active_assignments (retire_override now i db) = active_assignments db"
    by (simp_all add: active_overrides_def active_assignments_def)
  have n: "numbered (retire_assignment now i db) = numbered db" "numbered (retire_override now i db) = numbered db"
    by (rule numbered_cong, simp)+
  show "policies_ok (retire_assignment now i db)" using assms
    by (simp add: policies_ok_def a n active_retired distinct_map_filter)
  show "policies_ok (retire_override now i db)" using assms
    by (simp add: policies_ok_def a n overrides_retired distinct_map_filter)
qed

lemma policies_ok_insert_assignment:
  assumes "insert_assignment db a = Inr db'" "policies_ok db"
    and "assignment_scope a \<notin> assignment_scope ` set (active_assignments db)"
  shows "policies_ok db'"
proof -
  have d: "db' = db\<lparr>policy_assignments := policy_assignments db @ [a]\<rparr>"
    "pa_id a \<notin> pa_id ` set (policy_assignments db)" "pa_policy_version_id a \<in> pv_id ` set (policy_versions db)"
    using assms(1) by (auto simp: insert_assignment_def list_ex_iff version_exists_iff split: if_splits)
  have "numbered db'" "active_overrides db' = active_overrides db"
    using assms(2) by (simp_all add: d policies_ok_def numbered_def scope_versions_def active_overrides_def)
  moreover have "distinct (map assignment_scope (active_assignments db'))"
    using assms(2,3) by (auto simp: d policies_ok_def active_assignments_def)
  ultimately show ?thesis using assms(2) d(2,3) by (simp add: d(1) policies_ok_def)
qed

lemma policies_ok_insert_override:
  assumes "insert_override db r = Inr db'" "policies_ok db"
    and "override_scope r \<notin> override_scope ` set (active_overrides db)"
  shows "policies_ok db'"
proof -
  have d: "db' = db\<lparr>namespace_policy_overrides := namespace_policy_overrides db @ [r]\<rparr>"
    "no_id r \<notin> no_id ` set (namespace_policy_overrides db)" "no_policy_version_id r \<in> pv_id ` set (policy_versions db)"
    using assms(1) by (auto simp: insert_override_def list_ex_iff version_exists_iff split: if_splits)
  have "numbered db'" "active_assignments db' = active_assignments db"
    using assms(2) by (simp_all add: d policies_ok_def numbered_def scope_versions_def active_assignments_def)
  moreover have "distinct (map override_scope (active_overrides db'))"
    using assms(2,3) by (auto simp: d policies_ok_def active_overrides_def)
  ultimately show ?thesis using assms(2) d(2,3) by (simp add: d(1) policies_ok_def)
qed

text \<open>The row found under a scope is the only active one; without it the scope is free.\<close>

lemma key_gone:
  assumes "distinct (map k xs)" "r \<in> set xs" "k r = s"
  shows "s \<notin> k ` set (filter (\<lambda>x. f x \<noteq> f r) xs)"
proof
  assume "s \<in> k ` set (filter (\<lambda>x. f x \<noteq> f r) xs)"
  then obtain x where "x \<in> set xs" "k x = s" "f x \<noteq> f r" by auto
  moreover from this have "x = r" using assms by (metis distinct_map inj_onD)
  ultimately show False by simp
qed

definition cleared_assignments :: "timestamp \<Rightarrow> assign_args \<Rightarrow> policy_db \<Rightarrow> policy_db" where
  "cleared_assignments now a db = (case find (same_scope a) (policy_assignments db) of
     None \<Rightarrow> db | Some r \<Rightarrow> retire_assignment now (pa_id r) db)"

definition cleared_overrides :: "timestamp \<Rightarrow> override_args \<Rightarrow> policy_db \<Rightarrow> policy_db" where
  "cleared_overrides now b db = (case find (same_namespace b) (namespace_policy_overrides db) of
     None \<Rightarrow> db | Some r \<Rightarrow> retire_override now (no_id r) db)"

lemma cleared_ok: "policies_ok db \<Longrightarrow> policies_ok (cleared_assignments now a db)"
  "policies_ok db \<Longrightarrow> policies_ok (cleared_overrides now b db)"
  by (auto simp: cleared_assignments_def cleared_overrides_def policies_ok_retire split: option.split)

lemma assignment_scope_free:
  assumes "policies_ok db"
  shows "(as_scope_type a, as_tenant_id a, as_workspace_id a, as_environment_id a)
           \<notin> assignment_scope ` set (active_assignments (cleared_assignments now a db))"
proof (cases "find (same_scope a) (policy_assignments db)")
  case None
  then have "\<not> (\<exists>x. x \<in> set (policy_assignments db) \<and> same_scope a x)" by (simp add: find_None_iff)
  then show ?thesis
    by (auto simp: cleared_assignments_def None same_scope_iff active_assignments_def)
next
  case (Some r)
  then have "r \<in> set (active_assignments db)"
    "assignment_scope r = (as_scope_type a, as_tenant_id a, as_workspace_id a, as_environment_id a)"
    by (auto simp: find_Some_iff same_scope_iff active_assignments_def)
  with Some assms show ?thesis
    by (simp add: cleared_assignments_def active_retired policies_ok_def key_gone del: set_filter)
qed

lemma override_scope_free:
  assumes "policies_ok db"
  shows "(oa_workspace_id b, oa_environment_id b, oa_namespace b)
           \<notin> override_scope ` set (active_overrides (cleared_overrides now b db))"
proof (cases "find (same_namespace b) (namespace_policy_overrides db)")
  case None
  then have "\<not> (\<exists>x. x \<in> set (namespace_policy_overrides db) \<and> same_namespace b x)"
    by (simp add: find_None_iff)
  then show ?thesis
    by (auto simp: cleared_overrides_def None same_namespace_iff active_overrides_def)
next
  case (Some r)
  then have "r \<in> set (active_overrides db)"
    "override_scope r = (oa_workspace_id b, oa_environment_id b, oa_namespace b)"
    by (auto simp: find_Some_iff same_namespace_iff active_overrides_def)
  with Some assms show ?thesis
    by (simp add: cleared_overrides_def overrides_retired policies_ok_def key_gone del: set_filter)
qed

lemma assign_policy_cases:
  assumes "assign_policy db now uuid uuid' a = (db', r)"
  obtains (refused) e where "insert_assignment (cleared_assignments now a db) (new_assignment now (''assignment_'' @ uuid) a) = Inl e"
      "r = Inl e" "db' = cleared_assignments now a db"
  | (stored) db2 where "insert_assignment (cleared_assignments now a db) (new_assignment now (''assignment_'' @ uuid) a) = Inr db2"
      "db' = db2 \<or> (\<exists>c. log_policy_change db2 c = Inr db')"
  using assms by (auto simp: assign_policy_def Let_def cleared_assignments_def split: sum.splits)

lemma set_override_cases:
  assumes "set_namespace_override db now uuid uuid' b = (db', r)"
  obtains (refused) e x where "insert_override (cleared_overrides now b db) x = Inl e" "r = Inl e"
      "db' = cleared_overrides now b db"
  | (stored) db2 x where "insert_override (cleared_overrides now b db) x = Inr db2"
      "override_scope x = (oa_workspace_id b, oa_environment_id b, oa_namespace b)"
      "db' = db2 \<or> (\<exists>c. log_policy_change db2 c = Inr db')"
proof (cases "insert_override (cleared_overrides now b db)
   \<lparr>no_id = ''namespace_override_'' @ uuid, no_tenant_id = oa_tenant_id b, no_workspace_id = oa_workspace_id b,
    no_environment_id = oa_environment_id b, no_namespace = oa_namespace b,
    no_policy_version_id = oa_policy_version_id b, no_status = ''active'',
    no_created_at = now, no_updated_at = now\<rparr>")
  case (Inl e)
  with assms show ?thesis
    by (intro refused [OF Inl]) (auto simp: set_namespace_override_def Let_def cleared_overrides_def)
next
  case (Inr db2)
  with assms show ?thesis
    by (intro stored [OF Inr])
      (auto simp: set_namespace_override_def Let_def cleared_overrides_def override_scope_def split: sum.splits)
qed

lemma assign_policy_ok:
  assumes "policies_ok db" "assign_policy db now uuid uuid' a = (db', r)"
  shows "policies_ok db'"
  using assms(2)
proof (cases rule: assign_policy_cases)
  case refused
  then show ?thesis using cleared_ok assms(1) by simp
next
  case (stored db2)
  have "policies_ok db2"
    using policies_ok_insert_assignment [OF stored(1) cleared_ok(1) [OF assms(1)]] assignment_scope_free [OF assms(1)]
    by (simp add: assignment_scope_def new_assignment_def)
  with stored(2) show ?thesis using policies_ok_log by blast
qed

lemma set_override_ok:
  assumes "policies_ok db" "set_namespace_override db now uuid uuid' b = (db', r)"
  shows "policies_ok db'"
  using assms(2)
proof (cases rule: set_override_cases)
  case refused
  then show ?thesis using cleared_ok assms(1) by simp
next
  case (stored db2 x)
  have "policies_ok db2"
    using stored(2) policies_ok_insert_override [OF stored(1) cleared_ok(2) [OF assms(1)]]
      override_scope_free [OF assms(1), of b now] by simp
  with stored(3) show ?thesis using policies_ok_log by blast
qed

lemma create_version_ok:
  assumes "policies_ok db" "create_policy_version db now uuid st ref f by why = Inr (db', vid)"
  shows "policies_ok db'"
  using assms by (auto simp: create_policy_version_def Let_def rbind_def intro: policies_ok_version split: sum.splits)

lemma no_first_version:
  assumes "numbered db" "\<forall>v \<in> set (scope_versions db st ref). pv_version_number v \<noteq> 1"
  shows "scope_versions db st ref = []"
proof (rule ccontr)
  assume "scope_versions db st ref \<noteq> []"
  then obtain v vs where s: "scope_versions db st ref = v # vs" by (cases "scope_versions db st ref") auto
  then have "map pv_version_number (v # vs) = map int [1..<Suc (Suc (length vs))]"
    using assms(1) by (metis length_Cons numbered_def)
  then have "pv_version_number v = 1" by (simp add: upt_rec)
  with assms(2) s show False by simp
qed

lemma global_version_ok:
  assumes "policies_ok db" "global_version db now uuid f = Inr (db', vid)"
  shows "policies_ok db'"
proof (cases "find (\<lambda>v. pv_scope_type v = ''global'' \<and> pv_scope_ref_id v = None \<and> pv_version_number v = 1) (policy_versions db)")
  case None
  then have "\<forall>v \<in> set (scope_versions db ''global'' None). pv_version_number v \<noteq> 1"
    by (auto simp: scope_versions_def find_None_iff)
  then have "scope_versions db ''global'' None = []"
    using no_first_version assms(1) policies_ok_def by blast
  then have "current_version db ''global'' None = 0" by (simp add: current_version_def)
  with assms None show ?thesis
    by (auto simp: global_version_def Let_def rbind_def intro: policies_ok_version split: sum.splits)
qed (use assms in \<open>simp add: global_version_def\<close>)

lemma ensure_global_ok:
  assumes "policies_ok db" "ensure_global_policy db now uuid uuid' f = (db', r)"
  shows "policies_ok db'"
proof (cases "global_version db now uuid f")
  case (Inl e)
  with assms show ?thesis by (simp add: ensure_global_policy_def)
next
  case (Inr p)
  then obtain db1 vid where g: "global_version db now uuid f = Inr (db1, vid)" by (cases p) auto
  have ok: "policies_ok db1" by (rule global_version_ok [OF assms(1) g])
  show ?thesis
  proof (cases "list_ex (\<lambda>r. pa_scope_type r = ''global'' \<and> pa_status r = ''active'') (policy_assignments db1)")
    case True
    with assms(2) g ok show ?thesis by (simp add: ensure_global_policy_def)
  next
    case False
    then have "(''global'', None, None, None) \<notin> assignment_scope ` set (active_assignments db1)"
      by (auto simp: list_ex_iff active_assignments_def assignment_scope_def)
    then show ?thesis using assms(2) g ok False policies_ok_insert_assignment [OF _ ok]
      by (auto simp: ensure_global_policy_def assignment_scope_def new_assignment_def split: sum.splits)
  qed
qed

lemma policy_step_ok: "policy_step db db' \<Longrightarrow> policies_ok db \<Longrightarrow> policies_ok db'"
  by (induction rule: policy_step.induct)
    (blast intro: create_version_ok assign_policy_ok set_override_ok ensure_global_ok)+

lemma reachable_ok: "policies_reachable db \<Longrightarrow> policies_ok db"
  unfolding policies_reachable_def
proof (induction rule: rtranclp_induct)
  case base
  show ?case by (simp add: policies_ok_def empty_policies_def numbered_def scope_versions_def
        active_assignments_def active_overrides_def)
qed (rule policy_step_ok)

text \<open>
  C28. After any sequence of calls of the policy repository, those that raise included: there is at
  most one active assignment for each scope, tenant, workspace and environment and at most one
  active override for each workspace, environment and namespace; the versions of each scope are
  numbered 1, 2, 3, ... in the order of their creation; and every assignment and override names a
  version that exists.
\<close>

theorem policies_consistent:
  assumes "policies_reachable db"
  shows "distinct (map assignment_scope (active_assignments db))
     \<and> distinct (map override_scope (active_overrides db))
     \<and> map pv_version_number (scope_versions db st ref) = map int [1..<Suc (length (scope_versions db st ref))]
     \<and> pa_policy_version_id ` set (policy_assignments db) \<subseteq> pv_id ` set (policy_versions db)
     \<and> no_policy_version_id ` set (namespace_policy_overrides db) \<subseteq> pv_id ` set (policy_versions db)"
  using reachable_ok [OF assms] by (simp add: policies_ok_def numbered_def)

section \<open>Which policy applies\<close>

lemma version_of_exists: "vid \<in> pv_id ` set (policy_versions db) \<Longrightarrow> \<exists>v. version_of db vid = Some v"
  by (auto simp: version_of_def image_iff find_None_iff not_None_eq [symmetric] simp del: not_None_eq)

text \<open>The inner join keeps every row, since its version exists.\<close>

lemma joined:
  assumes "\<And>r. r \<in> set rows \<Longrightarrow> k r \<in> pv_id ` set (policy_versions db)"
  shows "List.map_filter (\<lambda>r. map_option (Pair r) (version_of db (k r))) rows
       = map (\<lambda>r. (r, the (version_of db (k r)))) rows"
  using assms
proof (induction rows)
  case Nil
  then show ?case by (simp add: List.map_filter_def)
next
  case (Cons r rows)
  moreover obtain v where "version_of db (k r) = Some v" using version_of_exists Cons.prems by fastforce
  ultimately show ?case by (simp add: List.map_filter_def)
qed

lemma first_row_None: "first_row rows = None \<longleftrightarrow> rows = []"
  by (simp add: first_row_def split: list.split)

lemma first_row_Some: "first_row rows = Some r \<longleftrightarrow> (\<exists>rest. rows = r # rest)"
  by (simp add: first_row_def split: list.split)

lemma matched_override_cases:
  assumes "policies_reachable db" "truthy ws"
  shows "(case matched_override db ws env ns of
      None \<Rightarrow> \<not> list_ex (override_applies (the ws) env ns) (namespace_policy_overrides db)
    | Some (r, v) \<Rightarrow> r \<in> set (namespace_policy_overrides db) \<and> override_applies (the ws) env ns r \<and>
        version_of db (no_policy_version_id r) = Some v \<and>
        (\<forall>r' \<in> set (namespace_policy_overrides db). override_applies (the ws) env ns r' \<longrightarrow>
           length (no_namespace r') \<le> length (no_namespace r)))"
proof -
  let ?rows = "filter (override_applies (the ws) env ns) (namespace_policy_overrides db)"
  let ?key = "\<lambda>(r, v :: policy_version_row). [int (length (no_namespace r))]"
  let ?pair = "\<lambda>r. (r, the (version_of db (no_policy_version_id r)))"
  have fk: "\<And>r. r \<in> set ?rows \<Longrightarrow> no_policy_version_id r \<in> pv_id ` set (policy_versions db)"
    using reachable_ok [OF assms(1)] by (auto simp: policies_ok_def)
  have m: "matched_override db ws env ns = first_row (order_desc ?key (map ?pair ?rows))"
    using assms(2) joined [of ?rows no_policy_version_id, OF fk] by (simp add: matched_override_def)
  show ?thesis
  proof (cases "matched_override db ws env ns")
    case None
    then have "order_desc ?key (map ?pair ?rows) = []" using m by (simp add: first_row_None)
    then have "?rows = []" using length_order_desc [of ?key "map ?pair ?rows"] by simp
    with None show ?thesis by (auto simp: list_ex_iff filter_empty_conv)
  next
    case (Some p)
    then obtain rest where o: "order_desc ?key (map ?pair ?rows) = p # rest"
      using m by (auto simp: first_row_Some)
    obtain r where p: "p = ?pair r" "r \<in> set ?rows" using sort_hd_least(1) [OF o] by auto
    have "length (no_namespace r') \<le> length (no_namespace r)" if "r' \<in> set ?rows" for r'
      using sort_hd_least(2) [OF o, of "?pair r'"] that p(1) by auto
    moreover have "version_of db (no_policy_version_id r) = Some (the (version_of db (no_policy_version_id r)))"
      using version_of_exists fk p(2) by fastforce
    ultimately show ?thesis using p Some by auto
  qed
qed

lemma matched_assignment_cases:
  assumes "policies_reachable db"
  shows "(case matched_assignment db now ws tenant of
      None \<Rightarrow> \<not> list_ex (assignment_applies now ws tenant) (policy_assignments db)
    | Some (r, v) \<Rightarrow> r \<in> set (policy_assignments db) \<and> assignment_applies now ws tenant r \<and>
        version_of db (pa_policy_version_id r) = Some v \<and>
        (\<forall>r' \<in> set (policy_assignments db). assignment_applies now ws tenant r' \<longrightarrow>
           scope_rank (pa_scope_type r') < scope_rank (pa_scope_type r) \<or>
           scope_rank (pa_scope_type r') = scope_rank (pa_scope_type r) \<and> pa_created_at r' \<le> pa_created_at r))"
proof -
  let ?rows = "filter (assignment_applies now ws tenant) (policy_assignments db)"
  let ?key = "\<lambda>(r, v :: policy_version_row). [scope_rank (pa_scope_type r), pa_created_at r]"
  let ?pair = "\<lambda>r. (r, the (version_of db (pa_policy_version_id r)))"
  have fk: "\<And>r. r \<in> set ?rows \<Longrightarrow> pa_policy_version_id r \<in> pv_id ` set (policy_versions db)"
    using reachable_ok [OF assms(1)] by (auto simp: policies_ok_def)
  have m: "matched_assignment db now ws tenant = first_row (order_desc ?key (map ?pair ?rows))"
    using joined [of ?rows pa_policy_version_id, OF fk] by (simp add: matched_assignment_def)
  show ?thesis
  proof (cases "matched_assignment db now ws tenant")
    case None
    then have "order_desc ?key (map ?pair ?rows) = []" using m by (simp add: first_row_None)
    then have "?rows = []" using length_order_desc [of ?key "map ?pair ?rows"] by simp
    with None show ?thesis by (auto simp: list_ex_iff filter_empty_conv)
  next
    case (Some p)
    then obtain rest where o: "order_desc ?key (map ?pair ?rows) = p # rest"
      using m by (auto simp: first_row_Some)
    obtain r where p: "p = ?pair r" "r \<in> set ?rows" using sort_hd_least(1) [OF o] by auto
    have "scope_rank (pa_scope_type r') < scope_rank (pa_scope_type r) \<or>
       scope_rank (pa_scope_type r') = scope_rank (pa_scope_type r) \<and> pa_created_at r' \<le> pa_created_at r"
      if "r' \<in> set ?rows" for r'
      using sort_hd_least(2) [OF o, of "?pair r'"] that p(1) by auto
    moreover have "version_of db (pa_policy_version_id r) = Some (the (version_of db (pa_policy_version_id r)))"
      using version_of_exists fk p(2) by fastforce
    ultimately show ?thesis using p Some by auto
  qed
qed

text \<open>
  C29. Whatever the repository went through, a request gets the most specific active policy: when
  some active override of its workspace and environment covers the namespace, the version of one
  whose namespace pattern is the longest; otherwise the version of an active assignment of its
  workspace before one of its tenant before a global one, the latest first; and none only when
  neither an override nor an assignment applies.
\<close>

theorem resolve_most_specific:
  assumes "policies_reachable db" "truthy ws"
  shows "(case resolve_effective_policy db now tenant ws env ns of
      None \<Rightarrow> \<not> list_ex (override_applies (the ws) env ns) (namespace_policy_overrides db) \<and>
              \<not> list_ex (assignment_applies now ws tenant) (policy_assignments db)
    | Some p \<Rightarrow>
        if list_ex (override_applies (the ws) env ns) (namespace_policy_overrides db)
        then \<exists>r \<in> set (namespace_policy_overrides db). override_applies (the ws) env ns r \<and>
               ep_source_scope p = ''namespace'' \<and> ep_policy_version_id p = Some (no_policy_version_id r) \<and>
               (\<forall>r' \<in> set (namespace_policy_overrides db). override_applies (the ws) env ns r' \<longrightarrow>
                  length (no_namespace r') \<le> length (no_namespace r))
        else \<exists>r \<in> set (policy_assignments db). assignment_applies now ws tenant r \<and>
               ep_source_scope p = pa_scope_type r \<and> ep_policy_version_id p = Some (pa_policy_version_id r) \<and>
               (\<forall>r' \<in> set (policy_assignments db). assignment_applies now ws tenant r' \<longrightarrow>
                  scope_rank (pa_scope_type r') < scope_rank (pa_scope_type r) \<or>
                  scope_rank (pa_scope_type r') = scope_rank (pa_scope_type r) \<and>
                    pa_created_at r' \<le> pa_created_at r))"
proof -
  have vid: "pv_id v = i" if "version_of db i = Some v" for i v
    using that by (auto simp: version_of_def find_Some_iff)
  show ?thesis
  proof (cases "matched_override db ws env ns")
    case (Some p)
    then show ?thesis using matched_override_cases [OF assms, of env ns] vid
      by (cases p) (auto simp: resolve_effective_policy_def row_to_effective_policy_def Let_def list_ex_iff)
  next
    case None
    then have no: "\<not> list_ex (override_applies (the ws) env ns) (namespace_policy_overrides db)"
      using matched_override_cases [OF assms, of env ns] by simp
    show ?thesis
    proof (cases "matched_assignment db now ws tenant")
      case None
      with no \<open>matched_override db ws env ns = None\<close> show ?thesis
        using matched_assignment_cases [OF assms(1), of now ws tenant] by (simp add: resolve_effective_policy_def)
    next
      case (Some p)
      with no \<open>matched_override db ws env ns = None\<close> show ?thesis
        using matched_assignment_cases [OF assms(1), of now ws tenant] vid
        by (cases p) (auto simp: resolve_effective_policy_def row_to_effective_policy_def Let_def)
    qed
  qed
qed

text \<open>
  Which environment an assignment was made for has no influence: a request of any environment
  is resolved to the same policy when the stored assignments name other environments or none.
\<close>

theorem assignment_environment_ignored:
  "resolve_effective_policy
     (db\<lparr>policy_assignments := map (\<lambda>r. r\<lparr>pa_environment_id := f r\<rparr>) (policy_assignments db)\<rparr>)
     now tenant ws env ns
   = resolve_effective_policy db now tenant ws env ns"
proof -
  let ?set = "\<lambda>r :: assignment_row. r\<lparr>pa_environment_id := f r\<rparr>"
  let ?db = "db\<lparr>policy_assignments := map ?set (policy_assignments db)\<rparr>"
  have v: "version_of ?db i = version_of db i" for i by (simp add: version_of_def)
  have o: "matched_override ?db ws env ns = matched_override db ws env ns"
    by (simp add: matched_override_def v)
  have "List.map_filter (\<lambda>r. map_option (Pair r) (version_of db (pa_policy_version_id r)))
          (filter (assignment_applies now ws tenant) (map ?set rows))
      = map (\<lambda>(r, w). (?set r, w)) (List.map_filter (\<lambda>r. map_option (Pair r) (version_of db (pa_policy_version_id r)))
          (filter (assignment_applies now ws tenant) rows))" for rows
    by (induction rows) (auto simp: List.map_filter_def assignment_applies_def)
  moreover have "order_desc (\<lambda>(r, v :: policy_version_row). [scope_rank (pa_scope_type r), pa_created_at r])
        (map (\<lambda>(r, w). (?set r, w)) xs)
      = map (\<lambda>(r, w). (?set r, w)) (order_desc (\<lambda>(r, v). [scope_rank (pa_scope_type r), pa_created_at r]) xs)" for xs
    unfolding order_desc_def by (rule sort_key_map_same) (simp split: prod.split)
  ultimately have "matched_assignment ?db now ws tenant = map_option (\<lambda>(r, w). (?set r, w)) (matched_assignment db now ws tenant)"
    by (simp add: matched_assignment_def v first_row_def split: list.split)
  then show ?thesis
    by (cases "matched_assignment db now ws tenant") (auto simp: resolve_effective_policy_def o split: option.split)
qed

section \<open>How far an override reaches\<close>

definition plain :: "string \<Rightarrow> bool" where
  "plain ns \<longleftrightarrow> list_all (\<lambda>c. c \<notin> {CHR ''*'', CHR 0x25, CHR 0x5F, CHR 0x5C}) ns"

lemma plain_pattern: "plain ns \<Longrightarrow> override_pattern ns = ns"
  by (induction ns) (auto simp: plain_def override_pattern_def)

lemma like_plain_append: "plain ns \<Longrightarrow> like (ns @ p) s \<longleftrightarrow> (\<exists>t. s = ns @ t \<and> like p t)"
proof (induction ns arbitrary: s)
  case (Cons c ns)
  then show ?case by (cases s) (auto simp: plain_def)
qed simp

lemma like_percent: "like (CHR 0x25 # []) s"
  by (induction s) simp_all

lemma override_pattern_append: "override_pattern (a @ b) = override_pattern a @ override_pattern b"
  by (simp add: override_pattern_def)

lemma like_exact: "plain ns \<Longrightarrow> like ns s \<longleftrightarrow> s = ns"
  using like_plain_append [of ns "[]" s] by simp

lemma override_exact: "plain ns \<Longrightarrow> like (override_pattern ns) s \<longleftrightarrow> s = ns"
  by (simp add: plain_pattern like_exact)

lemma override_prefix: "plain ns \<Longrightarrow> like (override_pattern (ns @ ''*'')) s \<longleftrightarrow> (\<exists>t. s = ns @ t)"
proof -
  assume p: "plain ns"
  have "override_pattern (ns @ ''*'') = ns @ [CHR 0x25]"
    using p by (simp add: override_pattern_append plain_pattern) (simp add: override_pattern_def)
  with like_plain_append [OF p, of "[CHR 0x25]" s] like_percent show ?thesis by simp
qed

text \<open>
  An override whose namespace has none of the characters of a pattern applies to exactly that
  namespace, and with a final star to exactly the namespaces it begins; but an underscore, which a
  namespace may contain, is a wildcard too: the override of \<open>a_b\<close> also governs \<open>a-b\<close> and \<open>axb\<close>.
\<close>

theorem override_reach:
  assumes "plain a" "plain b"
  shows "(like (override_pattern a) s \<longleftrightarrow> s = a)
     \<and> (like (override_pattern (a @ ''*'')) s \<longleftrightarrow> (\<exists>t. s = a @ t))
     \<and> (like (override_pattern (a @ ''_'' @ b)) s \<longleftrightarrow> (\<exists>c. s = a @ c # b))"
proof -
  have "like (CHR ''_'' # b) t \<longleftrightarrow> (\<exists>c. t = c # b)" for t
    using like_exact [OF assms(2)] by (cases t) auto
  moreover have "override_pattern (a @ ''_'' @ b) = a @ CHR ''_'' # b"
    using plain_pattern [OF assms(1)] plain_pattern [OF assms(2)] by (simp add: override_pattern_def)
  ultimately show ?thesis
    using override_exact [OF assms(1)] override_prefix [OF assms(1)] like_plain_append [OF assms(1)] by auto
qed

section \<open>A failed change drops the policy in force\<close>

lemma insert_assignment_missing:
  "\<lbrakk>pa_id x \<notin> pa_id ` set (policy_assignments db); pa_policy_version_id x \<notin> pv_id ` set (policy_versions db)\<rbrakk>
   \<Longrightarrow> insert_assignment db x = Inl (ForeignKeyViolation ''policy_assignments.policy_version_id'')"
  unfolding insert_assignment_def version_exists_iff list_ex_iff by (auto simp: image_iff)

text \<open>
  Assigning a version that does not exist raises the error of the foreign key, and the
  assignment in force for that scope is already retired: afterwards the scope has none.
\<close>

theorem failed_assignment_drops_policy:
  assumes "policies_reachable db" "find (same_scope a) (policy_assignments db) = Some r"
    and "as_policy_version_id a \<notin> pv_id ` set (policy_versions db)"
    and "''assignment_'' @ uuid \<notin> pa_id ` set (policy_assignments db)"
  shows "\<exists>db'. assign_policy db now uuid uuid' a
       = (db', Inl (ForeignKeyViolation ''policy_assignments.policy_version_id''))
     \<and> assignment_scope r \<in> assignment_scope ` set (active_assignments db)
     \<and> assignment_scope r \<notin> assignment_scope ` set (active_assignments db')
     \<and> policy_change_log db' = policy_change_log db"
proof -
  let ?db' = "cleared_assignments now a db"
  have r: "r \<in> set (active_assignments db)"
    "assignment_scope r = (as_scope_type a, as_tenant_id a, as_workspace_id a, as_environment_id a)"
    using assms(2) by (auto simp: find_Some_iff same_scope_iff active_assignments_def)
  have d: "?db' = retire_assignment now (pa_id r) db" using assms(2) by (simp add: cleared_assignments_def)
  have ids: "pa_id ` set (policy_assignments ?db') = pa_id ` set (policy_assignments db)"
    by (metis d list.set_map map_pa_id_retire(1))
  have "insert_assignment ?db' (new_assignment now (''assignment_'' @ uuid) a)
      = Inl (ForeignKeyViolation ''policy_assignments.policy_version_id'')"
    by (rule insert_assignment_missing) (use assms(3,4) ids in \<open>simp_all add: new_assignment_def d\<close>)
  then have "assign_policy db now uuid uuid' a
      = (?db', Inl (ForeignKeyViolation ''policy_assignments.policy_version_id''))"
    by (simp add: assign_policy_def assms(2) Let_def d)
  moreover have "policy_change_log ?db' = policy_change_log db" by (simp add: d)
  ultimately show ?thesis
    using r(2) imageI [OF r(1), of assignment_scope] assignment_scope_free [OF reachable_ok [OF assms(1)], of a now]
    by auto
qed

section \<open>Concrete runs\<close>

definition demo_fields :: policy_fields where
  "demo_fields = \<lparr>pf_dlp_enabled = True, pf_dlp_scrub_level = ''technical'', pf_semantic_enabled = True,
     pf_semantic_threshold = 9 / 10, pf_semantic_shadow_threshold = 8 / 10, pf_semantic_max_temperature = 2 / 10,
     pf_identity_guard_enabled = False, pf_identity_strict_mode_enabled = False,
     pf_identity_partitioning_enabled = False, pf_multimodal_hard_alignment_enabled = False,
     pf_policy_timing_breakdown_enabled = False, pf_strict_namespace_prefixes = [],
     pf_high_risk_namespace_prefixes = [], pf_extension_fields = []\<rparr>"

definition demo_policies :: policy_db where
  "demo_policies = fst (ensure_global_policy empty_policies 10 ''v'' ''a'' demo_fields)"

definition demo_assign :: "string \<Rightarrow> assign_args" where
  "demo_assign vid = \<lparr>as_scope_type = ''global'', as_policy_version_id = vid, as_tenant_id = None,
     as_workspace_id = None, as_environment_id = None, as_actor_id = ''admin_api'', as_change_reason = None\<rparr>"

lemma demo_policies_reachable: "policies_reachable demo_policies"
  unfolding policies_reachable_def demo_policies_def
  by (rule r_into_rtranclp, rule step_global [where r = "snd (ensure_global_policy empty_policies 10 ''v'' ''a'' demo_fields)"])
    simp

lemma policies_consistent_witness:
  "distinct (map assignment_scope (active_assignments demo_policies)) \<and> active_assignments demo_policies \<noteq> []"
proof -
  have "length (active_assignments demo_policies) = 1" by code_simp
  then show ?thesis using policies_consistent [OF demo_policies_reachable] by fastforce
qed

lemma resolve_most_specific_witness:
  "resolve_effective_policy demo_policies 20 (Some ''t'') (Some ''w'') None ''ns'' \<noteq> None"
proof -
  have "list_ex (assignment_applies 20 (Some ''w'') (Some ''t'')) (policy_assignments demo_policies)"
    "truthy (Some ''w'')" by code_simp+
  then show ?thesis
    using resolve_most_specific [where ws = "Some ''w''" and now = 20 and tenant = "Some ''t''" and env = None
        and ns = "''ns''", OF demo_policies_reachable]
    by (auto split: option.splits)
qed

lemma override_reach_witness: "like (override_pattern (''my'' @ ''_'' @ ''ns'')) ''my-ns''"
  using override_reach [of "''my''" "''ns''" "''my-ns''"] by (simp add: plain_def)

lemma failed_assignment_drops_policy_witness:
  "\<exists>db'. assign_policy demo_policies 20 ''b'' ''c'' (demo_assign ''missing'')
     = (db', Inl (ForeignKeyViolation ''policy_assignments.policy_version_id''))
   \<and> (''global'', None, None, None) \<notin> assignment_scope ` set (active_assignments db')"
proof -
  obtain r where r: "find (same_scope (demo_assign ''missing'')) (policy_assignments demo_policies) = Some r"
    "assignment_scope r = (''global'', None, None, None)"
    by (simp add: demo_policies_def ensure_global_policy_def global_version_def empty_policies_def insert_version_def
        insert_assignment_def new_assignment_def demo_assign_def same_scope_def assignment_scope_def version_exists_def
        rbind_def Let_def)
  have "as_policy_version_id (demo_assign ''missing'') \<notin> pv_id ` set (policy_versions demo_policies)"
    "''assignment_'' @ ''b'' \<notin> pa_id ` set (policy_assignments demo_policies)" by code_simp+
  from failed_assignment_drops_policy [OF demo_policies_reachable r(1) this, of 20 "''c''"] r(2)
  show ?thesis by auto
qed

end
