(* ===== verification/Startup.thy ===== *)
theory Startup
  imports ChatRoute PolicyStore
begin

text \<open>
  Starting the application: the posture check of \<open>app/core/posture.py\<close>, the \<open>lifespan\<close> of
  \<open>app/core/lifecycle.py\<close> that fills \<open>app.state\<close>, with its fall-backs, and the health
  routes that read it. What connecting to a service brings about is a parameter; so is whether
  the embedding model loads.
\<close>

section \<open>The posture\<close>

record posture_assessment =
  pos_profile :: string
  pos_strict_startup :: bool
  pos_healthy :: bool
  pos_ready :: bool
  pos_errors :: "string list"
  pos_warnings :: "string list"
  pos_expected :: dict
  pos_observed :: dict

definition PILOT_REQUIRED_FLAGS :: "(string \<times> (settings \<Rightarrow> bool)) list" where
  "PILOT_REQUIRED_FLAGS =
     [(''controlplane_identity_enabled'', cfg_controlplane_identity_enabled),
      (''controlplane_identity_seed_enabled'', cfg_controlplane_identity_seed_enabled),
      (''request_event_logging_enabled'', cfg_request_event_logging_enabled),
      (''request_ledger_enabled'', cfg_request_ledger_enabled),
      (''risk_event_logging_enabled'', cfg_risk_event_logging_enabled),
      (''shadow_savings_logging_enabled'', cfg_shadow_savings_logging_enabled),
      (''scoped_policy_enabled'', cfg_scoped_policy_enabled),
      (''rollups_enabled'', cfg_rollups_enabled),
      (''billing_prep_enabled'', cfg_billing_prep_enabled),
      (''identity_guard_enabled'', cfg_identity_guard_enabled),
      (''identity_strict_mode_enabled'', cfg_identity_strict_mode_enabled),
      (''identity_partitioning_enabled'', cfg_identity_partitioning_enabled),
      (''multimodal_hard_alignment_enabled'', cfg_multimodal_hard_alignment_enabled),
      (''policy_timing_breakdown_enabled'', cfg_policy_timing_breakdown_enabled)]"

definition STRICT_PROFILES :: "string list" where
  "STRICT_PROFILES = [''pilot'', ''pilot-local'', ''cloud'', ''beta'', ''production'', ''prod'']"

definition persistent_flags :: "(string \<times> (settings \<Rightarrow> bool)) list" where
  "persistent_flags =
     [(''request_event_logging_enabled'', cfg_request_event_logging_enabled),
      (''request_ledger_enabled'', cfg_request_ledger_enabled),
      (''risk_event_logging_enabled'', cfg_risk_event_logging_enabled),
      (''shadow_savings_logging_enabled'', cfg_shadow_savings_logging_enabled),
      (''scoped_policy_enabled'', cfg_scoped_policy_enabled),
      (''rollups_enabled'', cfg_rollups_enabled),
      (''billing_prep_enabled'', cfg_billing_prep_enabled)]"

definition flags_on :: "(string \<times> (settings \<Rightarrow> bool)) list \<Rightarrow> settings \<Rightarrow> string list" where
  "flags_on flags cfg = map fst (filter (\<lambda>(name, flag). flag cfg) flags)"

definition upper_name :: "string \<Rightarrow> string" where
  "upper_name s = map (\<lambda>c. let n = code_point c in if 97 \<le> n \<and> n \<le> 122 then char_of (n - 32) else c) s"

definition message_if :: "bool \<Rightarrow> string \<Rightarrow> string list" where
  "message_if c message = (if c then [message] else [])"

definition posture_profile :: "settings \<Rightarrow> string" where
  "posture_profile cfg = strip (py_lower (cfg_deployment_profile cfg))"

definition strict_profile :: "settings \<Rightarrow> bool" where
  "strict_profile cfg \<longleftrightarrow> posture_profile cfg \<in> set STRICT_PROFILES"

definition strict_startup :: "settings \<Rightarrow> bool" where
  "strict_startup cfg \<longleftrightarrow> cfg_strict_startup_validation cfg \<or> strict_profile cfg"

definition policy_store_dsn :: "settings \<Rightarrow> string option" where
  "policy_store_dsn cfg = str_or (cfg_policy_store_dsn cfg) (cfg_semantic_store_dsn cfg)"

definition requested_store :: "settings \<Rightarrow> string" where
  "requested_store cfg = strip (py_lower (cfg_semantic_store_backend cfg))"

definition requested_cache :: "settings \<Rightarrow> string" where
  "requested_cache cfg = strip (py_lower (cfg_exact_cache_backend cfg))"

definition feature_errors :: "settings \<Rightarrow> string list" where
  "feature_errors cfg = (let dsn = truthy (policy_store_dsn cfg) in
     message_if (cfg_controlplane_identity_enabled cfg \<and> \<not> dsn)
       ''controlplane identity is enabled but no policy store DSN is configured'' @
     message_if (cfg_controlplane_identity_seed_enabled cfg \<and> \<not> truthy (cfg_controlplane_static_api_key cfg))
       ''identity seed is enabled but METERA_CONTROLPLANE_STATIC_API_KEY is missing'' @
     message_if (flags_on persistent_flags cfg \<noteq> [] \<and> \<not> dsn)
       (''persistent control-plane features are enabled without a policy store DSN: '' @
        join '', '' (sort (flags_on persistent_flags cfg))) @
     message_if (cfg_billing_prep_enabled cfg \<and> \<not> cfg_request_ledger_enabled cfg)
       ''billing prep requires request ledger to be enabled'' @
     message_if (cfg_rollups_enabled cfg \<and> \<not> cfg_request_ledger_enabled cfg)
       ''rollups require request ledger to be enabled'' @
     message_if (cfg_identity_strict_mode_enabled cfg \<and> \<not> cfg_controlplane_identity_enabled cfg)
       ''identity strict mode requires controlplane identity to be enabled'' @
     message_if (cfg_identity_partitioning_enabled cfg \<and> \<not> cfg_controlplane_identity_enabled cfg)
       ''identity partitioning requires controlplane identity to be enabled'')"

text \<open>Errors in a strict start-up, warnings otherwise.\<close>

definition backend_messages :: "settings \<Rightarrow> string list" where
  "backend_messages cfg =
     message_if (requested_cache cfg = ''redis'' \<and> \<not> truthy (cfg_redis_url cfg))
       ''redis cache backend requested but METERA_REDIS_URL is missing'' @
     message_if (requested_store cfg = ''pgvector'' \<and> \<not> truthy (cfg_semantic_store_dsn cfg))
       ''pgvector semantic store requested but METERA_SEMANTIC_STORE_DSN is missing''"

definition profile_errors :: "settings \<Rightarrow> string list" where
  "profile_errors cfg = (let profile = posture_profile cfg in
     if \<not> strict_profile cfg then []
     else message_if (requested_cache cfg \<noteq> ''redis'')
            (profile @ '' profile requires METERA_EXACT_CACHE_BACKEND=redis'') @
          message_if (requested_store cfg \<noteq> ''pgvector'')
            (profile @ '' profile requires METERA_SEMANTIC_STORE_BACKEND=pgvector'') @
          message_if (\<not> truthy (cfg_controlplane_static_api_key cfg))
            (profile @ '' profile requires METERA_CONTROLPLANE_STATIC_API_KEY to be set'') @
          concat (map (\<lambda>(name, flag). message_if (\<not> flag cfg)
            (profile @ '' profile requires METERA_'' @ upper_name name @ ''=true'')) PILOT_REQUIRED_FLAGS))"

definition posture_expected :: "settings \<Rightarrow> dict" where
  "posture_expected cfg = (let strict = strict_profile cfg in
     [(''cache_backend'', JStr (if strict then ''redis'' else requested_cache cfg)),
      (''semantic_store_backend'', JStr (if strict then ''pgvector'' else requested_store cfg)),
      (''policy_store_required'',
         JBool (strict \<or> flags_on persistent_flags cfg \<noteq> [] \<or> cfg_controlplane_identity_enabled cfg)),
      (''identity_mode'', JStr (if strict \<or> cfg_controlplane_identity_enabled cfg then ''repository''
                                else ''disabled_or_static'')),
      (''strict_features_required'', JBool strict)])"

definition posture_observed :: "settings \<Rightarrow> dict" where
  "posture_observed cfg =
     [(''environment'', JStr (cfg_environment cfg)), (''deployment_profile'', JStr (cfg_deployment_profile cfg)),
      (''cache_backend'', JStr (requested_cache cfg)),
      (''redis_url_present'', JBool (truthy (cfg_redis_url cfg))),
      (''semantic_store_backend'', JStr (requested_store cfg)),
      (''semantic_store_dsn_present'', JBool (truthy (cfg_semantic_store_dsn cfg))),
      (''policy_store_dsn_present'', JBool (truthy (policy_store_dsn cfg))),
      (''controlplane_identity_enabled'', JBool (cfg_controlplane_identity_enabled cfg)),
      (''controlplane_identity_seed_enabled'', JBool (cfg_controlplane_identity_seed_enabled cfg)),
      (''static_api_key_present'', JBool (truthy (cfg_controlplane_static_api_key cfg))),
      (''request_ledger_enabled'', JBool (cfg_request_ledger_enabled cfg)),
      (''rollups_enabled'', JBool (cfg_rollups_enabled cfg)),
      (''billing_prep_enabled'', JBool (cfg_billing_prep_enabled cfg))]"

definition assess_startup_posture :: "settings \<Rightarrow> posture_assessment" where
  "assess_startup_posture cfg =
     (let strict = strict_startup cfg;
          errors = feature_errors cfg @ (if strict then backend_messages cfg else []) @ profile_errors cfg
      in \<lparr>pos_profile = posture_profile cfg, pos_strict_startup = strict, pos_healthy = (errors = []),
          pos_ready = (errors = []), pos_errors = errors,
          pos_warnings = (if strict then [] else backend_messages cfg),
          pos_expected = posture_expected cfg, pos_observed = posture_observed cfg\<rparr>)"

section \<open>The application state\<close>

datatype store_choice = MemoryStore | PgvectorStore string

text \<open>The policy store of the application; the row of the PostgreSQL one is in the platform.\<close>

datatype policy_backend = InMemoryPolicy dict | PostgresPolicy

record app_state =
  ap_deployment_profile :: string
  ap_posture_strict_startup :: bool
  ap_posture_errors :: "string list"
  ap_posture_warnings :: "string list"
  ap_posture_expected :: dict
  ap_posture_observed :: dict
  ap_active_custom_detectors :: "string list"
  ap_custom_detector_json_enabled :: bool
  ap_custom_detector_yaml_path :: "string option"
  ap_scrub_mode :: string
  ap_cache_backend_requested :: string
  ap_cache_backend_active :: string
  ap_cache_fallback_active :: bool
  ap_cache_warning :: "string option"
  ap_last_redis_fallback_utc :: "string option"
  ap_semantic_store_requested :: string
  ap_semantic_store_active :: string
  ap_semantic_store_fallback_active :: bool
  ap_semantic_store_warning :: "string option"
  ap_last_semantic_store_fallback_utc :: "string option"
  ap_semantic_store :: store_choice
  ap_policy_store :: policy_backend
  ap_shadow_analytics_store :: bool
  ap_semantic_model_name :: string
  ap_semantic_backend :: string
  ap_semantic_fallback_active :: bool
  ap_semantic_enabled :: bool
  ap_semantic_max_temperature :: real
  ap_controlplane_identity_enabled :: bool
  ap_identity_mode :: string
  ap_identity_resolver :: identity_resolver
  ap_policy_repository :: bool
  ap_request_event_repository :: bool
  ap_request_ledger_repository :: bool
  ap_risk_event_repository :: bool
  ap_shadow_savings_repository :: bool
  ap_rollup_repository :: bool
  ap_billing_repository :: "real option"
  ap_commercial_event_repository :: bool

text \<open>What the start-up touches outside the process, and the counters.\<close>

record platform =
  pl_policy_row :: "override_row option"
  pl_db :: database
  pl_identity :: identity_db
  pl_policies :: policy_db
  pl_metrics :: metrics

text \<open>
  The outcomes of connecting, by component; the class name of an exception; whether the
  embedding model loads; the parsers; SHA-256; the clock and two fresh identifiers.
\<close>

record surroundings =
  su_connect :: "string \<Rightarrow> unit result"
  su_class_name :: "py_exc \<Rightarrow> string"
  su_model_loads :: bool
  su_json_loads :: "string \<Rightarrow> json result"
  su_read_yaml :: "string \<Rightarrow> json result"
  su_py_str :: "json \<Rightarrow> string"
  su_re_compile :: "string \<Rightarrow> regex_flag list \<Rightarrow> matcher result"
  su_parse_float :: "string \<Rightarrow> real option"
  su_sha :: "string \<Rightarrow> string"
  su_now :: timestamp
  su_version_uuid :: string
  su_assignment_uuid :: string

definition count_one :: "string \<Rightarrow> platform \<Rightarrow> platform" where
  "count_one name pl = pl\<lparr>pl_metrics := increment name (PInt 1) (pl_metrics pl)\<rparr>"

section \<open>The stages of the start-up\<close>

text \<open>A stage either hands on the state of the application or ends the start-up; what it did
  to the platform stays.\<close>

type_synonym 'a stage = "platform \<Rightarrow> platform \<times> 'a result"

definition stage_bind :: "'a stage \<Rightarrow> ('a \<Rightarrow> 'b stage) \<Rightarrow> 'b stage" where
  "stage_bind m f pl = (case m pl of (pl', Inl e) \<Rightarrow> (pl', Inl e) | (pl', Inr x) \<Rightarrow> f x pl')"

definition startup_detectors :: "surroundings \<Rightarrow> settings \<Rightarrow> secret_pattern list result" where
  "startup_detectors su cfg =
     (case rbind (load_custom_secret_patterns (su_json_loads su) (su_py_str su) (su_re_compile su)
                    (cfg_dlp_custom_detectors_json cfg)) (\<lambda>json_patterns.
           rbind (load_custom_secret_patterns_from_yaml (su_read_yaml su) (su_py_str su) (su_re_compile su)
                    (cfg_dlp_custom_detectors_yaml_path cfg)) (\<lambda>yaml_patterns.
             Inr (json_patterns @ yaml_patterns))) of
        Inl (DetectorConfigErr m) \<Rightarrow> Inl (RuntimeErr (''Metera detector configuration error: '' @ m))
      | r \<Rightarrow> r)"

text \<open>\<open>LocalSentenceTransformerEmbedder.warmup\<close>: the back end it settles on.\<close>

definition embedder_backend :: "bool \<Rightarrow> string" where
  "embedder_backend model_loads = (if model_loads then ''sentence-transformers'' else ''fallback'')"

definition initial_state :: "surroundings \<Rightarrow> settings \<Rightarrow> posture_assessment \<Rightarrow> secret_pattern list \<Rightarrow> app_state" where
  "initial_state su cfg pos custom = \<lparr>
     ap_deployment_profile = pos_profile pos, ap_posture_strict_startup = pos_strict_startup pos,
     ap_posture_errors = pos_errors pos, ap_posture_warnings = pos_warnings pos,
     ap_posture_expected = pos_expected pos, ap_posture_observed = pos_observed pos,
     ap_active_custom_detectors = active_detector_names custom,
     ap_custom_detector_json_enabled = truthy (cfg_dlp_custom_detectors_json cfg),
     ap_custom_detector_yaml_path = cfg_dlp_custom_detectors_yaml_path cfg,
     ap_scrub_mode = (if \<not> cfg_dlp_enabled cfg then ''off'' else py_lower (cfg_dlp_scrub_level cfg)),
     ap_cache_backend_requested = py_lower (cfg_exact_cache_backend cfg), ap_cache_backend_active = ''memory'',
     ap_cache_fallback_active = False, ap_cache_warning = None, ap_last_redis_fallback_utc = None,
     ap_semantic_store_requested = py_lower (cfg_semantic_store_backend cfg),
     ap_semantic_store_active = ''memory'', ap_semantic_store_fallback_active = False,
     ap_semantic_store_warning = None, ap_last_semantic_store_fallback_utc = None,
     ap_semantic_store = MemoryStore, ap_policy_store = InMemoryPolicy DEFAULT_POLICY_STATE,
     ap_shadow_analytics_store = False,
     ap_semantic_model_name = cfg_semantic_model_name cfg,
     ap_semantic_backend = embedder_backend (su_model_loads su),
     ap_semantic_fallback_active = (embedder_backend (su_model_loads su) = ''fallback''),
     ap_semantic_enabled = cfg_semantic_enabled cfg,
     ap_semantic_max_temperature = cfg_semantic_max_temperature cfg,
     ap_controlplane_identity_enabled = False, ap_identity_mode = [], ap_identity_resolver = NoResolver,
     ap_policy_repository = False, ap_request_event_repository = False, ap_request_ledger_repository = False,
     ap_risk_event_repository = False, ap_shadow_savings_repository = False, ap_rollup_repository = False,
     ap_billing_repository = None, ap_commercial_event_repository = False\<rparr>"

definition configured_state :: "surroundings \<Rightarrow> settings \<Rightarrow> app_state stage" where
  "configured_state su cfg pl =
     (let pos = assess_startup_posture cfg in
      if pos_errors pos \<noteq> []
      then (pl, Inl (RuntimeErr (''Metera startup posture validation failed: '' @ join ''; '' (pos_errors pos))))
      else (pl, rbind (startup_detectors su cfg) (\<lambda>custom. Inr (initial_state su cfg pos custom))))"

section \<open>The stores\<close>

definition semantic_store_backend_name :: "settings \<Rightarrow> string" where
  "semantic_store_backend_name cfg = py_lower (cfg_semantic_store_backend cfg)"

definition resolve_semantic_store :: "settings \<Rightarrow> store_choice" where
  "resolve_semantic_store cfg =
     (case cfg_semantic_store_dsn cfg of
        Some dsn \<Rightarrow> if semantic_store_backend_name cfg = ''pgvector'' \<and> dsn \<noteq> [] then PgvectorStore dsn else MemoryStore
      | None \<Rightarrow> MemoryStore)"

definition initialize_semantic_store ::
  "(string \<Rightarrow> unit result) \<Rightarrow> (py_exc \<Rightarrow> string) \<Rightarrow> settings \<Rightarrow>
   string \<times> string \<times> bool \<times> string option \<times> store_choice" where
  "initialize_semantic_store connect class_name cfg =
     (let requested = semantic_store_backend_name cfg; store = resolve_semantic_store cfg in
      if requested \<noteq> ''pgvector'' then (requested, ''memory'', False, None, store)
      else if \<not> truthy (cfg_semantic_store_dsn cfg)
      then (requested, ''memory'', True,
            Some ''pgvector backend requested but METERA_SEMANTIC_STORE_DSN is not configured; using in-memory semantic store'',
            store)
      else (case connect ''semantic_store'' of
              Inr _ \<Rightarrow> (requested, ''pgvector'', False, None, store)
            | Inl e \<Rightarrow> (requested, ''memory'', True,
                Some (''pgvector semantic store unavailable, fell back to memory: '' @ class_name e), MemoryStore)))"

definition start_semantic_store :: "surroundings \<Rightarrow> settings \<Rightarrow> app_state \<Rightarrow> app_state stage" where
  "start_semantic_store su cfg st pl =
     (case initialize_semantic_store (su_connect su) (su_class_name su) cfg of
        (requested, active, fallback, warning, store) \<Rightarrow>
          (count_one (if active = ''pgvector'' then ''semantic_store_backend_pgvector''
                      else ''semantic_store_backend_memory'')
             (if fallback then count_one ''semantic_store_backend_fallbacks'' pl else pl),
           Inr (st\<lparr>ap_semantic_store_requested := requested, ap_semantic_store_active := active,
                   ap_semantic_store_fallback_active := fallback, ap_semantic_store_warning := warning,
                   ap_semantic_store := store,
                   ap_last_semantic_store_fallback_utc :=
                     (if fallback then Some (isoformat (su_now su)) else ap_last_semantic_store_fallback_utc st)\<rparr>)))"

text \<open>
  The block of the PostgreSQL policy store: connecting, the default row (written by
  \<open>warmup\<close> and once more), then the shadow analytics with the purge of old rows. An exception
  ends the block where it is raised.
\<close>

definition warm_policy_store :: "surroundings \<Rightarrow> unit stage" where
  "warm_policy_store su =
     stage_bind (\<lambda>pl. (pl, su_connect su ''policy_store'')) (\<lambda>_.
     stage_bind (\<lambda>pl. case ensure_default_policy_row (su_parse_float su) False (pl_policy_row pl) of
                         Inl e \<Rightarrow> (pl, Inl e) | Inr (row, _) \<Rightarrow> (pl\<lparr>pl_policy_row := row\<rparr>, Inr ())) (\<lambda>_.
     stage_bind (\<lambda>pl. case ensure_default_policy_row (su_parse_float su) False (pl_policy_row pl) of
                         Inl e \<Rightarrow> (pl, Inl e) | Inr (row, _) \<Rightarrow> (pl\<lparr>pl_policy_row := row\<rparr>, Inr ())) (\<lambda>_.
     stage_bind (\<lambda>pl. (pl, su_connect su ''shadow_analytics'')) (\<lambda>_ pl.
       (pl\<lparr>pl_db := fst (purge_expired (pl_db pl) (su_now su) 14)\<rparr>, Inr ())))))"

definition start_policy_store :: "surroundings \<Rightarrow> settings \<Rightarrow> app_state \<Rightarrow> app_state stage" where
  "start_policy_store su cfg st pl =
     (if truthy (policy_store_dsn cfg)
      then (case warm_policy_store su pl of
              (pl', Inr _) \<Rightarrow> (count_one ''policy_store_backend_postgres'' pl',
                 Inr (st\<lparr>ap_policy_store := PostgresPolicy, ap_shadow_analytics_store := True\<rparr>))
            | (pl', Inl _) \<Rightarrow> (count_one ''policy_store_backend_memory'' pl',
                 Inr (st\<lparr>ap_policy_store := InMemoryPolicy DEFAULT_POLICY_STATE,
                         ap_shadow_analytics_store := False\<rparr>)))
      else (count_one ''policy_store_backend_memory'' pl, Inr st))"

definition cache_fell_back :: "surroundings \<Rightarrow> string \<Rightarrow> app_state \<Rightarrow> app_state" where
  "cache_fell_back su warning st = st\<lparr>ap_cache_fallback_active := True,
     ap_last_redis_fallback_utc := Some (isoformat (su_now su)), ap_cache_warning := Some warning\<rparr>"

definition start_exact_cache :: "surroundings \<Rightarrow> settings \<Rightarrow> app_state \<Rightarrow> app_state stage" where
  "start_exact_cache su cfg st pl =
     (let redis = (py_lower (cfg_exact_cache_backend cfg) = ''redis'') in
      if redis \<and> truthy (cfg_redis_url cfg)
      then (case su_connect su ''redis'' of
              Inr _ \<Rightarrow> (count_one ''cache_backend_redis'' pl, Inr (st\<lparr>ap_cache_backend_active := ''redis''\<rparr>))
            | Inl e \<Rightarrow> (count_one ''cache_backend_fallbacks'' (count_one ''cache_backend_memory'' pl),
                Inr (cache_fell_back su (''Redis unavailable, fell back to memory: '' @ su_class_name su e)
                       (st\<lparr>ap_cache_backend_active := ''memory''\<rparr>))))
      else if redis
      then (count_one ''cache_backend_memory'' (count_one ''cache_backend_fallbacks'' pl),
            Inr (cache_fell_back su
              ''Redis backend requested but METERA_REDIS_URL is not configured; using memory cache'' st))
      else (count_one ''cache_backend_memory'' pl, Inr st))"

section \<open>Identity and repositories\<close>

definition static_identity :: "settings \<Rightarrow> identity_config" where
  "static_identity cfg = \<lparr>
     ic_enabled = cfg_controlplane_identity_enabled cfg, ic_seed_enabled = cfg_controlplane_identity_seed_enabled cfg,
     ic_static_api_key = cfg_controlplane_static_api_key cfg,
     ic_seed = \<lparr>sa_tenant_id = cfg_controlplane_static_tenant_id cfg,
       sa_tenant_slug = cfg_controlplane_static_tenant_slug cfg,
       sa_workspace_id = cfg_controlplane_static_workspace_id cfg,
       sa_workspace_slug = cfg_controlplane_static_workspace_slug cfg,
       sa_environment_id = cfg_controlplane_static_environment_id cfg,
       sa_environment_name = cfg_controlplane_static_environment_name cfg,
       sa_api_key_id = cfg_controlplane_static_api_key_id cfg,
       sa_api_key_prefix = cfg_controlplane_static_api_key_prefix cfg,
       sa_api_key_display_name = cfg_controlplane_static_api_key_display_name cfg,
       sa_api_key_plaintext = []\<rparr>\<rparr>"

definition start_identity :: "surroundings \<Rightarrow> settings \<Rightarrow> app_state \<Rightarrow> app_state stage" where
  "start_identity su cfg st pl =
     (case identity_bootstrap (su_sha su) (policy_store_dsn cfg) (static_identity cfg)
             (su_connect su ''identity_repository'') (pl_identity pl) (su_now su) of
        (db, resolver, mode) \<Rightarrow>
          (pl\<lparr>pl_identity := db\<rparr>,
           Inr (st\<lparr>ap_controlplane_identity_enabled := cfg_controlplane_identity_enabled cfg,
                   ap_identity_mode := mode, ap_identity_resolver := resolver\<rparr>)))"

definition start_policy_repository :: "surroundings \<Rightarrow> settings \<Rightarrow> app_state \<Rightarrow> app_state stage" where
  "start_policy_repository su cfg st pl =
     (if truthy (policy_store_dsn cfg) \<and> cfg_scoped_policy_enabled cfg
      then (case su_connect su ''policy_repository'' of
              Inl e \<Rightarrow> (pl, Inl e)
            | Inr _ \<Rightarrow>
                (case ensure_global_policy (pl_policies pl) (su_now su) (su_version_uuid su) (su_assignment_uuid su)
                        (ep_fields (runtime_default_policy cfg)) of
                   (db, Inl e) \<Rightarrow> (pl\<lparr>pl_policies := db\<rparr>, Inl e)
                 | (db, Inr _) \<Rightarrow> (pl\<lparr>pl_policies := db\<rparr>, Inr (st\<lparr>ap_policy_repository := True\<rparr>))))
      else (pl, Inr st))"

text \<open>A repository that only has to connect: left out, connected, or the end of the start-up.\<close>

definition start_repository ::
  "surroundings \<Rightarrow> settings \<Rightarrow> string \<Rightarrow> bool \<Rightarrow> (app_state \<Rightarrow> app_state) \<Rightarrow> app_state \<Rightarrow> app_state stage" where
  "start_repository su cfg name enabled attach st pl =
     (pl, if truthy (policy_store_dsn cfg) \<and> enabled
          then rbind (su_connect su name) (\<lambda>_. Inr (attach st)) else Inr st)"

definition startup_threshold :: "settings \<Rightarrow> real" where
  "startup_threshold cfg = normalize_patronage_threshold_usd
     (if cfg_billing_patronage_threshold_usd cfg = 0 then 50 else cfg_billing_patronage_threshold_usd cfg)"

definition start_repositories :: "surroundings \<Rightarrow> settings \<Rightarrow> app_state \<Rightarrow> app_state stage" where
  "start_repositories su cfg st =
     stage_bind (start_repository su cfg ''request_event_repository'' (cfg_request_event_logging_enabled cfg)
                   (\<lambda>st. st\<lparr>ap_request_event_repository := True\<rparr>) st) (\<lambda>st.
     stage_bind (start_repository su cfg ''request_ledger_repository'' (cfg_request_ledger_enabled cfg)
                   (\<lambda>st. st\<lparr>ap_request_ledger_repository := True\<rparr>) st) (\<lambda>st.
     stage_bind (start_repository su cfg ''risk_event_repository'' (cfg_risk_event_logging_enabled cfg)
                   (\<lambda>st. st\<lparr>ap_risk_event_repository := True\<rparr>) st) (\<lambda>st.
     stage_bind (start_repository su cfg ''shadow_savings_repository'' (cfg_shadow_savings_logging_enabled cfg)
                   (\<lambda>st. st\<lparr>ap_shadow_savings_repository := True\<rparr>) st) (\<lambda>st.
     stage_bind (start_repository su cfg ''rollup_repository'' (cfg_rollups_enabled cfg)
                   (\<lambda>st. st\<lparr>ap_rollup_repository := True\<rparr>) st) (\<lambda>st.
     stage_bind (start_repository su cfg ''billing_repository'' (cfg_billing_prep_enabled cfg) id st) (\<lambda>st.
     start_repository su cfg ''commercial_event_repository'' (cfg_billing_prep_enabled cfg)
       (\<lambda>st. st\<lparr>ap_billing_repository := Some (startup_threshold cfg), ap_commercial_event_repository := True\<rparr>)
       st))))))"

definition lifespan :: "surroundings \<Rightarrow> settings \<Rightarrow> app_state stage" where
  "lifespan su cfg =
     stage_bind (configured_state su cfg) (\<lambda>st.
     stage_bind (start_semantic_store su cfg st) (\<lambda>st.
     stage_bind (start_policy_store su cfg st) (\<lambda>st.
     stage_bind (start_exact_cache su cfg st) (\<lambda>st.
     stage_bind (start_identity su cfg st) (\<lambda>st.
     stage_bind (start_policy_repository su cfg st) (\<lambda>st.
     start_repositories su cfg st))))))"

section \<open>Readiness\<close>

definition readiness_issues :: "app_state \<Rightarrow> string list" where
  "readiness_issues st =
     ap_posture_errors st @
     message_if (ap_cache_fallback_active st) ''exact cache is running on fallback backend'' @
     message_if (ap_semantic_store_fallback_active st) ''semantic store is running on fallback backend'' @
     message_if (ap_controlplane_identity_enabled st \<and> ap_identity_mode st \<noteq> ''repository'')
       ''controlplane identity is enabled but runtime identity mode is not repository''"

definition evaluate_runtime_readiness :: "app_state \<Rightarrow> bool \<times> string list" where
  "evaluate_runtime_readiness st = (readiness_issues st = [], readiness_issues st)"

definition ready :: "app_state \<Rightarrow> nat \<times> dict" where
  "ready st = (case evaluate_runtime_readiness st of (ok, issues) \<Rightarrow>
     (if ok then 200 else 503,
      [(''status'', JStr (if ok then ''ready'' else ''not_ready'')),
       (''deployment_profile'', JStr (ap_deployment_profile st)), (''issues'', JArr (map JStr issues)),
       (''identity_mode'', JStr (ap_identity_mode st)), (''cache_backend'', JStr (ap_cache_backend_active st)),
       (''semantic_store_backend'', JStr (ap_semantic_store_active st))]))"

definition health :: "app_state \<Rightarrow> dict" where
  "health st = (case evaluate_runtime_readiness st of (ok, issues) \<Rightarrow>
     [(''status'', JStr ''ok''),
      (''readiness'', JObj [(''ready'', JBool ok), (''issues'', JArr (map JStr issues))]),
      (''posture'', JObj
        [(''deployment_profile'', JStr (ap_deployment_profile st)),
         (''strict_startup'', JBool (ap_posture_strict_startup st)),
         (''errors'', JArr (map JStr (ap_posture_errors st))),
         (''warnings'', JArr (map JStr (ap_posture_warnings st))),
         (''expected'', JObj (ap_posture_expected st)), (''observed'', JObj (ap_posture_observed st)),
         (''runtime_identity_mode'', JStr (ap_identity_mode st))]),
      (''cache'', JObj
        [(''requested_backend'', JStr (ap_cache_backend_requested st)),
         (''active_backend'', JStr (ap_cache_backend_active st)),
         (''fallback_active'', JBool (ap_cache_fallback_active st)),
         (''warning'', json_of_str_option (ap_cache_warning st)),
         (''last_redis_fallback_utc'', json_of_str_option (ap_last_redis_fallback_utc st))]),
      (''semantic'', JObj
        [(''enabled'', JBool (ap_semantic_enabled st)), (''model_name'', JStr (ap_semantic_model_name st)),
         (''backend'', JStr (ap_semantic_backend st)), (''fallback_active'', JBool (ap_semantic_fallback_active st)),
         (''max_temperature'', JFloat (ap_semantic_max_temperature st)),
         (''store'', JObj
           [(''requested_backend'', JStr (ap_semantic_store_requested st)),
            (''active_backend'', JStr (ap_semantic_store_active st)),
            (''fallback_active'', JBool (ap_semantic_store_fallback_active st)),
            (''warning'', json_of_str_option (ap_semantic_store_warning st)),
            (''last_fallback_utc'', json_of_str_option (ap_last_semantic_store_fallback_utc st))])]),
      (''scrub_mode'', JStr (ap_scrub_mode st)),
      (''active_custom_detectors'', JArr (map JStr (ap_active_custom_detectors st))),
      (''custom_detector_sources'', JObj
        [(''json_enabled'', JBool (ap_custom_detector_json_enabled st)),
         (''yaml_path'', json_of_str_option (ap_custom_detector_yaml_path st))])])"

section \<open>What the running application uses\<close>

definition get_policy_state :: "app_state \<Rightarrow> platform \<Rightarrow> dict" where
  "get_policy_state st pl = (case ap_policy_store st of
     InMemoryPolicy d \<Rightarrow> mem_get_overrides d | PostgresPolicy \<Rightarrow> pg_get_overrides (pl_policy_row pl))"

definition chat_resolver :: "surroundings \<Rightarrow> app_state \<Rightarrow> identity_db resolver option" where
  "chat_resolver su st = (case ap_identity_resolver st of
     NoResolver \<Rightarrow> None | r \<Rightarrow> Some (identity_resolve (su_sha su) (su_py_str su) r))"

end
