(* ===== verification/StartupProperties.thy ===== *)
theory StartupProperties
  imports Startup IdentityProperties
begin

text \<open>
  The start-up: what the posture check guarantees, on which back ends a ready application runs,
  whose keys it accepts and which policy values are in force afterwards.
\<close>

section \<open>The posture check\<close>

lemma message_if_Nil [simp]: "message_if c m = [] \<longleftrightarrow> \<not> c"
  by (simp add: message_if_def)

lemma posture_errors_iff:
  "pos_errors (assess_startup_posture cfg) = [] \<longleftrightarrow>
     feature_errors cfg = [] \<and> (strict_startup cfg \<longrightarrow> backend_messages cfg = []) \<and> profile_errors cfg = []"
  by (simp add: assess_startup_posture_def Let_def)

lemma profile_errors_iff:
  "strict_profile cfg \<Longrightarrow> profile_errors cfg = [] \<longleftrightarrow>
     requested_cache cfg = ''redis'' \<and> requested_store cfg = ''pgvector'' \<and>
     truthy (cfg_controlplane_static_api_key cfg) \<and> list_all (\<lambda>(name, flag). flag cfg) PILOT_REQUIRED_FLAGS"
  by (auto simp: profile_errors_def Let_def list_all_iff split: prod.splits)

lemma policy_store_dsn_semantic: "truthy (cfg_semantic_store_dsn cfg) \<Longrightarrow> truthy (policy_store_dsn cfg)"
  by (auto simp: policy_store_dsn_def str_or_def)

lemma no_feature_errors:
  assumes "list_all (\<lambda>(name, flag). flag cfg) PILOT_REQUIRED_FLAGS"
    and "truthy (policy_store_dsn cfg)" "truthy (cfg_controlplane_static_api_key cfg)"
  shows "feature_errors cfg = []"
  using assms by (simp add: feature_errors_def Let_def PILOT_REQUIRED_FLAGS_def)

text \<open>
  In a strict deployment profile the posture check passes exactly when both persistent
  back ends are selected and configured, the static key is set and every required feature is
  switched on; no other check of the posture can fail then.
\<close>

theorem strict_posture_complete:
  assumes "strict_profile cfg"
  shows "pos_errors (assess_startup_posture cfg) = [] \<longleftrightarrow>
     requested_cache cfg = ''redis'' \<and> truthy (cfg_redis_url cfg) \<and>
     requested_store cfg = ''pgvector'' \<and> truthy (cfg_semantic_store_dsn cfg) \<and>
     truthy (cfg_controlplane_static_api_key cfg) \<and>
     list_all (\<lambda>(name, flag). flag cfg) PILOT_REQUIRED_FLAGS"
proof -
  have "strict_startup cfg" using assms by (simp add: strict_startup_def)
  with profile_errors_iff [OF assms] no_feature_errors [of cfg] policy_store_dsn_semantic [of cfg]
  show ?thesis by (auto simp: posture_errors_iff backend_messages_def)
qed

section \<open>The stages\<close>

lemma stage_bind_Inr:
  "stage_bind m f pl = (pl', Inr x) \<longleftrightarrow> (\<exists>pl1 y. m pl = (pl1, Inr y) \<and> f y pl1 = (pl', Inr x))"
  by (auto simp: stage_bind_def split: prod.splits sum.splits)

lemma configured_state_Inr:
  assumes "configured_state su cfg pl = (pl', Inr st)"
  obtains custom where "pl' = pl" "pos_errors (assess_startup_posture cfg) = []"
    "st = initial_state su cfg (assess_startup_posture cfg) custom"
  using assms by (auto simp: configured_state_def Let_def rbind_eq_Inr split: if_splits)

lemma start_repository_Inr:
  "start_repository su cfg name enabled attach st pl = (pl', Inr st') \<longleftrightarrow>
     pl' = pl \<and> (if truthy (policy_store_dsn cfg) \<and> enabled then su_connect su name = Inr () \<and> st' = attach st
                 else st' = st)"
  by (auto simp: start_repository_def rbind_eq_Inr)

text \<open>The stages after the stores leave the back ends alone.\<close>

definition backends :: "app_state \<Rightarrow> string list \<times> (string \<times> bool) \<times> (string \<times> bool \<times> store_choice) \<times> policy_backend" where
  "backends st = (ap_posture_errors st, (ap_cache_backend_active st, ap_cache_fallback_active st),
     (ap_semantic_store_active st, ap_semantic_store_fallback_active st, ap_semantic_store st), ap_policy_store st)"

definition identity_view :: "app_state \<Rightarrow> bool \<times> string \<times> identity_resolver" where
  "identity_view st = (ap_controlplane_identity_enabled st, ap_identity_mode st, ap_identity_resolver st)"

definition repositories :: "app_state \<Rightarrow> bool list" where
  "repositories st = [ap_policy_repository st, ap_request_event_repository st, ap_request_ledger_repository st,
     ap_risk_event_repository st, ap_shadow_savings_repository st, ap_rollup_repository st,
     ap_billing_repository st \<noteq> None, ap_commercial_event_repository st]"

definition repository_flags :: "settings \<Rightarrow> bool list" where
  "repository_flags cfg = map (\<lambda>f. truthy (policy_store_dsn cfg) \<and> f)
     [cfg_scoped_policy_enabled cfg, cfg_request_event_logging_enabled cfg, cfg_request_ledger_enabled cfg,
      cfg_risk_event_logging_enabled cfg, cfg_shadow_savings_logging_enabled cfg, cfg_rollups_enabled cfg,
      cfg_billing_prep_enabled cfg, cfg_billing_prep_enabled cfg]"

lemmas view_defs = backends_def identity_view_def repositories_def

lemma attach_repository:
  assumes "start_repository su cfg name enabled attach st pl = (pl', Inr st')"
    and "\<And>s. backends (attach s) = backends s" "\<And>s. identity_view (attach s) = identity_view s"
    and "\<And>s. repositories (attach s) = g (repositories s)"
  shows "pl' = pl \<and> backends st' = backends st \<and> identity_view st' = identity_view st \<and>
    repositories st' = (if truthy (policy_store_dsn cfg) \<and> enabled then g (repositories st) else repositories st)"
  using assms by (auto simp: start_repository_Inr split: if_splits)

lemma start_repositories_Inr:
  assumes "start_repositories su cfg st pl = (pl', Inr st')"
    and r: "repositories st = b # replicate 7 False"
  shows "pl' = pl \<and> backends st' = backends st \<and> identity_view st' = identity_view st \<and>
    repositories st' = b # tl (repository_flags cfg)"
proof -
  obtain p1 s1 p2 s2 p3 s3 p4 s4 p5 s5 p6 s6 where
    s: "start_repository su cfg ''request_event_repository'' (cfg_request_event_logging_enabled cfg)
          (\<lambda>st. st\<lparr>ap_request_event_repository := True\<rparr>) st pl = (p1, Inr s1)"
      "start_repository su cfg ''request_ledger_repository'' (cfg_request_ledger_enabled cfg)
          (\<lambda>st. st\<lparr>ap_request_ledger_repository := True\<rparr>) s1 p1 = (p2, Inr s2)"
      "start_repository su cfg ''risk_event_repository'' (cfg_risk_event_logging_enabled cfg)
          (\<lambda>st. st\<lparr>ap_risk_event_repository := True\<rparr>) s2 p2 = (p3, Inr s3)"
      "start_repository su cfg ''shadow_savings_repository'' (cfg_shadow_savings_logging_enabled cfg)
          (\<lambda>st. st\<lparr>ap_shadow_savings_repository := True\<rparr>) s3 p3 = (p4, Inr s4)"
      "start_repository su cfg ''rollup_repository'' (cfg_rollups_enabled cfg)
          (\<lambda>st. st\<lparr>ap_rollup_repository := True\<rparr>) s4 p4 = (p5, Inr s5)"
      "start_repository su cfg ''billing_repository'' (cfg_billing_prep_enabled cfg) id s5 p5 = (p6, Inr s6)"
      "start_repository su cfg ''commercial_event_repository'' (cfg_billing_prep_enabled cfg)
          (\<lambda>st. st\<lparr>ap_billing_repository := Some (startup_threshold cfg), ap_commercial_event_repository := True\<rparr>)
          s6 p6 = (pl', Inr st')"
    using assms(1) unfolding start_repositories_def stage_bind_Inr by blast
  have f: "backends s1 = backends st" "identity_view s1 = identity_view st" "p1 = pl"
     "repositories s1 = (if truthy (policy_store_dsn cfg) \<and> cfg_request_event_logging_enabled cfg
        then (repositories st)[1 := True] else repositories st)"
    using attach_repository [OF s(1), of "\<lambda>rs. rs[1 := True]"] by (simp_all add: view_defs)
  have g: "backends s2 = backends st" "identity_view s2 = identity_view st" "p2 = pl"
     "repositories s2 = (if truthy (policy_store_dsn cfg) \<and> cfg_request_ledger_enabled cfg
        then (repositories s1)[2 := True] else repositories s1)"
    using attach_repository [OF s(2), of "\<lambda>rs. rs[2 := True]"] f(1-3) by (simp_all add: view_defs)
  have h: "backends s3 = backends st" "identity_view s3 = identity_view st" "p3 = pl"
     "repositories s3 = (if truthy (policy_store_dsn cfg) \<and> cfg_risk_event_logging_enabled cfg
        then (repositories s2)[3 := True] else repositories s2)"
    using attach_repository [OF s(3), of "\<lambda>rs. rs[3 := True]"] g(1-3) by (simp_all add: view_defs)
  have k: "backends s4 = backends st" "identity_view s4 = identity_view st" "p4 = pl"
     "repositories s4 = (if truthy (policy_store_dsn cfg) \<and> cfg_shadow_savings_logging_enabled cfg
        then (repositories s3)[4 := True] else repositories s3)"
    using attach_repository [OF s(4), of "\<lambda>rs. rs[4 := True]"] h(1-3) by (simp_all add: view_defs)
  have l: "backends s5 = backends st" "identity_view s5 = identity_view st" "p5 = pl"
     "repositories s5 = (if truthy (policy_store_dsn cfg) \<and> cfg_rollups_enabled cfg
        then (repositories s4)[5 := True] else repositories s4)"
    using attach_repository [OF s(5), of "\<lambda>rs. rs[5 := True]"] k(1-3) by (simp_all add: view_defs)
  have m: "backends s6 = backends st" "identity_view s6 = identity_view st" "p6 = pl"
     "repositories s6 = repositories s5"
    using attach_repository [OF s(6), of id] l(1-3) by simp_all
  have n: "backends st' = backends st" "identity_view st' = identity_view st" "pl' = pl"
     "repositories st' = (if truthy (policy_store_dsn cfg) \<and> cfg_billing_prep_enabled cfg
        then (repositories s5)[6 := True, 7 := True] else repositories s5)"
    using attach_repository [OF s(7), of "\<lambda>rs. rs[6 := True, 7 := True]"] m by (simp_all add: view_defs)
  have "repositories st' = b # tl (repository_flags cfg)"
    unfolding n(4) l(4) k(4) h(4) g(4) f(4) r
    by (cases "truthy (policy_store_dsn cfg)") (simp_all add: repository_flags_def numeral_eq_Suc)
  with n(1-3) show ?thesis by blast
qed

lemma start_policy_repository_Inr:
  assumes "start_policy_repository su cfg st pl = (pl', Inr st')"
  shows "pl_policy_row pl' = pl_policy_row pl" "pl_identity pl' = pl_identity pl"
    "backends st' = backends st" "identity_view st' = identity_view st"
    "repositories st = replicate 8 False \<Longrightarrow>
     repositories st' = (truthy (policy_store_dsn cfg) \<and> cfg_scoped_policy_enabled cfg) # replicate 7 False"
  using assms by (auto simp: start_policy_repository_def view_defs numeral_eq_Suc split: if_splits sum.splits prod.splits)

lemma start_identity_Inr:
  assumes "start_identity su cfg st pl = (pl', Inr st')"
  shows "pl_policy_row pl' = pl_policy_row pl" "backends st' = backends st" "repositories st' = repositories st"
    "identity_view st' = (cfg_controlplane_identity_enabled cfg,
       snd (snd (identity_bootstrap (su_sha su) (policy_store_dsn cfg) (static_identity cfg)
         (su_connect su ''identity_repository'') (pl_identity pl) (su_now su))),
       fst (snd (identity_bootstrap (su_sha su) (policy_store_dsn cfg) (static_identity cfg)
         (su_connect su ''identity_repository'') (pl_identity pl) (su_now su))))"
  using assms by (auto simp: start_identity_def view_defs split: prod.splits)

lemma bootstrap_mode_repository:
  "identity_bootstrap sha dsn cfg warmup db now = (db', r, ''repository'') \<Longrightarrow> r = RepositoryResolver"
  by (auto simp: identity_bootstrap_def Let_def split: if_splits sum.splits)

lemma count_one_frame [simp]:
  "pl_policy_row (count_one n pl) = pl_policy_row pl" "pl_identity (count_one n pl) = pl_identity pl"
  "pl_policies (count_one n pl) = pl_policies pl" "pl_db (count_one n pl) = pl_db pl"
  by (simp_all add: count_one_def)

lemma start_exact_cache_Inr:
  assumes "start_exact_cache su cfg st pl = (pl', Inr st')"
    and "ap_cache_fallback_active st = False" "ap_cache_backend_active st = ''memory''"
  shows "pl_policy_row pl' = pl_policy_row pl"
    "ap_cache_fallback_active st' \<or> (py_lower (cfg_exact_cache_backend cfg) = ''redis'' \<longleftrightarrow> ap_cache_backend_active st' = ''redis'')"
    "ap_policy_store st' = ap_policy_store st" "repositories st' = repositories st"
    "ap_posture_errors st' = ap_posture_errors st"
    "ap_semantic_store_active st' = ap_semantic_store_active st"
    "ap_semantic_store_fallback_active st' = ap_semantic_store_fallback_active st"
    "ap_semantic_store st' = ap_semantic_store st"
  using assms by (auto simp: start_exact_cache_def cache_fell_back_def Let_def view_defs split: if_splits sum.splits)

lemma start_policy_store_Inr:
  assumes "start_policy_store su cfg st pl = (pl', Inr st')"
  shows "ap_cache_fallback_active st' = ap_cache_fallback_active st"
    "ap_cache_backend_active st' = ap_cache_backend_active st" "repositories st' = repositories st"
    "ap_posture_errors st' = ap_posture_errors st"
    "ap_semantic_store_active st' = ap_semantic_store_active st"
    "ap_semantic_store_fallback_active st' = ap_semantic_store_fallback_active st"
    "ap_semantic_store st' = ap_semantic_store st"
  using assms by (auto simp: start_policy_store_def view_defs split: if_splits sum.splits prod.splits)

lemma start_semantic_store_Inr:
  assumes "start_semantic_store su cfg st pl = (pl', Inr st')"
  shows "pl_policy_row pl' = pl_policy_row pl"
    "ap_cache_fallback_active st' = ap_cache_fallback_active st"
    "ap_cache_backend_active st' = ap_cache_backend_active st" "repositories st' = repositories st"
    "ap_posture_errors st' = ap_posture_errors st"
    "ap_semantic_store_fallback_active st' \<or>
       (py_lower (cfg_semantic_store_backend cfg) = ''pgvector'' \<longrightarrow>
          ap_semantic_store_active st' = ''pgvector'' \<and>
          ap_semantic_store st' = PgvectorStore (the (cfg_semantic_store_dsn cfg)))"
  using assms by (auto simp: start_semantic_store_def initialize_semantic_store_def resolve_semantic_store_def
      semantic_store_backend_name_def view_defs Let_def split: if_splits sum.splits prod.splits option.splits)

section \<open>A started application\<close>

text \<open>What every start-up that ends successfully has established.\<close>

lemma lifespan_Inr:
  assumes "lifespan su cfg pl = (pl', Inr st)"
  shows "pos_errors (assess_startup_posture cfg) = []" "ap_posture_errors st = []"
    "repositories st = repository_flags cfg"
    "ap_cache_fallback_active st \<or>
       (py_lower (cfg_exact_cache_backend cfg) = ''redis'' \<longleftrightarrow> ap_cache_backend_active st = ''redis'')"
    "ap_semantic_store_fallback_active st \<or>
       (py_lower (cfg_semantic_store_backend cfg) = ''pgvector'' \<longrightarrow>
          ap_semantic_store_active st = ''pgvector'' \<and>
          ap_semantic_store st = PgvectorStore (the (cfg_semantic_store_dsn cfg)))"
    "ap_controlplane_identity_enabled st = cfg_controlplane_identity_enabled cfg"
    "ap_identity_mode st = ''repository'' \<longrightarrow> ap_identity_resolver st = RepositoryResolver"
proof -
  obtain p0 s0 p1 s1 p2 s2 p3 s3 p4 s4 p5 s5 where
    s: "configured_state su cfg pl = (p0, Inr s0)" "start_semantic_store su cfg s0 p0 = (p1, Inr s1)"
      "start_policy_store su cfg s1 p1 = (p2, Inr s2)" "start_exact_cache su cfg s2 p2 = (p3, Inr s3)"
      "start_identity su cfg s3 p3 = (p4, Inr s4)" "start_policy_repository su cfg s4 p4 = (p5, Inr s5)"
      "start_repositories su cfg s5 p5 = (pl', Inr st)"
    using assms unfolding lifespan_def stage_bind_Inr by blast
  obtain custom where c: "pos_errors (assess_startup_posture cfg) = []"
    "s0 = initial_state su cfg (assess_startup_posture cfg) custom"
    using configured_state_Inr [OF s(1)] by blast
  have i: "ap_posture_errors s0 = []" "\<not> ap_cache_fallback_active s0" "ap_cache_backend_active s0 = ''memory''"
    "repositories s0 = replicate 8 False"
    by (simp_all add: c initial_state_def repositories_def numeral_eq_Suc)
  note se = start_semantic_store_Inr [OF s(2)] and ps = start_policy_store_Inr [OF s(3)]
  have ca: "ap_cache_fallback_active s2 = False" "ap_cache_backend_active s2 = ''memory''"
    using i se ps by simp_all
  note ec = start_exact_cache_Inr [OF s(4) ca]
  note id = start_identity_Inr [OF s(5)] and pr = start_policy_repository_Inr [OF s(6)]
  have r4: "repositories s4 = replicate 8 False" using i(4) se(4) ps(3) ec(4) id(3) by simp
  have r5: "repositories s5 = (truthy (policy_store_dsn cfg) \<and> cfg_scoped_policy_enabled cfg) # replicate 7 False"
    by (rule pr(5) [OF r4])
  note rr = start_repositories_Inr [OF s(7) r5]
  have b: "backends st = backends s3" using rr pr(3) id(2) by simp
  show "pos_errors (assess_startup_posture cfg) = []" by (rule c(1))
  show "ap_posture_errors st = []" using b i(1) se(5) ps(4) ec(5) by (simp add: backends_def)
  show "repositories st = repository_flags cfg" using rr by (simp add: repository_flags_def)
  show "ap_cache_fallback_active st \<or>
       (py_lower (cfg_exact_cache_backend cfg) = ''redis'' \<longleftrightarrow> ap_cache_backend_active st = ''redis'')"
    using b ec(2) by (auto simp: backends_def)
  show "ap_semantic_store_fallback_active st \<or>
       (py_lower (cfg_semantic_store_backend cfg) = ''pgvector'' \<longrightarrow>
          ap_semantic_store_active st = ''pgvector'' \<and>
          ap_semantic_store st = PgvectorStore (the (cfg_semantic_store_dsn cfg)))"
    using b ec(6-8) ps(5-7) se(6) by (simp add: backends_def)
  have v: "identity_view st = identity_view s4" using rr pr(4) by simp
  show "ap_controlplane_identity_enabled st = cfg_controlplane_identity_enabled cfg"
    using v id(4) by (simp add: identity_view_def)
  show "ap_identity_mode st = ''repository'' \<longrightarrow> ap_identity_resolver st = RepositoryResolver"
  proof
    assume m: "ap_identity_mode st = ''repository''"
    obtain db r mode where bt: "identity_bootstrap (su_sha su) (policy_store_dsn cfg) (static_identity cfg)
         (su_connect su ''identity_repository'') (pl_identity p3) (su_now su) = (db, r, mode)"
      by (metis prod_cases3)
    then have "mode = ''repository''" "ap_identity_resolver st = r"
      using m v id(4) by (simp_all add: identity_view_def)
    with bt bootstrap_mode_repository show "ap_identity_resolver st = RepositoryResolver" by blast
  qed
qed

lemma ready_iff: "fst (ready st) = 200 \<longleftrightarrow> ap_posture_errors st = [] \<and> \<not> ap_cache_fallback_active st \<and>
    \<not> ap_semantic_store_fallback_active st \<and>
    (ap_controlplane_identity_enabled st \<longrightarrow> ap_identity_mode st = ''repository'')"
  by (auto simp: ready_def evaluate_runtime_readiness_def readiness_issues_def)

lemma requested_unpadded:
  "strip (py_lower b) = py_lower b \<Longrightarrow> strip (py_lower b) = ''redis'' \<Longrightarrow> py_lower b = ''redis''"
  by simp

text \<open>
  C34. An application of a strict profile that has started and reports ready runs on Redis and on
  the configured pgvector store, resolves keys from the repository and has every repository
  attached. (The names of the back ends must carry no blanks: the posture check strips them,
  the start-up does not, and a name with a blank silently selects memory.)
\<close>

theorem strict_ready_on_primaries:
  assumes "lifespan su cfg pl = (pl', Inr st)" "strict_profile cfg" "fst (ready st) = 200"
    and "strip (py_lower (cfg_exact_cache_backend cfg)) = py_lower (cfg_exact_cache_backend cfg)"
    and "strip (py_lower (cfg_semantic_store_backend cfg)) = py_lower (cfg_semantic_store_backend cfg)"
  shows "ap_cache_backend_active st = ''redis'' \<and>
    ap_semantic_store st = PgvectorStore (the (cfg_semantic_store_dsn cfg)) \<and>
    ap_identity_resolver st = RepositoryResolver \<and>
    ap_policy_repository st \<and> ap_request_event_repository st \<and> ap_request_ledger_repository st \<and>
    ap_risk_event_repository st \<and> ap_shadow_savings_repository st \<and> ap_rollup_repository st \<and>
    ap_billing_repository st \<noteq> None \<and> ap_commercial_event_repository st"
proof -
  note l = lifespan_Inr [OF assms(1)]
  have e: "feature_errors cfg = []" "profile_errors cfg = []" "backend_messages cfg = []"
    using l(1) assms(2) by (auto simp: posture_errors_iff strict_startup_def)
  have p: "requested_cache cfg = ''redis''" "requested_store cfg = ''pgvector''"
    "list_all (\<lambda>(name, flag). flag cfg) PILOT_REQUIRED_FLAGS"
    using e(2) profile_errors_iff [OF assms(2)] by simp_all
  have d: "truthy (policy_store_dsn cfg)"
    using e(3) p(2) policy_store_dsn_semantic by (auto simp: backend_messages_def)
  have f: "cfg_controlplane_identity_enabled cfg" "repository_flags cfg = replicate 8 True"
    using p(3) d by (simp_all add: PILOT_REQUIRED_FLAGS_def repository_flags_def numeral_eq_Suc)
  have "py_lower (cfg_exact_cache_backend cfg) = ''redis''"
    "py_lower (cfg_semantic_store_backend cfg) = ''pgvector''"
    using p(1,2) assms(4,5) by (simp_all add: requested_cache_def requested_store_def)
  with l(4-7) f(1) assms(3) have "ap_cache_backend_active st = ''redis''"
    "ap_semantic_store st = PgvectorStore (the (cfg_semantic_store_dsn cfg))"
    "ap_identity_resolver st = RepositoryResolver"
    by (auto simp: ready_iff)
  moreover have "repositories st = replicate 8 True" using l(3) f(2) by simp
  ultimately show ?thesis by (auto simp: repositories_def numeral_eq_Suc)
qed

text \<open>
  C33. When the identity is switched on and the application reports ready, the context of every
  admitted chat request is that of a key that is active, unexpired and unrevoked in the tables
  at that moment: revoking a key takes effect at once. (An application that fell back to the
  static resolver is not ready; it would go on accepting the static key.)
\<close>

theorem ready_identity_needs_live_key:
  assumes "lifespan su cfg pl = (pl', Inr st)" "fst (ready st) = 200" "cfg_controlplane_identity_enabled cfg"
    and "chat_context (ap_controlplane_identity_enabled st) (chat_resolver su st) header_name now request_id
           namespace_header authorization db = (db', Inr ctx)"
  shows "\<exists>key. \<exists>k \<in> set (api_keys db). chat_bearer_token authorization = Some key \<and>
    key_usable db now (su_sha su key) k \<and> ctx_api_key_id ctx = Some (ak_id k) \<and>
    ctx_tenant_id ctx = Some (ak_tenant_id k) \<and> ctx_workspace_id ctx = Some (ak_workspace_id k)"
proof -
  note l = lifespan_Inr [OF assms(1)]
  have "ap_controlplane_identity_enabled st" "ap_identity_resolver st = RepositoryResolver"
    using l(6,7) assms(2,3) by (auto simp: ready_iff)
  moreover have "identity_resolve (su_sha su) (su_py_str su) RepositoryResolver = resolve_key (su_sha su) (su_py_str su)"
    by (intro ext) (simp add: identity_resolve_def)
  ultimately have c: "chat_context True (Some (resolve_key (su_sha su) (su_py_str su))) header_name now request_id
      namespace_header authorization db = (db', Inr ctx)"
    using assms(4) by (simp add: chat_resolver_def)
  obtain key c where "chat_bearer_token authorization = Some key" "repository_grants (su_sha su) db now key c"
    "ctx_tenant_id ctx = Some (rk_tenant_id c)" "ctx_workspace_id ctx = Some (rk_workspace_id c)"
    "ctx_api_key_id ctx = Some (rk_api_key_id c)"
    using repository_keys.chat_context_granted [OF c] by blast
  then show ?thesis by (auto simp: repository_grants_def)
qed

section \<open>The policy row after the start-up\<close>

definition row_ok :: "override_row option \<Rightarrow> bool" where
  "row_ok row \<longleftrightarrow> row = None \<or> pg_ready row"

lemma fill_defaults_distinct: "distinct (map fst st) \<Longrightarrow> distinct (map fst (fill_defaults b st))"
proof -
  have "distinct (map fst st) \<Longrightarrow> distinct (map fst (foldl (\<lambda>m (key, v).
      if b \<or> dict_get m key = JNull then AList.update key v m else m) st ds))" for ds
    by (induction ds arbitrary: st) (auto simp: distinct_update split: prod.splits)
  then show "distinct (map fst st) \<Longrightarrow> ?thesis" by (simp add: fill_defaults_def)
qed

lemma shadow_value:
  assumes "row_ok row"
  shows "\<exists>t. dict_get (fill_defaults False (pg_get_overrides row)) ''semantic_shadow_threshold'' = JFloat t"
proof (cases row)
  case None
  then show ?thesis
    by (simp add: pg_get_overrides_def fill_defaults_get shadow_key default_get)
      (simp add: PRODUCTION_POLICY_DEFAULTS_def dict_get_def)
next
  case (Some r)
  then have "distinct (map fst (decode_json_object (row_overrides r)))"
    using assms by (simp add: row_ok_def pg_ready_def)
  from pg_get_get [OF this, of "''semantic_shadow_threshold''"] Some show ?thesis
    by (simp add: fill_defaults_get)
qed

lemma ensure_default_row:
  assumes "row_ok row"
  obtains r d where "ensure_default_policy_row parse_float False row = Inr (Some r, d)" "row_ok (Some r)"
    "\<And>k. dict_get (pg_get_overrides (Some r)) k = dict_get (fill_defaults False (pg_get_overrides row)) k"
proof -
  let ?d = "fill_defaults False (pg_get_overrides row)"
  obtain t where t: "dict_get ?d ''semantic_shadow_threshold'' = JFloat t" using shadow_value [OF assms] by blast
  have "has_key ?d ''semantic_shadow_threshold''"
    using t by (cases "map_of ?d ''semantic_shadow_threshold''") (simp_all add: dict_get_def has_key_iff)
  from pg_write_row_float [OF this t, of parse_float]
  have w: "ensure_default_policy_row parse_float False row =
      Inr (Some \<lparr>row_overrides = JObj ?d, row_semantic_shadow_threshold = t\<rparr>, ?d)"
    by (simp add: ensure_default_policy_row_def)
  have dd: "distinct (map fst (decode_json_object (row_overrides
      \<lparr>row_overrides = JObj ?d, row_semantic_shadow_threshold = t\<rparr>)))"
    by (simp add: decode_json_object_def fill_defaults_distinct pg_get_distinct)
  have "row_ok (Some \<lparr>row_overrides = JObj ?d, row_semantic_shadow_threshold = t\<rparr>)"
    using dd by (simp add: row_ok_def pg_ready_def)
  moreover have "dict_get (pg_get_overrides (Some \<lparr>row_overrides = JObj ?d, row_semantic_shadow_threshold = t\<rparr>)) k
      = dict_get ?d k" for k
    using t by (simp add: pg_get_get [OF dd] decode_json_object_def)
  ultimately show thesis using that [OF w] by blast
qed

lemma warm_policy_store_row:
  assumes "warm_policy_store su pl = (pl', Inr u)" "row_ok (pl_policy_row pl)"
  shows "row_ok (pl_policy_row pl') \<and> (\<forall>k \<in> policy_keys. dict_get (pg_get_overrides (pl_policy_row pl')) k =
    dict_get (fill_defaults False (pg_get_overrides (pl_policy_row pl))) k)"
proof -
  obtain r1 d1 where r1: "ensure_default_policy_row (su_parse_float su) False (pl_policy_row pl) = Inr (Some r1, d1)"
    "row_ok (Some r1)"
    "\<And>k. dict_get (pg_get_overrides (Some r1)) k = dict_get (fill_defaults False (pg_get_overrides (pl_policy_row pl))) k"
    using ensure_default_row [OF assms(2)] by metis
  obtain r2 d2 where r2: "ensure_default_policy_row (su_parse_float su) False (Some r1) = Inr (Some r2, d2)"
    "row_ok (Some r2)"
    "\<And>k. dict_get (pg_get_overrides (Some r2)) k = dict_get (fill_defaults False (pg_get_overrides (Some r1))) k"
    using ensure_default_row [OF r1(2)] by metis
  have "pl_policy_row pl' = Some r2"
    using assms(1) by (auto simp: warm_policy_store_def stage_bind_Inr r1(1) r2(1))
  moreover have "dict_get (pg_get_overrides (Some r2)) k =
      dict_get (fill_defaults False (pg_get_overrides (pl_policy_row pl))) k" if "k \<in> policy_keys" for k
  proof -
    have "dict_get (pg_get_overrides (Some r1)) k \<noteq> JNull"
      using r1(3) that production_not_null [OF that] by (simp add: fill_defaults_get)
    then have "dict_get (pg_get_overrides (Some r2)) k = dict_get (pg_get_overrides (Some r1)) k"
      using r2(3) by (simp add: fill_defaults_get)
    with r1(3) show ?thesis by simp
  qed
  ultimately show ?thesis using r2(2) by simp
qed

lemma lifespan_policy_row:
  assumes "lifespan su cfg pl = (pl', Inr st)" "ap_policy_store st = PostgresPolicy"
  obtains p1 p2 u where "warm_policy_store su p1 = (p2, Inr u)" "pl_policy_row p1 = pl_policy_row pl"
    "pl_policy_row pl' = pl_policy_row p2"
proof -
  obtain p0 s0 p1 s1 p2 s2 p3 s3 p4 s4 p5 s5 where
    s: "configured_state su cfg pl = (p0, Inr s0)" "start_semantic_store su cfg s0 p0 = (p1, Inr s1)"
      "start_policy_store su cfg s1 p1 = (p2, Inr s2)" "start_exact_cache su cfg s2 p2 = (p3, Inr s3)"
      "start_identity su cfg s3 p3 = (p4, Inr s4)" "start_policy_repository su cfg s4 p4 = (p5, Inr s5)"
      "start_repositories su cfg s5 p5 = (pl', Inr st)"
    using assms(1) unfolding lifespan_def stage_bind_Inr by blast
  obtain custom where c: "p0 = pl" "s0 = initial_state su cfg (assess_startup_posture cfg) custom"
    using configured_state_Inr [OF s(1)] by blast
  have i: "repositories s0 = replicate 8 False" "ap_cache_fallback_active s0 = False"
    "ap_cache_backend_active s0 = ''memory''" "ap_policy_store s0 \<noteq> PostgresPolicy"
    by (simp_all add: c initial_state_def repositories_def numeral_eq_Suc)
  note se = start_semantic_store_Inr [OF s(2)] and ps = start_policy_store_Inr [OF s(3)]
  have ca: "ap_cache_fallback_active s2 = False" "ap_cache_backend_active s2 = ''memory''"
    using i se ps by simp_all
  note ec = start_exact_cache_Inr [OF s(4) ca]
  note id = start_identity_Inr [OF s(5)] and pr = start_policy_repository_Inr [OF s(6)]
  have r4: "repositories s4 = replicate 8 False" using i(1) se(4) ps(3) ec(4) id(3) by simp
  note rr = start_repositories_Inr [OF s(7) pr(5) [OF r4]]
  have "backends st = backends s3" using rr pr(3) id(2) by simp
  then have "ap_policy_store s2 = PostgresPolicy" using assms(2) ec(3) by (simp add: backends_def)
  moreover have "ap_policy_store s1 \<noteq> PostgresPolicy"
    using s(2) i(4) by (auto simp: start_semantic_store_def split: prod.splits)
  ultimately obtain p2' u where "warm_policy_store su p1 = (p2', Inr u)" "pl_policy_row p2 = pl_policy_row p2'"
    using s(3) by (auto simp: start_policy_store_def split: if_splits prod.splits sum.splits)
  then show thesis using that [of p1 p2' u] c(1) se(1) ec(1) id(1) pr(1) rr by simp
qed

text \<open>
  C35. When the application comes up on the PostgreSQL policy store, every policy value the proxy
  then uses is the one stored in the table or else the built-in production default: the
  corresponding settings (\<open>METERA_DLP_ENABLED\<close>, \<open>METERA_SEMANTIC_THRESHOLD\<close> and the
  others) have no influence any more.
\<close>

theorem stored_policy_shadows_settings:
  assumes "lifespan su cfg pl = (pl', Inr st)" "ap_policy_store st = PostgresPolicy"
    and "pl_policy_row pl = None \<or> pg_ready (pl_policy_row pl)" and "k \<in> policy_keys"
  shows "dict_get (get_policy_state st pl') k =
     (if dict_get (pg_get_overrides (pl_policy_row pl)) k \<noteq> JNull
      then dict_get (pg_get_overrides (pl_policy_row pl)) k else dict_get PRODUCTION_POLICY_DEFAULTS k)
   \<and> dict_get (get_policy_state st pl') k \<noteq> JNull"
proof -
  obtain p1 p2 u where p: "warm_policy_store su p1 = (p2, Inr u)" "pl_policy_row p1 = pl_policy_row pl"
    "pl_policy_row pl' = pl_policy_row p2"
    using lifespan_policy_row [OF assms(1,2)] by blast
  have "row_ok (pl_policy_row p1)" using assms(3) p(2) by (simp add: row_ok_def)
  from warm_policy_store_row [OF p(1) this] assms(4)
  have "dict_get (get_policy_state st pl') k = dict_get (fill_defaults False (pg_get_overrides (pl_policy_row pl))) k"
    by (simp add: get_policy_state_def assms(2) p(2,3))
  then show ?thesis using production_not_null [OF assms(4)] assms(4) by (simp add: fill_defaults_get)
qed

section \<open>A start-up in the pilot profile\<close>

definition pilot_settings :: settings where
  "pilot_settings = default_settings\<lparr>cfg_deployment_profile := ''pilot'', cfg_exact_cache_backend := ''redis'',
     cfg_redis_url := Some ''redis://cache'', cfg_semantic_store_backend := ''pgvector'',
     cfg_semantic_store_dsn := Some ''postgres://db'', cfg_controlplane_static_api_key := Some ''secret'',
     cfg_controlplane_identity_enabled := True, cfg_controlplane_identity_seed_enabled := True,
     cfg_request_event_logging_enabled := True, cfg_request_ledger_enabled := True,
     cfg_risk_event_logging_enabled := True, cfg_shadow_savings_logging_enabled := True,
     cfg_scoped_policy_enabled := True, cfg_rollups_enabled := True, cfg_billing_prep_enabled := True,
     cfg_identity_guard_enabled := True, cfg_identity_strict_mode_enabled := True,
     cfg_identity_partitioning_enabled := True, cfg_multimodal_hard_alignment_enabled := True,
     cfg_policy_timing_breakdown_enabled := True\<rparr>"

definition quiet_surroundings :: surroundings where
  "quiet_surroundings = \<lparr>su_connect = \<lambda>_. Inr (), su_class_name = \<lambda>_. ''Exception'', su_model_loads = True,
     su_json_loads = \<lambda>_. Inr JNull, su_read_yaml = \<lambda>_. Inr JNull, su_py_str = \<lambda>_. [],
     su_re_compile = \<lambda>_ _. Inl (ValueErr []), su_parse_float = \<lambda>_. None, su_sha = \<lambda>s. s, su_now = 10,
     su_version_uuid = ''v'', su_assignment_uuid = ''a''\<rparr>"

definition new_platform :: platform where
  "new_platform = \<lparr>pl_policy_row = None, pl_db = empty_database, pl_identity = empty_identity,
     pl_policies = empty_policies, pl_metrics = \<lparr>COUNTERS = Map.empty, DISTRIBUTIONS = Map.empty\<rparr>\<rparr>"

lemma pilot_strings [simp]:
  "py_lower ''redis'' = ''redis''" "py_lower ''pgvector'' = ''pgvector''" "py_lower ''pilot'' = ''pilot''"
  "strip ''redis'' = ''redis''" "strip ''pgvector'' = ''pgvector''" "strip ''pilot'' = ''pilot''"
  by code_simp+

lemma pilot_fields [simp]:
  "cfg_exact_cache_backend pilot_settings = ''redis''" "cfg_semantic_store_backend pilot_settings = ''pgvector''"
  "cfg_redis_url pilot_settings = Some ''redis://cache''"
  "cfg_semantic_store_dsn pilot_settings = Some ''postgres://db''"
  "cfg_controlplane_static_api_key pilot_settings = Some ''secret''"
  "cfg_controlplane_identity_enabled pilot_settings" "cfg_dlp_custom_detectors_json pilot_settings = None"
  "cfg_dlp_custom_detectors_yaml_path pilot_settings = None"
  "truthy (policy_store_dsn pilot_settings)"
  "list_all (\<lambda>(name, flag). flag pilot_settings) PILOT_REQUIRED_FLAGS"
  by (simp_all add: pilot_settings_def default_settings_def PILOT_REQUIRED_FLAGS_def policy_store_dsn_def str_or_def)

lemma pilot_profile: "strict_profile pilot_settings"
  by (simp add: strict_profile_def posture_profile_def STRICT_PROFILES_def pilot_settings_def)

lemma pilot_posture: "pos_errors (assess_startup_posture pilot_settings) = []"
proof -
  have "feature_errors pilot_settings = []" by (rule no_feature_errors) simp_all
  moreover have "profile_errors pilot_settings = []"
    by (simp add: profile_errors_iff [OF pilot_profile] requested_cache_def requested_store_def)
  ultimately show ?thesis
    by (simp add: posture_errors_iff backend_messages_def)
qed

lemma pilot_seed:
  "\<exists>db. identity_bootstrap (\<lambda>s. s) (policy_store_dsn pilot_settings) (static_identity pilot_settings) (Inr ())
     empty_identity 10 = (db, RepositoryResolver, ''repository'')"
  by (simp add: identity_bootstrap_def static_identity_def empty_identity_def seed_static_identity_def
      seed_tenant_def seed_workspace_def seed_environment_def seed_api_key_def upsert_by_def Let_def
      seeded_tenant_def seeded_workspace_def pilot_settings_def default_settings_def policy_store_dsn_def str_or_def
      rbind_def)

lemma pilot_started:
  "\<exists>pl st. lifespan quiet_surroundings pilot_settings new_platform = (pl, Inr st) \<and> fst (ready st) = 200 \<and>
     ap_policy_store st = PostgresPolicy"
proof -
  obtain db where s: "identity_bootstrap (\<lambda>s. s) (policy_store_dsn pilot_settings) (static_identity pilot_settings)
     (Inr ()) empty_identity 10 = (db, RepositoryResolver, ''repository'')"
    using pilot_seed by blast
  obtain r1 d1 where r1: "ensure_default_policy_row (\<lambda>_. None) False None = Inr (Some r1, d1)" "row_ok (Some r1)"
    using ensure_default_row [of None "\<lambda>_. None"] row_ok_def by metis
  obtain r2 d2 where r2: "ensure_default_policy_row (\<lambda>_. None) False (Some r1) = Inr (Some r2, d2)"
    using ensure_default_row [OF r1(2), of "\<lambda>_. None"] by metis
  have g: "\<exists>pdb vid. ensure_global_policy empty_policies 10 ''v'' ''a'' f = (pdb, Inr vid)" for f
    by (simp add: ensure_global_policy_def global_version_def empty_policies_def insert_version_def
        insert_assignment_def new_assignment_def version_exists_def rbind_def Let_def)
  obtain pdb vid where g: "ensure_global_policy empty_policies 10 ''v'' ''a''
      (ep_fields (runtime_default_policy pilot_settings)) = (pdb, Inr vid)" using g by blast
  show ?thesis
    by (simp add: lifespan_def stage_bind_def configured_state_def startup_detectors_def load_custom_secret_patterns_def
        load_custom_secret_patterns_from_yaml_def start_semantic_store_def initialize_semantic_store_def
        semantic_store_backend_name_def start_policy_store_def warm_policy_store_def start_exact_cache_def
        start_identity_def start_policy_repository_def start_repositories_def start_repository_def
        quiet_surroundings_def new_platform_def pilot_posture s r1 r2 g ready_iff Let_def initial_state_def)
qed

lemma strict_posture_complete_witness: "pos_errors (assess_startup_posture pilot_settings) = []"
  using strict_posture_complete [OF pilot_profile] by (simp add: requested_cache_def requested_store_def)

lemma strict_ready_on_primaries_witness:
  "\<exists>pl st. lifespan quiet_surroundings pilot_settings new_platform = (pl, Inr st) \<and>
     ap_cache_backend_active st = ''redis'' \<and> ap_semantic_store st = PgvectorStore ''postgres://db'' \<and>
     ap_billing_repository st \<noteq> None"
proof -
  obtain pl st where s: "lifespan quiet_surroundings pilot_settings new_platform = (pl, Inr st)" "fst (ready st) = 200"
    using pilot_started by blast
  from strict_ready_on_primaries [OF s(1) pilot_profile s(2)] s(1) show ?thesis by auto
qed

lemma pilot_chat_context:
  "\<exists>db' ctx. chat_context True (Some (resolve_key (\<lambda>s. s) (\<lambda>_. []))) ''x-metera-namespace'' 3 ''r1'' (Some ''n1'')
     (Some ''Bearer secret'') seeded_demo = (db', Inr ctx)"
proof -
  have "namespace_ok ''n1''"
    by (simp add: namespace_ok_def valid_namespace_character_def is_lower_alpha_def is_digit_def code_point_def)
  then have "validate_namespace ''x-metera-namespace'' ''n1'' = Inr ''n1''" by (simp add: validate_namespace_Inr)
  moreover have "strip ''n1'' = ''n1''" by code_simp
  ultimately have t: "chat_bearer_token (Some ''Bearer secret'') = Some ''secret''"
    "resolve_namespace (Some ''n1'') ''x-metera-namespace'' = Inr ''n1''"
    by (simp_all add: resolve_namespace_def Let_def) code_simp
  have "\<exists>i' c. resolve_key (\<lambda>s. s) (\<lambda>_. []) seeded_demo 3 (Some ''secret'') = (i', Inr (Some c))"
    by (simp add: resolve_key_def seeded_demo_def key_usable_def seeded_key_def demo_seed_def seeded_tenant_def
        seeded_workspace_def stored_capabilities_def iterate_json_def seeded_key_metadata_def seeded_metadata_def)
  with t show ?thesis
    by (auto simp: chat_context_def identified_context_def context_namespace_def new_context_def)
qed

lemma ready_identity_needs_live_key_witness:
  "\<exists>pl st db' ctx. lifespan quiet_surroundings pilot_settings new_platform = (pl, Inr st) \<and>
     chat_context (ap_controlplane_identity_enabled st) (chat_resolver quiet_surroundings st) ''x-metera-namespace'' 3
       ''r1'' (Some ''n1'') (Some ''Bearer secret'') seeded_demo = (db', Inr ctx) \<and>
     (\<exists>k \<in> set (api_keys seeded_demo). ctx_tenant_id ctx = Some (ak_tenant_id k))"
proof -
  obtain pl st where s: "lifespan quiet_surroundings pilot_settings new_platform = (pl, Inr st)" "fst (ready st) = 200"
    using pilot_started by blast
  have e: "ap_controlplane_identity_enabled st" "ap_identity_resolver st = RepositoryResolver"
    using lifespan_Inr(6,7) [OF s(1)] s(2) by (auto simp: ready_iff)
  have "identity_resolve (\<lambda>s. s) (\<lambda>_. []) RepositoryResolver = resolve_key (\<lambda>s. s) (\<lambda>_. [])"
    by (intro ext) (simp add: identity_resolve_def)
  then obtain db' ctx where c: "chat_context (ap_controlplane_identity_enabled st) (chat_resolver quiet_surroundings st)
      ''x-metera-namespace'' 3 ''r1'' (Some ''n1'') (Some ''Bearer secret'') seeded_demo = (db', Inr ctx)"
    using pilot_chat_context e by (auto simp: chat_resolver_def quiet_surroundings_def)
  have "cfg_controlplane_identity_enabled pilot_settings" by simp
  from ready_identity_needs_live_key [OF s this c] s(1) c show ?thesis by blast
qed

lemma stored_policy_shadows_settings_witness:
  "\<exists>pl st. lifespan quiet_surroundings pilot_settings new_platform = (pl, Inr st) \<and>
     dict_get (get_policy_state st pl) ''semantic_threshold'' = JFloat (fl 0.9)"
proof -
  obtain pl st where s: "lifespan quiet_surroundings pilot_settings new_platform = (pl, Inr st)"
    "ap_policy_store st = PostgresPolicy" using pilot_started by blast
  have k: "''semantic_threshold'' \<in> policy_keys" by (simp add: policy_keys_def DEFAULT_POLICY_STATE_def)
  have "pl_policy_row new_platform = None" by (simp add: new_platform_def)
  with stored_policy_shadows_settings [OF s _ k] s(1) show ?thesis
    by (auto simp: pg_get_overrides_def default_get PRODUCTION_POLICY_DEFAULTS_def DEFAULT_POLICY_STATE_def dict_get_def)
qed

end
