(* ===== verification/IdentityAdmin.thy ===== *)
theory IdentityAdmin
  imports BillingAdmin ChatRoute
begin

text \<open>
  The identity routes of an administrator, \<open>app/api/routes_identity_admin.py\<close>: each checks the
  admin key, cleans its payload as the request models of \<open>app/models/api.py\<close> do, calls the
  key repository and turns its errors into HTTP ones. A handler returns the tables with its
  answer, since the onboarding call may raise after a part of it has been committed.
\<close>

section \<open>Application and errors\<close>

record identity_app =
  ia_admin_api_key :: "string option"
  ia_identity_enabled :: bool
  ia_identity_mode :: string
  ia_identity_repository :: bool
  ia_identity_resolver :: bool

definition require_identity_repository :: "identity_app \<Rightarrow> unit result" where
  "require_identity_repository app =
     raise_if (\<not> ia_identity_repository app) (HTTPException 503 ''Identity repository is not available'')"

text \<open>The \<open>except\<close> clauses, one for each class of error.\<close>

definition not_found_as_404 :: "py_exc \<Rightarrow> py_exc" where
  "not_found_as_404 e = (case e of IdentityNotFound m \<Rightarrow> HTTPException 404 m | _ \<Rightarrow> e)"

definition validation_as_400 :: "py_exc \<Rightarrow> py_exc" where
  "validation_as_400 e = (case e of IdentityValidation m \<Rightarrow> HTTPException 400 m | _ \<Rightarrow> e)"

definition conflict_as_409 :: "py_exc \<Rightarrow> py_exc" where
  "conflict_as_409 e = (case e of IdentityConflict m \<Rightarrow> HTTPException 409 m | _ \<Rightarrow> e)"

definition identity_error :: "py_exc \<Rightarrow> py_exc" where
  "identity_error e = conflict_as_409 (validation_as_400 (not_found_as_404 e))"

section \<open>Payloads\<close>

text \<open>
  A string field is stripped and then measured; a payload that does not fit is a 422. Fields
  with a default hold it when the body leaves them out.
\<close>

definition bounded :: "nat \<Rightarrow> string \<Rightarrow> string result" where
  "bounded most s = (let t = strip s in if t \<noteq> [] \<and> length t \<le> most then Inr t else Inl unprocessable)"

record tenant_payload =
  tp_slug :: string
  tp_name :: string
  tp_metadata :: dict

record workspace_payload =
  wp_tenant_id :: string
  wp_slug :: string
  wp_name :: string
  wp_metadata :: dict

record key_payload =
  kp_tenant_id :: string
  kp_workspace_id :: string
  kp_display_name :: string
  kp_tenant_role :: string
  kp_tenant_capabilities :: "string list"
  kp_environment_id :: "string option"
  kp_metadata :: dict

definition clean_tenant_payload :: "tenant_payload \<Rightarrow> tenant_payload result" where
  "clean_tenant_payload p =
     rbind (bounded 128 (tp_slug p)) (\<lambda>slug. rbind (bounded 128 (tp_name p)) (\<lambda>name.
       Inr (p\<lparr>tp_slug := slug, tp_name := name\<rparr>)))"

definition clean_workspace_payload :: "workspace_payload \<Rightarrow> workspace_payload result" where
  "clean_workspace_payload p =
     rbind (bounded 128 (wp_tenant_id p)) (\<lambda>tenant. rbind (bounded 128 (wp_slug p)) (\<lambda>slug.
     rbind (bounded 128 (wp_name p)) (\<lambda>name.
       Inr (p\<lparr>wp_tenant_id := tenant, wp_slug := slug, wp_name := name\<rparr>))))"

definition clean_capability_list :: "string list \<Rightarrow> string list result" where
  "clean_capability_list cs =
     (if length cs > 32 then Inl unprocessable
      else map_error (\<lambda>_. unprocessable) (validate_tenant_capabilities cs))"

definition clean_optional :: "string option \<Rightarrow> string option result" where
  "clean_optional s = (case s of None \<Rightarrow> Inr None | Some t \<Rightarrow> rbind (bounded 128 t) (\<lambda>t. Inr (Some t)))"

definition clean_key_payload :: "key_payload \<Rightarrow> key_payload result" where
  "clean_key_payload p =
     rbind (bounded 128 (kp_tenant_id p)) (\<lambda>tenant. rbind (bounded 128 (kp_workspace_id p)) (\<lambda>workspace.
     rbind (bounded 128 (kp_display_name p)) (\<lambda>display. rbind (bounded 64 (kp_tenant_role p)) (\<lambda>role.
     rbind (clean_capability_list (kp_tenant_capabilities p)) (\<lambda>capabilities.
     rbind (clean_optional (kp_environment_id p)) (\<lambda>environment.
       Inr (p\<lparr>kp_tenant_id := tenant, kp_workspace_id := workspace, kp_display_name := display,
              kp_tenant_role := role, kp_tenant_capabilities := capabilities,
              kp_environment_id := environment\<rparr>)))))))"

text \<open>The onboarding body: its workspace and key parts have defaults for every field.\<close>

record onboarding_workspace =
  ow_slug :: string
  ow_name :: string
  ow_metadata :: dict

record onboarding_key =
  ok_display_name :: string
  ok_tenant_role :: string
  ok_tenant_capabilities :: "string list"
  ok_metadata :: dict

record onboarding_payload =
  ob_tenant :: tenant_payload
  ob_workspace :: onboarding_workspace
  ob_api_key :: onboarding_key

definition default_onboarding_workspace :: onboarding_workspace where
  "default_onboarding_workspace = \<lparr>ow_slug = ''default'', ow_name = ''Default Workspace'', ow_metadata = []\<rparr>"

definition default_onboarding_key :: onboarding_key where
  "default_onboarding_key = \<lparr>ok_display_name = ''Beta Default Key'', ok_tenant_role = ''tenant_admin'',
     ok_tenant_capabilities = [], ok_metadata = []\<rparr>"

definition clean_onboarding_workspace :: "onboarding_workspace \<Rightarrow> onboarding_workspace result" where
  "clean_onboarding_workspace p =
     rbind (bounded 128 (ow_slug p)) (\<lambda>slug. rbind (bounded 128 (ow_name p)) (\<lambda>name.
       Inr (p\<lparr>ow_slug := slug, ow_name := name\<rparr>)))"

definition clean_onboarding_key :: "onboarding_key \<Rightarrow> onboarding_key result" where
  "clean_onboarding_key p =
     rbind (bounded 128 (ok_display_name p)) (\<lambda>display. rbind (bounded 64 (ok_tenant_role p)) (\<lambda>role.
     rbind (clean_capability_list (ok_tenant_capabilities p)) (\<lambda>capabilities.
       Inr (p\<lparr>ok_display_name := display, ok_tenant_role := role, ok_tenant_capabilities := capabilities\<rparr>))))"

definition clean_onboarding_payload :: "onboarding_payload \<Rightarrow> onboarding_payload result" where
  "clean_onboarding_payload p =
     rbind (clean_tenant_payload (ob_tenant p)) (\<lambda>tenant.
     rbind (clean_onboarding_workspace (ob_workspace p)) (\<lambda>workspace.
     rbind (clean_onboarding_key (ob_api_key p)) (\<lambda>key.
       Inr \<lparr>ob_tenant = tenant, ob_workspace = workspace, ob_api_key = key\<rparr>)))"

section \<open>Answers\<close>

record identity_status_response =
  is_identity_enabled :: bool
  is_identity_mode :: string
  is_repository_available :: bool
  is_resolver_configured :: bool

record tenant_summary =
  ts_id :: string
  ts_slug :: string
  ts_name :: string
  ts_status :: string

record workspace_summary =
  wsm_id :: string
  wsm_tenant_id :: string
  wsm_slug :: string
  wsm_name :: string
  wsm_status :: string
  wsm_default_environment_id :: "string option"

record api_key_summary =
  ks_id :: string
  ks_tenant_id :: string
  ks_workspace_id :: string
  ks_environment_id :: "string option"
  ks_key_prefix :: string
  ks_display_name :: string
  ks_status :: string
  ks_revoked_at :: "string option"

record key_issue_response =
  kr_id :: string
  kr_tenant_id :: string
  kr_workspace_id :: string
  kr_environment_id :: "string option"
  kr_key_prefix :: string
  kr_display_name :: string
  kr_status :: string
  kr_plaintext_api_key :: string
  kr_tenant_role :: string
  kr_tenant_capabilities :: "string list"

record bootstrap_usage =
  bu_namespace_header :: string
  bu_recommended_namespace :: string
  bu_chat_completions_url :: string

record onboarding_response =
  or_tenant :: tenant_summary
  or_workspace :: workspace_summary
  or_api_key :: key_issue_response
  or_bootstrap :: bootstrap_usage

definition tenant_summary_of :: "tenant_row \<Rightarrow> tenant_summary" where
  "tenant_summary_of t = \<lparr>ts_id = tn_id t, ts_slug = tn_slug t, ts_name = tn_name t, ts_status = tn_status t\<rparr>"

definition workspace_summary_of :: "workspace_row \<Rightarrow> workspace_summary" where
  "workspace_summary_of w = \<lparr>wsm_id = ws_id w, wsm_tenant_id = ws_tenant_id w, wsm_slug = ws_slug w,
     wsm_name = ws_name w, wsm_status = ws_status w, wsm_default_environment_id = ws_default_environment_id w\<rparr>"

definition api_key_summary_of :: "api_key_row \<Rightarrow> api_key_summary" where
  "api_key_summary_of k = \<lparr>ks_id = ak_id k, ks_tenant_id = ak_tenant_id k, ks_workspace_id = ak_workspace_id k,
     ks_environment_id = ak_environment_id k, ks_key_prefix = ak_key_prefix k,
     ks_display_name = ak_display_name k, ks_status = ak_status k,
     ks_revoked_at = map_option isoformat (ak_revoked_at k)\<rparr>"

definition key_issue_response_of :: "issued_key \<Rightarrow> key_issue_response" where
  "key_issue_response_of i = (let k = ik_row i in \<lparr>kr_id = ak_id k, kr_tenant_id = ak_tenant_id k,
     kr_workspace_id = ak_workspace_id k, kr_environment_id = ak_environment_id k,
     kr_key_prefix = ak_key_prefix k, kr_display_name = ak_display_name k, kr_status = ak_status k,
     kr_plaintext_api_key = ik_plaintext_api_key i, kr_tenant_role = ik_tenant_role i,
     kr_tenant_capabilities = ik_tenant_capabilities i\<rparr>)"

section \<open>Handlers\<close>

type_synonym 'a identity_handler = "identity_db \<Rightarrow> identity_db \<times> 'a result"

text \<open>A repository call that is one transaction: when it raises, nothing has changed.\<close>

definition transacted ::
  "(py_exc \<Rightarrow> py_exc) \<Rightarrow> ('a \<Rightarrow> 'b) \<Rightarrow> (identity_db \<Rightarrow> (identity_db \<times> 'a) result) \<Rightarrow> 'b identity_handler" where
  "transacted error answer call db =
     (case call db of Inl e \<Rightarrow> (db, Inl (error e)) | Inr (db', x) \<Rightarrow> (db', Inr (answer x)))"

definition identity_status :: "identity_app \<Rightarrow> identity_status_response" where
  "identity_status app = \<lparr>is_identity_enabled = ia_identity_enabled app,
     is_identity_mode = (if ia_identity_mode app = [] then ''disabled'' else ia_identity_mode app),
     is_repository_available = ia_identity_repository app, is_resolver_configured = ia_identity_resolver app\<rparr>"

definition admin_list_tenants :: "identity_app \<Rightarrow> tenant_summary list identity_handler" where
  "admin_list_tenants app db =
     (db, rbind (require_identity_repository app) (\<lambda>_. Inr (map tenant_summary_of (list_tenants db))))"

definition admin_create_tenant ::
  "identity_app \<Rightarrow> timestamp \<Rightarrow> string \<Rightarrow> tenant_payload \<Rightarrow> tenant_summary identity_handler" where
  "admin_create_tenant app now uuid payload =
     transacted conflict_as_409 tenant_summary_of (\<lambda>db.
       rbind (clean_tenant_payload payload) (\<lambda>p. rbind (require_identity_repository app) (\<lambda>_.
         create_tenant db now uuid (tp_slug p) (tp_name p) (Some (tp_metadata p)))))"

definition admin_list_workspaces ::
  "identity_app \<Rightarrow> string option \<Rightarrow> workspace_summary list identity_handler" where
  "admin_list_workspaces app tenant_id db =
     (db, rbind (require_identity_repository app) (\<lambda>_.
            Inr (map workspace_summary_of (list_workspaces db tenant_id))))"

definition admin_create_workspace ::
  "identity_app \<Rightarrow> timestamp \<Rightarrow> string \<Rightarrow> workspace_payload \<Rightarrow> workspace_summary identity_handler" where
  "admin_create_workspace app now uuid payload =
     transacted (\<lambda>e. conflict_as_409 (not_found_as_404 e)) workspace_summary_of (\<lambda>db.
       rbind (clean_workspace_payload payload) (\<lambda>p. rbind (require_identity_repository app) (\<lambda>_.
         create_workspace db now uuid (wp_tenant_id p) (wp_slug p) (wp_name p) (Some (wp_metadata p)))))"

definition admin_list_api_keys ::
  "identity_app \<Rightarrow> string option \<Rightarrow> api_key_summary list identity_handler" where
  "admin_list_api_keys app workspace_id db =
     (db, rbind (require_identity_repository app) (\<lambda>_.
            Inr (map api_key_summary_of (list_api_keys db workspace_id))))"

definition key_args_of :: "key_payload \<Rightarrow> key_args" where
  "key_args_of p = \<lparr>ka_tenant_id = kp_tenant_id p, ka_workspace_id = kp_workspace_id p,
     ka_display_name = kp_display_name p, ka_tenant_role = kp_tenant_role p,
     ka_tenant_capabilities = kp_tenant_capabilities p, ka_environment_id = kp_environment_id p,
     ka_metadata = Some (kp_metadata p), ka_actor_id = ''admin_api''\<rparr>"

definition admin_issue_api_key ::
  "(string \<Rightarrow> string) \<Rightarrow> identity_app \<Rightarrow> timestamp \<Rightarrow> string \<Rightarrow> string \<Rightarrow> key_payload \<Rightarrow>
   key_issue_response identity_handler" where
  "admin_issue_api_key sha app now uuid token payload =
     transacted identity_error key_issue_response_of (\<lambda>db.
       rbind (clean_key_payload payload) (\<lambda>p. rbind (require_identity_repository app) (\<lambda>_.
         issue_api_key sha db now uuid token (key_args_of p))))"

definition onboarding_args :: "onboarding_payload \<Rightarrow> bootstrap_args" where
  "onboarding_args p = (let t = ob_tenant p; w = ob_workspace p; k = ob_api_key p in
     \<lparr>ba_tenant_slug = tp_slug t, ba_tenant_name = tp_name t, ba_workspace_slug = ow_slug w,
      ba_workspace_name = ow_name w, ba_api_key_display_name = ok_display_name k,
      ba_tenant_role = ok_tenant_role k, ba_tenant_capabilities = ok_tenant_capabilities k,
      ba_metadata = Some [(''source'', JStr ''beta_onboarding''), (''tenant'', JObj (tp_metadata t)),
        (''workspace'', JObj (ow_metadata w)), (''api_key'', JObj (ok_metadata k))],
      ba_actor_id = ''admin_api''\<rparr>)"

definition onboarding_response_of :: "tenant_row \<times> workspace_row \<times> issued_key \<Rightarrow> onboarding_response" where
  "onboarding_response_of r = (case r of (tenant, workspace, key) \<Rightarrow>
     \<lparr>or_tenant = tenant_summary_of tenant, or_workspace = workspace_summary_of workspace,
      or_api_key = key_issue_response_of key,
      or_bootstrap = \<lparr>bu_namespace_header = ''x-metera-namespace'',
        bu_recommended_namespace = tn_slug tenant @ ''-'' @ ws_slug workspace,
        bu_chat_completions_url = ''/v1/chat/completions''\<rparr>\<rparr>)"

text \<open>The onboarding call: what its finished steps committed stays when a later one raises.\<close>

definition admin_bootstrap ::
  "(string \<Rightarrow> string) \<Rightarrow> identity_app \<Rightarrow> timestamp \<Rightarrow> (nat \<Rightarrow> string) \<Rightarrow> string \<Rightarrow> onboarding_payload \<Rightarrow>
   onboarding_response identity_handler" where
  "admin_bootstrap sha app now uuids token payload db =
     (case rbind (clean_onboarding_payload payload) (\<lambda>p.
             rbind (require_identity_repository app) (\<lambda>_. Inr (onboarding_args p))) of
        Inl e \<Rightarrow> (db, Inl e)
      | Inr a \<Rightarrow>
          (case bootstrap_tenant_environment sha db now (uuids 0) (uuids 1) (uuids 2) token a of
             (db', Inl e) \<Rightarrow> (db', Inl (identity_error e))
           | (db', Inr r) \<Rightarrow> (db', Inr (onboarding_response_of r))))"

definition admin_revoke_api_key :: "identity_app \<Rightarrow> timestamp \<Rightarrow> string \<Rightarrow> string identity_handler" where
  "admin_revoke_api_key app now api_key_id db =
     (case require_identity_repository app of
        Inl e \<Rightarrow> (db, Inl e)
      | Inr _ \<Rightarrow>
          (case revoke_api_key db now api_key_id ''admin_api'' of
             (db', revoked) \<Rightarrow>
               (db', if revoked then Inr api_key_id else Inl (HTTPException 404 ''API key not found''))))"

section \<open>The router\<close>

datatype identity_admin_call =
    IdentityStatus
  | ListTenants
  | NewTenant tenant_payload
  | ListWorkspaces "string option"
  | NewWorkspace workspace_payload
  | ListKeys "string option"
  | NewKey key_payload
  | Onboard onboarding_payload
  | Revoke string

datatype identity_admin_reply =
    StatusReport identity_status_response
  | TenantsReply "tenant_summary list"
  | TenantReply tenant_summary
  | WorkspacesReply "workspace_summary list"
  | WorkspaceReply workspace_summary
  | KeysReply "api_key_summary list"
  | KeyReply key_issue_response
  | OnboardingReply onboarding_response
  | RevokedReply string

definition answering :: "('a \<Rightarrow> 'b) \<Rightarrow> identity_db \<times> 'a result \<Rightarrow> identity_db \<times> 'b result" where
  "answering f dr = (fst dr, rbind (snd dr) (\<lambda>x. Inr (f x)))"

fun identity_admin_handler ::
  "(string \<Rightarrow> string) \<Rightarrow> identity_app \<Rightarrow> timestamp \<Rightarrow> (nat \<Rightarrow> string) \<Rightarrow> string \<Rightarrow> identity_admin_call \<Rightarrow>
   identity_admin_reply identity_handler" where
  "identity_admin_handler sha app now uuids token IdentityStatus db = (db, Inr (StatusReport (identity_status app)))"
| "identity_admin_handler sha app now uuids token ListTenants db =
     answering TenantsReply (admin_list_tenants app db)"
| "identity_admin_handler sha app now uuids token (NewTenant p) db =
     answering TenantReply (admin_create_tenant app now (uuids 0) p db)"
| "identity_admin_handler sha app now uuids token (ListWorkspaces t) db =
     answering WorkspacesReply (admin_list_workspaces app t db)"
| "identity_admin_handler sha app now uuids token (NewWorkspace p) db =
     answering WorkspaceReply (admin_create_workspace app now (uuids 0) p db)"
| "identity_admin_handler sha app now uuids token (ListKeys w) db =
     answering KeysReply (admin_list_api_keys app w db)"
| "identity_admin_handler sha app now uuids token (NewKey p) db =
     answering KeyReply (admin_issue_api_key sha app now (uuids 0) token p db)"
| "identity_admin_handler sha app now uuids token (Onboard p) db =
     answering OnboardingReply (admin_bootstrap sha app now uuids token p db)"
| "identity_admin_handler sha app now uuids token (Revoke kid) db =
     answering RevokedReply (admin_revoke_api_key app now kid db)"

definition identity_admin ::
  "(string \<Rightarrow> string) \<Rightarrow> identity_app \<Rightarrow> admin_headers \<Rightarrow> timestamp \<Rightarrow> (nat \<Rightarrow> string) \<Rightarrow> string \<Rightarrow>
   identity_admin_call \<Rightarrow> identity_admin_reply identity_handler" where
  "identity_admin sha app hs now uuids token call db =
     (case require_admin_api_key (ia_admin_api_key app) (ah_admin_key hs) (ah_authorization hs) of
        Inl e \<Rightarrow> (db, Inl e)
      | Inr _ \<Rightarrow> identity_admin_handler sha app now uuids token call db)"
end
