(* ===== verification/IdentityAdminProperties.thy ===== *)
theory IdentityAdminProperties
  imports IdentityAdmin IdentityProperties
begin

text \<open>
  What the identity routes guarantee: they run the key repository and nothing else, a refused
  call leaves the tables alone, and a tenant that was onboarded can call the chat endpoint with
  the key it was given.
\<close>

section \<open>Routes as runs of the repository\<close>

text \<open>At most one repository call, and never the seeding of the start-up.\<close>

definition one_call ::
  "(string \<Rightarrow> string) \<Rightarrow> (json \<Rightarrow> string) \<Rightarrow> identity_db \<Rightarrow> identity_db \<Rightarrow> bool" where
  "one_call sha py_str db db' \<longleftrightarrow>
     db' = db \<or> (\<exists>now c. (\<forall>a. c \<noteq> SeedIdentity a) \<and> db' = run_call sha py_str db (now, c))"

lemma one_call_refl [simp, intro]: "one_call sha py_str db db"
  by (simp add: one_call_def)

lemma one_callI: "(\<And>a. c \<noteq> SeedIdentity a) \<Longrightarrow> one_call sha py_str db (run_call sha py_str db (now, c))"
  by (auto simp: one_call_def)

lemma fst_transacted: "fst (transacted error answer call db) = committed db (call db)"
  by (auto simp: transacted_def committed_def split: sum.split prod.split)

lemma committed_rbind:
  "committed db (rbind m f) = db \<or> (\<exists>x. committed db (rbind m f) = committed db (f x))"
  by (cases m) (auto simp: committed_def)

lemma one_call_committed:
  assumes "\<And>x y. one_call sha py_str db (committed db (f x y))"
  shows "one_call sha py_str db (fst (transacted error answer (\<lambda>_. rbind m (\<lambda>x. rbind n (f x))) db))"
  unfolding fst_transacted using committed_rbind assms by (cases m; cases n) (auto simp: committed_def)

lemma handler_one_call:
  "one_call sha py_str db (fst (identity_admin_handler sha app now uuids token call db))"
proof (cases call)
  case (NewTenant p)
  have "one_call sha py_str db (committed db (create_tenant db now (uuids 0) s n md))" for s n md
    using one_callI [of "CreateTenant (uuids 0) s n md" sha py_str db now] by (simp add: run_call_def)
  then show ?thesis
    using NewTenant one_call_committed [of sha py_str db "\<lambda>p _. create_tenant db now (uuids 0) (tp_slug p) (tp_name p) (Some (tp_metadata p))"
        conflict_as_409 tenant_summary_of "clean_tenant_payload p" "require_identity_repository app"]
    by (simp add: answering_def admin_create_tenant_def fst_transacted)
next
  case (NewWorkspace p)
  have "one_call sha py_str db (committed db (create_workspace db now (uuids 0) t s n md))" for t s n md
    using one_callI [of "CreateWorkspace (uuids 0) t s n md" sha py_str db now] by (simp add: run_call_def)
  then show ?thesis
    using NewWorkspace one_call_committed [of sha py_str db "\<lambda>p _. create_workspace db now (uuids 0) (wp_tenant_id p) (wp_slug p) (wp_name p) (Some (wp_metadata p))"
        "\<lambda>e. conflict_as_409 (not_found_as_404 e)" workspace_summary_of "clean_workspace_payload p" "require_identity_repository app"]
    by (simp add: answering_def admin_create_workspace_def fst_transacted)
next
  case (NewKey p)
  have "one_call sha py_str db (committed db (issue_api_key sha db now (uuids 0) token a))" for a
    using one_callI [of "IssueKey (uuids 0) token a" sha py_str db now] by (simp add: run_call_def)
  then show ?thesis
    using NewKey one_call_committed [of sha py_str db "\<lambda>p _. issue_api_key sha db now (uuids 0) token (key_args_of p)"
        identity_error key_issue_response_of "clean_key_payload p" "require_identity_repository app"]
    by (simp add: answering_def admin_issue_api_key_def fst_transacted)
next
  case (Onboard p)
  have "one_call sha py_str db (fst (bootstrap_tenant_environment sha db now (uuids 0) (uuids 1) (uuids 2) token a))" for a
    using one_callI [of "BootstrapTenant (uuids 0) (uuids 1) (uuids 2) token a" sha py_str db now]
    by (simp add: run_call_def)
  from this show ?thesis
    using Onboard by (auto simp: answering_def admin_bootstrap_def split: sum.split prod.split) (metis fst_conv)+
next
  case (Revoke kid)
  have "one_call sha py_str db (fst (revoke_api_key db now kid ''admin_api''))"
    using one_callI [of "RevokeKey kid ''admin_api''" sha py_str db now] by (simp add: run_call_def)
  then show ?thesis
    using Revoke by (auto simp: answering_def admin_revoke_api_key_def split: sum.split prod.split)
qed (simp_all add: answering_def admin_list_tenants_def admin_list_workspaces_def admin_list_api_keys_def)

text \<open>
  Whatever an administrator calls, and whether the call succeeds or fails, the identity
  router makes at most one call of the key repository and never seeds; without the configured
  admin key it changes nothing and answers 401, or 503 when no key is configured. What holds over
  every sequence of repository calls (consistent tables, revocation for good) so holds over
  every use of the routes.
\<close>

theorem identity_admin_calls_are_runs:
  "\<exists>cs. fst (identity_admin sha app hs now uuids token call db) = run_calls sha py_str db cs \<and>
     list_all (\<lambda>(t, c). \<forall>a. c \<noteq> SeedIdentity a) cs \<and> length cs \<le> 1 \<and>
     (if truthy (ia_admin_api_key app) \<and>
         str_or (ah_admin_key hs) (extract_bearer_token (ah_authorization hs)) = ia_admin_api_key app then True
      else cs = [] \<and> (\<exists>code detail. code \<in> {401, 503} \<and>
        snd (identity_admin sha app hs now uuids token call db) = Inl (HTTPException code detail)))"
proof (cases "require_admin_api_key (ia_admin_api_key app) (ah_admin_key hs) (ah_authorization hs)")
  case (Inl e)
  then show ?thesis
    by (intro exI [of _ "[]"])
      (auto simp: identity_admin_def run_calls_def require_admin_api_key_def Let_def split: if_splits)
next
  case (Inr u)
  then have key: "truthy (ia_admin_api_key app) \<and>
      str_or (ah_admin_key hs) (extract_bearer_token (ah_authorization hs)) = ia_admin_api_key app"
    by (auto simp: require_admin_api_key_def Let_def split: if_splits)
  have "one_call sha py_str db (fst (identity_admin sha app hs now uuids token call db))"
    using Inr handler_one_call by (simp add: identity_admin_def)
  then consider "fst (identity_admin sha app hs now uuids token call db) = db"
    | t c where "\<forall>a. c \<noteq> SeedIdentity a"
        "fst (identity_admin sha app hs now uuids token call db) = run_call sha py_str db (t, c)"
    unfolding one_call_def by blast
  then show ?thesis
  proof cases
    case 1
    then show ?thesis using key by (intro exI [of _ "[]"]) (simp add: run_calls_def)
  next
    case (2 t c)
    then show ?thesis using key by (intro exI [of _ "[(t, c)]"]) (simp add: run_calls_def)
  qed
qed

section \<open>Refused calls\<close>

text \<open>A conflict, a missing row or an invalid request stops the onboarding before its first step.\<close>

lemma bootstrap_refusal:
  assumes "identity_ok db"
    and "bootstrap_tenant_environment sha db now ut uw uk token a = (db', Inl e)"
  shows "db' = db \<or> (\<exists>c. e = UniqueViolation c)"
proof (cases "list_ex (\<lambda>t. tn_slug t = ba_tenant_slug a) (tenants db)")
  case True
  with assms(2) show ?thesis by (simp add: bootstrap_tenant_environment_def)
next
  case False
  let ?md = "Some (onboarding_metadata (ba_metadata a))"
  show ?thesis
  proof (cases "create_tenant db now ut (ba_tenant_slug a) (ba_tenant_name a) ?md")
    case (Inl e')
    with assms(2) False show ?thesis by (simp add: bootstrap_tenant_environment_def Let_def)
  next
    case (Inr r)
    obtain db1 t where r: "r = (db1, t)" by fastforce
    have t: "tn_id t \<notin> tn_id ` set (tenants db)" "tenants db1 = tenants db @ [t]" "workspaces db1 = workspaces db"
      using Inr by (auto simp: r create_tenant_def Let_def list_ex_key split: if_splits)
    have "ws_tenant_id ` set (workspaces db1) \<subseteq> tn_id ` set (tenants db)"
      using assms(1) t(3) by (simp add: identity_ok_def)
    with t(1) have fresh: "\<forall>w \<in> set (workspaces db1). ws_tenant_id w \<noteq> tn_id t" by (metis image_eqI subsetD)
    have w: "create_workspace db1 now uw (tn_id t) s n md = Inl x \<Longrightarrow> \<exists>c. x = UniqueViolation c" for s n md x
      using t(2) fresh by (auto simp: create_workspace_def Let_def list_ex_iff split: if_splits)
    show ?thesis
    proof (cases "create_workspace db1 now uw (tn_id t) (ba_workspace_slug a) (ba_workspace_name a) ?md")
      case (Inl e')
      with assms(2) False Inr r w show ?thesis by (auto simp: bootstrap_tenant_environment_def Let_def)
    next
      case (Inr q)
      obtain db2 w' where q: "q = (db2, w')" by fastforce
      have w': "ws_id w' \<notin> ws_id ` set (workspaces db1)" "workspaces db2 = workspaces db1 @ [w']"
        "ws_tenant_id w' = tn_id t" "tenants db2 = tenants db1"
        using Inr by (auto simp: q create_workspace_def Let_def list_ex_key split: if_splits)
      have "find (\<lambda>w. ws_id w = ws_id w') (workspaces db1) = None"
        using w'(1) unfolding find_eq_None by (metis image_eqI)
      then have f: "find (\<lambda>w. ws_id w = ws_id w') (workspaces db2) = Some w'"
        by (simp add: w'(2) find_append)
      have i: "\<exists>c. x = UniqueViolation c"
        if "issue_api_key sha db2 now uk token b = Inl x" "ka_workspace_id b = ws_id w'" "ka_tenant_id b = tn_id t"
          "ka_environment_id b = None" for b x
        using that f w' t by (auto simp: issue_api_key_def check_key_scope_def Let_def insert_api_key_def issued_row_def
            list_ex_iff rbind_eq_Inl split: if_splits)
      have "\<exists>b. issue_api_key sha db2 now uk token b = Inl e \<and> ka_workspace_id b = ws_id w' \<and>
          ka_tenant_id b = tn_id t \<and> ka_environment_id b = None"
        using assms(2) False \<open>create_tenant _ _ _ _ _ _ = _\<close> r Inr q
        by (fastforce simp: bootstrap_tenant_environment_def Let_def split: sum.splits)
      with i show ?thesis by blast
    qed
  qed
qed

lemma identity_error_HTTP: "identity_error e \<noteq> HTTPException c d \<or> (\<forall>x. e \<noteq> UniqueViolation x)"
  by (auto simp: identity_error_def conflict_as_409_def validation_as_400_def not_found_as_404_def)

lemma transacted_Inl: "transacted error answer call db = (db', Inl e) \<Longrightarrow> db' = db"
  by (auto simp: transacted_def split: sum.splits)

lemma answering_Inl: "answering f dr = (db', Inl e) \<Longrightarrow> dr = (db', Inl e)"
  by (cases dr) (auto simp: answering_def rbind_eq_Inl)

lemma bootstrap_route_refusal:
  assumes "identity_ok db" "admin_bootstrap sha app now uuids token p db = (db', Inl (HTTPException code detail))"
  shows "db' = db"
proof (cases "rbind (clean_onboarding_payload p) (\<lambda>p.
             rbind (require_identity_repository app) (\<lambda>_. Inr (onboarding_args p)))")
  case (Inl e)
  with assms(2) show ?thesis by (simp add: admin_bootstrap_def)
next
  case (Inr a)
  obtain db1 r where b: "bootstrap_tenant_environment sha db now (uuids 0) (uuids 1) (uuids 2) token a = (db1, r)"
    by fastforce
  with assms(2) Inr obtain e where "r = Inl e" "db1 = db'" "identity_error e = HTTPException code detail"
    by (cases r) (auto simp: admin_bootstrap_def)
  with bootstrap_refusal [OF assms(1)] b identity_error_HTTP show ?thesis by blast
qed

text \<open>
  C37. A call of the identity routes that is answered with an HTTP error has changed nothing,
  although the onboarding consists of three transactions: none of its errors that become an
  answer can occur after the first of them has been committed.
\<close>

theorem refused_identity_call_changes_nothing:
  assumes "identity_ok db"
    and "identity_admin sha app hs now uuids token call db = (db', Inl (HTTPException code detail))"
  shows "db' = db"
proof (cases "require_admin_api_key (ia_admin_api_key app) (ah_admin_key hs) (ah_authorization hs)")
  case (Inl e)
  with assms(2) show ?thesis by (simp add: identity_admin_def)
next
  case (Inr u)
  with assms(2) have h: "identity_admin_handler sha app now uuids token call db = (db', Inl (HTTPException code detail))"
    by (simp add: identity_admin_def)
  show ?thesis
  proof (cases call)
    case (Onboard p)
    with h show ?thesis using bootstrap_route_refusal [OF assms(1)] by (auto dest!: answering_Inl)
  next
    case (Revoke kid)
    with h show ?thesis
      by (auto dest!: answering_Inl simp: admin_revoke_api_key_def revoke_api_key_def split: sum.splits option.splits)
  qed (use h in \<open>auto dest!: answering_Inl transacted_Inl simp: admin_list_tenants_def admin_create_tenant_def
      admin_list_workspaces_def admin_create_workspace_def admin_list_api_keys_def admin_issue_api_key_def\<close>)
qed

section \<open>Onboarding\<close>

lemma bootstrap_success:
  assumes "bootstrap_tenant_environment sha db now ut uw uk token a = (db', Inr (t, w, key))"
  obtains db2 b where "issue_api_key sha db2 now uk token b = Inr (db', key)"
    "ka_tenant_id b = tn_id t" "ka_workspace_id b = ws_id w" "api_keys db2 = api_keys db"
    "tn_slug t = ba_tenant_slug a" "ws_slug w = ba_workspace_slug a"
    "find (\<lambda>x. tn_id x = tn_id t) (tenants db') = Some t" "find (\<lambda>x. ws_id x = ws_id w) (workspaces db') = Some w"
proof -
  let ?md = "Some (onboarding_metadata (ba_metadata a))"
  let ?b = "\<lparr>ka_tenant_id = tn_id t, ka_workspace_id = ws_id w, ka_display_name = ba_api_key_display_name a,
    ka_tenant_role = ba_tenant_role a, ka_tenant_capabilities = ba_tenant_capabilities a,
    ka_environment_id = None, ka_metadata = ?md, ka_actor_id = ba_actor_id a\<rparr>"
  obtain db1 db2 where s: "create_tenant db now ut (ba_tenant_slug a) (ba_tenant_name a) ?md = Inr (db1, t)"
    "create_workspace db1 now uw (tn_id t) (ba_workspace_slug a) (ba_workspace_name a) ?md = Inr (db2, w)"
    "issue_api_key sha db2 now uk token ?b = Inr (db', key)"
    using assms by (auto simp: bootstrap_tenant_environment_def Let_def split: if_splits sum.splits prod.splits)
  have t: "tn_id t \<notin> tn_id ` set (tenants db)" "tenants db1 = tenants db @ [t]" "workspaces db1 = workspaces db"
    "api_keys db1 = api_keys db" "tn_slug t = ba_tenant_slug a"
    using s(1) by (auto simp: create_tenant_def Let_def list_ex_key split: if_splits)
  have w: "ws_id w \<notin> ws_id ` set (workspaces db)" "workspaces db2 = workspaces db @ [w]"
    "tenants db2 = tenants db1" "api_keys db2 = api_keys db" "ws_slug w = ba_workspace_slug a"
    using s(2) t(3,4) by (auto simp: create_workspace_def Let_def list_ex_key split: if_splits)
  have i: "tenants db' = tenants db2" "workspaces db' = workspaces db2"
    using issue_api_keyD [OF s(3)] by metis+
  have "find (\<lambda>x. tn_id x = tn_id t) (tenants db) = None" "find (\<lambda>x. ws_id x = ws_id w) (workspaces db) = None"
    using t(1) w(1) unfolding find_eq_None by (metis image_eqI)+
  then have "find (\<lambda>x. tn_id x = tn_id t) (tenants db') = Some t" "find (\<lambda>x. ws_id x = ws_id w) (workspaces db') = Some w"
    by (simp_all add: i w(2,3) t(2) find_append)
  with that [OF s(3)] t(5) w(4,5) show thesis by simp
qed

lemma bounded_Inr: "bounded n s = Inr t \<Longrightarrow> t \<noteq> [] \<and> strip t = t"
  by (auto simp: bounded_def Let_def split: if_splits)

lemma onboarding_args_slugs:
  assumes "clean_onboarding_payload p = Inr q"
  shows "ba_tenant_slug (onboarding_args q) \<noteq> []" "strip (ba_tenant_slug (onboarding_args q)) = ba_tenant_slug (onboarding_args q)"
    "ba_workspace_slug (onboarding_args q) \<noteq> []"
    "strip (ba_workspace_slug (onboarding_args q)) = ba_workspace_slug (onboarding_args q)"
  using assms
  by (auto simp: clean_onboarding_payload_def clean_tenant_payload_def clean_onboarding_workspace_def
      rbind_eq_Inr onboarding_args_def Let_def dest: bounded_Inr)

lemma bearer_plaintext:
  assumes "list_all (\<lambda>c. \<not> is_space c) k"
  shows "chat_bearer_token (Some (''Bearer '' @ k)) = Some k"
proof -
  have "py_lower (''Bearer '' @ k) = py_lower ''Bearer '' @ py_lower k" by (simp add: py_lower_def)
  moreover have "py_lower ''Bearer '' = ''bearer ''" by code_simp
  ultimately have "py_lower (''Bearer '' @ k) = ''bearer '' @ py_lower k" by simp
  then show ?thesis using assms by (simp add: chat_bearer_token_def strip_no_space Let_def)
qed

text \<open>
  C36. The answer of a successful onboarding is usable as it stands: a chat request that presents
  the returned key and names no namespace is admitted as the new tenant and workspace, with the
  role and capabilities of the answer, under the namespace the answer recommends. The one
  exception is that the slugs are not checked: when they do not form a valid namespace, the
  recommended name is not one, and every such request is a 400.
\<close>

theorem onboarded_key_admitted:
  assumes "identity_admin sha app hs now uuids token (Onboard p) db = (db', Inr (OnboardingReply r))"
    and "sha (kr_plaintext_api_key (or_api_key r)) \<notin> ak_key_hash ` set (api_keys db)"
    and "list_all (\<lambda>c. \<not> is_space c) token"
  shows "\<exists>res. snd (chat_context True (Some (resolve_key sha py_str)) header_name t request_id None
        (Some (''Bearer '' @ kr_plaintext_api_key (or_api_key r))) db') = res \<and>
    (if namespace_ok (bu_recommended_namespace (or_bootstrap r))
     then \<exists>ctx. res = Inr ctx \<and> ctx_namespace ctx = bu_recommended_namespace (or_bootstrap r) \<and>
       ctx_tenant_id ctx = Some (ts_id (or_tenant r)) \<and> ctx_workspace_id ctx = Some (wsm_id (or_workspace r)) \<and>
       ctx_tenant_role ctx = Some (kr_tenant_role (or_api_key r)) \<and>
       ctx_tenant_capabilities ctx = kr_tenant_capabilities (or_api_key r)
     else \<exists>detail. res = Inl (HTTPException 400 detail))"
proof -
  define ns where "ns = bu_recommended_namespace (or_bootstrap r)"
  obtain q tn w key where q: "clean_onboarding_payload p = Inr q"
    "bootstrap_tenant_environment sha db now (uuids 0) (uuids 1) (uuids 2) token (onboarding_args q) = (db', Inr (tn, w, key))"
    "r = onboarding_response_of (tn, w, key)"
    using assms(1) by (auto simp: identity_admin_def answering_def admin_bootstrap_def rbind_eq_Inr rbind_eq_Inl split: sum.splits prod.splits)
  obtain db2 b where b: "issue_api_key sha db2 now (uuids 2) token b = Inr (db', key)"
    "ka_tenant_id b = tn_id tn" "ka_workspace_id b = ws_id w" "api_keys db2 = api_keys db"
    "tn_slug tn = ba_tenant_slug (onboarding_args q)" "ws_slug w = ba_workspace_slug (onboarding_args q)"
    "find (\<lambda>x. tn_id x = tn_id tn) (tenants db') = Some tn" "find (\<lambda>x. ws_id x = ws_id w) (workspaces db') = Some w"
    by (rule bootstrap_success [OF q(2)])
  have r: "kr_plaintext_api_key (or_api_key r) = ik_plaintext_api_key key" "ts_id (or_tenant r) = tn_id tn"
    "wsm_id (or_workspace r) = ws_id w" "kr_tenant_role (or_api_key r) = ik_tenant_role key"
    "kr_tenant_capabilities (or_api_key r) = ik_tenant_capabilities key" "ns = tn_slug tn @ ''-'' @ ws_slug w"
    by (simp_all add: q(3) ns_def onboarding_response_of_def key_issue_response_of_def Let_def tenant_summary_of_def workspace_summary_of_def)
  have plain: "ik_plaintext_api_key key = ''metera_live_'' @ token"
    using issue_api_keyD [OF b(1)] generate_plaintext_api_key_def by metis
  have bearer: "chat_bearer_token (Some (''Bearer '' @ ik_plaintext_api_key key)) = Some (ik_plaintext_api_key key)"
  proof (rule bearer_plaintext)
    have "list_all (\<lambda>c. \<not> is_space c) ''metera_live_''" by code_simp
    with assms(3) show "list_all (\<lambda>c. \<not> is_space c) (ik_plaintext_api_key key)"
      unfolding plain list_all_append by blast
  qed
  have found: "resolve_key sha py_str db' t (Some (ik_plaintext_api_key key)) =
    (touch_key db' t (ak_id (ik_row key)),
     Inr (Some (key_context db' (ik_row key) (ik_tenant_role key) (ik_tenant_capabilities key))))"
    "ak_tenant_id (ik_row key) = tn_id tn" "ak_workspace_id (ik_row key) = ws_id w"
    using issued_key_found [OF b(1)] assms(2) by (simp_all add: r(1) b(2-4))
  have d: "derive_default_namespace (tn_slug tn) (ws_slug w) =
      rbind (validate_namespace ''x-metera-namespace'' ns) (\<lambda>_. Inr ns)"
    using onboarding_args_slugs [OF q(1)] by (simp add: derive_default_namespace_def b(5,6) r(6) Let_def)
  have v: "if namespace_ok ns then validate_namespace ''x-metera-namespace'' ns = Inr ns
      else \<exists>m. validate_namespace ''x-metera-namespace'' ns = Inl (HTTPException 400 m)"
    by (auto simp: validate_namespace_def namespace_ok_def)
  have "truthy (Some (tn_slug tn))" "truthy (Some (ws_slug w))"
    using onboarding_args_slugs [OF q(1)] by (simp_all add: b(5,6))
  moreover define auth where "auth = Some (''Bearer '' @ ik_plaintext_api_key key)"
  ultimately have "snd (chat_context True (Some (resolve_key sha py_str)) header_name t request_id None auth db') =
      rbind (validate_namespace ''x-metera-namespace'' ns) (\<lambda>_. Inr ((with_identity
        (key_context db' (ik_row key) (ik_tenant_role key) (ik_tenant_capabilities key))
        (new_context ''default'' (Some (ik_plaintext_api_key key)) (Some request_id)))\<lparr>ctx_namespace := ns\<rparr>))"
    using bearer found b(7,8) d
    by (cases "validate_namespace ''x-metera-namespace'' ns")
      (simp_all add: chat_context_def identified_context_def new_context_def context_namespace_def with_identity_def
        key_context_def Let_def)
  then show ?thesis using v
    unfolding r(1) auth_def [symmetric] ns_def [symmetric]
    by (auto simp: r(2-5) with_identity_def key_context_def found(2,3) split: if_splits)
qed

section \<open>Instances\<close>

definition demo_identity_app :: identity_app where
  "demo_identity_app = \<lparr>ia_admin_api_key = Some ''adm'', ia_identity_enabled = True,
     ia_identity_mode = ''repository'', ia_identity_repository = True, ia_identity_resolver = True\<rparr>"

definition demo_admin_headers :: admin_headers where
  "demo_admin_headers = \<lparr>ah_admin_key = Some ''adm'', ah_authorization = None\<rparr>"

definition demo_onboarding :: onboarding_payload where
  "demo_onboarding = \<lparr>ob_tenant = \<lparr>tp_slug = '' acme '', tp_name = ''Acme'', tp_metadata = []\<rparr>,
     ob_workspace = default_onboarding_workspace, ob_api_key = default_onboarding_key\<rparr>"

lemma demo_admin_allowed:
  "require_admin_api_key (ia_admin_api_key demo_identity_app) (ah_admin_key demo_admin_headers)
     (ah_authorization demo_admin_headers) = Inr ()"
  by (simp add: require_admin_api_key_def demo_identity_app_def demo_admin_headers_def str_or_def)

lemma demo_onboarding_clean:
  "clean_onboarding_payload demo_onboarding =
     Inr (demo_onboarding\<lparr>ob_tenant := \<lparr>tp_slug = ''acme'', tp_name = ''Acme'', tp_metadata = []\<rparr>\<rparr>)"
proof -
  have "strip '' acme '' = ''acme''" "strip ''Acme'' = ''Acme''" "strip ''default'' = ''default''"
    "strip ''Default Workspace'' = ''Default Workspace''" "strip ''Beta Default Key'' = ''Beta Default Key''"
    "strip ''tenant_admin'' = ''tenant_admin''" by code_simp+
  then show ?thesis
    by (simp add: clean_onboarding_payload_def demo_onboarding_def clean_tenant_payload_def bounded_def
        clean_onboarding_workspace_def clean_onboarding_key_def default_onboarding_workspace_def
        default_onboarding_key_def clean_capability_list_def validate_tenant_capabilities_def map_error_def)
qed

lemma demo_onboarding_call:
  "identity_admin (\<lambda>s. s) demo_identity_app demo_admin_headers 5 (\<lambda>n. ''u'') ''tok'' (Onboard demo_onboarding) db =
     answering OnboardingReply
       (case bootstrap_tenant_environment (\<lambda>s. s) db 5 ''u'' ''u'' ''u'' ''tok''
               (onboarding_args (demo_onboarding\<lparr>ob_tenant := \<lparr>tp_slug = ''acme'', tp_name = ''Acme'', tp_metadata = []\<rparr>\<rparr>)) of
          (db', Inl e) \<Rightarrow> (db', Inl (identity_error e))
        | (db', Inr r) \<Rightarrow> (db', Inr (onboarding_response_of r)))"
proof -
  have "require_identity_repository demo_identity_app = Inr ()"
    by (simp add: require_identity_repository_def demo_identity_app_def)
  then show ?thesis
    by (simp add: identity_admin_def demo_admin_allowed admin_bootstrap_def demo_onboarding_clean)
qed

lemma demo_onboarded:
  "\<exists>db r. identity_admin (\<lambda>s. s) demo_identity_app demo_admin_headers 5 (\<lambda>n. ''u'') ''tok'' (Onboard demo_onboarding)
     empty_identity = (db, Inr (OnboardingReply r)) \<and> bu_recommended_namespace (or_bootstrap r) = ''acme-default''"
  unfolding demo_onboarding_call
  by (simp add: answering_def bootstrap_tenant_environment_def create_tenant_def
      create_workspace_def issue_api_key_def check_key_scope_def insert_api_key_def issued_row_def empty_identity_def
      onboarding_args_def demo_onboarding_def default_onboarding_workspace_def default_onboarding_key_def Let_def
      onboarding_response_of_def log_key_event_def)

lemma onboarded_key_admitted_witness:
  "\<exists>db r ctx. identity_admin (\<lambda>s. s) demo_identity_app demo_admin_headers 5 (\<lambda>n. ''u'') ''tok'' (Onboard demo_onboarding)
     empty_identity = (db, Inr (OnboardingReply r)) \<and>
     snd (chat_context True (Some (resolve_key (\<lambda>s. s) (\<lambda>_. []))) ''x-metera-namespace'' 6 ''r1'' None
       (Some (''Bearer '' @ kr_plaintext_api_key (or_api_key r))) db) = Inr ctx \<and>
     ctx_namespace ctx = ''acme-default''"
proof -
  obtain db r where o: "identity_admin (\<lambda>s. s) demo_identity_app demo_admin_headers 5 (\<lambda>n. ''u'') ''tok''
      (Onboard demo_onboarding) empty_identity = (db, Inr (OnboardingReply r))"
    "bu_recommended_namespace (or_bootstrap r) = ''acme-default''" using demo_onboarded by blast
  have k: "(\<lambda>s. s) (kr_plaintext_api_key (or_api_key r)) \<notin> ak_key_hash ` set (api_keys empty_identity)"
    by (simp add: empty_identity_def)
  have t: "list_all (\<lambda>c. \<not> is_space c) ''tok''" by code_simp
  have n: "namespace_ok ''acme-default''"
    by (simp add: namespace_ok_def valid_namespace_character_def is_lower_alpha_def is_digit_def code_point_def)
  from onboarded_key_admitted [OF o(1) k t, of "\<lambda>_. []" "''x-metera-namespace''" 6 "''r1''"] o n show ?thesis
    by auto
qed

lemma refused_identity_call_changes_nothing_witness:
  "\<exists>detail. identity_admin (\<lambda>s. s) demo_identity_app demo_admin_headers 5 (\<lambda>n. ''u'') ''tok''
     (Onboard demo_onboarding) seeded_demo = (seeded_demo, Inl (HTTPException 409 detail))"
proof -
  have ok: "identity_ok seeded_demo"
    by (rule seed_static_identity_ok [OF demo_seeded]) (simp add: empty_identity_def identity_ok_def)
  have "list_ex (\<lambda>t. tn_slug t = ''acme'') (tenants seeded_demo)"
    by (simp add: seeded_demo_def seeded_tenant_def demo_seed_def)
  then have "\<exists>db detail. identity_admin (\<lambda>s. s) demo_identity_app demo_admin_headers 5 (\<lambda>n. ''u'') ''tok''
      (Onboard demo_onboarding) seeded_demo = (db, Inl (HTTPException 409 detail))"
    unfolding demo_onboarding_call
    by (simp add: answering_def bootstrap_tenant_environment_def onboarding_args_def Let_def identity_error_def
        conflict_as_409_def validation_as_400_def not_found_as_404_def)
  then obtain db detail where r: "identity_admin (\<lambda>s. s) demo_identity_app demo_admin_headers 5 (\<lambda>n. ''u'') ''tok''
      (Onboard demo_onboarding) seeded_demo = (db, Inl (HTTPException 409 detail))" by blast
  from refused_identity_call_changes_nothing [OF ok r] r show ?thesis by blast
qed

end
