(* ===== verification/AdminRoutes.thy ===== *)
theory AdminRoutes
  imports Startup BillingAdmin
begin

text \<open>
  The remaining routes of an operator: the policy values, the detector dry run and the cache
  invalidation of \<open>app/api/routes_admin.py\<close>, and the scoped policies of
  \<open>app/api/routes_policy_admin.py\<close>, over the state the start-up has left.
\<close>

section \<open>The policy store of the application\<close>

text \<open>\<open>update_policy_state\<close>: an update changes the application or the row, and returns the values.\<close>

definition update_policy_state ::
  "(string \<Rightarrow> real option) \<Rightarrow> dict \<Rightarrow> app_state \<times> platform \<Rightarrow> (app_state \<times> platform) \<times> dict result" where
  "update_policy_state parse_float updates s = (case s of (st, pl) \<Rightarrow>
     (case ap_policy_store st of
        InMemoryPolicy d \<Rightarrow>
          (case mem_update_overrides d updates of
             Inl e \<Rightarrow> (s, Inl e) | Inr (d', answer) \<Rightarrow> ((st\<lparr>ap_policy_store := InMemoryPolicy d'\<rparr>, pl), Inr answer))
      | PostgresPolicy \<Rightarrow>
          (case pg_update_overrides parse_float (pl_policy_row pl) updates of
             Inl e \<Rightarrow> (s, Inl e) | Inr (row, answer) \<Rightarrow> ((st, pl\<lparr>pl_policy_row := row\<rparr>), Inr answer))))"

section \<open>Policy values\<close>

definition override_or :: "dict \<Rightarrow> string \<Rightarrow> json \<Rightarrow> json" where
  "override_or overrides key setting =
     (if dict_get overrides key = JNull then setting else dict_get overrides key)"

definition policy_values :: "settings \<Rightarrow> dict \<Rightarrow> dict" where
  "policy_values cfg overrides =
     [(''dlp_enabled'', override_or overrides ''dlp_enabled'' (JBool (cfg_dlp_enabled cfg))),
      (''dlp_scrub_level'', if py_falsy (dict_get overrides ''dlp_scrub_level'')
         then JStr (cfg_dlp_scrub_level cfg) else dict_get overrides ''dlp_scrub_level''),
      (''semantic_enabled'', override_or overrides ''semantic_enabled'' (JBool (cfg_semantic_enabled cfg))),
      (''semantic_hardening_preset'', dict_get overrides ''semantic_hardening_preset''),
      (''semantic_threshold'', override_or overrides ''semantic_threshold'' (JFloat (cfg_semantic_threshold cfg))),
      (''semantic_shadow_threshold'',
         override_or overrides ''semantic_shadow_threshold'' (JFloat (cfg_semantic_shadow_threshold cfg))),
      (''semantic_max_temperature'',
         override_or overrides ''semantic_max_temperature'' (JFloat (cfg_semantic_max_temperature cfg)))]"

definition preset_texts :: "string \<Rightarrow> string \<times> string" where
  "preset_texts name =
     (if name = ''conservative'' then (''Conservative'',
        ''Safest beta posture: near matches are measured in shadow mode unless reuse is very clearly safe.'')
      else if name = ''balanced'' then (''Balanced'',
        ''Allows more live semantic reuse for ordinary low-risk prompts while preserving shadow measurement below the live threshold.'')
      else (''Aggressive'',
        ''Maximizes reuse and savings for low-risk workloads; use only when the tenant accepts higher wrong-context risk.''))"

definition preset_catalog :: "dict list" where
  "preset_catalog = map (\<lambda>(name, preset_settings).
     [(''name'', JStr name), (''label'', JStr (fst (preset_texts name))),
      (''description'', JStr (snd (preset_texts name)))] @ preset_settings) SEMANTIC_HARDENING_PRESETS"

text \<open>
  The response model: its fields are the resolved values, which it accepts as they are when
  they have the declared types.
\<close>

record policy_settings_response =
  psr_dlp_enabled :: json
  psr_dlp_scrub_level :: json
  psr_semantic_enabled :: json
  psr_semantic_hardening_preset :: string
  psr_semantic_hardening_presets :: "dict list"
  psr_semantic_threshold :: json
  psr_semantic_shadow_threshold :: json
  psr_semantic_max_temperature :: json
  psr_overrides_active :: "(string \<times> bool) list"

definition overrides_active :: "dict \<Rightarrow> (string \<times> bool) list" where
  "overrides_active overrides = map (\<lambda>(key, v). (key, v \<noteq> JNull)) overrides"

definition settings_response :: "(string \<Rightarrow> real option) \<Rightarrow> dict \<Rightarrow> dict \<Rightarrow> policy_settings_response" where
  "settings_response parse_float resolved overrides = \<lparr>
     psr_dlp_enabled = dict_get resolved ''dlp_enabled'',
     psr_dlp_scrub_level = dict_get resolved ''dlp_scrub_level'',
     psr_semantic_enabled = dict_get resolved ''semantic_enabled'',
     psr_semantic_hardening_preset = infer_semantic_hardening_preset parse_float resolved,
     psr_semantic_hardening_presets = preset_catalog,
     psr_semantic_threshold = dict_get resolved ''semantic_threshold'',
     psr_semantic_shadow_threshold = dict_get resolved ''semantic_shadow_threshold'',
     psr_semantic_max_temperature = dict_get resolved ''semantic_max_temperature'',
     psr_overrides_active = overrides_active overrides\<rparr>"

definition resolve_policy :: "(string \<Rightarrow> real option) \<Rightarrow> settings \<Rightarrow> dict \<Rightarrow> policy_settings_response" where
  "resolve_policy parse_float cfg overrides =
     settings_response parse_float (policy_values cfg overrides) overrides"

definition admin_get_policy ::
  "(string \<Rightarrow> real option) \<Rightarrow> settings \<Rightarrow> app_state \<times> platform \<Rightarrow> policy_settings_response" where
  "admin_get_policy parse_float cfg s = (case s of (st, pl) \<Rightarrow>
     resolve_policy parse_float cfg (get_policy_state st pl))"

record policy_update_request =
  pu_dlp_enabled :: "bool option"
  pu_dlp_scrub_level :: "string option"
  pu_semantic_enabled :: "bool option"
  pu_semantic_hardening_preset :: "string option"
  pu_semantic_threshold :: "real option"
  pu_semantic_shadow_threshold :: "real option"
  pu_semantic_max_temperature :: "real option"

definition unit_range :: "real \<Rightarrow> real option \<Rightarrow> bool" where
  "unit_range most x = (case x of None \<Rightarrow> True | Some y \<Rightarrow> 0 \<le> y \<and> y \<le> most)"

definition clean_policy_update :: "policy_update_request \<Rightarrow> policy_update_request result" where
  "clean_policy_update p = (let level = map_option strip (pu_dlp_scrub_level p) in
     if (case level of None \<Rightarrow> True | Some l \<Rightarrow> length l \<le> 32) \<and>
        (case pu_semantic_hardening_preset p of None \<Rightarrow> True | Some name \<Rightarrow> name \<in> set preset_names) \<and>
        unit_range 1 (pu_semantic_threshold p) \<and> unit_range 1 (pu_semantic_shadow_threshold p) \<and>
        unit_range 2 (pu_semantic_max_temperature p)
     then Inr (p\<lparr>pu_dlp_scrub_level := level\<rparr>) else Inl unprocessable)"

definition optional_json :: "('a \<Rightarrow> json) \<Rightarrow> 'a option \<Rightarrow> json" where
  "optional_json f x = (case x of None \<Rightarrow> JNull | Some y \<Rightarrow> f y)"

definition dump_policy_update :: "policy_update_request \<Rightarrow> dict" where
  "dump_policy_update p =
     [(''dlp_enabled'', optional_json JBool (pu_dlp_enabled p)),
      (''dlp_scrub_level'', optional_json JStr (pu_dlp_scrub_level p)),
      (''semantic_enabled'', optional_json JBool (pu_semantic_enabled p)),
      (''semantic_hardening_preset'', optional_json JStr (pu_semantic_hardening_preset p)),
      (''semantic_threshold'', optional_json JFloat (pu_semantic_threshold p)),
      (''semantic_shadow_threshold'', optional_json JFloat (pu_semantic_shadow_threshold p)),
      (''semantic_max_temperature'', optional_json JFloat (pu_semantic_max_temperature p))]"

definition admin_update_policy ::
  "(string \<Rightarrow> real option) \<Rightarrow> settings \<Rightarrow> policy_update_request \<Rightarrow> app_state \<times> platform \<Rightarrow>
   (app_state \<times> platform) \<times> policy_settings_response result" where
  "admin_update_policy parse_float cfg payload s =
     (case rbind (clean_policy_update payload) (\<lambda>p. apply_semantic_hardening_preset (dump_policy_update p)) of
        Inl e \<Rightarrow> (s, Inl e)
      | Inr updates \<Rightarrow>
          (case update_policy_state parse_float updates s of
             (s', r) \<Rightarrow> (s', rbind r (\<lambda>overrides. Inr (resolve_policy parse_float cfg overrides)))))"

section \<open>The detector dry run\<close>

definition MAX_DRY_RUN_TEXT_LENGTH :: nat where
  "MAX_DRY_RUN_TEXT_LENGTH = 20000"

definition clean_dry_run_text :: "string \<Rightarrow> string result" where
  "clean_dry_run_text t = (let u = strip t in
     if u \<noteq> [] \<and> length u \<le> MAX_DRY_RUN_TEXT_LENGTH then Inr u else Inl unprocessable)"

definition detector_dry_run ::
  "surroundings \<Rightarrow> presidio_engine result \<Rightarrow> settings \<Rightarrow> string \<Rightarrow> dry_run_response result" where
  "detector_dry_run su presidio cfg t =
     rbind (clean_dry_run_text t) (\<lambda>t.
     rbind (build_dlp_policy_from_settings (su_json_loads su) (su_read_yaml su) (su_py_str su) (su_re_compile su) cfg [])
       (\<lambda>policy. run_detector_dry_run presidio t policy))"

section \<open>Cache invalidation\<close>

text \<open>
  A process has one exact cache, one memory store for similar texts and, when configured, one
  pgvector table; an operation works on the store that was chosen.
\<close>

definition chosen_ops ::
  "store_choice \<Rightarrow> ('k, 'm) cache_ops \<Rightarrow> ('k, 'p) cache_ops \<Rightarrow> ('k, 'm \<times> 'p) cache_ops" where
  "chosen_ops choice mem pg = (case choice of
     MemoryStore \<Rightarrow> \<lparr>op_get_json = op_get_json mem, op_set_json = op_set_json mem, op_delete_prefix = op_delete_prefix mem,
       op_add = (\<lambda>(m, p) r. (op_add mem m r, p)), op_find = (\<lambda>(m, p). op_find mem m),
       op_invalidate = (\<lambda>(m, p) ns. case op_invalidate mem m ns of (m', n) \<Rightarrow> ((m', p), n)),
       op_prune = (\<lambda>(m, p) t. case op_prune mem m t of (m', n) \<Rightarrow> ((m', p), n))\<rparr>
   | PgvectorStore _ \<Rightarrow> \<lparr>op_get_json = op_get_json mem, op_set_json = op_set_json mem, op_delete_prefix = op_delete_prefix mem,
       op_add = (\<lambda>(m, p) r. (m, op_add pg p r)), op_find = (\<lambda>(m, p). op_find pg p),
       op_invalidate = (\<lambda>(m, p) ns. case op_invalidate pg p ns of (p', n) \<Rightarrow> ((m, p'), n)),
       op_prune = (\<lambda>(m, p) t. case op_prune pg p t of (p', n) \<Rightarrow> ((m, p'), n))\<rparr>)"

record invalidation_response =
  ir_namespace :: string
  ir_exact_cache_deleted :: nat
  ir_semantic_cache_deleted :: nat

definition clean_invalidation :: "string option \<Rightarrow> string option result" where
  "clean_invalidation namespace = (let n = map_option strip namespace in
     if (case n of None \<Rightarrow> True | Some s \<Rightarrow> length s \<le> 128) then Inr n else Inl unprocessable)"

text \<open>
  The route makes its own proxy service without handing it the running semantic cache, so the
  service takes the store the settings select.
\<close>

definition invalidation_target :: "settings \<Rightarrow> string option \<Rightarrow> string option \<Rightarrow> string result" where
  "invalidation_target cfg namespace_header namespace =
     rbind (clean_invalidation namespace) (\<lambda>namespace.
     rbind (resolve_namespace namespace_header (cfg_namespace_header cfg)) (\<lambda>header_namespace.
       let target = the (str_or namespace (Some header_namespace)) in
       rbind (validate_namespace (cfg_namespace_header cfg) target) (\<lambda>_.
       rbind (raise_if (target \<noteq> header_namespace) (HTTPException 403
               ''Admin invalidation cannot target a different namespace than the authenticated header context''))
         (\<lambda>_. Inr target))))"

definition invalidate_cache ::
  "('k, 'm) cache_ops \<Rightarrow> ('k, 'p) cache_ops \<Rightarrow> settings \<Rightarrow> string option \<Rightarrow> string option \<Rightarrow>
   ('k, 'm \<times> 'p) world \<Rightarrow> ('k, 'm \<times> 'p) world \<times> invalidation_response result" where
  "invalidate_cache mem pg cfg namespace_header namespace w =
     (case invalidation_target cfg namespace_header namespace of
        Inl e \<Rightarrow> (w, Inl e)
      | Inr target \<Rightarrow>
          (case invalidate_namespace (chosen_ops (resolve_semantic_store cfg) mem pg) target w of
             ((exact_deleted, semantic_deleted), w') \<Rightarrow>
               (w', Inr \<lparr>ir_namespace = target, ir_exact_cache_deleted = exact_deleted,
                         ir_semantic_cache_deleted = semantic_deleted\<rparr>)))"

section \<open>The router of the operator\<close>

datatype operator_call = GetPolicy | UpdatePolicy policy_update_request | DryRun string

datatype operator_reply = PolicyReply policy_settings_response | DryRunReply dry_run_response

definition operator_admin ::
  "surroundings \<Rightarrow> presidio_engine result \<Rightarrow> settings \<Rightarrow> admin_headers \<Rightarrow> operator_call \<Rightarrow> app_state \<times> platform \<Rightarrow>
   (app_state \<times> platform) \<times> operator_reply result" where
  "operator_admin su presidio cfg hs call s =
     (case require_admin_api_key (cfg_admin_api_key cfg) (ah_admin_key hs) (ah_authorization hs) of
        Inl e \<Rightarrow> (s, Inl e)
      | Inr _ \<Rightarrow> (case call of
          GetPolicy \<Rightarrow> (s, Inr (PolicyReply (admin_get_policy (su_parse_float su) cfg s)))
        | UpdatePolicy p \<Rightarrow>
            (case admin_update_policy (su_parse_float su) cfg p s of
               (s', r) \<Rightarrow> (s', rbind r (\<lambda>answer. Inr (PolicyReply answer))))
        | DryRun t \<Rightarrow> (s, rbind (detector_dry_run su presidio cfg t) (\<lambda>answer. Inr (DryRunReply answer)))))"

section \<open>Scoped policies\<close>

definition require_policy_repository :: "bool \<Rightarrow> unit result" where
  "require_policy_repository available =
     raise_if (\<not> available) (HTTPException 503 ''Policy repository is not available'')"

record version_request =
  vq_scope_type :: string
  vq_scope_ref_id :: "string option"
  vq_fields :: policy_fields
  vq_change_reason :: "string option"

definition clean_version_request :: "version_request \<Rightarrow> version_request result" where
  "clean_version_request p = (let f = vq_fields p; level = strip (pf_dlp_scrub_level f) in
     if length level \<le> 32 \<and> unit_range 1 (Some (pf_semantic_threshold f)) \<and>
        unit_range 1 (Some (pf_semantic_shadow_threshold f)) \<and> unit_range 2 (Some (pf_semantic_max_temperature f))
     then Inr \<lparr>vq_scope_type = strip (vq_scope_type p), vq_scope_ref_id = map_option strip (vq_scope_ref_id p),
       vq_fields = f\<lparr>pf_dlp_scrub_level := level,
         pf_strict_namespace_prefixes := map strip (pf_strict_namespace_prefixes f),
         pf_high_risk_namespace_prefixes := map strip (pf_high_risk_namespace_prefixes f)\<rparr>,
       vq_change_reason = map_option strip (vq_change_reason p)\<rparr>
     else Inl unprocessable)"

record assignment_request =
  aq_scope_type :: string
  aq_policy_version_id :: string
  aq_tenant_id :: "string option"
  aq_workspace_id :: "string option"
  aq_environment_id :: "string option"
  aq_change_reason :: "string option"

definition assign_args_of :: "assignment_request \<Rightarrow> assign_args" where
  "assign_args_of p = \<lparr>as_scope_type = strip (aq_scope_type p),
     as_policy_version_id = strip (aq_policy_version_id p), as_tenant_id = map_option strip (aq_tenant_id p),
     as_workspace_id = map_option strip (aq_workspace_id p),
     as_environment_id = map_option strip (aq_environment_id p), as_actor_id = ''admin_api'',
     as_change_reason = map_option strip (aq_change_reason p)\<rparr>"

record override_request =
  oq_tenant_id :: string
  oq_workspace_id :: string
  oq_environment_id :: "string option"
  oq_namespace :: string
  oq_policy_version_id :: string
  oq_change_reason :: "string option"

definition override_args_of :: "override_request \<Rightarrow> override_args" where
  "override_args_of p = \<lparr>oa_tenant_id = strip (oq_tenant_id p), oa_workspace_id = strip (oq_workspace_id p),
     oa_environment_id = map_option strip (oq_environment_id p), oa_namespace = strip (oq_namespace p),
     oa_policy_version_id = strip (oq_policy_version_id p), oa_actor_id = ''admin_api'',
     oa_change_reason = map_option strip (oq_change_reason p)\<rparr>"

record version_summary =
  vs_id :: string
  vs_scope_type :: string
  vs_scope_ref_id :: "string option"
  vs_version_number :: int
  vs_semantic_threshold :: real
  vs_semantic_shadow_threshold :: real
  vs_semantic_max_temperature :: real
  vs_created_by :: "string option"
  vs_change_reason :: "string option"

definition version_summary_of :: "policy_version_row \<Rightarrow> version_summary" where
  "version_summary_of v = \<lparr>vs_id = pv_id v, vs_scope_type = pv_scope_type v, vs_scope_ref_id = pv_scope_ref_id v,
     vs_version_number = pv_version_number v, vs_semantic_threshold = pf_semantic_threshold (pv_fields v),
     vs_semantic_shadow_threshold = pf_semantic_shadow_threshold (pv_fields v),
     vs_semantic_max_temperature = pf_semantic_max_temperature (pv_fields v),
     vs_created_by = pv_created_by v, vs_change_reason = pv_change_reason v\<rparr>"

record assignment_summary =
  asm_id :: string
  asm_scope_type :: string
  asm_policy_version_id :: string
  asm_tenant_id :: "string option"
  asm_workspace_id :: "string option"
  asm_environment_id :: "string option"
  asm_status :: string

definition assignment_summary_of :: "assignment_row \<Rightarrow> assignment_summary" where
  "assignment_summary_of r = \<lparr>asm_id = pa_id r, asm_scope_type = pa_scope_type r,
     asm_policy_version_id = pa_policy_version_id r, asm_tenant_id = pa_tenant_id r,
     asm_workspace_id = pa_workspace_id r, asm_environment_id = pa_environment_id r, asm_status = pa_status r\<rparr>"

record override_summary =
  osm_id :: string
  osm_tenant_id :: string
  osm_workspace_id :: string
  osm_environment_id :: "string option"
  osm_namespace :: string
  osm_policy_version_id :: string
  osm_status :: string

definition override_summary_of :: "namespace_override_row \<Rightarrow> override_summary" where
  "override_summary_of r = \<lparr>osm_id = no_id r, osm_tenant_id = no_tenant_id r, osm_workspace_id = no_workspace_id r,
     osm_environment_id = no_environment_id r, osm_namespace = no_namespace r,
     osm_policy_version_id = no_policy_version_id r, osm_status = no_status r\<rparr>"

record change_summary =
  cs_id :: string
  cs_tenant_id :: "string option"
  cs_workspace_id :: "string option"
  cs_namespace :: "string option"
  cs_previous_policy_version_id :: "string option"
  cs_new_policy_version_id :: string
  cs_change_actor_type :: string
  cs_change_actor_id :: "string option"
  cs_change_reason :: "string option"
  cs_source :: string

definition change_summary_of :: "policy_change_row \<Rightarrow> change_summary" where
  "change_summary_of c = \<lparr>cs_id = pc_id c, cs_tenant_id = pc_tenant_id c, cs_workspace_id = pc_workspace_id c,
     cs_namespace = pc_namespace c, cs_previous_policy_version_id = pc_previous_policy_version_id c,
     cs_new_policy_version_id = pc_new_policy_version_id c, cs_change_actor_type = pc_change_actor_type c,
     cs_change_actor_id = pc_change_actor_id c, cs_change_reason = pc_change_reason c, cs_source = pc_source c\<rparr>"

record effective_response =
  er_policy_version_id :: "string option"
  er_policy_mode :: string
  er_source_scope :: string
  er_source_ref_id :: "string option"
  er_dlp_enabled :: bool
  er_dlp_scrub_level :: string
  er_semantic_enabled :: bool
  er_semantic_threshold :: real
  er_semantic_shadow_threshold :: real
  er_semantic_max_temperature :: real
  er_strict_namespace_prefixes :: "string list"
  er_high_risk_namespace_prefixes :: "string list"

definition effective_response_of :: "effective_policy \<Rightarrow> effective_response" where
  "effective_response_of p = (let f = ep_fields p in \<lparr>er_policy_version_id = ep_policy_version_id p,
     er_policy_mode = ep_policy_mode p, er_source_scope = ep_source_scope p, er_source_ref_id = ep_source_ref_id p,
     er_dlp_enabled = pf_dlp_enabled f, er_dlp_scrub_level = pf_dlp_scrub_level f,
     er_semantic_enabled = pf_semantic_enabled f, er_semantic_threshold = pf_semantic_threshold f,
     er_semantic_shadow_threshold = pf_semantic_shadow_threshold f,
     er_semantic_max_temperature = pf_semantic_max_temperature f,
     er_strict_namespace_prefixes = pf_strict_namespace_prefixes f,
     er_high_risk_namespace_prefixes = pf_high_risk_namespace_prefixes f\<rparr>)"

subsection \<open>Handlers\<close>

type_synonym 'a policy_handler = "policy_db \<Rightarrow> policy_db \<times> 'a result"

definition admin_list_versions ::
  "bool \<Rightarrow> string option \<Rightarrow> string option \<Rightarrow> version_summary list policy_handler" where
  "admin_list_versions available scope_type scope_ref_id db =
     (db, rbind (require_policy_repository available) (\<lambda>_.
            Inr (map version_summary_of (list_policy_versions db scope_type scope_ref_id))))"

definition admin_create_version ::
  "bool \<Rightarrow> timestamp \<Rightarrow> string \<Rightarrow> version_request \<Rightarrow> string policy_handler" where
  "admin_create_version available now uuid payload db =
     (case rbind (clean_version_request payload) (\<lambda>p. rbind (require_policy_repository available) (\<lambda>_.
             create_policy_version db now uuid (vq_scope_type p) (vq_scope_ref_id p) (vq_fields p) ''admin_api''
               (vq_change_reason p))) of
        Inl e \<Rightarrow> (db, Inl e) | Inr (db', vid) \<Rightarrow> (db', Inr vid))"

definition admin_list_assignments :: "bool \<Rightarrow> assignment_summary list policy_handler" where
  "admin_list_assignments available db =
     (db, rbind (require_policy_repository available) (\<lambda>_.
            Inr (map assignment_summary_of (list_policy_assignments db))))"

definition admin_assign_policy ::
  "bool \<Rightarrow> timestamp \<Rightarrow> string \<Rightarrow> string \<Rightarrow> assignment_request \<Rightarrow> string policy_handler" where
  "admin_assign_policy available now uuid uuid_log payload db =
     (case require_policy_repository available of
        Inl e \<Rightarrow> (db, Inl e) | Inr _ \<Rightarrow> assign_policy db now uuid uuid_log (assign_args_of payload))"

definition admin_list_overrides :: "bool \<Rightarrow> string option \<Rightarrow> override_summary list policy_handler" where
  "admin_list_overrides available workspace_id db =
     (db, rbind (require_policy_repository available) (\<lambda>_.
            Inr (map override_summary_of (list_namespace_overrides db workspace_id))))"

definition admin_set_override ::
  "bool \<Rightarrow> timestamp \<Rightarrow> string \<Rightarrow> string \<Rightarrow> override_request \<Rightarrow> string policy_handler" where
  "admin_set_override available now uuid uuid_log payload db =
     (case require_policy_repository available of
        Inl e \<Rightarrow> (db, Inl e) | Inr _ \<Rightarrow> set_namespace_override db now uuid uuid_log (override_args_of payload))"

text \<open>The query parameter is unbounded; PostgreSQL rejects a negative limit.\<close>

definition admin_change_log :: "bool \<Rightarrow> int \<Rightarrow> change_summary list policy_handler" where
  "admin_change_log available limit db =
     (db, rbind (require_policy_repository available) (\<lambda>_.
          rbind (raise_if (limit < 0) (RuntimeErr ''LIMIT must not be negative'')) (\<lambda>_.
            Inr (map change_summary_of (list_policy_change_log db (nat limit))))))"

definition inspect_effective_policy ::
  "bool \<Rightarrow> timestamp \<Rightarrow> settings \<Rightarrow> policy_context \<Rightarrow> policy_db \<Rightarrow> effective_response" where
  "inspect_effective_policy available now cfg ctx db =
     effective_response_of (resolver_resolve (if available then Some db else None) now cfg ctx)"

text \<open>
  The router also has policy routes of its own. Their paths are those of the operator's
  router, which is registered first and answers them.
\<close>

definition scoped_get_policy ::
  "(string \<Rightarrow> real option) \<Rightarrow> bool \<Rightarrow> timestamp \<Rightarrow> settings \<Rightarrow> dict \<Rightarrow> policy_db \<Rightarrow> policy_settings_response" where
  "scoped_get_policy parse_float available now cfg overrides db =
     (if \<not> available then resolve_policy parse_float cfg overrides
      else let f = ep_fields (resolver_resolve (Some db) now cfg
             \<lparr>px_tenant_id = None, px_workspace_id = None, px_environment_id = None, px_namespace = ''default''\<rparr>)
        in settings_response parse_float
             [(''dlp_enabled'', JBool (pf_dlp_enabled f)), (''dlp_scrub_level'', JStr (pf_dlp_scrub_level f)),
              (''semantic_enabled'', JBool (pf_semantic_enabled f)),
              (''semantic_threshold'', JFloat (pf_semantic_threshold f)),
              (''semantic_shadow_threshold'', JFloat (pf_semantic_shadow_threshold f)),
              (''semantic_max_temperature'', JFloat (pf_semantic_max_temperature f))] overrides)"

datatype policy_admin_call =
    ListVersions "string option" "string option"
  | NewVersion version_request
  | ListAssignments
  | Assign assignment_request
  | ListOverrides "string option"
  | SetOverride override_request
  | ChangeLog int
  | Inspect policy_context

datatype policy_admin_reply =
    VersionsReply "version_summary list"
  | VersionReply string
  | AssignmentsReply "assignment_summary list"
  | AssignmentReply string
  | OverridesReply "override_summary list"
  | OverrideReply string
  | ChangesReply "change_summary list"
  | EffectiveReply effective_response

definition policy_answer :: "('a \<Rightarrow> 'b) \<Rightarrow> policy_db \<times> 'a result \<Rightarrow> policy_db \<times> 'b result" where
  "policy_answer f dr = (fst dr, rbind (snd dr) (\<lambda>x. Inr (f x)))"

fun policy_admin_handler ::
  "bool \<Rightarrow> settings \<Rightarrow> timestamp \<Rightarrow> (nat \<Rightarrow> string) \<Rightarrow> policy_admin_call \<Rightarrow> policy_admin_reply policy_handler" where
  "policy_admin_handler available cfg now uuids (ListVersions t r) db =
     policy_answer VersionsReply (admin_list_versions available t r db)"
| "policy_admin_handler available cfg now uuids (NewVersion p) db =
     policy_answer VersionReply (admin_create_version available now (uuids 0) p db)"
| "policy_admin_handler available cfg now uuids ListAssignments db =
     policy_answer AssignmentsReply (admin_list_assignments available db)"
| "policy_admin_handler available cfg now uuids (Assign p) db =
     policy_answer AssignmentReply (admin_assign_policy available now (uuids 0) (uuids 1) p db)"
| "policy_admin_handler available cfg now uuids (ListOverrides w) db =
     policy_answer OverridesReply (admin_list_overrides available w db)"
| "policy_admin_handler available cfg now uuids (SetOverride p) db =
     policy_answer OverrideReply (admin_set_override available now (uuids 0) (uuids 1) p db)"
| "policy_admin_handler available cfg now uuids (ChangeLog n) db =
     policy_answer ChangesReply (admin_change_log available n db)"
| "policy_admin_handler available cfg now uuids (Inspect ctx) db =
     (db, Inr (EffectiveReply (inspect_effective_policy available now cfg ctx db)))"

definition policy_admin ::
  "bool \<Rightarrow> settings \<Rightarrow> admin_headers \<Rightarrow> timestamp \<Rightarrow> (nat \<Rightarrow> string) \<Rightarrow> policy_admin_call \<Rightarrow>
   policy_admin_reply policy_handler" where
  "policy_admin available cfg hs now uuids call db =
     (case require_admin_api_key (cfg_admin_api_key cfg) (ah_admin_key hs) (ah_authorization hs) of
        Inl e \<Rightarrow> (db, Inl e)
      | Inr _ \<Rightarrow> policy_admin_handler available cfg now uuids call db)"
end
