(* ===== verification/AdminRouteProperties.thy ===== *)
theory AdminRouteProperties
  imports AdminRoutes StartupProperties PolicyStoreProperties ProxyProperties
begin

text \<open>
  What the operator's routes guarantee after a start-up: the policy they report is well typed
  over every sequence of calls, whose caches an invalidation empties, and when a published
  policy is the effective one.
\<close>

section \<open>Typed policy values\<close>

definition unit_float :: "real \<Rightarrow> json \<Rightarrow> bool" where
  "unit_float most v \<longleftrightarrow> (\<exists>x. v = JFloat x \<and> 0 \<le> x \<and> x \<le> most)"

definition policy_value_typed :: "string \<Rightarrow> json \<Rightarrow> bool" where
  "policy_value_typed k v \<longleftrightarrow>
     (if k = ''dlp_enabled'' \<or> k = ''semantic_enabled'' then \<exists>b. v = JBool b
      else if k = ''dlp_scrub_level'' then \<exists>s. v = JStr s \<and> length s \<le> 32
      else if k = ''semantic_hardening_preset'' then \<exists>s. v = JStr s \<and> s \<in> set preset_names
      else if k = ''semantic_max_temperature'' then unit_float 2 v
      else unit_float 1 v)"

definition typed_policy :: "dict \<Rightarrow> bool" where
  "typed_policy d \<longleftrightarrow> (\<forall>k \<in> policy_keys. dict_get d k \<noteq> JNull \<longrightarrow> policy_value_typed k (dict_get d k))"

lemma fl_unit: "0 \<le> x \<Longrightarrow> x \<le> 1 \<Longrightarrow> 0 \<le> fl x \<and> fl x \<le> 1"
  using fl_mono [of x 1] fl_nonneg [of x] by simp

lemma unit_float_fl: "0 \<le> x \<Longrightarrow> x \<le> 1 \<Longrightarrow> 1 \<le> most \<Longrightarrow> unit_float most (JFloat (fl x))"
  using fl_unit [of x] by (auto simp: unit_float_def)

lemma policy_value_typed_simps [simp]:
  "policy_value_typed ''dlp_enabled'' v \<longleftrightarrow> (\<exists>b. v = JBool b)"
  "policy_value_typed ''semantic_enabled'' v \<longleftrightarrow> (\<exists>b. v = JBool b)"
  "policy_value_typed ''dlp_scrub_level'' v \<longleftrightarrow> (\<exists>s. v = JStr s \<and> length s \<le> 32)"
  "policy_value_typed ''semantic_hardening_preset'' v \<longleftrightarrow> (\<exists>s. v = JStr s \<and> s \<in> set preset_names)"
  "policy_value_typed ''semantic_threshold'' v \<longleftrightarrow> unit_float 1 v"
  "policy_value_typed ''semantic_shadow_threshold'' v \<longleftrightarrow> unit_float 1 v"
  "policy_value_typed ''semantic_max_temperature'' v \<longleftrightarrow> unit_float 2 v"
  by (simp_all add: policy_value_typed_def)

lemma all_policy_keys:
  "(\<forall>k \<in> policy_keys. P k) \<longleftrightarrow> P ''dlp_enabled'' \<and> P ''dlp_scrub_level'' \<and> P ''semantic_enabled'' \<and>
     P ''semantic_hardening_preset'' \<and> P ''semantic_threshold'' \<and> P ''semantic_shadow_threshold'' \<and>
     P ''semantic_max_temperature''"
  by (simp add: policy_keys_def DEFAULT_POLICY_STATE_def)

lemma production_values [simp]:
  "dict_get PRODUCTION_POLICY_DEFAULTS ''dlp_enabled'' = JBool True"
  "dict_get PRODUCTION_POLICY_DEFAULTS ''dlp_scrub_level'' = JStr ''technical''"
  "dict_get PRODUCTION_POLICY_DEFAULTS ''semantic_enabled'' = JBool True"
  "dict_get PRODUCTION_POLICY_DEFAULTS ''semantic_hardening_preset'' = JStr ''conservative''"
  "dict_get PRODUCTION_POLICY_DEFAULTS ''semantic_threshold'' = JFloat (fl 0.9)"
  "dict_get PRODUCTION_POLICY_DEFAULTS ''semantic_shadow_threshold'' = JFloat (fl 0.8)"
  "dict_get PRODUCTION_POLICY_DEFAULTS ''semantic_max_temperature'' = JFloat (fl 0.2)"
  by (simp_all add: PRODUCTION_POLICY_DEFAULTS_def dict_get_def)

lemma preset_names_mem [simp]: "name \<in> set preset_names \<longleftrightarrow> name = ''conservative'' \<or> name = ''balanced'' \<or> name = ''aggressive''"
  by (simp add: preset_names_def SEMANTIC_HARDENING_PRESETS_def)

lemma production_typed: "\<forall>k \<in> policy_keys. policy_value_typed k (dict_get PRODUCTION_POLICY_DEFAULTS k)"
  unfolding all_policy_keys by (auto simp: unit_float_fl)

lemma preset_typed_all:
  "list_all (\<lambda>(name, ds). list_all (\<lambda>(k, v). policy_value_typed k v) ds) SEMANTIC_HARDENING_PRESETS"
  by (auto simp: SEMANTIC_HARDENING_PRESETS_def unit_float_fl)

lemma preset_typed:
  assumes "map_of SEMANTIC_HARDENING_PRESETS name = Some ds" "dict_get ds k \<noteq> JNull"
  shows "policy_value_typed k (dict_get ds k)"
proof -
  obtain v where v: "map_of ds k = Some v" "dict_get ds k = v"
    using assms(2) by (cases "map_of ds k") (auto simp: dict_get_def)
  have "(name, ds) \<in> set SEMANTIC_HARDENING_PRESETS" "(k, v) \<in> set ds"
    using assms(1) v(1) by (auto dest: map_of_SomeD)
  with preset_typed_all v(2) show ?thesis by (fastforce simp: list_all_iff)
qed

lemma dumped_values:
  "dict_get (dump_policy_update p) ''dlp_enabled'' = optional_json JBool (pu_dlp_enabled p)"
  "dict_get (dump_policy_update p) ''dlp_scrub_level'' = optional_json JStr (pu_dlp_scrub_level p)"
  "dict_get (dump_policy_update p) ''semantic_enabled'' = optional_json JBool (pu_semantic_enabled p)"
  "dict_get (dump_policy_update p) ''semantic_hardening_preset'' = optional_json JStr (pu_semantic_hardening_preset p)"
  "dict_get (dump_policy_update p) ''semantic_threshold'' = optional_json JFloat (pu_semantic_threshold p)"
  "dict_get (dump_policy_update p) ''semantic_shadow_threshold'' = optional_json JFloat (pu_semantic_shadow_threshold p)"
  "dict_get (dump_policy_update p) ''semantic_max_temperature'' = optional_json JFloat (pu_semantic_max_temperature p)"
  by (simp_all add: dump_policy_update_def dict_get_def)

lemma optional_json_typed: "optional_json f x = JNull \<or> (\<exists>y. x = Some y \<and> optional_json f x = f y)"
  by (cases x) (simp_all add: optional_json_def)

lemma clean_update_typed:
  assumes "clean_policy_update p = Inr q"
  shows "typed_policy (dump_policy_update q)"
proof -
  have q: "case pu_dlp_scrub_level q of None \<Rightarrow> True | Some l \<Rightarrow> length l \<le> 32"
    "case pu_semantic_hardening_preset q of None \<Rightarrow> True | Some name \<Rightarrow> name \<in> set preset_names"
    "unit_range 1 (pu_semantic_threshold q)" "unit_range 1 (pu_semantic_shadow_threshold q)"
    "unit_range 2 (pu_semantic_max_temperature q)"
    using assms by (auto simp: clean_policy_update_def Let_def split: if_splits)
  have f: "optional_json JFloat x \<noteq> JNull \<Longrightarrow> unit_range most x \<Longrightarrow> unit_float most (optional_json JFloat x)" for x most
    by (cases x) (auto simp: optional_json_def unit_range_def unit_float_def)
  show ?thesis
    unfolding typed_policy_def all_policy_keys dumped_values policy_value_typed_simps
    using q f by (auto simp: optional_json_def split: option.splits)
qed

lemma applied_preset_typed:
  assumes "typed_policy u" "apply_semantic_hardening_preset u = Inr v"
  shows "typed_policy v"
proof (cases "dict_get u ''semantic_hardening_preset''")
  case (JStr name)
  with assms(2) obtain ds where ds: "map_of SEMANTIC_HARDENING_PRESETS name = Some ds" "v = fill_missing u ds"
    by (auto simp: apply_semantic_hardening_preset_def split: option.splits)
  show ?thesis
    using assms(1) preset_typed [OF ds(1)]
    by (auto simp: typed_policy_def ds(2) fill_missing_get [OF preset_entry_distinct [OF ds(1)]])
qed (use assms in \<open>auto simp: apply_semantic_hardening_preset_def\<close>)

lemma fill_missing_distinct: "distinct (map fst st) \<Longrightarrow> distinct (map fst (fill_missing st ds))"
  unfolding fill_missing_def
  by (induction ds arbitrary: st) (auto simp: distinct_update split: prod.splits)

lemma route_updates:
  assumes "rbind (clean_policy_update p) (\<lambda>p. apply_semantic_hardening_preset (dump_policy_update p)) = Inr u"
  shows "typed_policy u" "typed_updates u"
proof -
  obtain q where q: "clean_policy_update p = Inr q" "apply_semantic_hardening_preset (dump_policy_update q) = Inr u"
    using assms by (auto simp: rbind_eq_Inr)
  show t: "typed_policy u" by (rule applied_preset_typed [OF clean_update_typed [OF q(1)] q(2)])
  have "distinct (map fst (dump_policy_update q))" by (simp add: dump_policy_update_def)
  then have "distinct (map fst u)"
    using q(2) by (auto simp: apply_semantic_hardening_preset_def fill_missing_distinct split: json.splits option.splits)
  moreover have "case dict_get u ''semantic_shadow_threshold'' of JNull \<Rightarrow> True | JFloat _ \<Rightarrow> True | _ \<Rightarrow> False"
    using t shadow_key by (auto simp: typed_policy_def policy_value_typed_def unit_float_def split: json.splits)
  ultimately show "typed_updates u" by (simp add: typed_updates_def)
qed

section \<open>The policy over a run of the operator's calls\<close>

text \<open>The store of the application takes typed updates and holds typed values.\<close>

definition policy_state_ok :: "app_state \<times> platform \<Rightarrow> bool" where
  "policy_state_ok s \<longleftrightarrow> typed_policy (get_policy_state (fst s) (snd s)) \<and>
     (case ap_policy_store (fst s) of
        InMemoryPolicy d \<Rightarrow> mem_ready d | PostgresPolicy \<Rightarrow> pg_ready (pl_policy_row (snd s)))"

lemma update_policy_state_ok:
  assumes "policy_state_ok s" "typed_policy u" "typed_updates u"
  obtains s' d where "update_policy_state parse_float u s = (s', Inr d)" "policy_state_ok s'"
    "ap_policy_store (fst s') = PostgresPolicy \<longleftrightarrow> ap_policy_store (fst s) = PostgresPolicy"
    "\<And>k. dict_get d k = dict_get (get_policy_state (fst s') (snd s')) k"
    "\<And>k. k \<in> policy_keys \<Longrightarrow> dict_get (get_policy_state (fst s') (snd s')) k =
       (if dict_get u k \<noteq> JNull then dict_get u k else dict_get (get_policy_state (fst s) (snd s)) k)"
proof -
  obtain st pl where s: "s = (st, pl)" by fastforce
  show thesis
  proof (cases "ap_policy_store st")
    case (InMemoryPolicy d0)
    then have r: "mem_ready d0" "get_policy_state st pl = mem_get_overrides d0"
      using assms(1) by (simp_all add: s policy_state_ok_def get_policy_state_def)
    obtain d1 d where u: "mem_update_overrides d0 u = Inr (d1, d)" using mem_pol.update_ok [OF r(1) assms(3)] by blast
    note g = mem_pol.get_update [OF r(1) assms(3) u] and k = mem_pol.ready_keys [OF r(1)]
    have t: "typed_policy (mem_get_overrides d1)"
      using assms(1,2) k by (auto simp: typed_policy_def g s policy_state_ok_def r(2))
    show thesis
      using that [of "(st\<lparr>ap_policy_store := InMemoryPolicy d1\<rparr>, pl)" d] InMemoryPolicy u t r k
        mem_pol.update_returns [OF r(1) assms(3) u] mem_pol.update_ready [OF r(1) assms(3) u]
      by (simp add: s update_policy_state_def policy_state_ok_def get_policy_state_def g)
  next
    case PostgresPolicy
    then have r: "pg_ready (pl_policy_row pl)" "get_policy_state st pl = pg_get_overrides (pl_policy_row pl)"
      using assms(1) by (simp_all add: s policy_state_ok_def get_policy_state_def)
    obtain row d where u: "pg_update_overrides parse_float (pl_policy_row pl) u = Inr (row, d)"
      using pg_pol.update_ok [OF r(1) assms(3), of parse_float] by blast
    note g = pg_pol.get_update [OF r(1) assms(3) u] and k = pg_pol.ready_keys [OF r(1)]
    have t: "typed_policy (pg_get_overrides row)"
      using assms(1,2) k by (auto simp: typed_policy_def g s policy_state_ok_def r(2))
    show thesis
      using that [of "(st, pl\<lparr>pl_policy_row := row\<rparr>)" d] PostgresPolicy u t r k
        pg_pol.update_returns [OF r(1) assms(3) u] pg_pol.update_ready [OF r(1) assms(3) u]
      by (simp add: s update_policy_state_def policy_state_ok_def get_policy_state_def g)
  qed
qed

lemma operator_call_ok:
  assumes "policy_state_ok s"
  shows "policy_state_ok (fst (operator_admin su presidio cfg hs call s))"
proof (cases "\<exists>p. call = UpdatePolicy p \<and> require_admin_api_key (cfg_admin_api_key cfg) (ah_admin_key hs) (ah_authorization hs) = Inr ()")
  case True
  then obtain p where p: "call = UpdatePolicy p"
    "require_admin_api_key (cfg_admin_api_key cfg) (ah_admin_key hs) (ah_authorization hs) = Inr ()" by blast
  show ?thesis
  proof (cases "rbind (clean_policy_update p) (\<lambda>p. apply_semantic_hardening_preset (dump_policy_update p))")
    case (Inl e)
    then show ?thesis using assms p by (simp add: operator_admin_def admin_update_policy_def)
  next
    case (Inr u)
    obtain s' d where "update_policy_state (su_parse_float su) u s = (s', Inr d)" "policy_state_ok s'"
      using update_policy_state_ok [OF assms route_updates [OF Inr]] by metis
    then show ?thesis using Inr p by (simp add: operator_admin_def admin_update_policy_def)
  qed
next
  case False
  with assms show ?thesis by (cases call) (auto simp: operator_admin_def split: sum.split)
qed

definition operator_run ::
  "surroundings \<Rightarrow> presidio_engine result \<Rightarrow> settings \<Rightarrow> (admin_headers \<times> operator_call) list \<Rightarrow>
   app_state \<times> platform \<Rightarrow> app_state \<times> platform" where
  "operator_run su presidio cfg calls s =
     foldl (\<lambda>s (hs, call). fst (operator_admin su presidio cfg hs call s)) s calls"

lemma operator_run_ok: "policy_state_ok s \<Longrightarrow> policy_state_ok (operator_run su presidio cfg calls s)"
  unfolding operator_run_def
  by (induction calls arbitrary: s) (simp_all add: case_prod_beta operator_call_ok)

text \<open>A finished start-up has chosen one of the two stores.\<close>

lemma lifespan_policy_store:
  assumes "lifespan su cfg pl = (pl', Inr st)"
  shows "ap_policy_store st = PostgresPolicy \<or> ap_policy_store st = InMemoryPolicy DEFAULT_POLICY_STATE"
proof -
  obtain p0 s0 p1 s1 p2 s2 p3 s3 p4 s4 p5 s5 where
    s: "configured_state su cfg pl = (p0, Inr s0)" "start_semantic_store su cfg s0 p0 = (p1, Inr s1)"
      "start_policy_store su cfg s1 p1 = (p2, Inr s2)" "start_exact_cache su cfg s2 p2 = (p3, Inr s3)"
      "start_identity su cfg s3 p3 = (p4, Inr s4)" "start_policy_repository su cfg s4 p4 = (p5, Inr s5)"
      "start_repositories su cfg s5 p5 = (pl', Inr st)"
    using assms(1) unfolding lifespan_def stage_bind_Inr by blast
  obtain custom where c: "p0 = pl" "s0 = initial_state su cfg (assess_startup_posture cfg) custom"
    using configured_state_Inr [OF s(1)] by blast
  have i: "repositories s0 = replicate 8 False" "ap_cache_fallback_active s0 = False"
    "ap_cache_backend_active s0 = ''memory''" "ap_policy_store s0 = InMemoryPolicy DEFAULT_POLICY_STATE"
    by (simp_all add: c initial_state_def repositories_def numeral_eq_Suc)
  note se = start_semantic_store_Inr [OF s(2)] and ps = start_policy_store_Inr [OF s(3)]
  have ca: "ap_cache_fallback_active s2 = False" "ap_cache_backend_active s2 = ''memory''"
    using i se ps by simp_all
  note ec = start_exact_cache_Inr [OF s(4) ca]
  note id = start_identity_Inr [OF s(5)] and pr = start_policy_repository_Inr [OF s(6)]
  have r4: "repositories s4 = replicate 8 False" using i(1) se(4) ps(3) ec(4) id(3) by simp
  note rr = start_repositories_Inr [OF s(7) pr(5) [OF r4]]
  have "backends st = backends s3" using rr pr(3) id(2) by simp
  then have e: "ap_policy_store st = ap_policy_store s2" using ec(3) by (simp add: backends_def)
  have "ap_policy_store s1 = InMemoryPolicy DEFAULT_POLICY_STATE"
    using s(2) i(4) by (auto simp: start_semantic_store_def split: prod.splits)
  then show ?thesis
    using s(3) unfolding e by (auto simp: start_policy_store_def split: if_splits prod.splits sum.splits)
qed

lemma warm_policy_store_ready:
  assumes "warm_policy_store su pl = (pl', Inr u)" "row_ok (pl_policy_row pl)"
  shows "pg_ready (pl_policy_row pl')"
proof (rule ccontr)
  assume "\<not> pg_ready (pl_policy_row pl')"
  with warm_policy_store_row [OF assms] have n: "pl_policy_row pl' = None" by (simp add: row_ok_def)
  with warm_policy_store_row [OF assms] have
    "dict_get DEFAULT_POLICY_STATE ''dlp_enabled'' = dict_get (fill_defaults False (pg_get_overrides (pl_policy_row pl))) ''dlp_enabled''"
    by (simp add: pg_get_overrides_def all_policy_keys)
  moreover have "''dlp_enabled'' \<in> policy_keys" by (simp add: policy_keys_def DEFAULT_POLICY_STATE_def)
  ultimately show False by (simp add: default_get fill_defaults_get split: if_splits)
qed

text \<open>The stored row a start-up may find: none, or one with typed values.\<close>

definition stored_row_ok :: "override_row option \<Rightarrow> bool" where
  "stored_row_ok row \<longleftrightarrow> row = None \<or> pg_ready row \<and> typed_policy (pg_get_overrides row)"

lemma started_policy_ok:
  assumes "lifespan su cfg pl = (pl', Inr st)" "stored_row_ok (pl_policy_row pl)"
  shows "policy_state_ok (st, pl')"
  using lifespan_policy_store [OF assms(1)]
proof
  assume m: "ap_policy_store st = InMemoryPolicy DEFAULT_POLICY_STATE"
  then show ?thesis
    by (simp add: policy_state_ok_def get_policy_state_def mem_get_overrides_def mem_ready_def default_keys
        default_distinct typed_policy_def default_get)
next
  assume p: "ap_policy_store st = PostgresPolicy"
  obtain p1 p2 u where w: "warm_policy_store su p1 = (p2, Inr u)" "pl_policy_row p1 = pl_policy_row pl"
    "pl_policy_row pl' = pl_policy_row p2"
    using lifespan_policy_row [OF assms(1) p] by blast
  have r: "row_ok (pl_policy_row p1)" using assms(2) w(2) by (auto simp: stored_row_ok_def row_ok_def)
  have old: "typed_policy (pg_get_overrides (pl_policy_row pl))"
    using assms(2) by (auto simp: stored_row_ok_def typed_policy_def pg_get_overrides_def default_get)
  have "typed_policy (pg_get_overrides (pl_policy_row p2))"
    using warm_policy_store_row [OF w(1) r] old production_typed
    by (auto simp: typed_policy_def fill_defaults_get w(2))
  with warm_policy_store_ready [OF w(1) r] p show ?thesis
    by (simp add: policy_state_ok_def get_policy_state_def w(3))
qed

lemma override_or_get: "override_or d k v = (if dict_get d k = JNull then v else dict_get d k)"
  by (simp add: override_or_def)

lemma policy_values_get [simp]:
  "dict_get (policy_values cfg d) ''dlp_enabled'' = override_or d ''dlp_enabled'' (JBool (cfg_dlp_enabled cfg))"
  "dict_get (policy_values cfg d) ''dlp_scrub_level'' = (if py_falsy (dict_get d ''dlp_scrub_level'')
     then JStr (cfg_dlp_scrub_level cfg) else dict_get d ''dlp_scrub_level'')"
  "dict_get (policy_values cfg d) ''semantic_enabled'' = override_or d ''semantic_enabled'' (JBool (cfg_semantic_enabled cfg))"
  "dict_get (policy_values cfg d) ''semantic_hardening_preset'' = dict_get d ''semantic_hardening_preset''"
  "dict_get (policy_values cfg d) ''semantic_threshold'' =
     override_or d ''semantic_threshold'' (JFloat (cfg_semantic_threshold cfg))"
  "dict_get (policy_values cfg d) ''semantic_shadow_threshold'' =
     override_or d ''semantic_shadow_threshold'' (JFloat (cfg_semantic_shadow_threshold cfg))"
  "dict_get (policy_values cfg d) ''semantic_max_temperature'' =
     override_or d ''semantic_max_temperature'' (JFloat (cfg_semantic_max_temperature cfg))"
  by (simp_all add: policy_values_def dict_get_def)

lemma inferred_label: "infer_semantic_hardening_preset parse_float d \<in> insert ''custom'' (set preset_names)"
proof -
  have "find P SEMANTIC_HARDENING_PRESETS = Some (name, ds) \<Longrightarrow> name \<in> set preset_names" for P name ds
    using find_Some_mem [of P SEMANTIC_HARDENING_PRESETS "(name, ds)"] by (force simp: preset_names_def simp del: preset_names_mem)
  then show ?thesis
    by (auto simp: infer_semantic_hardening_preset_def Let_def simp del: preset_names_mem split: json.splits option.splits)
qed

text \<open>
  C38. After a start-up and any sequence of the operator's calls, refused and malformed ones
  included, the policy answer has the types its model declares: flags, a level, a known preset
  or \<open>custom\<close>, and numbers; a value that comes from the store lies in its range.
\<close>

theorem policy_answers_typed:
  assumes "lifespan su cfg pl = (pl', Inr st)" "stored_row_ok (pl_policy_row pl)"
    and "s = operator_run su presidio cfg calls (st, pl')" "r = admin_get_policy (su_parse_float su) cfg s"
  shows "(\<exists>b. psr_dlp_enabled r = JBool b) \<and> (\<exists>l. psr_dlp_scrub_level r = JStr l)
    \<and> (\<exists>b. psr_semantic_enabled r = JBool b)
    \<and> psr_semantic_hardening_preset r \<in> insert ''custom'' (set preset_names)
    \<and> (unit_float 1 (psr_semantic_threshold r) \<or> psr_semantic_threshold r = JFloat (cfg_semantic_threshold cfg))
    \<and> (unit_float 1 (psr_semantic_shadow_threshold r) \<or>
       psr_semantic_shadow_threshold r = JFloat (cfg_semantic_shadow_threshold cfg))
    \<and> (unit_float 2 (psr_semantic_max_temperature r) \<or>
       psr_semantic_max_temperature r = JFloat (cfg_semantic_max_temperature cfg))"
proof -
  have "policy_state_ok s" unfolding assms(3) by (rule operator_run_ok [OF started_policy_ok [OF assms(1,2)]])
  then have "typed_policy (get_policy_state (fst s) (snd s))" by (simp add: policy_state_ok_def)
  then show ?thesis
    using inferred_label unfolding typed_policy_def all_policy_keys policy_value_typed_simps
    by (auto simp: assms(4) admin_get_policy_def resolve_policy_def settings_response_def override_or_get case_prod_beta
        py_falsy_def simp del: preset_names_mem)
qed

section \<open>The preset label\<close>

definition names_preset :: "operator_call \<Rightarrow> bool" where
  "names_preset call = (case call of UpdatePolicy p \<Rightarrow> pu_semantic_hardening_preset p \<noteq> None | _ \<Rightarrow> False)"

lemma stored_label:
  assumes "dict_get (get_policy_state (fst s) (snd s)) ''semantic_hardening_preset'' = JStr name" "name \<in> set preset_names"
  shows "psr_semantic_hardening_preset (admin_get_policy parse_float cfg s) = name"
  using assms
  by (simp add: admin_get_policy_def resolve_policy_def settings_response_def case_prod_beta
      infer_semantic_hardening_preset_def Let_def del: preset_names_mem)

lemma unnamed_update_keeps_label:
  assumes "policy_state_ok s" "\<not> names_preset call"
  shows "dict_get (get_policy_state (fst (fst (operator_admin su presidio cfg hs call s))) (snd (fst (operator_admin su presidio cfg hs call s))))
      ''semantic_hardening_preset'' = dict_get (get_policy_state (fst s) (snd s)) ''semantic_hardening_preset''"
proof (cases "\<exists>p u. call = UpdatePolicy p \<and> require_admin_api_key (cfg_admin_api_key cfg) (ah_admin_key hs) (ah_authorization hs) = Inr () \<and>
    rbind (clean_policy_update p) (\<lambda>p. apply_semantic_hardening_preset (dump_policy_update p)) = Inr u")
  case True
  then obtain p u where p: "call = UpdatePolicy p"
    "require_admin_api_key (cfg_admin_api_key cfg) (ah_admin_key hs) (ah_authorization hs) = Inr ()"
    "rbind (clean_policy_update p) (\<lambda>p. apply_semantic_hardening_preset (dump_policy_update p)) = Inr u" by blast
  have "pu_semantic_hardening_preset p = None" using assms(2) by (simp add: p(1) names_preset_def)
  then have n: "dict_get u ''semantic_hardening_preset'' = JNull"
    using p(3) by (auto simp: rbind_eq_Inr clean_policy_update_def Let_def apply_semantic_hardening_preset_def
        dumped_values optional_json_def split: if_splits)
  obtain s' d where s': "update_policy_state (su_parse_float su) u s = (s', Inr d)"
    "\<And>k. k \<in> policy_keys \<Longrightarrow> dict_get (get_policy_state (fst s') (snd s')) k =
       (if dict_get u k \<noteq> JNull then dict_get u k else dict_get (get_policy_state (fst s) (snd s)) k)"
    using update_policy_state_ok [OF assms(1) route_updates [OF p(3)]] by metis
  have "''semantic_hardening_preset'' \<in> policy_keys" by (simp add: policy_keys_def DEFAULT_POLICY_STATE_def)
  with s' n p show ?thesis by (simp add: operator_admin_def admin_update_policy_def)
next
  case False
  then show ?thesis
    by (cases call; cases "require_admin_api_key (cfg_admin_api_key cfg) (ah_admin_key hs) (ah_authorization hs)")
      (auto simp: operator_admin_def admin_update_policy_def split: sum.split)
qed

lemma run_keeps_label:
  "policy_state_ok s \<Longrightarrow> list_all (\<lambda>(hs, call). \<not> names_preset call) calls \<Longrightarrow>
   (let s' = operator_run su presidio cfg calls s in
     dict_get (get_policy_state (fst s') (snd s')) ''semantic_hardening_preset'' =
     dict_get (get_policy_state (fst s) (snd s)) ''semantic_hardening_preset'')"
proof (induction calls arbitrary: s)
  case (Cons c calls)
  obtain hs call where c: "c = (hs, call)" by fastforce
  let ?t = "fst (operator_admin su presidio cfg hs call s)"
  have "\<not> names_preset call" "list_all (\<lambda>(hs, call). \<not> names_preset call) calls" using Cons.prems(2) by (simp_all add: c)
  with Cons.IH [OF operator_call_ok [OF Cons.prems(1)]] unnamed_update_keeps_label [OF Cons.prems(1)]
  show ?case by (simp add: operator_run_def c Let_def)
qed (simp add: operator_run_def)

text \<open>
  On the PostgreSQL policy store the preset named in the answers is the last one an operator
  asked for, or the one found or filled in at the start: changing the thresholds by hand never
  turns it into \<open>custom\<close>, so the label may describe values that are long gone.
\<close>

theorem preset_label_outlives_settings:
  assumes "lifespan su cfg pl = (pl', Inr st)" "stored_row_ok (pl_policy_row pl)"
    and "ap_policy_store st = PostgresPolicy" "list_all (\<lambda>(hs, call). \<not> names_preset call) calls"
  shows "psr_semantic_hardening_preset (admin_get_policy (su_parse_float su) cfg (operator_run su presidio cfg calls (st, pl'))) =
      psr_semantic_hardening_preset (admin_get_policy (su_parse_float su) cfg (st, pl'))
    \<and> psr_semantic_hardening_preset (admin_get_policy (su_parse_float su) cfg (st, pl')) \<noteq> ''custom''"
proof -
  have ok: "policy_state_ok (st, pl')" by (rule started_policy_ok [OF assms(1,2)])
  obtain p1 p2 u where w: "warm_policy_store su p1 = (p2, Inr u)" "pl_policy_row p1 = pl_policy_row pl"
    "pl_policy_row pl' = pl_policy_row p2"
    using lifespan_policy_row [OF assms(1,3)] by blast
  have "row_ok (pl_policy_row p1)" using assms(2) w(2) by (auto simp: stored_row_ok_def row_ok_def)
  from warm_policy_store_row [OF w(1) this]
  have "dict_get (get_policy_state st pl') ''semantic_hardening_preset'' \<noteq> JNull"
    by (simp add: get_policy_state_def assms(3) w(3) all_policy_keys fill_defaults_get)
  moreover have "''semantic_hardening_preset'' \<in> policy_keys" by (simp add: policy_keys_def DEFAULT_POLICY_STATE_def)
  ultimately have "policy_value_typed ''semantic_hardening_preset'' (dict_get (get_policy_state st pl') ''semantic_hardening_preset'')"
    using ok unfolding policy_state_ok_def typed_policy_def fst_conv snd_conv by blast
  then obtain name where n: "dict_get (get_policy_state st pl') ''semantic_hardening_preset'' = JStr name"
    "name \<in> set preset_names" unfolding policy_value_typed_simps by blast
  have "name \<noteq> ''custom''" using n(2) by auto
  with stored_label [of "(st, pl')"] stored_label [of "operator_run su presidio cfg calls (st, pl')"]
    run_keeps_label [OF ok assms(4), of su presidio cfg] n
  show ?thesis by (simp add: Let_def del: preset_names_mem)
qed

section \<open>Invalidation and the running store\<close>

lemma started_semantic_store:
  assumes "lifespan su cfg pl = (pl', Inr st)"
  shows "ap_semantic_store st = (if ap_semantic_store_fallback_active st then MemoryStore else resolve_semantic_store cfg)"
proof -
  obtain p0 s0 p1 s1 p2 s2 p3 s3 p4 s4 p5 s5 where
    s: "configured_state su cfg pl = (p0, Inr s0)" "start_semantic_store su cfg s0 p0 = (p1, Inr s1)"
      "start_policy_store su cfg s1 p1 = (p2, Inr s2)" "start_exact_cache su cfg s2 p2 = (p3, Inr s3)"
      "start_identity su cfg s3 p3 = (p4, Inr s4)" "start_policy_repository su cfg s4 p4 = (p5, Inr s5)"
      "start_repositories su cfg s5 p5 = (pl', Inr st)"
    using assms(1) unfolding lifespan_def stage_bind_Inr by blast
  obtain custom where c: "p0 = pl" "s0 = initial_state su cfg (assess_startup_posture cfg) custom"
    using configured_state_Inr [OF s(1)] by blast
  have i: "repositories s0 = replicate 8 False" "ap_cache_fallback_active s0 = False"
    "ap_cache_backend_active s0 = ''memory''"
    by (simp_all add: c initial_state_def repositories_def numeral_eq_Suc)
  note se = start_semantic_store_Inr [OF s(2)] and ps = start_policy_store_Inr [OF s(3)]
  have ca: "ap_cache_fallback_active s2 = False" "ap_cache_backend_active s2 = ''memory''"
    using i se ps by simp_all
  note ec = start_exact_cache_Inr [OF s(4) ca]
  note id = start_identity_Inr [OF s(5)] and pr = start_policy_repository_Inr [OF s(6)]
  have r4: "repositories s4 = replicate 8 False" using i(1) se(4) ps(3) ec(4) id(3) by simp
  note rr = start_repositories_Inr [OF s(7) pr(5) [OF r4]]
  have "backends st = backends s3" using rr pr(3) id(2) by simp
  then have "ap_semantic_store st = ap_semantic_store s1"
    "ap_semantic_store_fallback_active st = ap_semantic_store_fallback_active s1"
    using ec(7,8) ps(6,7) by (simp_all add: backends_def)
  then show ?thesis
    using s(2) by (auto simp: start_semantic_store_def initialize_semantic_store_def resolve_semantic_store_def Let_def
        split: if_splits sum.splits option.splits)
qed

lemma chosen_invalidate:
  "op_invalidate (chosen_ops choice mem pg) s ns =
     (case choice of MemoryStore \<Rightarrow> ((fst (op_invalidate mem (fst s) ns), snd s), snd (op_invalidate mem (fst s) ns))
      | PgvectorStore _ \<Rightarrow> ((fst s, fst (op_invalidate pg (snd s) ns)), snd (op_invalidate pg (snd s) ns)))"
  by (simp add: chosen_ops_def case_prod_beta split: store_choice.split)

lemma bump_stores [simp]:
  "w_exact (bump n v w) = w_exact w" "w_semantic (bump n v w) = w_semantic w"
  "w_exact (tick n w) = w_exact w" "w_semantic (tick n w) = w_semantic w"
  by (simp_all add: bump_def tick_def)

definition pgvector_ops ::
  "(real list \<Rightarrow> real list) \<Rightarrow> (real list \<Rightarrow> real list \<Rightarrow> real) \<Rightarrow> (mem_store, semantic_record list) cache_ops" where
  "pgvector_ops to_column cosdist = cache_ops_of mem_get_json mem_set_json mem_delete_prefix (pg_add to_column)
     (pg_find_best_match cosdist) pg_invalidate_namespace pg_prune_expired"

text \<open>The semantic records an application answers from, of the pair of in-memory and pgvector rows.\<close>

definition chosen_rows :: "store_choice \<Rightarrow> 'a \<times> 'a \<Rightarrow> 'a" where
  "chosen_rows choice s = (case choice of MemoryStore \<Rightarrow> fst s | PgvectorStore _ \<Rightarrow> snd s)"

lemma invalidated_stores:
  assumes "invalidate_namespace (chosen_ops choice memory_ops (pgvector_ops to_column cosdist)) ns w = ((n, k), w')"
  shows "w_exact w' = filter (\<lambda>(key, _). \<not> prefix (ns @ '':'') key) (w_exact w)"
    "n = length (filter (prefix (ns @ '':'')) (map fst (w_exact w)))"
    "chosen_rows choice (w_semantic w') = filter (\<lambda>x. sr_namespace x \<noteq> ns) (chosen_rows choice (w_semantic w))"
    "choice \<noteq> MemoryStore \<Longrightarrow> fst (w_semantic w') = fst (w_semantic w)"
proof -
  let ?ops = "chosen_ops choice memory_ops (pgvector_ops to_column cosdist)"
  have d: "op_delete_prefix ?ops = mem_delete_prefix"
    by (simp add: chosen_ops_def memory_ops_def split: store_choice.split)
  from assms show "w_exact w' = filter (\<lambda>(key, _). \<not> prefix (ns @ '':'') key) (w_exact w)"
    "n = length (filter (prefix (ns @ '':'')) (map fst (w_exact w)))"
    by (auto simp: invalidate_namespace_def d exact_invalidate_namespace_def mem_delete_prefix_eq Let_def split: prod.splits)
  have s: "w_semantic w' = fst (op_invalidate ?ops (w_semantic w) ns)"
    using assms by (auto simp: invalidate_namespace_def Let_def split: prod.splits)
  show "chosen_rows choice (w_semantic w') = filter (\<lambda>x. sr_namespace x \<noteq> ns) (chosen_rows choice (w_semantic w))"
    by (cases choice) (simp_all add: s chosen_invalidate chosen_rows_def memory_ops_def pgvector_ops_def
        mem_invalidate_namespace_def pg_invalidate_namespace_def Let_def)
  show "fst (w_semantic w') = fst (w_semantic w)" if "choice \<noteq> MemoryStore"
    using that by (cases choice) (simp_all add: s chosen_invalidate)
qed

text \<open>
  C39. An accepted invalidation, with the exact cache in memory, removes exactly the keys of the
  namespace from it and reports their number, and removes exactly the records of the namespace
  from the semantic store the running proxy answers from, in memory or pgvector; except after a
  start-up that wanted pgvector and fell back: then the proxy answers from memory, and every
  record in memory stays in use.
\<close>

theorem invalidation_reaches_running_store:
  assumes "lifespan su cfg pl = (pl', Inr st)"
    "invalidate_cache memory_ops (pgvector_ops to_column cosdist) cfg header namespace w = (w', Inr r)"
  shows "w_exact w' = filter (\<lambda>(key, _). \<not> prefix (ir_namespace r @ '':'') key) (w_exact w)
    \<and> ir_exact_cache_deleted r = length (filter (prefix (ir_namespace r @ '':'')) (map fst (w_exact w)))
    \<and> (if ap_semantic_store_fallback_active st \<and> resolve_semantic_store cfg \<noteq> MemoryStore
       then ap_semantic_store st = MemoryStore \<and> fst (w_semantic w') = fst (w_semantic w)
       else chosen_rows (ap_semantic_store st) (w_semantic w') =
         filter (\<lambda>x. sr_namespace x \<noteq> ir_namespace r) (chosen_rows (ap_semantic_store st) (w_semantic w)))"
proof -
  let ?ops = "chosen_ops (resolve_semantic_store cfg) memory_ops (pgvector_ops to_column cosdist)"
  obtain n k where i: "invalidate_namespace ?ops (ir_namespace r) w = ((n, k), w')" "ir_exact_cache_deleted r = n"
    using assms(2) by (auto simp: invalidate_cache_def split: prod.splits sum.splits)
  note stores = invalidated_stores [OF i(1)]
  show ?thesis using stores i(2) started_semantic_store [OF assms(1)] by auto
qed

section \<open>Scoped policies through the routes\<close>

text \<open>Every call of the router is a run of the policy repository.\<close>

lemma policy_admin_run:
  "policy_step\<^sup>*\<^sup>* db (fst (policy_admin available cfg hs now uuids call db))"
proof (cases "require_admin_api_key (cfg_admin_api_key cfg) (ah_admin_key hs) (ah_authorization hs)")
  case (Inr u)
  show ?thesis
  proof (cases call)
    case (NewVersion p)
    show ?thesis
      using NewVersion Inr by (auto simp: policy_admin_def policy_answer_def admin_create_version_def rbind_eq_Inr
          intro: step_version split: sum.splits prod.splits)
  next
    case (Assign p)
    have "policy_step db (fst (assign_policy db now (uuids 0) (uuids (Suc 0)) (assign_args_of p)))"
      by (rule step_assign [of _ _ _ _ _ _ "snd (assign_policy db now (uuids 0) (uuids (Suc 0)) (assign_args_of p))"]) simp
    then show ?thesis using Assign Inr
      by (auto simp: policy_admin_def policy_answer_def admin_assign_policy_def split: sum.splits)
  next
    case (SetOverride p)
    have "policy_step db (fst (set_namespace_override db now (uuids 0) (uuids (Suc 0)) (override_args_of p)))"
      by (rule step_override [of _ _ _ _ _ _ "snd (set_namespace_override db now (uuids 0) (uuids (Suc 0)) (override_args_of p))"]) simp
    then show ?thesis using SetOverride Inr
      by (auto simp: policy_admin_def policy_answer_def admin_set_override_def split: sum.splits)
  qed (simp_all add: Inr policy_admin_def policy_answer_def admin_list_versions_def admin_list_assignments_def
      admin_list_overrides_def admin_change_log_def)
qed (simp add: policy_admin_def)

lemma created_version:
  assumes "policy_admin available cfg hs now uuids (NewVersion p) db = (db', Inr (VersionReply vid))"
  obtains q v where "clean_version_request p = Inr q" "version_of db' vid = Some v" "pv_fields v = vq_fields q"
    "pv_id v = vid" "policy_assignments db' = policy_assignments db"
    "namespace_policy_overrides db' = namespace_policy_overrides db"
proof -
  obtain q where q: "clean_version_request p = Inr q"
    "create_policy_version db now (uuids 0) (vq_scope_type q) (vq_scope_ref_id q) (vq_fields q) ''admin_api''
       (vq_change_reason q) = Inr (db', vid)"
    using assms by (auto simp: policy_admin_def policy_answer_def admin_create_version_def rbind_eq_Inr rbind_eq_Inl
        split: sum.splits prod.splits)
  then obtain v where v: "insert_version db v = Inr db'" "pv_id v = vid" "pv_fields v = vq_fields q"
    by (auto simp: create_policy_version_def Let_def rbind_eq_Inr)
  then have d: "db' = db\<lparr>policy_versions := policy_versions db @ [v]\<rparr>" "\<forall>x \<in> set (policy_versions db). pv_id x \<noteq> vid"
    by (auto simp: insert_version_def list_ex_iff split: if_splits)
  then have "find (\<lambda>x. pv_id x = vid) (policy_versions db) = None" by (simp add: find_eq_None)
  then have "version_of db' vid = Some v" using v(2) by (simp add: version_of_def d(1) find_append)
  with that [OF q(1)] v show thesis by (simp add: d(1))
qed

lemma made_assignment:
  assumes "policy_admin available cfg hs now uuids (Assign q) db = (db', Inr (AssignmentReply aid))"
  obtains rs where "policy_assignments db' = rs @ [new_assignment now (''assignment_'' @ uuids 0) (assign_args_of q)]"
    "pa_created_at ` set rs \<subseteq> pa_created_at ` set (policy_assignments db)"
    "policy_versions db' = policy_versions db" "namespace_policy_overrides db' = namespace_policy_overrides db"
proof -
  let ?a = "assign_args_of q"
  have "assign_policy db now (uuids 0) (uuids 1) ?a = (db', Inr aid)"
    using assms by (auto simp: policy_admin_def policy_answer_def admin_assign_policy_def rbind_eq_Inr prod_eq_iff
        split: sum.splits)
  then obtain db2 where i: "insert_assignment (cleared_assignments now ?a db) (new_assignment now (''assignment_'' @ uuids 0) ?a) = Inr db2"
    "db' = db2 \<or> (\<exists>c. log_policy_change db2 c = Inr db')"
    by (cases rule: assign_policy_cases) auto
  have l: "policy_assignments db' = policy_assignments db2" "policy_versions db' = policy_versions db2"
    "namespace_policy_overrides db' = namespace_policy_overrides db2"
    using i(2) by (auto simp: log_policy_change_def split: if_splits)
  have "db2 = (cleared_assignments now ?a db)\<lparr>policy_assignments :=
      policy_assignments (cleared_assignments now ?a db) @ [new_assignment now (''assignment_'' @ uuids 0) ?a]\<rparr>"
    using i(1) by (simp add: insert_assignment_def split: if_splits)
  moreover have "pa_created_at ` set (policy_assignments (cleared_assignments now ?a db)) \<subseteq> pa_created_at ` set (policy_assignments db)"
    "policy_versions (cleared_assignments now ?a db) = policy_versions db"
    "namespace_policy_overrides (cleared_assignments now ?a db) = namespace_policy_overrides db"
    by (auto simp: cleared_assignments_def retire_assignment_def split: option.split)
  ultimately show thesis using that l by simp
qed

text \<open>
  C40. A policy version that is created and then assigned to a workspace is what the inspection
  reports for that workspace from then on: its own values, with the level and the prefixes
  stripped, as long as no namespace override covers the namespace. The clock has moved since
  the earlier assignments.
\<close>

theorem published_policy_in_force:
  assumes "policies_reachable db"
    and "policy_admin True cfg hs now uuids (NewVersion p) db = (db1, Inr (VersionReply vid))"
    and "policy_admin True cfg hs now' uuids' (Assign q) db1 = (db2, Inr (AssignmentReply aid))"
    and "strip (aq_scope_type q) = ''workspace''" "strip (aq_policy_version_id q) = vid"
    and "map_option strip (aq_workspace_id q) = Some w" "w \<noteq> []" "truthy tenant"
    and "\<forall>r \<in> set (policy_assignments db). pa_created_at r < now'" "now' \<le> t"
    and "\<not> list_ex (override_applies w env ns) (namespace_policy_overrides db)"
  shows "\<exists>q'. clean_version_request p = Inr q' \<and>
    inspect_effective_policy True t cfg
      \<lparr>px_tenant_id = tenant, px_workspace_id = Some w, px_environment_id = env, px_namespace = ns\<rparr> db2 =
    effective_response_of \<lparr>ep_policy_version_id = Some vid,
      ep_policy_mode = infer_policy_mode (pf_strict_namespace_prefixes (vq_fields q')) (pf_high_risk_namespace_prefixes (vq_fields q')),
      ep_fields = vq_fields q', ep_source_scope = ''workspace'', ep_source_ref_id = Some w\<rparr>"
proof -
  obtain q' v where v: "clean_version_request p = Inr q'" "version_of db1 vid = Some v" "pv_fields v = vq_fields q'"
    "pv_id v = vid" "policy_assignments db1 = policy_assignments db"
    "namespace_policy_overrides db1 = namespace_policy_overrides db"
    by (rule created_version [OF assms(2)])
  let ?r = "new_assignment now' (''assignment_'' @ uuids' 0) (assign_args_of q)"
  obtain rs where a: "policy_assignments db2 = rs @ [?r]"
    "pa_created_at ` set rs \<subseteq> pa_created_at ` set (policy_assignments db1)"
    "policy_versions db2 = policy_versions db1" "namespace_policy_overrides db2 = namespace_policy_overrides db1"
    by (rule made_assignment [OF assms(3)])
  have old: "pa_created_at r < now'" if "r \<in> set rs" for r
  proof -
    have "pa_created_at r \<in> pa_created_at ` set (policy_assignments db)" using a(2) that unfolding v(5) by blast
    then show ?thesis using assms(9) by auto
  qed
  have "policies_reachable db2"
    using assms(1) policy_admin_run [of db True cfg hs now uuids "NewVersion p"]
      policy_admin_run [of db1 True cfg hs now' uuids' "Assign q"]
    unfolding policies_reachable_def assms(2,3) by (auto intro: rtranclp_trans)
  note m = matched_assignment_cases [OF this, of t "Some w" tenant] and o = matched_override_cases [OF this, of "Some w" env ns]
  have w: "truthy (Some w)" using assms(7) by simp
  have noov: "matched_override db2 (Some w) env ns = None"
    using o [OF w] assms(11) by (auto simp: a(4) v(6) list_ex_iff split: option.splits)
  have r: "pa_scope_type ?r = ''workspace''" "pa_created_at ?r = now'" "pa_policy_version_id ?r = vid"
    "pa_workspace_id ?r = Some w" "assignment_applies t (Some w) tenant ?r"
    using assms(4-6,10) by (simp_all add: new_assignment_def assign_args_of_def assignment_applies_def)
  obtain x y where x: "matched_assignment db2 t (Some w) tenant = Some (x, y)"
    using m r(5) by (auto simp: a(1) split: option.splits)
  have "x = ?r"
  proof (rule ccontr)
    assume "x \<noteq> ?r"
    with m x have "x \<in> set rs" "scope_rank ''workspace'' < scope_rank (pa_scope_type x) \<or> now' \<le> pa_created_at x"
      using r(1,2,5) by (auto simp: a(1))
    moreover have "\<not> scope_rank ''workspace'' < scope_rank s" for s by (simp add: scope_rank_def)
    ultimately show False using old by fastforce
  qed
  moreover have "version_of db2 vid = Some v" using v(2) a(3) by (simp add: version_of_def)
  ultimately have "y = v" using m x r(3) by simp
  with x noov v w assms(8) \<open>x = ?r\<close> r show ?thesis
    by (simp add: inspect_effective_policy_def resolver_resolve_def resolve_effective_policy_def row_to_effective_policy_def
        str_or_def Let_def)
qed

section \<open>Instances\<close>

lemma policy_answers_typed_witness:
  "\<exists>pl st b. lifespan quiet_surroundings pilot_settings new_platform = (pl, Inr st) \<and>
     psr_dlp_enabled (admin_get_policy (su_parse_float quiet_surroundings) pilot_settings
       (operator_run quiet_surroundings (Inl (RuntimeErr [])) pilot_settings
         [(\<lparr>ah_admin_key = Some ''adm'', ah_authorization = None\<rparr>, GetPolicy)] (st, pl))) = JBool b"
proof -
  obtain pl st where s: "lifespan quiet_surroundings pilot_settings new_platform = (pl, Inr st)"
    using pilot_started by blast
  have "stored_row_ok (pl_policy_row new_platform)" by (simp add: stored_row_ok_def new_platform_def)
  from policy_answers_typed [OF s this refl refl] s show ?thesis by blast
qed

definition paired_world :: "(mem_store, semantic_record list \<times> semantic_record list) world" where
  "paired_world = \<lparr>w_metrics = \<lparr>COUNTERS = Map.empty, DISTRIBUTIONS = Map.empty\<rparr>,
     w_exact = [(''default:1'', []), (''other:1'', [])], w_semantic = ([], []),
     w_db = empty_database, w_tasks = [], w_upstream = []\<rparr>"

lemma invalidation_reaches_running_store_witness:
  "\<exists>pl st w' r. lifespan quiet_surroundings pilot_settings new_platform = (pl, Inr st) \<and>
     invalidate_cache memory_ops (pgvector_ops (\<lambda>v. v) (\<lambda>_ _. 0)) pilot_settings None None paired_world = (w', Inr r) \<and>
     w_exact w' = [(''other:1'', [])] \<and> ir_exact_cache_deleted r = 1"
proof -
  let ?pg = "pgvector_ops (\<lambda>v. v) (\<lambda>_ _. 0)"
  obtain pl st where s: "lifespan quiet_surroundings pilot_settings new_platform = (pl, Inr st)"
    using pilot_started by blast
  have "namespace_ok ''default''"
    by (simp add: namespace_ok_def valid_namespace_character_def is_lower_alpha_def code_point_def)
  then have "validate_namespace (cfg_namespace_header pilot_settings) ''default'' = Inr ''default''"
    by (simp add: validate_namespace_Inr)
  then have "invalidation_target pilot_settings None None = Inr ''default''"
    by (simp add: invalidation_target_def clean_invalidation_def resolve_namespace_def str_or_def Let_def)
  then obtain w' r where i: "invalidate_cache memory_ops ?pg pilot_settings None None paired_world = (w', Inr r)"
    "ir_namespace r = ''default''"
    by (cases "invalidate_namespace (chosen_ops (resolve_semantic_store pilot_settings) memory_ops ?pg) ''default'' paired_world")
      (auto simp: invalidate_cache_def split: prod.splits)
  from invalidation_reaches_running_store [OF s i(1)] i
  have "w_exact w' = [(''other:1'', [])]" "ir_exact_cache_deleted r = 1" by (simp_all add: paired_world_def)
  with s i(1) show ?thesis by blast
qed

definition demo_operator :: settings where
  "demo_operator = default_settings\<lparr>cfg_admin_api_key := Some ''adm''\<rparr>"

definition demo_operator_headers :: admin_headers where
  "demo_operator_headers = \<lparr>ah_admin_key = Some ''adm'', ah_authorization = None\<rparr>"

definition demo_version_request :: version_request where
  "demo_version_request = \<lparr>vq_scope_type = ''workspace'', vq_scope_ref_id = Some ''w1'',
     vq_fields = (ep_fields (runtime_default_policy default_settings))\<lparr>pf_dlp_scrub_level := ''off'',
       pf_semantic_threshold := 1, pf_semantic_shadow_threshold := 0, pf_semantic_max_temperature := 0,
       pf_strict_namespace_prefixes := [], pf_high_risk_namespace_prefixes := []\<rparr>, vq_change_reason = None\<rparr>"

definition demo_assignment_request :: assignment_request where
  "demo_assignment_request = \<lparr>aq_scope_type = ''workspace'', aq_policy_version_id = ''policy_v'', aq_tenant_id = None,
     aq_workspace_id = Some ''w1'', aq_environment_id = None, aq_change_reason = None\<rparr>"

lemma demo_strips:
  "strip ''workspace'' = ''workspace''" "strip ''w1'' = ''w1''" "strip ''off'' = ''off''" "strip ''policy_v'' = ''policy_v''"
  by code_simp+

lemma demo_operator_allowed:
  "require_admin_api_key (cfg_admin_api_key demo_operator) (ah_admin_key demo_operator_headers)
     (ah_authorization demo_operator_headers) = Inr ()"
  by (simp add: require_admin_api_key_def demo_operator_def demo_operator_headers_def str_or_def)

lemma demo_version_clean: "clean_version_request demo_version_request = Inr demo_version_request"
  by (simp add: clean_version_request_def demo_version_request_def demo_strips unit_range_def Let_def)

lemma demo_published:
  "\<exists>db1 db2 aid. policy_admin True demo_operator demo_operator_headers 1 (\<lambda>_. ''v'') (NewVersion demo_version_request) empty_policies =
       (db1, Inr (VersionReply ''policy_v'')) \<and>
     policy_admin True demo_operator demo_operator_headers 2 (\<lambda>_. ''a'') (Assign demo_assignment_request) db1 =
       (db2, Inr (AssignmentReply aid))"
  by (simp add: policy_admin_def demo_operator_allowed policy_answer_def admin_create_version_def demo_version_clean
      require_policy_repository_def create_policy_version_def insert_version_def empty_policies_def Let_def
      admin_assign_policy_def assign_policy_def assign_args_of_def demo_assignment_request_def demo_strips
      insert_assignment_def new_assignment_def version_exists_def log_policy_change_def)

lemma published_policy_in_force_witness:
  "\<exists>db2. er_semantic_threshold (inspect_effective_policy True 3 demo_operator
      \<lparr>px_tenant_id = Some ''t1'', px_workspace_id = Some ''w1'', px_environment_id = None, px_namespace = ''n1''\<rparr> db2) = 1"
proof -
  obtain db1 db2 aid where s:
    "policy_admin True demo_operator demo_operator_headers 1 (\<lambda>_. ''v'') (NewVersion demo_version_request) empty_policies =
       (db1, Inr (VersionReply ''policy_v''))"
    "policy_admin True demo_operator demo_operator_headers 2 (\<lambda>_. ''a'') (Assign demo_assignment_request) db1 =
       (db2, Inr (AssignmentReply aid))" using demo_published by blast
  have r: "policies_reachable empty_policies" by (simp add: policies_reachable_def)
  have q: "strip (aq_scope_type demo_assignment_request) = ''workspace''"
    "strip (aq_policy_version_id demo_assignment_request) = ''policy_v''"
    "map_option strip (aq_workspace_id demo_assignment_request) = Some ''w1''"
    by (simp_all add: demo_assignment_request_def demo_strips)
  have e: "truthy (Some ''t1'')" "\<forall>r \<in> set (policy_assignments empty_policies). pa_created_at r < 2" "(2::int) \<le> 3"
    "\<not> list_ex (override_applies ''w1'' None ''n1'') (namespace_policy_overrides empty_policies)" "''w1'' \<noteq> []"
    by (simp_all add: empty_policies_def)
  from published_policy_in_force [OF r s q e(5,1,2,3,4)] demo_version_clean
  have "er_semantic_threshold (inspect_effective_policy True 3 demo_operator
      \<lparr>px_tenant_id = Some ''t1'', px_workspace_id = Some ''w1'', px_environment_id = None, px_namespace = ''n1''\<rparr> db2) =
    pf_semantic_threshold (vq_fields demo_version_request)"
    by (auto simp: effective_response_of_def Let_def)
  then show ?thesis by (auto simp: demo_version_request_def)
qed

end
