(* ===== verification/ObservabilityRoutes.thy ===== *)
theory ObservabilityRoutes
  imports Rollups BillingAdmin
begin

text \<open>
  The reporting routes of an administrator: the rollups and the analytics overview of
  \<open>app/api/routes_rollups_admin.py\<close>, the recent entries of
  \<open>app/api/routes_observability_admin.py\<close>, and the open counters of
  \<open>app/api/routes_stats.py\<close>.
\<close>

section \<open>Application\<close>

record reporting_app =
  ro_admin_api_key :: "string option"
  ro_rollup_repository :: bool
  ro_request_ledger_repository :: bool
  ro_request_event_repository :: bool
  ro_risk_event_repository :: bool
  ro_shadow_savings_repository :: bool

definition require_repository :: "bool \<Rightarrow> string \<Rightarrow> unit result" where
  "require_repository available name =
     raise_if (\<not> available) (HTTPException 503 (name @ '' repository is not available''))"

text \<open>
  The query parameters are not bounded: PostgreSQL refuses a negative limit, and the driver a
  date given as text; \<open>date_refused\<close> is its message.
\<close>

definition limit_of :: "int \<Rightarrow> nat result" where
  "limit_of limit = rbind (raise_if (limit < 0) (RuntimeErr ''LIMIT must not be negative'')) (\<lambda>_. Inr (nat limit))"

definition no_date :: "(string \<Rightarrow> string) \<Rightarrow> string option \<Rightarrow> int option result" where
  "no_date date_refused d = (case d of None \<Rightarrow> Inr None | Some s \<Rightarrow> Inl (ValueErr (date_refused s)))"

section \<open>Recent entries\<close>

record ledger_summary =
  ls_request_id :: string
  ls_tenant_id :: "string option"
  ls_workspace_id :: "string option"
  ls_namespace :: string
  ls_model :: string
  ls_cache_outcome :: string
  ls_effective_policy_version_id :: "string option"
  ls_effective_policy_mode :: "string option"
  ls_estimated_upstream_cost_usd :: real
  ls_estimated_realized_savings_usd :: real

definition ledger_summary_of :: "ledger_row \<Rightarrow> ledger_summary" where
  "ledger_summary_of r = \<lparr>ls_request_id = lr_request_id r, ls_tenant_id = lr_tenant_id r,
     ls_workspace_id = lr_workspace_id r, ls_namespace = lr_namespace r, ls_model = lr_model r,
     ls_cache_outcome = lr_cache_outcome r, ls_effective_policy_version_id = lr_effective_policy_version_id r,
     ls_effective_policy_mode = lr_effective_policy_mode r,
     ls_estimated_upstream_cost_usd = lr_estimated_upstream_cost_usd r,
     ls_estimated_realized_savings_usd = lr_estimated_realized_savings_usd r\<rparr>"

record request_event_summary =
  es_request_id :: string
  es_tenant_id :: "string option"
  es_workspace_id :: "string option"
  es_namespace :: string
  es_model :: string
  es_cache_outcome :: string
  es_policy_mode :: "string option"
  es_estimated_cost_usd :: real
  es_estimated_savings_usd :: real

definition request_event_summary_of :: "request_event_row \<Rightarrow> request_event_summary" where
  "request_event_summary_of r = \<lparr>es_request_id = re_request_id r, es_tenant_id = re_tenant_id r,
     es_workspace_id = re_workspace_id r, es_namespace = re_namespace r, es_model = re_model r,
     es_cache_outcome = re_cache_outcome r, es_policy_mode = re_policy_mode r,
     es_estimated_cost_usd = re_estimated_cost_usd r, es_estimated_savings_usd = re_estimated_savings_usd r\<rparr>"

record risk_event_summary =
  rsm_request_id :: string
  rsm_tenant_id :: "string option"
  rsm_workspace_id :: "string option"
  rsm_namespace :: string
  rsm_event_type :: string
  rsm_severity :: string
  rsm_reason :: "string option"

definition risk_event_summary_of :: "risk_event_row \<Rightarrow> risk_event_summary" where
  "risk_event_summary_of r = \<lparr>rsm_request_id = rk_request_id r, rsm_tenant_id = risk_event_row.rk_tenant_id r,
     rsm_workspace_id = risk_event_row.rk_workspace_id r, rsm_namespace = rk_namespace r, rsm_event_type = rk_event_type r,
     rsm_severity = rk_severity r, rsm_reason = rk_reason r\<rparr>"

record shadow_savings_summary =
  ssm_request_id :: string
  ssm_tenant_id :: "string option"
  ssm_workspace_id :: "string option"
  ssm_namespace :: string
  ssm_similarity_score :: real
  ssm_live_threshold :: real
  ssm_shadow_threshold :: real
  ssm_calculated_savings_usd :: real

definition shadow_savings_summary_of :: "shadow_savings_row \<Rightarrow> shadow_savings_summary" where
  "shadow_savings_summary_of r = \<lparr>ssm_request_id = ss_request_id r, ssm_tenant_id = ss_tenant_id r,
     ssm_workspace_id = ss_workspace_id r, ssm_namespace = ss_namespace r,
     ssm_similarity_score = ss_similarity_score r, ssm_live_threshold = ss_live_threshold r,
     ssm_shadow_threshold = ss_shadow_threshold r, ssm_calculated_savings_usd = ss_calculated_savings_usd r\<rparr>"

definition recent :: "bool \<Rightarrow> string \<Rightarrow> int \<Rightarrow> (nat \<Rightarrow> 'a list) \<Rightarrow> ('a \<Rightarrow> 'b) \<Rightarrow> 'b list result" where
  "recent available name limit rows summary_of =
     rbind (require_repository available name) (\<lambda>_. rbind (limit_of limit) (\<lambda>n. Inr (map summary_of (rows n))))"

definition recent_request_ledger :: "reporting_app \<Rightarrow> int \<Rightarrow> database \<Rightarrow> ledger_summary list result" where
  "recent_request_ledger app limit db =
     recent (ro_request_ledger_repository app) ''Request ledger'' limit (recent_requests db) ledger_summary_of"

definition recent_events_route :: "reporting_app \<Rightarrow> int \<Rightarrow> database \<Rightarrow> request_event_summary list result" where
  "recent_events_route app limit db =
     recent (ro_request_event_repository app) ''Request event'' limit (recent_request_events db) request_event_summary_of"

definition recent_risk_route :: "reporting_app \<Rightarrow> int \<Rightarrow> database \<Rightarrow> risk_event_summary list result" where
  "recent_risk_route app limit db =
     recent (ro_risk_event_repository app) ''Risk event'' limit (recent_risk_events db) risk_event_summary_of"

definition recent_shadow_route :: "reporting_app \<Rightarrow> int \<Rightarrow> database \<Rightarrow> shadow_savings_summary list result" where
  "recent_shadow_route app limit db =
     recent (ro_shadow_savings_repository app) ''Shadow savings'' limit (recent_shadow_savings db)
       shadow_savings_summary_of"

section \<open>Rollups\<close>

record usage_rollup_summary =
  us_rollup_date :: string
  us_tenant_id :: "string option"
  us_workspace_id :: "string option"
  us_request_count :: nat
  us_exact_hit_count :: nat
  us_semantic_hit_count :: nat
  us_miss_count :: nat
  us_upstream_cost_usd_total :: real
  us_realized_savings_usd_total :: real
  us_shadow_savings_usd_total :: real

definition usage_rollup_summary_of :: "usage_rollup_row \<Rightarrow> usage_rollup_summary" where
  "usage_rollup_summary_of u = \<lparr>us_rollup_date = iso_date (ur_rollup_date u), us_tenant_id = ur_tenant_id u,
     us_workspace_id = ur_workspace_id u, us_request_count = ur_request_count u,
     us_exact_hit_count = ur_exact_hit_count u, us_semantic_hit_count = ur_semantic_hit_count u,
     us_miss_count = ur_miss_count u, us_upstream_cost_usd_total = ur_upstream_cost_usd_total u,
     us_realized_savings_usd_total = ur_realized_savings_usd_total u,
     us_shadow_savings_usd_total = ur_shadow_savings_usd_total u\<rparr>"

record namespace_rollup_summary =
  nsm_rollup_date :: string
  nsm_tenant_id :: "string option"
  nsm_workspace_id :: "string option"
  nsm_namespace :: string
  nsm_request_count :: nat
  nsm_exact_hit_count :: nat
  nsm_semantic_hit_count :: nat
  nsm_miss_count :: nat
  nsm_shadow_alert_count :: nat
  nsm_visual_request_count :: nat
  nsm_agentic_request_count :: nat
  nsm_identity_sensitive_request_count :: nat
  nsm_upstream_cost_usd_total :: real
  nsm_realized_savings_usd_total :: real
  nsm_shadow_savings_usd_total :: real

definition namespace_rollup_summary_of :: "namespace_rollup_row \<Rightarrow> namespace_rollup_summary" where
  "namespace_rollup_summary_of u = \<lparr>nsm_rollup_date = iso_date (nr_rollup_date u), nsm_tenant_id = nr_tenant_id u,
     nsm_workspace_id = nr_workspace_id u, nsm_namespace = nr_namespace u, nsm_request_count = nr_request_count u,
     nsm_exact_hit_count = nr_exact_hit_count u, nsm_semantic_hit_count = nr_semantic_hit_count u,
     nsm_miss_count = nr_miss_count u, nsm_shadow_alert_count = nr_shadow_alert_count u,
     nsm_visual_request_count = nr_visual_request_count u, nsm_agentic_request_count = nr_agentic_request_count u,
     nsm_identity_sensitive_request_count = nr_identity_sensitive_request_count u,
     nsm_upstream_cost_usd_total = nr_upstream_cost_usd_total u,
     nsm_realized_savings_usd_total = nr_realized_savings_usd_total u,
     nsm_shadow_savings_usd_total = nr_shadow_savings_usd_total u\<rparr>"

record rollup_query =
  rq_limit :: int
  rq_tenant_id :: "string option"
  rq_workspace_id :: "string option"
  rq_namespace :: "string option"
  rq_rollup_date :: "string option"

definition list_usage_rollups ::
  "(string \<Rightarrow> string) \<Rightarrow> reporting_app \<Rightarrow> rollup_query \<Rightarrow> database \<Rightarrow> usage_rollup_summary list result" where
  "list_usage_rollups date_refused app q db =
     rbind (require_repository (ro_rollup_repository app) ''Rollup'') (\<lambda>_.
     rbind (no_date date_refused (rq_rollup_date q)) (\<lambda>d. rbind (limit_of (rq_limit q)) (\<lambda>n.
       Inr (map usage_rollup_summary_of (list_daily_usage_rollups db n (rq_tenant_id q) (rq_workspace_id q) d)))))"

definition list_namespace_rollups ::
  "(string \<Rightarrow> string) \<Rightarrow> reporting_app \<Rightarrow> rollup_query \<Rightarrow> database \<Rightarrow> namespace_rollup_summary list result" where
  "list_namespace_rollups date_refused app q db =
     rbind (require_repository (ro_rollup_repository app) ''Rollup'') (\<lambda>_.
     rbind (no_date date_refused (rq_rollup_date q)) (\<lambda>d. rbind (limit_of (rq_limit q)) (\<lambda>n.
       Inr (map namespace_rollup_summary_of
              (list_daily_namespace_rollups db n (rq_tenant_id q) (rq_workspace_id q) (rq_namespace q) d)))))"

definition analytics_overview ::
  "(string \<Rightarrow> string) \<Rightarrow> reporting_app \<Rightarrow> rollup_query \<Rightarrow> database \<Rightarrow>
   (usage_rollup_summary list \<times> namespace_rollup_summary list) result" where
  "analytics_overview date_refused app q db =
     rbind (list_usage_rollups date_refused app q db) (\<lambda>usage.
     rbind (list_namespace_rollups date_refused app q db) (\<lambda>namespaces. Inr (usage, namespaces)))"

section \<open>The routers\<close>

datatype reporting_call =
    RebuildUsage
  | RebuildNamespaces
  | UsageRollups rollup_query
  | NamespaceRollups rollup_query
  | Overview rollup_query
  | RecentLedger int
  | RecentRequestEvents int
  | RecentRiskEvents int
  | RecentShadowSavings int

datatype reporting_reply =
    Affected nat
  | UsageReply "usage_rollup_summary list"
  | NamespacesReply "namespace_rollup_summary list"
  | OverviewReply "usage_rollup_summary list" "namespace_rollup_summary list"
  | LedgerReply "ledger_summary list"
  | RequestEventsReply "request_event_summary list"
  | RiskEventsReply "risk_event_summary list"
  | ShadowSavingsReply "shadow_savings_summary list"

definition rebuild_route ::
  "reporting_app \<Rightarrow> (database option \<Rightarrow> metrics \<Rightarrow> timestamp \<Rightarrow> database option \<times> metrics \<times> nat) \<Rightarrow> timestamp \<Rightarrow>
   database \<times> metrics \<Rightarrow> (database \<times> metrics) \<times> nat result" where
  "rebuild_route app rebuild now s = (case s of (db, m) \<Rightarrow>
     (case require_repository (ro_rollup_repository app) ''Rollup'' of
        Inl e \<Rightarrow> (s, Inl e)
      | Inr _ \<Rightarrow> (case rebuild (Some db) m now of (r, m', n) \<Rightarrow> ((the r, m'), Inr n))))"

definition reply_with :: "('a \<Rightarrow> 'b) \<Rightarrow> 'a result \<Rightarrow> 'b result" where
  "reply_with f r = rbind r (\<lambda>x. Inr (f x))"

fun reporting_handler ::
  "(string \<Rightarrow> string) \<Rightarrow> reporting_app \<Rightarrow> timestamp \<Rightarrow> reporting_call \<Rightarrow> database \<times> metrics \<Rightarrow>
   (database \<times> metrics) \<times> reporting_reply result" where
  "reporting_handler refused app now RebuildUsage s =
     (case rebuild_route app rebuild_usage now s of (s', r) \<Rightarrow> (s', reply_with Affected r))"
| "reporting_handler refused app now RebuildNamespaces s =
     (case rebuild_route app rebuild_namespaces now s of (s', r) \<Rightarrow> (s', reply_with Affected r))"
| "reporting_handler refused app now (UsageRollups q) s =
     (s, reply_with UsageReply (list_usage_rollups refused app (q\<lparr>rq_namespace := None\<rparr>) (fst s)))"
| "reporting_handler refused app now (NamespaceRollups q) s =
     (s, reply_with NamespacesReply (list_namespace_rollups refused app q (fst s)))"
| "reporting_handler refused app now (Overview q) s =
     (s, reply_with (case_prod OverviewReply) (analytics_overview refused app q (fst s)))"
| "reporting_handler refused app now (RecentLedger n) s =
     (s, reply_with LedgerReply (recent_request_ledger app n (fst s)))"
| "reporting_handler refused app now (RecentRequestEvents n) s =
     (s, reply_with RequestEventsReply (recent_events_route app n (fst s)))"
| "reporting_handler refused app now (RecentRiskEvents n) s =
     (s, reply_with RiskEventsReply (recent_risk_route app n (fst s)))"
| "reporting_handler refused app now (RecentShadowSavings n) s =
     (s, reply_with ShadowSavingsReply (recent_shadow_route app n (fst s)))"

definition reporting_admin ::
  "(string \<Rightarrow> string) \<Rightarrow> reporting_app \<Rightarrow> admin_headers \<Rightarrow> timestamp \<Rightarrow> reporting_call \<Rightarrow> database \<times> metrics \<Rightarrow>
   (database \<times> metrics) \<times> reporting_reply result" where
  "reporting_admin refused app hs now call s =
     (case require_admin_api_key (ro_admin_api_key app) (ah_admin_key hs) (ah_authorization hs) of
        Inl e \<Rightarrow> (s, Inl e) | Inr _ \<Rightarrow> reporting_handler refused app now call s)"

text \<open>The statistics need no key.\<close>

definition stats_summary :: "metrics \<Rightarrow> metrics_snapshot" where
  "stats_summary m = snapshot_metrics m"

end
