(* ===== verification/ObservabilityProperties.thy ===== *)
theory ObservabilityProperties
  imports ObservabilityRoutes ControlProperties
begin

text \<open>
  The reporting routes: what a rebuild makes the usage listing show, and that nothing but a
  rebuild changes a table.
\<close>

lemma rebuild_route_usage:
  assumes "reporting_admin refused app hs now RebuildUsage (db, m) = ((db', m'), Inr (Affected n))"
  shows "db' = fst (rebuild_daily_usage_rollups db now)"
  using assms by (auto simp: reporting_admin_def rebuild_route_def rebuild_usage_def reply_with_def rbind_eq_Inr
      case_prod_beta split: sum.splits)

lemma usage_route_rows:
  assumes "reporting_admin refused app hs now (UsageRollups q) (db, m) = (s, Inr (UsageReply rows))"
  shows "0 \<le> rq_limit q" "rows = map usage_rollup_summary_of
    (list_daily_usage_rollups db (nat (rq_limit q)) (rq_tenant_id q) (rq_workspace_id q) None)"
  using assms by (auto simp: reporting_admin_def list_usage_rollups_def reply_with_def rbind_eq_Inr limit_of_def
      no_date_def split: sum.splits option.splits)

text \<open>
  C24. After the rebuild route has run, the usage listing of a tenant's workspace shows, for every
  day with a request in the ledger, how many requests of that day the ledger has, how many of
  them were exact hits, semantic hits and misses, and the sums of their upstream costs, realized
  savings and shadow savings, provided the limit of the listing, 100 unless the caller gives one,
  is at least the number of stored usage rollups; and it shows nobody else's rows.
\<close>

theorem rebuilt_usage_reported:
  assumes "reporting_admin refused app hs now RebuildUsage (db, m) = (s, Inr (Affected n))"
    and "reporting_admin refused app hs' now' (UsageRollups q) s = (s', Inr (UsageReply rows))"
    and "rq_tenant_id q = Some tenant" "rq_workspace_id q = Some ws"
    and "int (length (daily_usage_rollups (fst s))) \<le> rq_limit q"
    and "rollups_unique (daily_usage_rollups db)" "r \<in> set (request_ledger db)"
    and "lr_tenant_id r = Some tenant" "lr_workspace_id r = Some ws"
    and "own = filter (\<lambda>l. sql_date (lr_observed_at l) = sql_date (lr_observed_at r) \<and> lr_tenant_id l = Some tenant \<and>
      lr_workspace_id l = Some ws) (request_ledger db)"
  shows "(\<exists>x \<in> set rows. us_rollup_date x = iso_date (sql_date (lr_observed_at r)) \<and>
      us_request_count x = length own \<and>
      us_exact_hit_count x = length (filter (\<lambda>l. lr_cache_outcome l = ''exact_hit'') own) \<and>
      us_semantic_hit_count x = length (filter (\<lambda>l. lr_cache_outcome l = ''semantic_hit'') own) \<and>
      us_miss_count x = length (filter (\<lambda>l. lr_cache_outcome l = ''miss'') own) \<and>
      us_upstream_cost_usd_total x = sql_sum (map lr_estimated_upstream_cost_usd own) \<and>
      us_realized_savings_usd_total x = sql_sum (map lr_estimated_realized_savings_usd own) \<and>
      us_shadow_savings_usd_total x = sql_sum (map lr_estimated_shadow_savings_usd own))
    \<and> (\<forall>x \<in> set rows. us_tenant_id x = Some tenant \<and> us_workspace_id x = Some ws)"
proof -
  obtain db' m' where s: "s = (db', m')" by fastforce
  note db' = rebuild_route_usage [OF assms(1) [unfolded s]] and rows = usage_route_rows [OF assms(2) [unfolded s]]
  let ?k = "ledger_usage_key r"
  have k: "?k = (sql_date (lr_observed_at r), Some tenant, Some ws)" using assms(8,9) by (simp add: ledger_usage_key_def)
  have "?k \<in> ledger_usage_key ` set (request_ledger db)" using assms(7) by (rule imageI)
  from rebuild_reflects_ledger [OF assms(6) this, of now] k obtain u where
    u: "filter (\<lambda>u. usage_key u = ?k) (daily_usage_rollups db') = [u]"
      "usage_figures u = usage_figures (usage_group now (request_ledger db) ?k)"
    by (auto simp: db' key_not_null_def)
  have "u \<in> set (filter (\<lambda>u. usage_key u = ?k) (daily_usage_rollups db'))" by (simp only: u(1)) simp
  then have m: "u \<in> set (daily_usage_rollups db')" "usage_key u = ?k" by simp_all
  let ?rows = "order_desc (\<lambda>u. [ur_rollup_date u, ur_updated_at u]) (filter (\<lambda>u. ur_tenant_id u = Some tenant \<and>
      ur_workspace_id u = Some ws) (daily_usage_rollups db'))"
  have "length ?rows \<le> length (daily_usage_rollups db')" by (simp add: length_filter_le)
  then have "length ?rows \<le> nat (rq_limit q)" using assms(5) unfolding s fst_conv by linarith
  then have l: "list_daily_usage_rollups db' (nat (rq_limit q)) (Some tenant) (Some ws) None = ?rows"
    by (simp add: list_daily_usage_rollups_def if_given_def)
  have "usage_rollup_summary_of u \<in> set rows"
    using m k by (simp add: rows(2) assms(3,4) l usage_key_def)
  moreover have "own = filter (\<lambda>l. ledger_usage_key l = ?k) (request_ledger db)"
    unfolding assms(10) k by (simp add: ledger_usage_key_def)
  ultimately show ?thesis
    using u(2) m(2) k
    by (auto simp: usage_rollup_summary_of_def usage_figures_def usage_group_def Let_def count_if_def usage_key_def
        rows(2) assms(3,4) l intro!: bexI [of _ "usage_rollup_summary_of u"])
qed

lemma rebuilt_usage_reported_witness:
  "\<exists>rows. snd (reporting_admin (\<lambda>_. ''refused'') (reporting_app.make (Some ''adm'') True True True True True)
      (admin_headers.make (Some ''adm'') None) 8
      (UsageRollups (rollup_query.make 10 (Some ''t1'') (Some ''w1'') None None))
      (fst (reporting_admin (\<lambda>_. ''refused'') (reporting_app.make (Some ''adm'') True True True True True)
        (admin_headers.make (Some ''adm'') None) 7 RebuildUsage
        (empty_database\<lparr>request_ledger := [demo_request ''r1'' 5 60]\<rparr>, metrics.make Map.empty Map.empty)))) = Inr (UsageReply rows) \<and>
    (\<exists>x \<in> set rows. us_rollup_date x = iso_date 0 \<and> us_request_count x = 1 \<and> us_exact_hit_count x = 1)"
proof -
  let ?app = "reporting_app.make (Some ''adm'') True True True True True"
  let ?hs = "admin_headers.make (Some ''adm'') None"
  let ?db = "empty_database\<lparr>request_ledger := [demo_request ''r1'' 5 60]\<rparr>"
  let ?q = "rollup_query.make 10 (Some ''t1'') (Some ''w1'') None None"
  have g: "require_admin_api_key (Some ''adm'') (Some ''adm'') None = Inr ()" by (simp add: require_admin_api_key_def str_or_def)
  let ?s = "(fst (rebuild_daily_usage_rollups ?db 7), increment ''rollups_usage_rebuilds'' (PInt 1) (metrics.make Map.empty Map.empty))"
  have a: "reporting_admin (\<lambda>_. ''refused'') ?app ?hs 7 RebuildUsage (?db, metrics.make Map.empty Map.empty) =
      (?s, Inr (Affected (snd (rebuild_daily_usage_rollups ?db 7))))"
    by (simp add: reporting_admin_def reporting_app.defs admin_headers.defs g rebuild_route_def rebuild_usage_def
        require_repository_def reply_with_def split_beta)
  have b: "reporting_admin (\<lambda>_. ''refused'') ?app ?hs 8 (UsageRollups ?q) ?s =
      (?s, Inr (UsageReply (map usage_rollup_summary_of (list_daily_usage_rollups (fst ?s) 10 (Some ''t1'') (Some ''w1'') None))))"
    by (simp add: reporting_admin_def reporting_app.defs admin_headers.defs g rollup_query.defs list_usage_rollups_def
        require_repository_def no_date_def limit_of_def reply_with_def)
  have n: "int (length (daily_usage_rollups (fst ?s))) \<le> rq_limit ?q"
    by (simp add: rebuild_daily_usage_rollups_def empty_database_def upsert_def rollup_query.defs)
  have d: "rollups_unique (daily_usage_rollups ?db)" "demo_request ''r1'' 5 60 \<in> set (request_ledger ?db)"
    by (simp_all add: rollups_unique_def empty_database_def)
  have r: "request_ledger ?db = [demo_request ''r1'' 5 60]" "sql_date (lr_observed_at (demo_request ''r1'' 5 60)) = 0"
    "lr_tenant_id (demo_request ''r1'' 5 60) = Some ''t1''" "lr_workspace_id (demo_request ''r1'' 5 60) = Some ''w1''"
    "lr_cache_outcome (demo_request ''r1'' 5 60) = ''exact_hit''" by (simp_all add: demo_request_def sql_date_def)
  have q: "rq_tenant_id ?q = Some ''t1''" "rq_workspace_id ?q = Some ''w1''" by (simp_all add: rollup_query.defs)
  define rows where "rows = map usage_rollup_summary_of (list_daily_usage_rollups (fst ?s) 10 (Some ''t1'') (Some ''w1'') None)"
  let ?r = "demo_request ''r1'' 5 60"
  let ?own = "filter (\<lambda>l. sql_date (lr_observed_at l) = sql_date (lr_observed_at ?r) \<and> lr_tenant_id l = Some ''t1'' \<and>
    lr_workspace_id l = Some ''w1'') (request_ledger ?db)"
  have own: "?own = [?r]" unfolding r(1) by (simp add: r(3,4))
  from rebuilt_usage_reported [OF a b q n d r(3,4) refl, folded rows_def]
  obtain x where "x \<in> set rows" "us_rollup_date x = iso_date (sql_date (lr_observed_at ?r))"
    "us_request_count x = length ?own" "us_exact_hit_count x = length (filter (\<lambda>l. lr_cache_outcome l = ''exact_hit'') ?own)"
    by (elim conjE bexE)
  then have "\<exists>x \<in> set rows. us_rollup_date x = iso_date 0 \<and> us_request_count x = 1 \<and> us_exact_hit_count x = 1"
    unfolding own unfolding r(2) by (auto simp: r(5))
  then have "\<exists>x \<in> set (map usage_rollup_summary_of (list_daily_usage_rollups (fst ?s) 10 (Some ''t1'') (Some ''w1'') None)).
      us_rollup_date x = iso_date 0 \<and> us_request_count x = 1 \<and> us_exact_hit_count x = 1" unfolding rows_def .
  then show ?thesis unfolding a fst_conv b snd_conv by blast
qed

end
