(* ===== verification/RedisStore.thy ===== *)
theory RedisStore
  imports KVStore
begin

text \<open>
  The exact cache on Redis, \<open>RedisKVStore\<close> of \<open>app/storage/redis.py\<close>. The server and its client
  are not part of the repository: they are the record \<open>redis_client\<close> of the four commands the
  class sends, and \<open>scan_laws\<close>, \<open>delete_laws\<close> and \<open>expiry_laws\<close> state what their documentation promises. The texts a client
  returns are those \<open>json.dumps\<close> has written (\<open>dumps\<close>, \<open>loads\<close>); a command the server refuses
  raises in the code and is not modelled.
\<close>

section \<open>The store\<close>

text \<open>GET, SET with a time to live in seconds, SCAN with MATCH and COUNT, and DEL of several keys.\<close>

record 'r redis_client =
  rd_get :: "'r \<Rightarrow> string \<Rightarrow> string option"
  rd_set :: "'r \<Rightarrow> string \<Rightarrow> string \<Rightarrow> int \<Rightarrow> 'r"
  rd_scan :: "'r \<Rightarrow> nat \<Rightarrow> string \<Rightarrow> nat \<Rightarrow> nat \<times> string list"
  rd_delete :: "'r \<Rightarrow> string list \<Rightarrow> 'r \<times> nat"

definition redis_get_json ::
  "(string \<Rightarrow> payload) \<Rightarrow> 'r redis_client \<Rightarrow> 'r \<Rightarrow> string \<Rightarrow> payload option" where
  "redis_get_json loads c s key = (case rd_get c s key of None \<Rightarrow> None | Some p \<Rightarrow> Some (loads p))"

definition redis_set_json ::
  "(payload \<Rightarrow> string) \<Rightarrow> 'r redis_client \<Rightarrow> 'r \<Rightarrow> string \<Rightarrow> payload \<Rightarrow> int \<Rightarrow> 'r" where
  "redis_set_json dumps c s key v ttl_seconds = rd_set c s key (dumps v) ttl_seconds"

text \<open>
  The loop of \<open>delete_prefix\<close>: scan a batch, delete it, go on until the cursor is back at 0. It
  may never end, which is \<open>None\<close>.
\<close>

definition scan_delete :: "'r redis_client \<Rightarrow> string \<Rightarrow> 'r \<times> nat \<Rightarrow> ('r \<times> nat) \<times> nat" where
  "scan_delete c pattern sc = (case sc of (s, cursor) \<Rightarrow>
     (let (cursor', keys) = rd_scan c s cursor pattern 100;
          (s', n) = (if keys \<noteq> [] then rd_delete c s keys else (s, 0))
      in ((s', cursor'), n)))"

partial_function (option) scan_loop ::
  "'r redis_client \<Rightarrow> string \<Rightarrow> 'r \<times> nat \<Rightarrow> nat \<Rightarrow> ('r \<times> nat) option" where
  "scan_loop c pattern sc deleted =
     (let (sc', n) = scan_delete c pattern sc
      in if snd sc' = 0 then Some (fst sc', deleted + n) else scan_loop c pattern sc' (deleted + n))"

definition redis_delete_prefix :: "'r redis_client \<Rightarrow> 'r \<Rightarrow> string \<Rightarrow> ('r \<times> nat) option" where
  "redis_delete_prefix c s pre = scan_loop c (pre @ ''*'') (s, 0) 0"

section \<open>What Redis promises\<close>

text \<open>
  A pattern \<open>p*\<close> matches by prefix when \<open>p\<close> has none of the characters of the glob syntax.
\<close>

definition glob_plain :: "string \<Rightarrow> bool" where
  "glob_plain p \<longleftrightarrow> set p \<inter> {CHR ''*'', CHR ''?'', CHR ''['', CHR 0x5C} = {}"

definition held :: "'r redis_client \<Rightarrow> 'r \<Rightarrow> string \<Rightarrow> bool" where
  "held c s k \<longleftrightarrow> rd_get c s k \<noteq> None"

text \<open>
  The guarantees of SCAN. An iteration visits the states \<open>st 0, st 1, ...\<close> with the cursors
  \<open>cur 0 = 0, cur 1, ...\<close>: it returns matching keys only; when it is over, it has returned every
  matching key that was there all the time; and it ends unless the keyspace grows.
\<close>

definition iterates :: "'r redis_client \<Rightarrow> string \<Rightarrow> (nat \<Rightarrow> 'r) \<Rightarrow> (nat \<Rightarrow> nat) \<Rightarrow> bool" where
  "iterates c pattern st cur \<longleftrightarrow> cur 0 = 0 \<and> (\<forall>i. cur (Suc i) = fst (rd_scan c (st i) (cur i) pattern 100))"

definition scan_laws :: "'r redis_client \<Rightarrow> bool" where
  "scan_laws c \<longleftrightarrow> (\<forall>pre. glob_plain pre \<longrightarrow>
     (\<forall>s cursor k. k \<in> set (snd (rd_scan c s cursor (pre @ ''*'') 100)) \<longrightarrow> prefix pre k) \<and>
     (\<forall>st cur m k. iterates c (pre @ ''*'') st cur \<and> cur (Suc m) = 0 \<and> (\<forall>i < m. cur (Suc i) \<noteq> 0) \<and> prefix pre k \<and>
        (\<forall>i \<le> m. held c (st i) k) \<longrightarrow>
        (\<exists>i \<le> m. k \<in> set (snd (rd_scan c (st i) (cur i) (pre @ ''*'') 100)))) \<and>
     (\<forall>st cur. iterates c (pre @ ''*'') st cur \<and> (\<forall>i k. held c (st (Suc i)) k \<longrightarrow> held c (st i) k) \<longrightarrow>
        (\<exists>i. cur (Suc i) = 0)))"

text \<open>DEL forgets the keys it is given and reports how many of them were there.\<close>

definition delete_laws :: "'r redis_client \<Rightarrow> bool" where
  "delete_laws c \<longleftrightarrow> (\<forall>s ks. (\<forall>k. rd_get c (fst (rd_delete c s ks)) k = (if k \<in> set ks then None else rd_get c s k)) \<and>
     snd (rd_delete c s ks) = card {k \<in> set ks. held c s k})"

text \<open>
  SET keeps the value for the given seconds, when their number is positive, and not longer.
  \<open>pass s d\<close> is the server \<open>d\<close> seconds later without another command.
\<close>

definition expiry_laws :: "'r redis_client \<Rightarrow> ('r \<Rightarrow> int \<Rightarrow> 'r) \<Rightarrow> bool" where
  "expiry_laws c pass \<longleftrightarrow> (\<forall>s k v ttl d. 0 < ttl \<longrightarrow> 0 \<le> d \<longrightarrow>
     rd_get c (pass (rd_set c s k v ttl) d) k = (if d < ttl then Some v else None))"

section \<open>Deleting a prefix\<close>

definition batch :: "'r redis_client \<Rightarrow> string \<Rightarrow> 'r \<times> nat \<Rightarrow> string list" where
  "batch c pattern sc = snd (rd_scan c (fst sc) (snd sc) pattern 100)"

lemma scan_delete_simps:
  assumes "delete_laws c"
  shows "snd (fst (scan_delete c pattern sc)) = fst (rd_scan c (fst sc) (snd sc) pattern 100)"
    "rd_get c (fst (fst (scan_delete c pattern sc))) k =
      (if k \<in> set (batch c pattern sc) then None else rd_get c (fst sc) k)"
    "snd (scan_delete c pattern sc) = card {k \<in> set (batch c pattern sc). held c (fst sc) k}"
  using assms by (auto simp: scan_delete_def batch_def delete_laws_def case_prod_beta Let_def)

text \<open>The states the loop visits, and what it has deleted before each.\<close>

definition visited :: "'r redis_client \<Rightarrow> string \<Rightarrow> 'r \<times> nat \<Rightarrow> nat \<Rightarrow> 'r \<times> nat" where
  "visited c pattern sc i = ((\<lambda>sc. fst (scan_delete c pattern sc)) ^^ i) sc"

lemma visited_simps [simp]:
  "visited c pattern sc 0 = sc"
  "visited c pattern sc (Suc i) = fst (scan_delete c pattern (visited c pattern sc i))"
  by (simp_all add: visited_def)

lemma visited_shift: "visited c pattern (fst (scan_delete c pattern sc)) i = visited c pattern sc (Suc i)"
  by (induction i) simp_all

lemma scan_loop_result:
  assumes "snd (visited c pattern sc (Suc m)) = 0" "\<forall>i < m. snd (visited c pattern sc (Suc i)) \<noteq> 0"
  shows "scan_loop c pattern sc deleted = Some (fst (visited c pattern sc (Suc m)),
    deleted + (\<Sum>i \<le> m. snd (scan_delete c pattern (visited c pattern sc i))))"
  using assms
proof (induction m arbitrary: sc deleted)
  case 0
  then show ?case by (subst scan_loop.simps) (simp add: case_prod_beta Let_def)
next
  case (Suc m)
  let ?sc = "fst (scan_delete c pattern sc)"
  have first: "snd ?sc \<noteq> 0" using Suc.prems(2) by (metis visited_simps zero_less_Suc)
  have "snd (visited c pattern ?sc (Suc m)) = 0" "\<forall>i < m. snd (visited c pattern ?sc (Suc i)) \<noteq> 0"
    using Suc.prems unfolding visited_shift by auto
  from Suc.IH [OF this, of "deleted + snd (scan_delete c pattern sc)"] first
  have "scan_loop c pattern sc deleted = Some (fst (visited c pattern ?sc (Suc m)),
      deleted + snd (scan_delete c pattern sc) + (\<Sum>i \<le> m. snd (scan_delete c pattern (visited c pattern ?sc i))))"
    by (subst scan_loop.simps) (simp add: case_prod_beta Let_def)
  moreover have "(\<Sum>i \<le> Suc m. snd (scan_delete c pattern (visited c pattern sc i))) =
      snd (scan_delete c pattern sc) + (\<Sum>i \<le> m. snd (scan_delete c pattern (visited c pattern ?sc i)))"
    unfolding visited_shift by (subst sum.atMost_Suc_shift) simp
  ultimately show ?case unfolding visited_shift by (simp only: add.assoc)
qed

text \<open>After \<open>i\<close> batches exactly their keys are gone.\<close>

lemma visited_get:
  assumes "delete_laws c"
  shows "rd_get c (fst (visited c pattern sc i)) k =
    (if \<exists>j < i. k \<in> set (batch c pattern (visited c pattern sc j)) then None else rd_get c (fst sc) k)"
  by (induction i) (auto simp: scan_delete_simps [OF assms] less_Suc_eq)

lemma deleted_count:
  assumes "delete_laws c"
  shows "(\<Sum>i \<le> m. snd (scan_delete c pattern (visited c pattern sc i))) =
    card {k. held c (fst sc) k \<and> (\<exists>i \<le> m. k \<in> set (batch c pattern (visited c pattern sc i)))}"
proof -
  let ?B = "\<lambda>i. {k \<in> set (batch c pattern (visited c pattern sc i)). held c (fst (visited c pattern sc i)) k}"
  have disj: "?B i \<inter> ?B j = {}" if "i \<noteq> j" for i j
  proof -
    have lt: "k \<notin> ?B j" if "k \<in> ?B i" "i < j" for i j k
      using that visited_get [OF assms, of pattern sc j k] by (auto simp: held_def)
    from that consider "i < j" | "j < i" by linarith
    then show ?thesis by cases (use lt in \<open>auto simp del: mem_Collect_eq\<close>)
  qed
  have "(\<Sum>i \<le> m. snd (scan_delete c pattern (visited c pattern sc i))) = (\<Sum>i \<le> m. card (?B i))"
    by (simp add: scan_delete_simps [OF assms])
  also have "\<dots> = card (\<Union>i \<le> m. ?B i)"
    by (rule card_UN_disjoint [symmetric]) (use disj in auto)
  also have "(\<Union>i \<le> m. ?B i) =
      {k. held c (fst sc) k \<and> (\<exists>i \<le> m. k \<in> set (batch c pattern (visited c pattern sc i)))}"
    (is "?L = ?R")
  proof
    show "?L \<subseteq> ?R" using visited_get [OF assms, of pattern sc] by (auto simp: held_def split: if_splits)
    show "?R \<subseteq> ?L"
    proof
      fix k assume k: "k \<in> ?R"
      then have ex: "\<exists>i. i \<le> m \<and> k \<in> set (batch c pattern (visited c pattern sc i))" by blast
      define i where "i = (LEAST i. i \<le> m \<and> k \<in> set (batch c pattern (visited c pattern sc i)))"
      have i: "i \<le> m" "k \<in> set (batch c pattern (visited c pattern sc i))"
        using LeastI_ex [OF ex] by (simp_all add: i_def)
      have "\<not> (\<exists>j < i. k \<in> set (batch c pattern (visited c pattern sc j)))"
        using not_less_Least i(1) unfolding i_def by (metis (no_types, lifting) le_trans less_imp_le)
      then have "held c (fst (visited c pattern sc i)) k"
        using k visited_get [OF assms, of pattern sc i k] by (simp add: held_def)
      with i show "k \<in> ?L" by blast
    qed
  qed
  finally show ?thesis .
qed

text \<open>The loop returns; it has removed exactly the keys under the prefix and counted them.\<close>

lemma redis_delete_prefix_result:
  assumes "scan_laws c" "delete_laws c" "glob_plain pre"
  obtains s' n where "redis_delete_prefix c s pre = Some (s', n)"
    "\<And>k. rd_get c s' k = (if prefix pre k then None else rd_get c s k)"
    "n = card {k. prefix pre k \<and> held c s k}"
proof -
  let ?p = "pre @ ''*''"
  let ?v = "visited c ?p (s, 0)"
  have it: "iterates c ?p (\<lambda>i. fst (?v i)) (\<lambda>i. snd (?v i))"
    by (simp add: iterates_def scan_delete_simps(1) [OF assms(2)])
  have shrink: "held c (fst (?v (Suc i))) k \<Longrightarrow> held c (fst (?v i)) k" for i k
    by (simp add: held_def scan_delete_simps(2) [OF assms(2)] split: if_splits)
  have ex: "\<exists>i. snd (?v (Suc i)) = 0"
    using assms(1,3) it shrink unfolding scan_laws_def by blast
  define m where "m = (LEAST i. snd (?v (Suc i)) = 0)"
  have m: "snd (?v (Suc m)) = 0" "\<forall>i < m. snd (?v (Suc i)) \<noteq> 0"
    using LeastI_ex [OF ex] not_less_Least [of _ "\<lambda>i. snd (?v (Suc i)) = 0"] by (auto simp: m_def)
  let ?s = "fst (?v (Suc m))"
  have own: "prefix pre k" if "k \<in> set (batch c ?p (?v i))" for i k
    using assms(1,3) that unfolding scan_laws_def batch_def by blast
  have all: "\<exists>i \<le> m. k \<in> set (batch c ?p (?v i))" if "prefix pre k" "held c s k" for k
  proof (rule ccontr)
    assume not: "\<not> (\<exists>i \<le> m. k \<in> set (batch c ?p (?v i)))"
    have "held c (fst (?v i)) k" if "i \<le> m" for i
      using visited_get [OF assms(2), of ?p "(s, 0)" i k] not that \<open>held c s k\<close> by (auto simp: held_def)
    then have "\<exists>i \<le> m. k \<in> set (snd (rd_scan c (fst (?v i)) (snd (?v i)) ?p 100))"
      using assms(1,3) it m that(1) unfolding scan_laws_def by blast
    with not show False by (simp add: batch_def)
  qed
  have get: "rd_get c ?s k = (if prefix pre k then None else rd_get c s k)" for k
  proof (cases "prefix pre k")
    case True
    then show ?thesis
      using all [of k] visited_get [OF assms(2), of ?p "(s, 0)" "Suc m" k]
      by (cases "rd_get c s k") (auto simp: held_def less_Suc_eq_le simp del: visited_simps)
  next
    case False
    then show ?thesis
      using own visited_get [OF assms(2), of ?p "(s, 0)" "Suc m" k]
      by (auto simp: less_Suc_eq_le simp del: visited_simps)
  qed
  have "{k. held c s k \<and> (\<exists>i \<le> m. k \<in> set (batch c ?p (?v i)))} = {k. prefix pre k \<and> held c s k}"
    using own all by blast
  then have sum: "(\<Sum>i \<le> m. snd (scan_delete c ?p (?v i))) = card {k. prefix pre k \<and> held c s k}"
    using deleted_count [OF assms(2), of ?p "(s, 0)" m] by simp
  have "redis_delete_prefix c s pre = Some (?s, \<Sum>i \<le> m. snd (scan_delete c ?p (?v i)))"
    using scan_loop_result [OF m, of 0] by (simp add: redis_delete_prefix_def)
  from that [OF this get sum] show thesis .
qed

section \<open>Redis as a store of prefixes\<close>

text \<open>
  A valid namespace has no character of the glob syntax, so for the client of the
  cache Redis is a \<open>prefix_store\<close>.
\<close>

lemma namespace_glob_plain: "namespace_ok ns \<Longrightarrow> glob_plain (ns @ '':'')"
  by (auto simp: glob_plain_def namespace_ok_def list_all_iff valid_namespace_character_def is_lower_alpha_def
      is_upper_alpha_def is_digit_def code_point_def)

definition redis_delete :: "'r redis_client \<Rightarrow> 'r \<Rightarrow> string \<Rightarrow> 'r \<times> nat" where
  "redis_delete c s pre = the (redis_delete_prefix c s pre)"

lemma redis_prefix_store:
  assumes "scan_laws c" "delete_laws c"
  shows "prefix_store (redis_get_json loads c) (redis_delete c) (\<lambda>_. True)"
proof
  fix s ns k assume "namespace_ok ns"
  then obtain s' n where r: "redis_delete_prefix c s (ns @ '':'') = Some (s', n)"
    "\<And>k. rd_get c s' k = (if prefix (ns @ '':'') k then None else rd_get c s k)"
    "n = card {k. prefix (ns @ '':'') k \<and> held c s k}"
    using redis_delete_prefix_result [OF assms namespace_glob_plain, of ns s] by blast
  have g: "redis_get_json loads c s k = None \<longleftrightarrow> \<not> held c s k" for k
    by (simp add: redis_get_json_def held_def split: option.splits)
  show "redis_get_json loads c (fst (redis_delete c s (ns @ '':''))) k =
      (if prefix (ns @ '':'') k then None else redis_get_json loads c s k)"
    using r(1,2) by (simp add: redis_delete_def redis_get_json_def)
  show "snd (redis_delete c s (ns @ '':'')) = card {k. prefix (ns @ '':'') k \<and> redis_get_json loads c s k \<noteq> None}"
    using r(1,3) g by (simp add: redis_delete_def)
qed simp_all

end
