(* ===== verification/RedisProperties.thy ===== *)
theory RedisProperties
  imports RedisStore ProxyProperties
begin

text \<open>
  The proxy with its exact cache on Redis: how long an answer is reused, and what an invalidation
  removes. The semantic store is arbitrary where nothing is said of it. The examples run on a small
  server that scans its keys in two batches.
\<close>

definition redis_ops ::
  "(string \<Rightarrow> payload) \<Rightarrow> (payload \<Rightarrow> string) \<Rightarrow> 'r redis_client \<Rightarrow> ('s \<Rightarrow> semantic_record \<Rightarrow> 's) \<Rightarrow>
   ('s \<Rightarrow> semantic_query \<Rightarrow> semantic_match option) \<Rightarrow> ('s \<Rightarrow> string \<Rightarrow> 's \<times> nat) \<Rightarrow> ('s \<Rightarrow> timestamp \<Rightarrow> 's \<times> nat) \<Rightarrow>
   ('r, 's) cache_ops" where
  "redis_ops loads dumps c add find_best invalidate prune =
     cache_ops_of (redis_get_json loads c) (redis_set_json dumps c) (redis_delete c) add find_best invalidate prune"

section \<open>A small server\<close>

text \<open>Entries with their expiry, and the clock in seconds.\<close>

type_synonym demo_server = "(string \<times> string \<times> int) list \<times> int"

definition demo_redis_get :: "demo_server \<Rightarrow> string \<Rightarrow> string option" where
  "demo_redis_get s k = (case map_of (fst s) k of None \<Rightarrow> None | Some (v, e) \<Rightarrow> if snd s < e then Some v else None)"

definition demo_redis :: "demo_server redis_client" where
  "demo_redis = \<lparr>rd_get = demo_redis_get,
     rd_set = (\<lambda>s k v ttl. ((k, v, snd s + ttl) # fst s, snd s)),
     rd_scan = (\<lambda>s cursor pattern cnt.
       (if cursor = 0 then 1 else 0,
        filter (\<lambda>k. prefix (butlast pattern) k \<and> demo_redis_get s k \<noteq> None \<and> (cursor = 0 \<longleftrightarrow> even (length k)))
          (map fst (fst s)))),
     rd_delete = (\<lambda>s ks. ((filter (\<lambda>e. fst e \<notin> set ks) (fst s), snd s),
       card {k \<in> set ks. demo_redis_get s k \<noteq> None}))\<rparr>"

definition demo_pass :: "demo_server \<Rightarrow> int \<Rightarrow> demo_server" where
  "demo_pass s d = (fst s, snd s + d)"

lemma demo_redis_fields [simp]:
  "rd_get demo_redis = demo_redis_get" "held demo_redis s k \<longleftrightarrow> demo_redis_get s k \<noteq> None"
  "fst (rd_scan demo_redis s cursor pattern cnt) = (if cursor = 0 then 1 else 0)"
  by (simp_all add: demo_redis_def held_def)

lemma demo_redis_mem: "demo_redis_get s k \<noteq> None \<Longrightarrow> k \<in> fst ` set (fst s)"
  by (auto simp: demo_redis_get_def map_of_eq_None_iff split: option.splits) (metis fst_conv image_eqI map_of_SomeD)

lemma demo_expiry: "expiry_laws demo_redis demo_pass"
  by (simp add: expiry_laws_def demo_redis_def demo_redis_get_def demo_pass_def)

lemma map_of_filter_fst: "map_of (filter (\<lambda>e. fst e \<notin> A) es) k = (if k \<in> A then None else map_of es k)"
  by (induction es) auto

lemma demo_delete: "delete_laws demo_redis"
  by (simp add: delete_laws_def demo_redis_def demo_redis_get_def map_of_filter_fst held_def split: option.splits)

lemma demo_scan: "scan_laws demo_redis"
  unfolding scan_laws_def
proof (intro allI impI conjI)
  fix pre :: string and s cursor k
  assume "k \<in> set (snd (rd_scan demo_redis s cursor (pre @ ''*'') 100))"
  then show "prefix pre k" by (simp add: demo_redis_def butlast_append)
next
  fix pre st cur m k
  assume a: "iterates demo_redis (pre @ ''*'') st cur \<and> cur (Suc m) = 0 \<and> (\<forall>i < m. cur (Suc i) \<noteq> 0) \<and>
    prefix pre k \<and> (\<forall>i \<le> m. held demo_redis (st i) k)"
  then have c: "cur 0 = 0" "cur (Suc 0) = 1" "cur (Suc (Suc 0)) = 0"
    and step: "cur (Suc i) = (if cur i = 0 then 1 else 0)" for i
    by (simp_all add: iterates_def)
  have m: "m = 1"
  proof (cases m)
    case 0
    then show ?thesis using a c by simp
  next
    case (Suc n)
    then show ?thesis using a c(3) by (cases n) auto
  qed
  let ?i = "if even (length k) then 0 else 1 :: nat"
  have "demo_redis_get (st ?i) k \<noteq> None" using a m by auto
  then have "k \<in> set (snd (rd_scan demo_redis (st ?i) (cur ?i) (pre @ ''*'') 100))"
    using a c demo_redis_mem [of "st ?i" k] by (auto simp: demo_redis_def butlast_append)
  moreover have "?i \<le> m" using m by simp
  ultimately show "\<exists>i \<le> m. k \<in> set (snd (rd_scan demo_redis (st i) (cur i) (pre @ ''*'') 100))" by blast
next
  fix pre st cur
  assume "iterates demo_redis (pre @ ''*'') st cur \<and>
    (\<forall>i k. held demo_redis (st (Suc i)) k \<longrightarrow> held demo_redis (st i) k)"
  then have "cur (Suc (Suc 0)) = 0" by (simp add: iterates_def)
  then show "\<exists>i. cur (Suc i) = 0" ..
qed

section \<open>How long an answer is reused\<close>

text \<open>
  C2. On Redis with a positive time to live: after an answer fetched from the provider, an
  admitted caller whose request has the same canonical text under the same namespace gets that
  answer from the exact cache, without a provider call, as long as the time to live has not passed
  and nothing else was sent to the server; once it has passed, no answer is an exact hit. The
  tenant, the workspace and the metadata play no part, and the lookup comes before, and so
  without, the semantic reuse rules.
\<close>

theorem second_request_hits_exact_cache:
  assumes "expiry_laws c pass" "dump_roundtrip svc" "loads (dumps (svc_dump svc resp)) = svc_dump svc resp"
    and "handle_chat_completion (redis_ops loads dumps c add find_best invalidate prune) svc ti r ctx bt w =
      (Inr resp, w')" "w_upstream w' \<noteq> w_upstream w"
    and "0 < cfg_default_exact_ttl_seconds (svc_settings svc)" "0 \<le> d"
    and "canonicalize_request (svc_repr_float svc) r' = canonicalize_request (svc_repr_float svc) r"
    and "ctx_namespace ctx' = ctx_namespace ctx" "enforce_billing_access svc ctx' (w_db w') = Inr ()"
    and "handle_chat_completion (redis_ops loads dumps c add find_best invalidate prune) svc ti' r' ctx' bt'
      (w'\<lparr>w_exact := pass (w_exact w') d\<rparr>) = (res, w'')"
  shows "if d < cfg_default_exact_ttl_seconds (svc_settings svc)
    then \<exists>resp'. res = Inr resp' \<and> w_upstream w'' = w_upstream w' \<and> resp_choices resp' = resp_choices resp \<and>
      resp_usage resp' = resp_usage resp \<and> dict_get (resp_metera resp') ''cache'' = JStr ''exact_hit''
    else case res of Inl e \<Rightarrow> True | Inr resp' \<Rightarrow> dict_get (resp_metera resp') ''cache'' \<noteq> JStr ''exact_hit''"
proof -
  let ?ops = "redis_ops loads dumps c add find_best invalidate prune"
  let ?v = "w'\<lparr>w_exact := pass (w_exact w') d\<rparr>"
  obtain sr nt w1 reason outcome where adm: "admitted svc r ctx (w_db w) sr nt"
    by (rule handle_Inr_admitted [OF assms(4)])
  then have adm': "admitted svc r' ctx' (w_db ?v) sr nt"
    using assms(8,10) by (simp add: admitted_def)
  have key: "request_cache_key svc ctx' sr = request_cache_key svc ctx sr"
    using assms(9) by (simp add: request_cache_key_def)
  have get: "op_get_json ?ops (w_exact ?v) (request_cache_key svc ctx' sr) =
      (if d < cfg_default_exact_ttl_seconds (svc_settings svc) then Some (svc_dump svc resp) else None)"
    using assms(1,3,6,7) miss_stores_answer [OF assms(4,5) adm]
    by (simp add: key redis_ops_def exact_set_def redis_set_json_def redis_get_json_def expiry_laws_def)
  show ?thesis
  proof (cases "d < cfg_default_exact_ttl_seconds (svc_settings svc)")
    case True
    with get have "op_get_json ?ops (w_exact ?v) (request_cache_key svc ctx' sr) = Some (svc_dump svc resp)" by simp
    from stored_answer_hits [OF adm' assms(2) this, of ti' bt'] assms(11) True show ?thesis by auto
  next
    case False
    with get have "op_get_json ?ops (w_exact ?v) (request_cache_key svc ctx' sr) = None" by simp
    with missing_entry_no_exact_hit [OF _ adm'] assms(11) False show ?thesis by (auto split: sum.split)
  qed
qed

abbreviation demo_redis_ops :: "payload \<Rightarrow> (demo_server, semantic_record list) cache_ops" where
  "demo_redis_ops p \<equiv> redis_ops (\<lambda>_. p) (\<lambda>_. ''{}'') demo_redis mem_add mem_find_best_match
     mem_invalidate_namespace mem_prune_expired"

definition demo_redis_world :: "(demo_server, semantic_record list) world" where
  "demo_redis_world = \<lparr>w_metrics = \<lparr>COUNTERS = Map.empty, DISTRIBUTIONS = Map.empty\<rparr>, w_exact = ([], 0), w_semantic = [],
     w_db = empty_database, w_tasks = [], w_upstream = []\<rparr>"

lemma second_request_hits_exact_cache_witness:
  "\<exists>p w' resp w'' resp' w3. w_upstream w' = [(demo_message ''hi'', None)] \<and>
    handle_chat_completion (demo_redis_ops p) demo_service demo_times (demo_message ''hi'') (demo_context ''t2'') False
      (w'\<lparr>w_exact := demo_pass (w_exact w') 3599\<rparr>) = (Inr resp, w'') \<and>
    dict_get (resp_metera resp) ''cache'' = JStr ''exact_hit'' \<and> w_upstream w'' = w_upstream w' \<and>
    handle_chat_completion (demo_redis_ops p) demo_service demo_times (demo_message ''hi'') (demo_context ''t2'') False
      (w'\<lparr>w_exact := demo_pass (w_exact w') 3600\<rparr>) = (resp', w3) \<and>
    (\<forall>x. resp' = Inr x \<longrightarrow> dict_get (resp_metera x) ''cache'' \<noteq> JStr ''exact_hit'')"
proof -
  obtain nt where nt: "canonicalize_request (\<lambda>_. ''0.0'') (demo_message ''hi'') = Inr nt" using demo_canonical by blast
  define resp0 where "resp0 = miss_response demo_service (demo_context ''t1'') (unscrubbed nt) None demo_reply"
  define p where "p = dump_response resp0"
  have none: "redis_get_json (\<lambda>_. p) demo_redis (w_exact demo_redis_world) k = None" for k
    by (simp add: redis_get_json_def demo_redis_get_def demo_redis_world_def)
  have new: "w_semantic demo_redis_world = []" "t_add demo_times = 0" "w_upstream demo_redis_world = []"
    by (simp_all add: demo_redis_world_def demo_times_def)
  from empty_caches_index [of "redis_get_json (\<lambda>_. p) demo_redis" demo_redis_world demo_times
      "redis_set_json (\<lambda>_. ''{}'') demo_redis" "redis_delete demo_redis" "''hi''" "demo_context ''t1''" False,
      OF none new(1,2)]
  obtain resp w' nt' where run: "handle_chat_completion (demo_redis_ops p) demo_service demo_times (demo_message ''hi'')
      (demo_context ''t1'') False demo_redis_world = (Inr resp, w')"
    and up': "w_upstream w' = w_upstream demo_redis_world @
      [(demo_message ''hi'', resolve_upstream_bearer_token demo_service (demo_context ''t1''))]"
    and nt': "canonicalize_request (\<lambda>_. ''0.0'') (demo_message ''hi'') = Inr nt'"
    and resp: "resp = miss_response demo_service (demo_context ''t1'') (unscrubbed nt') None demo_reply"
    unfolding redis_ops_def by blast
  have "nt' = nt" using nt nt' by simp
  then have resp0: "resp = resp0" using resp by (simp add: resp0_def)
  have "resolve_upstream_bearer_token demo_service (demo_context ''t1'') = None"
    by (simp add: resolve_upstream_bearer_token_def demo_context_def new_context_def)
  then have first: "handle_chat_completion (demo_redis_ops p) demo_service demo_times (demo_message ''hi'')
      (demo_context ''t1'') False demo_redis_world = (Inr resp0, w')" "w_upstream w' = [(demo_message ''hi'', None)]"
    using run up' new(3) unfolding resp0 by simp_all
  have ttl: "cfg_default_exact_ttl_seconds (svc_settings demo_service) = 3600"
    by (simp add: demo_service_def default_settings_def)
  have p: "p = svc_dump demo_service resp0" by (simp add: p_def demo_service_def)
  have ns: "ctx_namespace (demo_context ''t2'') = ctx_namespace (demo_context ''t1'')"
    by (simp add: demo_context_def new_context_def)
  have up: "w_upstream w' \<noteq> w_upstream demo_redis_world" using first(2) new(3) by simp
  let ?again = "\<lambda>d. handle_chat_completion (demo_redis_ops p) demo_service demo_times (demo_message ''hi'')
    (demo_context ''t2'') False (w'\<lparr>w_exact := demo_pass (w_exact w') d\<rparr>)"
  note reuse = second_request_hits_exact_cache [where loads = "\<lambda>_. p" and dumps = "\<lambda>_. ''{}''",
      OF demo_expiry demo_roundtrip p first(1) up _ _ refl ns demo_not_blocked, unfolded ttl]
  obtain res w2 where again: "?again 3599 = (res, w2)" by (rule prod.exhaust)
  obtain res' w3 where late: "?again 3600 = (res', w3)" by (rule prod.exhaust)
  obtain resp' where "res = Inr resp'" "w_upstream w2 = w_upstream w'" "dict_get (resp_metera resp') ''cache'' = JStr ''exact_hit''"
    using reuse [OF _ _ again] by auto
  moreover have "\<forall>x. res' = Inr x \<longrightarrow> dict_get (resp_metera x) ''cache'' \<noteq> JStr ''exact_hit''"
    using reuse [OF _ _ late] by auto
  ultimately show ?thesis using first(2) again late by blast
qed

section \<open>Invalidation\<close>

text \<open>
  On Redis \<open>delete_prefix\<close> comes to an end for every valid namespace: its loop of batches removes
  every key of the namespace that is there and no other key, and reports their number.
\<close>

theorem redis_invalidation_returns:
  assumes "scan_laws c" "delete_laws c" "namespace_ok ns"
  shows "\<exists>s' n. redis_delete_prefix c s (ns @ '':'') = Some (s', n) \<and>
    n = card {k. prefix (ns @ '':'') k \<and> rd_get c s k \<noteq> None} \<and>
    (\<forall>k. rd_get c s' k = (if prefix (ns @ '':'') k then None else rd_get c s k))"
proof -
  obtain s' n where "redis_delete_prefix c s (ns @ '':'') = Some (s', n)"
    "\<And>k. rd_get c s' k = (if prefix (ns @ '':'') k then None else rd_get c s k)"
    "n = card {k. prefix (ns @ '':'') k \<and> held c s k}"
    using redis_delete_prefix_result [OF assms(1,2) namespace_glob_plain [OF assms(3)]] by blast
  then show ?thesis by (auto simp: held_def)
qed

lemma redis_invalidation_returns_witness:
  "\<exists>s'. redis_delete_prefix demo_redis ([(''a:1'', ''x'', 9), (''a:22'', ''y'', 9), (''b:1'', ''z'', 9)], 5) ''a:'' = Some (s', 2) \<and>
    demo_redis_get s' ''b:1'' = Some ''z''"
proof -
  let ?s = "([(''a:1'', ''x'', 9), (''a:22'', ''y'', 9), (''b:1'', ''z'', 9)], 5)"
  have "namespace_ok ''a''"
    by (simp add: namespace_ok_def valid_namespace_character_def is_lower_alpha_def code_point_def)
  from redis_invalidation_returns [OF demo_scan demo_delete this, of ?s] obtain s' n where
    r: "redis_delete_prefix demo_redis ?s ''a:'' = Some (s', n)"
      "n = card {k. prefix ''a:'' k \<and> demo_redis_get ?s k \<noteq> None}"
      "\<And>k. demo_redis_get s' k = (if prefix ''a:'' k then None else demo_redis_get ?s k)" by auto
  have "{k. prefix ''a:'' k \<and> demo_redis_get ?s k \<noteq> None} = {''a:1'', ''a:22''}"
    by (auto simp: demo_redis_get_def split: if_splits)
  then have "n = 2" using r(2) by simp
  with r(1,3) show ?thesis by (simp add: demo_redis_get_def)
qed

text \<open>
  With Redis and the in-memory or the pgvector semantic store alike: after an administrator
  invalidates a namespace, the next admitted request under it is answered by the provider.
\<close>

theorem redis_invalidated_goes_upstream:
  assumes "scan_laws c" "delete_laws c" "namespace_ok (ctx_namespace ctx)"
    and "ops = redis_ops loads dumps c mem_add mem_find_best_match mem_invalidate_namespace mem_prune_expired \<or>
      ops = redis_ops loads dumps c (pg_add to_column) (pg_find_best_match cosdist) pg_invalidate_namespace pg_prune_expired"
    and "handle_chat_completion ops svc ti r ctx bt (snd (invalidate_namespace ops (ctx_namespace ctx) w)) = (Inr resp, w')"
  shows "w_upstream w' = w_upstream w @ [(r, resolve_upstream_bearer_token svc ctx)] \<and>
    dict_get (resp_metera resp) ''cache'' = JStr ''miss''"
proof -
  note store = redis_prefix_store [OF assms(1,2), of loads]
  have m: "proxy_caches (redis_get_json loads c) (redis_delete c) (\<lambda>_. True) mem_add mem_find_best_match
      mem_invalidate_namespace mem_prune_expired (\<lambda>rs. rs) (\<lambda>v. v) cosine_similarity mem_accepted"
    by (intro proxy_caches.intro store mem_sem.semantic_store_axioms)
  have p: "proxy_caches (redis_get_json loads c) (redis_delete c) (\<lambda>_. True) (pg_add to_column)
      (pg_find_best_match cosdist) pg_invalidate_namespace pg_prune_expired (\<lambda>rs. rs) to_column
      (pg_similarity cosdist) (pg_accepted cosdist)"
    by (intro proxy_caches.intro store pg_sem.semantic_store_axioms)
  from assms(4) show ?thesis
  proof
    assume o: "ops = redis_ops loads dumps c mem_add mem_find_best_match mem_invalidate_namespace mem_prune_expired"
    show ?thesis
      by (rule proxy_caches.invalidated_goes_upstream [OF m TrueI assms(3)])
        (use assms(5) in \<open>simp add: o redis_ops_def\<close>)
  next
    assume o: "ops = redis_ops loads dumps c (pg_add to_column) (pg_find_best_match cosdist)
        pg_invalidate_namespace pg_prune_expired"
    show ?thesis
      by (rule proxy_caches.invalidated_goes_upstream [OF p TrueI assms(3)])
        (use assms(5) in \<open>simp add: o redis_ops_def\<close>)
  qed
qed

end
