(* ===== verification/Spec2Isabelle.thy ===== *)
theory Spec2Isabelle
  imports CacheProperties ControlProperties DlpProperties BillingProperties ProxyProperties
    IdentityProperties ChatProperties ReportProperties TenantBillingProperties BillingAdminProperties
    PolicyStoreProperties StartupProperties IdentityAdminProperties AdminRouteProperties
    ObservabilityProperties RedisProperties
begin

text \<open>
  A verification development for the Metera API: a proxy in front of an OpenAI-compatible
  provider that caches answers, meters what they would have cost, and bills a share of what
  the caches save.

  \<^bold>\<open>The program and its model.\<close> A request comes in through \<open>app/api/routes_chat.py\<close>, where the key
  becomes a tenant and the header a namespace, and is handled by \<open>app/services/proxy_service.py\<close>:
  billing check, scrubbing, exact cache, semantic cache, provider, then the records the control
  plane is built on. Beside it stand the repositories of \<open>app/controlplane\<close> with the admin and
  tenant routes that read and write them, and the start-up that decides which store is used for
  what. The theories follow these parts.

  \<^item> \<open>Prelude\<close>, \<open>PyFloat\<close>, \<open>Render\<close>, \<open>Regex\<close>: Python itself. Exceptions and results as values,
    JSON values, string methods, binary64 arithmetic as rounding of the exact result,
    \<open>isoformat\<close> and \<open>json.dumps\<close>, and the part of \<open>re\<close> the detectors use.
  \<^item> \<open>Settings\<close>, \<open>Domain\<close>: \<open>app/core/config.py\<close>, \<open>app/models/domain.py\<close> and the chat models of
    \<open>app/models/api.py\<close>. The models of the other routes stand with their routes and in
    \<open>BillingModels\<close>.
  \<^item> \<open>Keys\<close>, \<open>KVStore\<close>, \<open>RedisStore\<close>, \<open>SemanticCache\<close>: namespaces, canonical text and exact keys
    (\<open>app/security/namespace.py\<close>, \<open>app/cache/normalization.py\<close>), the exact cache with the in-memory
    store and with Redis (\<open>app/storage/redis.py\<close>), the semantic cache with both stores.
  \<^item> \<open>Metrics\<close>, \<open>Provider\<close>, \<open>Dlp\<close>, \<open>Authz\<close>, \<open>PolicyState\<close>: counters and prices, the upstream call with
    its retries, scrubbing, capabilities and scopes, the stored policy values with their presets.
  \<^item> \<open>Tables\<close>, \<open>EventLog\<close>, \<open>Rollups\<close>: the rows of the control-plane tables, the append-only
    repositories, and the daily rollups.
  \<^item> \<open>Billing\<close>, \<open>BillingReport\<close>: every operation of \<open>PostgresBillingRepository\<close>, in the order of
    \<open>app/controlplane/repositories/billing.py\<close>.
  \<^item> \<open>Identity\<close>, \<open>PolicyStore\<close>: the repositories of keys and of scoped policies with their resolvers.
  \<^item> \<open>Proxy\<close>, \<open>ChatRoute\<close>: the service and the public endpoint.
  \<^item> \<open>TenantBilling\<close>, \<open>BillingAdmin\<close>, \<open>IdentityAdmin\<close>, \<open>AdminRoutes\<close>, \<open>ObservabilityRoutes\<close>: one theory for
    each router, every handler with its guards in the order of the code. A router is a datatype of
    calls and a function from a call to a reply.
  \<^item> \<open>Startup\<close>: the posture check, \<open>lifespan\<close>, readiness and health.

  \<^bold>\<open>How state and operations correspond.\<close> A class is a record of its fields, a table the list of its
  rows in insertion order, a transaction a function that returns the old tables with the exception
  when it raises. Where the code commits in several steps (policies, the admin routes) an operation
  returns the tables with every outcome. The state of the proxy is the record \<open>world\<close>: caches,
  metrics, tables and the trace of the calls to the provider. A \<open>raise\<close> is a value of \<open>py_exc\<close>; an
  HTTP error is \<open>HTTPException\<close> with status and detail. Times are integers of microseconds and are
  arguments, as are the values of \<open>uuid4\<close> and \<open>token_urlsafe\<close>.

  \<^bold>\<open>Interfaces.\<close> \<open>prefix_store\<close> (what an invalidation relies on) and \<open>kv_store\<close>, which extends it by what a
  store without expiry keeps, \<open>semantic_store\<close> (both semantic stores), \<open>policy_store\<close> (both policy
  stores), \<open>key_resolver\<close> (static and stored keys) and \<open>proxy_caches\<close>, which joins a \<open>prefix_store\<close> and a
  \<open>semantic_store\<close> for the proxy, are locales; each is interpreted on the code's own
  implementations, and the properties of the caches and of the proxy are the facts of these
  interpretations. Redis is a \<open>prefix_store\<close> for every client with the laws of its documentation
  (\<open>redis_prefix_store\<close>).

  \<^bold>\<open>What the lemmas show.\<close>
  \<^item> \<open>CacheProperties\<close>, \<open>ProxyProperties\<close>, \<open>ProxyFacts\<close>: what a key identifies and what an invalidation
    removes; a semantic hit is the caller's own scope and, over a run that filled the store, text;
    the provider is called at most once; every answer is priced once in the ledger; a blocked tenant is
    refused without a trace.
  \<^item> \<open>RedisProperties\<close>: on Redis a second request hits the exact cache until the time to live has passed,
    and an invalidation comes to an end and empties the namespace. In memory entries never expire
    (\<open>memory_store_never_expires\<close>).
  \<^item> \<open>BillingLifecycle\<close>, \<open>BillingSettlement\<close>, \<open>BillingProperties\<close>, \<open>ReportProperties\<close>: the repository as a
    step relation. The tables stay consistent over every run; a closed period is frozen, charges are
    append-only; the preview predicts the close; a period that was charged settles and closes within
    stated bounds on the rounding of the sums; the report of a closed period is stable.
  \<^item> \<open>IdentityProperties\<close>, \<open>ChatProperties\<close>, \<open>IdentityAdminProperties\<close>: the key tables stay consistent, an
    issued key resolves to its grants, a revoked one does not, a request acts for the tenant of its
    key, and an onboarded tenant is admitted.
  \<^item> \<open>PolicyStoreProperties\<close>, \<open>AdminRouteProperties\<close>, \<open>ControlProperties\<close>: which policy a request gets, that
    a published policy is the effective one, that the policy answers keep their types and ranges, the
    bound on provider calls.
  \<^item> \<open>TenantBillingProperties\<close>, \<open>BillingAdminProperties\<close>, \<open>ObservabilityProperties\<close>: a tenant sees its own
    rows only and pages end; every admin call is a run of the repository and a refused one changes
    nothing; a rebuilt rollup is reported.
  \<^item> \<open>StartupProperties\<close>: what a ready application runs on and whose keys it accepts.

  \<^bold>\<open>Bounds and fuel.\<close> Repetition in \<open>Regex\<close> takes one unit of fuel per character; \<open>rep_ends_fuel\<close> shows
  that more changes nothing. The scan of a text (\<open>finditer_from\<close>) ends by its measure. Following the
  pages of a listing and the SCAN loop of \<open>delete_prefix\<close> on Redis are partial functions proved to
  return: the pages have an end (\<open>history_pages_complete\<close>), and a scan of a keyspace that does not grow
  ends (\<open>redis_invalidation_returns\<close>). Binary64 has no upper exponent here: overflow to an infinity,
  NaN and the sign of zero are outside the model. A \<open>char\<close> is a code point below 256.

  \<^bold>\<open>Parameters.\<close> SHA-256, \<open>float.__repr__\<close>, the embedding model, pgvector's column and distance, the
  HTTP exchange, pydantic's dump of a model, Presidio, the JSON and YAML parsers,
  \<open>datetime.fromisoformat\<close>, the key order of a JSONB column, the messages of the PostgreSQL driver and
  the Redis client with \<open>json.dumps\<close> and \<open>json.loads\<close> of a payload are arguments. A hypothesis about
  one of them states its documented behaviour, and a witness instantiates it.

  \<^bold>\<open>Not modelled.\<close> A Redis command that raises (a lost connection, a time to live that is not positive).
  The extra fields pydantic keeps of a provider's answer. The chat route gives every context a request
  id; of a context without one, which the tables would refuse, the recorded id is the empty string
  here. Connection pools and the creation of tables (only the row types and unique keys remain of
  them), the closing of connections at shutdown, the Prometheus text and the log lines, the assembly
  of the application in \<open>app/main.py\<close>, the Streamlit page of \<open>dashboard/\<close>, and the scripts, which drive
  a running service over HTTP and print what they see.
  Requests are handled one after another: the interleaving of two coroutines inside a handler is not
  part of the model, except that the background measurement of the proxy runs after its answer.
\<close>

end
